(* ===== verification/HIL_Prelude.thy ===== *)
theory HIL_Prelude
  imports Main "HOL-Library.Word"
begin

text \<open>
  Shared vocabulary of the development: computations with state and exceptions (the way a
  Python method runs: it may raise, and whatever it changed before raising stays changed),
  the lemma collections the component theories use, and generic facts on integers, lists
  and bit masks.
\<close>

unbundle bit_operations_syntax

section \<open>Lemma collections\<close>

named_theorems io_simps \<open>equations that run a computation on a state\<close>
named_theorems io_results \<open>when a computation gives a value, when it raises\<close>
named_theorems const_defs \<open>the numeric constants of the source\<close>
named_theorems bit_facts \<open>facts on masks and shifts of Python integers\<close>

section \<open>Computations with state and exceptions\<close>

text \<open>
  \<open>('s, 'e, 'a) eio\<close>: run on a state \<open>'s\<close>, give a value \<open>'a\<close> or an exception \<open>'e\<close>,
  and in both cases the state at that moment. An exception does not undo earlier effects.
\<close>

type_synonym ('s, 'e, 'a) eio = "'s \<Rightarrow> ('e + 'a) \<times> 's"

definition return_io :: "'a \<Rightarrow> ('s, 'e, 'a) eio" where
  "return_io a = (\<lambda>s. (Inr a, s))"

definition raise_io :: "'e \<Rightarrow> ('s, 'e, 'a) eio" where
  "raise_io e = (\<lambda>s. (Inl e, s))"

definition bind_io ::
    "('s, 'e, 'a) eio \<Rightarrow> ('a \<Rightarrow> ('s, 'e, 'b) eio) \<Rightarrow> ('s, 'e, 'b) eio" where
  "bind_io m f = (\<lambda>s. case m s of (Inl e, s') \<Rightarrow> (Inl e, s') | (Inr a, s') \<Rightarrow> f a s')"

definition then_io ::
    "('s, 'e, 'a) eio \<Rightarrow> ('s, 'e, 'b) eio \<Rightarrow> ('s, 'e, 'b) eio" where
  "then_io m n = bind_io m (\<lambda>_. n)"

text \<open>\<open>if not b: raise e\<close>.\<close>

definition ensure_io :: "bool \<Rightarrow> 'e \<Rightarrow> ('s, 'e, unit) eio" where
  "ensure_io b e = (if b then return_io () else raise_io e)"

text \<open>A pure computation that may raise, seen as one that leaves the state alone.\<close>

definition lift_io :: "'e + 'a \<Rightarrow> ('s, 'e, 'a) eio" where
  "lift_io r = (\<lambda>s. (r, s))"

text \<open>\<open>try: m  except ... as e: h(e)\<close>; \<open>h\<close> re-raises what it does not handle.\<close>

definition catch_io ::
    "('s, 'e, 'a) eio \<Rightarrow> ('e \<Rightarrow> ('s, 'e, 'a) eio) \<Rightarrow> ('s, 'e, 'a) eio" where
  "catch_io m h = (\<lambda>s. case m s of (Inl e, s') \<Rightarrow> h e s' | (Inr a, s') \<Rightarrow> (Inr a, s'))"

text \<open>
  \<open>try: m  finally: f\<close>: the clean-up always runs on the state the body left; an exception
  of the clean-up replaces the outcome of the body.
\<close>

definition finally_io ::
    "('s, 'e, 'a) eio \<Rightarrow> ('s, 'e, 'b) eio \<Rightarrow> ('s, 'e, 'a) eio" where
  "finally_io m f =
     (\<lambda>s. let (r, s') = m s in
          case f s' of (Inl e, s'') \<Rightarrow> (Inl e, s'') | (Inr _, s'') \<Rightarrow> (r, s''))"

text \<open>\<open>for x in xs: f(x)\<close> and \<open>[f(x) for x in xs]\<close>.\<close>

primrec for_io :: "('x \<Rightarrow> ('s, 'e, unit) eio) \<Rightarrow> 'x list \<Rightarrow> ('s, 'e, unit) eio" where
  "for_io f [] = return_io ()"
| "for_io f (x # xs) = then_io (f x) (for_io f xs)"

text \<open>A caller that catches every exception and goes on with the next call: the outcomes in order.\<close>

primrec run_all :: "('s, 'e, 'a) eio list \<Rightarrow> 's \<Rightarrow> ('e + 'a) list \<times> 's" where
  "run_all [] s = ([], s)"
| "run_all (m # ms) s =
     (fst (m s) # fst (run_all ms (snd (m s))), snd (run_all ms (snd (m s))))"

lemma return_io_apply [io_simps]: "return_io a s = (Inr a, s)"
  by (simp add: return_io_def)

lemma raise_io_apply [io_simps]: "raise_io e s = (Inl e, s)"
  by (simp add: raise_io_def)

lemma bind_io_apply [io_simps]:
  "bind_io m f s = (case m s of (Inl e, s') \<Rightarrow> (Inl e, s') | (Inr a, s') \<Rightarrow> f a s')"
  by (simp add: bind_io_def)

lemma then_io_apply [io_simps]:
  "then_io m n s = (case m s of (Inl e, s') \<Rightarrow> (Inl e, s') | (Inr a, s') \<Rightarrow> n s')"
  by (simp add: then_io_def bind_io_def)

lemma ensure_io_apply [io_simps]:
  "ensure_io b e s = (if b then (Inr (), s) else (Inl e, s))"
  by (simp add: ensure_io_def return_io_def raise_io_def)

lemma lift_io_apply [io_simps]: "lift_io r s = (r, s)"
  by (simp add: lift_io_def)

lemma catch_io_apply [io_simps]:
  "catch_io m h s = (case m s of (Inl e, s') \<Rightarrow> h e s' | (Inr a, s') \<Rightarrow> (Inr a, s'))"
  by (simp add: catch_io_def)

lemma finally_io_apply [io_simps]:
  "finally_io m f s =
     (case m s of (r, s') \<Rightarrow>
        case f s' of (Inl e, s'') \<Rightarrow> (Inl e, s'') | (Inr _, s'') \<Rightarrow> (r, s''))"
  by (simp add: finally_io_def Let_def)

lemma for_io_apply [io_simps]:
  "for_io f [] s = (Inr (), s)"
  "for_io f (x # xs) s = (case f x s of (Inl e, s') \<Rightarrow> (Inl e, s') | (Inr _, s') \<Rightarrow> for_io f xs s')"
  by (simp_all add: return_io_def then_io_apply)

text \<open>The monad laws, so that programs can be re-associated before they are run.\<close>

lemma bind_io_return: "bind_io (return_io a) f = f a"
  by (simp add: bind_io_def return_io_def)

lemma return_io_bind: "bind_io m return_io = m"
  by (auto simp: bind_io_def return_io_def split: prod.splits sum.splits)

lemma bind_io_assoc: "bind_io (bind_io m f) g = bind_io m (\<lambda>a. bind_io (f a) g)"
  by (auto simp: bind_io_def fun_eq_iff split: prod.splits sum.splits)

lemma then_bind: "then_io m (bind_io n f) = bind_io (then_io m n) f"
  by (simp add: then_io_def bind_io_assoc)

lemma for_io_append: "for_io f (xs @ ys) = then_io (for_io f xs) (for_io f ys)"
  by (induction xs) (auto simp: fun_eq_iff then_io_apply return_io_apply split: prod.splits sum.splits)

lemma then_io_return: "then_io m (return_io ()) = m"
  by (auto simp: fun_eq_iff then_io_apply return_io_apply split: prod.splits sum.splits)

lemma then_io_assoc: "then_io (then_io a b) c = then_io a (then_io b c)"
  by (simp add: then_io_def bind_io_assoc)

text \<open>What it means for a composed computation to return, and to raise.\<close>

lemma return_io_results [io_results]:
  "return_io a s = (r, s') \<longleftrightarrow> r = Inr a \<and> s' = s"
  by (auto simp: return_io_def)

lemma raise_io_results [io_results]:
  "raise_io e s = (r, s') \<longleftrightarrow> r = Inl e \<and> s' = s"
  by (auto simp: raise_io_def)

lemma lift_io_results [io_results]:
  "lift_io x s = (r, s') \<longleftrightarrow> x = r \<and> s' = s"
  by (auto simp: lift_io_def)

lemma ensure_io_results [io_results]:
  "ensure_io b e s = (Inr u, s') \<longleftrightarrow> b \<and> s' = s"
  "ensure_io b e s = (Inl e', s') \<longleftrightarrow> \<not> b \<and> e' = e \<and> s' = s"
  by (auto simp: ensure_io_apply)

lemma bind_io_results [io_results]:
  "bind_io m f s = (Inr v, s'') \<longleftrightarrow> (\<exists>a s'. m s = (Inr a, s') \<and> f a s' = (Inr v, s''))"
  "bind_io m f s = (Inl e, s'') \<longleftrightarrow>
     m s = (Inl e, s'') \<or> (\<exists>a s'. m s = (Inr a, s') \<and> f a s' = (Inl e, s''))"
  by (auto simp: bind_io_def split: prod.splits sum.splits)

lemma then_io_results [io_results]:
  "then_io m n s = (Inr v, s'') \<longleftrightarrow> (\<exists>a s'. m s = (Inr a, s') \<and> n s' = (Inr v, s''))"
  "then_io m n s = (Inl e, s'') \<longleftrightarrow>
     m s = (Inl e, s'') \<or> (\<exists>a s'. m s = (Inr a, s') \<and> n s' = (Inl e, s''))"
  by (auto simp: then_io_def bind_io_results)

lemma catch_io_results [io_results]:
  "catch_io m h s = (Inr v, s'') \<longleftrightarrow>
     m s = (Inr v, s'') \<or> (\<exists>e s'. m s = (Inl e, s') \<and> h e s' = (Inr v, s''))"
  "catch_io m h s = (Inl e, s'') \<longleftrightarrow> (\<exists>e' s'. m s = (Inl e', s') \<and> h e' s' = (Inl e, s''))"
  by (auto simp: catch_io_def split: prod.splits sum.splits)

lemma finally_io_results [io_results]:
  "finally_io m f s = (Inr v, s'') \<longleftrightarrow> (\<exists>s' u. m s = (Inr v, s') \<and> f s' = (Inr u, s''))"
  "finally_io m f s = (Inl e, s'') \<longleftrightarrow>
     (\<exists>r s'. m s = (r, s') \<and> (f s' = (Inl e, s'') \<or> (r = Inl e \<and> (\<exists>u. f s' = (Inr u, s'')))))"
  by (auto simp: finally_io_apply split: prod.splits sum.splits)

subsection \<open>Invariants of computations\<close>

text \<open>\<open>keeps P m\<close>: whatever the outcome, \<open>m\<close> takes a state with \<open>P\<close> to one with \<open>P\<close>.\<close>

definition keeps :: "('s \<Rightarrow> bool) \<Rightarrow> ('s, 'e, 'a) eio \<Rightarrow> bool" where
  "keeps P m \<longleftrightarrow> (\<forall>s. P s \<longrightarrow> P (snd (m s)))"

lemma keepsI [intro?]: "(\<And>s. P s \<Longrightarrow> P (snd (m s))) \<Longrightarrow> keeps P m"
  by (simp add: keeps_def)

lemma keepsD: "keeps P m \<Longrightarrow> P s \<Longrightarrow> m s = (r, s') \<Longrightarrow> P s'"
  by (metis keeps_def snd_conv)

lemma keeps_return [intro]: "keeps P (return_io a)"
  by (simp add: keeps_def return_io_def)

lemma keeps_raise [intro]: "keeps P (raise_io e)"
  by (simp add: keeps_def raise_io_def)

lemma keeps_ensure [intro]: "keeps P (ensure_io b e)"
  by (simp add: ensure_io_def keeps_return keeps_raise)

lemma keeps_lift [intro]: "keeps P (lift_io r)"
  by (simp add: keeps_def lift_io_def)

lemma keeps_bind [intro]:
  assumes m: "keeps P m" and f: "\<And>a. keeps P (f a)"
  shows "keeps P (bind_io m f)"
proof
  fix s assume "P s"
  obtain r s' where ms: "m s = (r, s')" by fastforce
  then have s': "P s'" using m \<open>P s\<close> by (rule_tac keepsD)
  show "P (snd (bind_io m f s))"
    using f s' by (cases r) (auto simp: bind_io_def ms keeps_def)
qed

lemma keeps_then [intro]: "keeps P m \<Longrightarrow> keeps P n \<Longrightarrow> keeps P (then_io m n)"
  by (simp add: then_io_def keeps_bind)

lemma keeps_catch [intro]:
  assumes m: "keeps P m" and h: "\<And>e. keeps P (h e)"
  shows "keeps P (catch_io m h)"
proof
  fix s assume "P s"
  obtain r s' where ms: "m s = (r, s')" by fastforce
  then have s': "P s'" using m \<open>P s\<close> by (rule_tac keepsD)
  show "P (snd (catch_io m h s))"
    using h s' by (cases r) (auto simp: catch_io_def ms keeps_def)
qed

lemma keeps_finally:
  assumes "keeps P m" "keeps P n"
  shows "keeps P (finally_io m n)"
proof (rule keepsI)
  fix s assume "P s"
  obtain r s1 where m: "m s = (r, s1)" by (rule prod.exhaust)
  obtain r' s2 where n: "n s1 = (r', s2)" by (rule prod.exhaust)
  have "P s2" using keepsD [OF assms(2) keepsD [OF assms(1) \<open>P s\<close> m] n] .
  then show "P (snd (finally_io m n s))" by (cases r') (simp_all add: finally_io_apply m n)
qed

lemma keeps_if: "(b \<Longrightarrow> keeps P m) \<Longrightarrow> (\<not> b \<Longrightarrow> keeps P n) \<Longrightarrow> keeps P (if b then m else n)"
  by simp

lemmas keeps_intros = keeps_bind keeps_then keeps_catch keeps_if keeps_lift keeps_ensure
  keeps_return keeps_raise

lemma keeps_for [intro]: "(\<And>x. keeps P (f x)) \<Longrightarrow> keeps P (for_io f xs)"
  by (induction xs) auto

subsection \<open>Exceptions of computations\<close>

text \<open>\<open>raises_only E m\<close>: an exception that comes out of \<open>m\<close> is one of \<open>E\<close>.\<close>

definition raises_only :: "'e set \<Rightarrow> ('s, 'e, 'a) eio \<Rightarrow> bool" where
  "raises_only E m \<longleftrightarrow> (\<forall>s e s'. m s = (Inl e, s') \<longrightarrow> e \<in> E)"

lemma raises_onlyI: "(\<And>s e s'. m s = (Inl e, s') \<Longrightarrow> e \<in> E) \<Longrightarrow> raises_only E m"
  by (simp add: raises_only_def)

lemma raises_onlyD: "raises_only E m \<Longrightarrow> m s = (Inl e, s') \<Longrightarrow> e \<in> E"
  unfolding raises_only_def by blast

lemma raises_only_return: "raises_only E (return_io a)"
  by (simp add: raises_only_def return_io_def)

lemma raises_only_raise: "e \<in> E \<Longrightarrow> raises_only E (raise_io e)"
  by (simp add: raises_only_def raise_io_def)

lemma raises_only_ensure: "e \<in> E \<Longrightarrow> raises_only E (ensure_io b e)"
  by (auto simp: raises_only_def io_results)

lemma raises_only_lift: "(\<And>e. r = Inl e \<Longrightarrow> e \<in> E) \<Longrightarrow> raises_only E (lift_io r)"
  by (auto simp: raises_only_def io_results)

lemma raises_only_bind:
  "raises_only E m \<Longrightarrow> (\<And>a. raises_only E (f a)) \<Longrightarrow> raises_only E (bind_io m f)"
  unfolding raises_only_def bind_io_results by blast

lemma raises_only_then: "raises_only E m \<Longrightarrow> raises_only E n \<Longrightarrow> raises_only E (then_io m n)"
  unfolding raises_only_def then_io_results by blast

lemma raises_only_if:
  "(b \<Longrightarrow> raises_only E m) \<Longrightarrow> (\<not> b \<Longrightarrow> raises_only E n) \<Longrightarrow> raises_only E (if b then m else n)"
  by simp

lemma raises_only_catch: "(\<And>e. raises_only E (h e)) \<Longrightarrow> raises_only E (catch_io m h)"
  unfolding raises_only_def catch_io_results by blast

lemma raises_only_for: "(\<And>x. raises_only E (f x)) \<Longrightarrow> raises_only E (for_io f xs)"
  by (induction xs) (simp_all add: raises_only_return raises_only_then)

lemmas raises_only_intros = raises_only_bind raises_only_then raises_only_catch raises_only_if
  raises_only_lift raises_only_ensure raises_only_return raises_only_raise

section \<open>Generic facts\<close>

lemma take_drop_update_self:
  "length ys = n \<Longrightarrow> i + n \<le> length xs \<Longrightarrow>
     take n (drop i (take i xs @ ys @ drop (i + n) xs)) = ys"
  by simp

text \<open>Replacing one aligned block leaves every disjoint block alone.\<close>

lemma take_drop_update_other:
  assumes "length ys = n" "i + n \<le> length xs" "j + n \<le> i \<or> i + n \<le> j"
  shows "take n (drop j (take i xs @ ys @ drop (i + n) xs)) = take n (drop j xs)"
  using assms(3)
proof
  assume le: "j + n \<le> i"
  then have "min (i - j) n = n" by linarith
  with le assms show ?thesis
    by (simp add: drop_take take_take min.commute)
next
  assume "i + n \<le> j"
  with assms(1,2) show ?thesis by simp
qed

end
