(* ===== verification/Hil_Errors.thy ===== *)
theory Hil_Errors
  imports HIL_Prelude Complex_Main "HOL-Library.List_Lexorder" "HOL-Library.Char_ord"
begin

text \<open>
  The capability registry of \<open>host/hil/core.py\<close> with its wire names, and the Python
  exceptions the modelled code raises or catches. An exception is modelled by its class and
  by the arguments that code inspects; the text of its message is not.
\<close>

section \<open>Capabilities (class \<open>Capability(str, Enum)\<close>)\<close>

datatype capability =
    TIMEBASE
  | FORCE_SAFE
  | PWM_CAPTURE
  | PWM_GENERATOR
  | PWM_COMPLEMENTARY_MONITOR
  | ABZ_GENERATOR
  | ABZ_CAPTURE
  | SSI_SENSOR_EMULATOR
  | SSI_SENSOR_CAPTURE
  | BISS_SENSOR_EMULATOR
  | SPI_SENSOR_EMULATOR
  | DIO_SCHEDULER
  | FAULT_INJECTION
  | DAC_FEEDBACK
  | PMSM_PLANT_LITE
  | PMSM_PLANT
  | DUAL_INERTIA_PLANT

text \<open>\<open>capability.value\<close>\<close>

fun cap_value :: "capability \<Rightarrow> string" where
  "cap_value TIMEBASE = ''timebase''"
| "cap_value FORCE_SAFE = ''force_safe''"
| "cap_value PWM_CAPTURE = ''pwm_capture''"
| "cap_value PWM_GENERATOR = ''pwm_generator''"
| "cap_value PWM_COMPLEMENTARY_MONITOR = ''pwm_complementary_monitor''"
| "cap_value ABZ_GENERATOR = ''abz_generator''"
| "cap_value ABZ_CAPTURE = ''abz_capture''"
| "cap_value SSI_SENSOR_EMULATOR = ''ssi_sensor_emulator''"
| "cap_value SSI_SENSOR_CAPTURE = ''ssi_sensor_capture''"
| "cap_value BISS_SENSOR_EMULATOR = ''biss_sensor_emulator''"
| "cap_value SPI_SENSOR_EMULATOR = ''spi_sensor_emulator''"
| "cap_value DIO_SCHEDULER = ''dio_scheduler''"
| "cap_value FAULT_INJECTION = ''fault_injection''"
| "cap_value DAC_FEEDBACK = ''dac_feedback''"
| "cap_value PMSM_PLANT_LITE = ''pmsm_plant_lite''"
| "cap_value PMSM_PLANT = ''pmsm_plant''"
| "cap_value DUAL_INERTIA_PLANT = ''dual_inertia_plant''"

text \<open>Iteration order of the enum.\<close>

definition all_capabilities :: "capability list" where
  "all_capabilities =
     [TIMEBASE, FORCE_SAFE, PWM_CAPTURE, PWM_GENERATOR, PWM_COMPLEMENTARY_MONITOR,
      ABZ_GENERATOR, ABZ_CAPTURE, SSI_SENSOR_EMULATOR, SSI_SENSOR_CAPTURE,
      BISS_SENSOR_EMULATOR, SPI_SENSOR_EMULATOR, DIO_SCHEDULER, FAULT_INJECTION,
      DAC_FEEDBACK, PMSM_PLANT_LITE, PMSM_PLANT, DUAL_INERTIA_PLANT]"

lemma all_capabilities_complete: "set all_capabilities = UNIV"
proof -
  have "c \<in> set all_capabilities" for c
    by (cases c) (simp_all add: all_capabilities_def)
  then show ?thesis by blast
qed

lemma cap_value_inj: "cap_value c = cap_value d \<longleftrightarrow> c = d"
  by (cases c; cases d) simp_all

text \<open>
  Python compares and sorts these members by their string value (the enum derives from
  \<open>str\<close>), so the order on capabilities is the lexicographic order of the values.
\<close>

instantiation capability :: linorder
begin

definition less_eq_capability :: "capability \<Rightarrow> capability \<Rightarrow> bool" where
  "c \<le> d \<longleftrightarrow> cap_value c \<le> cap_value d"

definition less_capability :: "capability \<Rightarrow> capability \<Rightarrow> bool" where
  "c < d \<longleftrightarrow> cap_value c < cap_value d"

instance
proof
  fix c d e :: capability
  show "(c < d) = (c \<le> d \<and> \<not> d \<le> c)"
    by (auto simp: less_eq_capability_def less_capability_def)
  show "c \<le> c"
    by (simp add: less_eq_capability_def)
  show "c \<le> e" if "c \<le> d" "d \<le> e"
    using that by (simp add: less_eq_capability_def)
  show "c = d" if "c \<le> d" "d \<le> c"
    using that by (simp add: less_eq_capability_def antisym flip: cap_value_inj)
  show "c \<le> d \<or> d \<le> c"
    by (auto simp: less_eq_capability_def)
qed

end

instantiation capability :: enum
begin

definition enum_capability :: "capability list" where
  "enum_capability = all_capabilities"

definition enum_all_capability :: "(capability \<Rightarrow> bool) \<Rightarrow> bool" where
  "enum_all_capability P \<longleftrightarrow> list_all P all_capabilities"

definition enum_ex_capability :: "(capability \<Rightarrow> bool) \<Rightarrow> bool" where
  "enum_ex_capability P \<longleftrightarrow> list_ex P all_capabilities"

instance
proof
  show "(UNIV :: capability set) = set enum_class.enum"
    by (simp add: enum_capability_def all_capabilities_complete)
  show "distinct (enum_class.enum :: capability list)"
    by (simp add: enum_capability_def all_capabilities_def)
  show "enum_class.enum_all P = Ball UNIV P" for P :: "capability \<Rightarrow> bool"
    by (simp add: enum_all_capability_def list_all_iff all_capabilities_complete)
  show "enum_class.enum_ex P = Bex UNIV P" for P :: "capability \<Rightarrow> bool"
    by (simp add: enum_ex_capability_def list_ex_iff all_capabilities_complete)
qed

end

text \<open>\<open>Capability(value)\<close>: the member with that value, or a \<open>ValueError\<close> (here \<open>None\<close>).\<close>

definition cap_of_value :: "string \<Rightarrow> capability option" where
  "cap_of_value v = List.find (\<lambda>c. cap_value c = v) all_capabilities"

lemma cap_of_value_Some: "cap_of_value v = Some c \<longleftrightarrow> cap_value c = v"
proof
  assume "cap_of_value v = Some c"
  then show "cap_value c = v"
    by (auto simp: cap_of_value_def find_Some_iff)
next
  assume v: "cap_value c = v"
  show "cap_of_value v = Some c"
  proof (cases "cap_of_value v")
    case None
    then have "\<forall>d \<in> set all_capabilities. cap_value d \<noteq> v"
      by (simp add: cap_of_value_def find_None_iff)
    with v show ?thesis by (simp add: all_capabilities_complete)
  next
    case (Some d)
    then have "cap_value d = v" by (auto simp: cap_of_value_def find_Some_iff)
    with v Some show ?thesis by (simp flip: cap_value_inj)
  qed
qed

section \<open>Exceptions\<close>

datatype exn =
    ValueError
  | KeyError
  | IndexError
  | TypeError
  | AttributeError
  | NotImplementedError
  | OverflowError
  | ZeroDivisionError
  | StructError
  | JSONDecodeError
  | RuntimeError
  | TimeoutError
  | OSError
  | FileNotFoundError
  | PermissionError
  | BlockingIOError
  | HilError
  | UnsupportedCapability capability
  | InfrastructureError
  | InvalidConfiguration
  | FieldbusError
  | ToolUnavailable
  | CommandFailed
  | CommandTimeout
  | SdoAbort int int int
  | ResourceBusy
  | OtherException

type_synonym ('s, 'a) io = "('s, exn, 'a) eio"

text \<open>\<open>isinstance(e, HilError)\<close>, used by the contract's error model.\<close>

fun is_hil_error :: "exn \<Rightarrow> bool" where
  "is_hil_error HilError = True"
| "is_hil_error (UnsupportedCapability _) = True"
| "is_hil_error InfrastructureError = True"
| "is_hil_error InvalidConfiguration = True"
| "is_hil_error _ = False"

text \<open>\<open>isinstance(e, OSError)\<close>.\<close>

fun is_os_error :: "exn \<Rightarrow> bool" where
  "is_os_error OSError = True"
| "is_os_error FileNotFoundError = True"
| "is_os_error PermissionError = True"
| "is_os_error BlockingIOError = True"
| "is_os_error TimeoutError = True"
| "is_os_error _ = False"

lemma is_hil_error_iff:
  "is_hil_error e \<longleftrightarrow>
     e = HilError \<or> (\<exists>c. e = UnsupportedCapability c) \<or> e = InfrastructureError
     \<or> e = InvalidConfiguration"
  by (cases e) auto

subsection \<open>Pure computations that may raise\<close>

definition bind_exn :: "exn + 'a \<Rightarrow> ('a \<Rightarrow> exn + 'b) \<Rightarrow> exn + 'b" where
  "bind_exn r f = (case r of Inl e \<Rightarrow> Inl e | Inr a \<Rightarrow> f a)"

lemma bind_exn_simps [simp]:
  "bind_exn (Inl e) f = Inl e" "bind_exn (Inr a) f = f a"
  by (simp_all add: bind_exn_def)

lemma bind_exn_Inr:
  "bind_exn r f = Inr b \<longleftrightarrow> (\<exists>a. r = Inr a \<and> f a = Inr b)"
  by (cases r) simp_all

lemma bind_exn_Inl:
  "bind_exn r f = Inl e \<longleftrightarrow> r = Inl e \<or> (\<exists>a. r = Inr a \<and> f a = Inl e)"
  by (cases r) simp_all

primrec map_exn :: "('a \<Rightarrow> exn + 'b) \<Rightarrow> 'a list \<Rightarrow> exn + 'b list" where
  "map_exn f [] = Inr []"
| "map_exn f (x # xs) = bind_exn (f x) (\<lambda>y. bind_exn (map_exn f xs) (\<lambda>ys. Inr (y # ys)))"

primrec fold_exn :: "('a \<Rightarrow> 's \<Rightarrow> exn + 's) \<Rightarrow> 'a list \<Rightarrow> 's \<Rightarrow> exn + 's" where
  "fold_exn f [] s = Inr s"
| "fold_exn f (x # xs) s = bind_exn (f x s) (fold_exn f xs)"

lemma map_exn_Inr: "map_exn f xs = Inr ys \<longleftrightarrow> list_all2 (\<lambda>x y. f x = Inr y) xs ys"
proof (induction xs arbitrary: ys)
  case (Cons x xs)
  then show ?case by (cases ys) (auto simp: bind_exn_Inr)
qed auto

lemma map_exn_length: "map_exn f xs = Inr ys \<Longrightarrow> length ys = length xs"
  by (auto simp: map_exn_Inr dest: list_all2_lengthD)

section \<open>Dynamic values (\<open>typing.Any\<close>, JSON documents, keyword arguments)\<close>

datatype pyval =
    PNone
  | PBool bool
  | PInt int
  | PFloat rat
  | PStr string
  | PList "pyval list"
  | PDict "(string \<times> pyval) list"

text \<open>\<open>d.get(k, default)\<close>.\<close>

definition dict_get :: "(string \<times> 'v) list \<Rightarrow> string \<Rightarrow> 'v \<Rightarrow> 'v" where
  "dict_get d k v = (case map_of d k of None \<Rightarrow> v | Some w \<Rightarrow> w)"

text \<open>\<open>bool(v)\<close>.\<close>

fun truthy :: "pyval \<Rightarrow> bool" where
  "truthy PNone = False"
| "truthy (PBool b) = b"
| "truthy (PInt i) = (i \<noteq> 0)"
| "truthy (PFloat x) = (x \<noteq> 0)"
| "truthy (PStr s) = (s \<noteq> [])"
| "truthy (PList xs) = (xs \<noteq> [])"
| "truthy (PDict d) = (d \<noteq> [])"

text \<open>\<open>isinstance(v, int)\<close>; in Python a bool is an int.\<close>

fun is_int :: "pyval \<Rightarrow> bool" where
  "is_int (PInt _) = True"
| "is_int (PBool _) = True"
| "is_int _ = False"

fun is_str :: "pyval \<Rightarrow> bool" where
  "is_str (PStr _) = True"
| "is_str _ = False"

text \<open>\<open>int(s)\<close> on a string: optional blanks and sign, decimal digits with single underscores.\<close>

definition is_blank :: "char \<Rightarrow> bool" where
  "is_blank c \<longleftrightarrow> of_char c \<in> {9, 10, 11, 12, 13, 28, 29, 30, 31, 32 :: nat}"

text \<open>For evaluation: comparing characters is cheaper than computing their codes.\<close>

lemma of_char_literals:
  "of_char (CHR 0x20) = (32 :: nat)" "of_char (CHR 0x09) = (9 :: nat)" "of_char (CHR 0x0A) = (10 :: nat)" "of_char (CHR 0x0B) = (11 :: nat)" "of_char (CHR 0x0C) = (12 :: nat)" "of_char (CHR 0x0D) = (13 :: nat)" "of_char (CHR 0x1C) = (28 :: nat)" "of_char (CHR 0x1D) = (29 :: nat)" "of_char (CHR 0x1E) = (30 :: nat)" "of_char (CHR 0x1F) = (31 :: nat)"
  by simp_all

lemma of_char_blanks:
  "of_char c = (32 :: nat) \<longleftrightarrow> c = CHR 0x20"
    "of_char c = (9 :: nat) \<longleftrightarrow> c = CHR 0x09"
    "of_char c = (10 :: nat) \<longleftrightarrow> c = CHR 0x0A"
    "of_char c = (11 :: nat) \<longleftrightarrow> c = CHR 0x0B"
    "of_char c = (12 :: nat) \<longleftrightarrow> c = CHR 0x0C"
    "of_char c = (13 :: nat) \<longleftrightarrow> c = CHR 0x0D"
    "of_char c = (28 :: nat) \<longleftrightarrow> c = CHR 0x1C"
    "of_char c = (29 :: nat) \<longleftrightarrow> c = CHR 0x1D"
    "of_char c = (30 :: nat) \<longleftrightarrow> c = CHR 0x1E"
    "of_char c = (31 :: nat) \<longleftrightarrow> c = CHR 0x1F"
  by (simp_all only: of_char_literals [symmetric] of_char_eq_iff)

lemma is_blank_code [code]:
  "is_blank c \<longleftrightarrow> c = CHR 0x09 \<or> c = CHR 0x0A \<or> c = CHR 0x0B \<or> c = CHR 0x0C \<or> c = CHR 0x0D
     \<or> c = CHR 0x1C \<or> c = CHR 0x1D \<or> c = CHR 0x1E \<or> c = CHR 0x1F \<or> c = CHR 0x20"
  unfolding is_blank_def insert_iff empty_iff of_char_blanks simp_thms ..

definition strip_blanks :: "string \<Rightarrow> string" where
  "strip_blanks s = rev (dropWhile is_blank (rev (dropWhile is_blank s)))"

definition digit_value :: "char \<Rightarrow> int option" where
  "digit_value c = (let n = of_char c :: int in if 48 \<le> n \<and> n \<le> 57 then Some (n - 48) else None)"

fun parse_digits :: "int \<Rightarrow> string \<Rightarrow> int option" where
  "parse_digits acc [] = Some acc"
| "parse_digits acc (c # cs) =
     (case digit_value c of
        Some d \<Rightarrow> parse_digits (10 * acc + d) cs
      | None \<Rightarrow>
          (if c = CHR ''_'' then
             (case cs of
                [] \<Rightarrow> None
              | c' # cs' \<Rightarrow>
                  (case digit_value c' of
                     None \<Rightarrow> None
                   | Some d \<Rightarrow> parse_digits (10 * acc + d) cs'))
           else None))"

definition parse_unsigned :: "string \<Rightarrow> int option" where
  "parse_unsigned s =
     (case s of
        [] \<Rightarrow> None
      | c # cs \<Rightarrow>
          (case digit_value c of None \<Rightarrow> None | Some d \<Rightarrow> parse_digits d cs))"

definition int_of_string :: "string \<Rightarrow> int option" where
  "int_of_string s =
     (case strip_blanks s of
        [] \<Rightarrow> None
      | c # cs \<Rightarrow>
          (if c = CHR ''-'' then map_option uminus (parse_unsigned cs)
           else if c = CHR ''+'' then parse_unsigned cs
           else parse_unsigned (c # cs)))"

text \<open>\<open>int(v)\<close>; a float is truncated towards zero.\<close>

definition py_trunc :: "rat \<Rightarrow> int" where
  "py_trunc x = (if 0 \<le> x then \<lfloor>x\<rfloor> else \<lceil>x\<rceil>)"

fun py_int :: "pyval \<Rightarrow> exn + int" where
  "py_int (PInt i) = Inr i"
| "py_int (PBool b) = Inr (if b then 1 else 0)"
| "py_int (PFloat x) = Inr (py_trunc x)"
| "py_int (PStr s) = (case int_of_string s of None \<Rightarrow> Inl ValueError | Some i \<Rightarrow> Inr i)"
| "py_int _ = Inl TypeError"

end
