(* ===== verification/Py_Bytes.thy ===== *)
theory Py_Bytes
  imports Hil_Errors
begin

text \<open>
  Python \<open>bytes\<close> and the little-endian conversions the program uses: \<open>int.to_bytes\<close>,
  \<open>int.from_bytes\<close>, the unsigned fields of \<open>struct\<close>, \<open>bytes((...))\<close>, \<open>ljust\<close>,
  slices and \<open>%08x\<close> formatting, with their round trips. A byte is an \<open>8 word\<close>; Python
  integers are unbounded \<open>int\<close>.
\<close>

section \<open>Bytes\<close>

type_synonym byte = "8 word"

primrec le_bytes :: "nat \<Rightarrow> int \<Rightarrow> byte list" where
  "le_bytes 0 v = []"
| "le_bytes (Suc n) v = word_of_int v # le_bytes n (v div 256)"

primrec le_value :: "byte list \<Rightarrow> int" where
  "le_value [] = 0"
| "le_value (b # bs) = uint b + 256 * le_value bs"

lemma length_le_bytes [simp]: "length (le_bytes n v) = n"
  by (induction n arbitrary: v) simp_all

lemma uint_byte_bounds: "0 \<le> uint (b :: byte)" "uint (b :: byte) < 256"
  using uint_range_size [of b] by (simp_all add: word_size)

lemma uint_byte_of_int: "uint (word_of_int v :: byte) = v mod 256"
  by (simp add: uint_word_of_int)

lemma le_value_nonneg: "0 \<le> le_value bs"
  by (induction bs) simp_all

lemma le_value_less: "le_value bs < 256 ^ length bs"
proof (induction bs)
  case Nil
  then show ?case by simp
next
  case (Cons b bs)
  then have "256 * le_value bs + 256 \<le> 256 * 256 ^ length bs" by simp
  with uint_byte_bounds(2) [of b] show ?case by simp
qed

lemma mod_mult_split: "0 < m \<Longrightarrow> v mod (256 * m) = v mod 256 + 256 * ((v div 256) mod m)"
  for v m :: int
  by (simp only: zmod_zmult2_eq [OF less_imp_le] add.commute)

lemma le_value_le_bytes: "le_value (le_bytes n v) = v mod 256 ^ n"
proof (induction n arbitrary: v)
  case 0
  then show ?case by simp
next
  case (Suc n)
  have "v mod 256 ^ Suc n = v mod 256 + 256 * ((v div 256) mod 256 ^ n)"
    using mod_mult_split [of "256 ^ n" v] by simp
  with Suc [of "v div 256"] show ?case by (simp add: uint_byte_of_int)
qed

lemma le_bytes_le_value: "length bs = n \<Longrightarrow> le_bytes n (le_value bs) = bs"
proof (induction bs arbitrary: n)
  case Nil
  then show ?case by simp
next
  case (Cons b bs)
  have d: "(uint b + 256 * le_value bs) div 256 = le_value bs"
    using uint_byte_bounds [of b] by simp
  have "(uint b + 256 * le_value bs) mod 256 = uint b"
    using uint_byte_bounds [of b] by simp
  then have "uint (word_of_int (uint b + 256 * le_value bs) :: byte) = uint b"
    by (simp only: uint_byte_of_int)
  then have w: "(word_of_int (uint b + 256 * le_value bs) :: byte) = b"
    by (rule word_uint_eqI)
  from Cons.prems obtain m where n: "n = Suc m" and len: "length bs = m"
    by (cases n) auto
  show ?case by (simp only: n le_bytes.simps le_value.simps d w Cons.IH [OF len])
qed

lemma le_bytes_inj:
  assumes "0 \<le> v" "v < 256 ^ n" "0 \<le> w" "w < 256 ^ n" "le_bytes n v = le_bytes n w"
  shows "v = w"
proof -
  have "v = le_value (le_bytes n v)" "w = le_value (le_bytes n w)"
    using assms(1-4) by (simp_all add: le_value_le_bytes)
  with assms(5) show ?thesis by simp
qed

lemma le_value_append: "le_value (xs @ ys) = le_value xs + 256 ^ length xs * le_value ys"
  by (induction xs) (simp_all add: algebra_simps)

section \<open>\<open>int.to_bytes(n, 'little', signed=..)\<close> and \<open>int.from_bytes\<close>\<close>

definition int_fits :: "nat \<Rightarrow> bool \<Rightarrow> int \<Rightarrow> bool" where
  "int_fits n sg v \<longleftrightarrow>
     (if sg then - (256 ^ n) \<le> 2 * v \<and> 2 * v < 256 ^ n else 0 \<le> v \<and> v < 256 ^ n)"

definition to_bytes :: "nat \<Rightarrow> bool \<Rightarrow> int \<Rightarrow> exn + byte list" where
  "to_bytes n sg v = (if int_fits n sg v then Inr (le_bytes n v) else Inl OverflowError)"

definition from_bytes :: "bool \<Rightarrow> byte list \<Rightarrow> int" where
  "from_bytes sg bs =
     (let v = le_value bs; m = 256 ^ length bs
      in if sg \<and> m \<le> 2 * v then v - m else v)"

lemma from_to_bytes:
  assumes "to_bytes n sg v = Inr bs"
  shows "from_bytes sg bs = v"
proof -
  from assms have fits: "int_fits n sg v" and bs: "bs = le_bytes n v"
    by (auto simp: to_bytes_def split: if_splits)
  have val: "le_value bs = v mod 256 ^ n" and len: "length bs = n"
    by (simp_all add: bs le_value_le_bytes)
  show ?thesis
  proof (cases "0 \<le> v")
    case True
    with fits have "v < 256 ^ n" "sg \<Longrightarrow> 2 * v < 256 ^ n"
      by (auto simp: int_fits_def split: if_splits)
    with True show ?thesis
      by (auto simp: from_bytes_def val len Let_def)
  next
    case False
    with fits have sgn: sg and lo: "- (256 ^ n) \<le> 2 * v"
      by (auto simp: int_fits_def split: if_splits)
    have "v mod 256 ^ n = (v + 256 ^ n) mod 256 ^ n" by simp
    also have "\<dots> = v + 256 ^ n"
      using False lo by (intro mod_pos_pos_trivial) linarith+
    finally show ?thesis
      using lo sgn by (simp add: from_bytes_def val len Let_def)
  qed
qed

lemma from_bytes_unsigned: "from_bytes False bs = le_value bs"
  by (simp add: from_bytes_def Let_def)

lemma from_bytes_fits: "int_fits (length bs) sg (from_bytes sg bs)"
  using le_value_nonneg [of bs] le_value_less [of bs]
  by (auto simp: int_fits_def from_bytes_def Let_def)

lemma to_from_bytes: "length bs = n \<Longrightarrow> to_bytes n sg (from_bytes sg bs) = Inr bs"
proof -
  assume len: "length bs = n"
  have "le_bytes n (from_bytes sg bs) = bs"
  proof (cases "sg \<and> 256 ^ n \<le> 2 * le_value bs")
    case True
    have inj: "le_bytes n v = le_bytes n (v mod 256 ^ n)" for v
      by (metis le_bytes_le_value le_value_le_bytes length_le_bytes)
    have "le_bytes n (le_value bs - 256 ^ n) = le_bytes n (le_value bs)"
      by (subst (1 2) inj) simp
    with True len show ?thesis
      by (simp add: from_bytes_def Let_def le_bytes_le_value)
  next
    case False
    then have "from_bytes sg bs = le_value bs"
      using len by (auto simp: from_bytes_def Let_def)
    with len show ?thesis by (simp add: le_bytes_le_value)
  qed
  moreover have "int_fits n sg (from_bytes sg bs)"
    using from_bytes_fits [of bs sg] len by simp
  ultimately show ?thesis by (simp add: to_bytes_def)
qed

lemma to_bytes_length: "to_bytes n sg v = Inr bs \<Longrightarrow> length bs = n"
  by (auto simp: to_bytes_def split: if_splits)

lemma to_bytes_error: "to_bytes n sg v = Inl e \<longleftrightarrow> e = OverflowError \<and> \<not> int_fits n sg v"
  by (auto simp: to_bytes_def)

section \<open>Unsigned \<open>struct\<close> fields\<close>

text \<open>\<open>struct.pack\<close> of one unsigned field of \<open>n\<close> bytes; out of range is \<open>struct.error\<close>.\<close>

definition pack_uint :: "nat \<Rightarrow> int \<Rightarrow> exn + byte list" where
  "pack_uint n v = (if 0 \<le> v \<and> v < 256 ^ n then Inr (le_bytes n v) else Inl StructError)"

text \<open>Several fields in a row, given as (width, value).\<close>

fun pack_fields :: "(nat \<times> int) list \<Rightarrow> exn + byte list" where
  "pack_fields [] = Inr []"
| "pack_fields ((n, v) # fs) =
     (case pack_uint n v of
        Inl e \<Rightarrow> Inl e
      | Inr bs \<Rightarrow> (case pack_fields fs of Inl e \<Rightarrow> Inl e | Inr cs \<Rightarrow> Inr (bs @ cs)))"

fun unpack_fields :: "nat list \<Rightarrow> byte list \<Rightarrow> int list" where
  "unpack_fields [] bs = []"
| "unpack_fields (n # ns) bs = le_value (take n bs) # unpack_fields ns (drop n bs)"

definition fields_fit :: "(nat \<times> int) list \<Rightarrow> bool" where
  "fields_fit fs \<longleftrightarrow> (\<forall>(n, v) \<in> set fs. 0 \<le> v \<and> v < 256 ^ n)"

lemma fields_fit_Cons [simp]:
  "fields_fit ((n, v) # fs) \<longleftrightarrow> 0 \<le> v \<and> v < 256 ^ n \<and> fields_fit fs" "fields_fit []"
  by (auto simp: fields_fit_def)

lemma pack_fields_eq:
  "pack_fields fs =
     (if fields_fit fs then Inr (concat (map (\<lambda>(n, v). le_bytes n v) fs)) else Inl StructError)"
  by (induction fs rule: pack_fields.induct) (simp_all add: pack_uint_def)

lemma pack_fields_Inr:
  "pack_fields fs = Inr bs \<longleftrightarrow> fields_fit fs \<and> bs = concat (map (\<lambda>(n, v). le_bytes n v) fs)"
  by (auto simp: pack_fields_eq)

lemma pack_fields_Inl: "pack_fields fs = Inl e \<longleftrightarrow> e = StructError \<and> \<not> fields_fit fs"
  by (auto simp: pack_fields_eq)

lemma unpack_pack_fields:
  "pack_fields fs = Inr bs \<Longrightarrow> unpack_fields (map fst fs) bs = map snd fs"
proof (induction fs arbitrary: bs rule: pack_fields.induct)
  case 1
  then show ?case by simp
next
  case (2 n v fs)
  then obtain cs where v: "0 \<le> v" "v < 256 ^ n" and cs: "pack_fields fs = Inr cs"
    and bs: "bs = le_bytes n v @ cs"
    by (auto simp: pack_uint_def split: sum.splits if_splits)
  from v have "pack_uint n v = Inr (le_bytes n v)" by (simp add: pack_uint_def)
  with 2 cs have "unpack_fields (map fst fs) cs = map snd fs" by blast
  with v show ?case by (simp add: bs le_value_le_bytes)
qed

lemma pack_unpack_fields:
  "length bs = sum_list ns \<Longrightarrow> pack_fields (zip ns (unpack_fields ns bs)) = Inr bs"
proof (induction ns arbitrary: bs)
  case Nil
  then show ?case by simp
next
  case (Cons n ns)
  then have len: "length (take n bs) = n" "length (drop n bs) = sum_list ns" by auto
  have "pack_uint n (le_value (take n bs)) = Inr (take n bs)"
    using le_value_nonneg [of "take n bs"] le_value_less [of "take n bs"] len(1)
    by (simp add: pack_uint_def le_bytes_le_value del: length_take)
  with Cons.IH [OF len(2)] show ?case by simp
qed

lemma length_unpack_fields [simp]: "length (unpack_fields ns bs) = length ns"
  by (induction ns arbitrary: bs) simp_all

lemma pack_fields_length: "pack_fields fs = Inr bs \<Longrightarrow> length bs = sum_list (map fst fs)"
  by (auto simp: pack_fields_Inr length_concat comp_def case_prod_beta)

text \<open>\<open>struct.unpack_from('<I', buffer, offset)[0]\<close> at an offset inside the buffer.\<close>

definition unpack_u32 :: "byte list \<Rightarrow> nat \<Rightarrow> int" where
  "unpack_u32 buf off = le_value (take 4 (drop off buf))"

lemma unpack_u32_range:
  assumes "off + 4 \<le> length buf"
  shows "0 \<le> unpack_u32 buf off" "unpack_u32 buf off < 2 ^ 32"
proof -
  from assms have len: "length (take 4 (drop off buf)) = 4" by simp
  show "0 \<le> unpack_u32 buf off" by (simp add: unpack_u32_def le_value_nonneg)
  have "le_value (take 4 (drop off buf)) < 256 ^ 4"
    using le_value_less [of "take 4 (drop off buf)"] unfolding len .
  then show "unpack_u32 buf off < 2 ^ 32" by (simp add: unpack_u32_def)
qed

section \<open>Byte-string helpers\<close>

text \<open>\<open>bytes((a, b, ...))\<close>: every element must be in \<open>range(256)\<close>.\<close>

fun bytes_of_ints :: "int list \<Rightarrow> exn + byte list" where
  "bytes_of_ints [] = Inr []"
| "bytes_of_ints (v # vs) =
     (if 0 \<le> v \<and> v < 256 then
        (case bytes_of_ints vs of Inl e \<Rightarrow> Inl e | Inr bs \<Rightarrow> Inr (word_of_int v # bs))
      else Inl ValueError)"

text \<open>\<open>data.ljust(n, b'\x00')\<close>.\<close>

definition ljust :: "nat \<Rightarrow> byte list \<Rightarrow> byte list" where
  "ljust n bs = bs @ replicate (n - length bs) 0"

lemma length_ljust [simp]: "length (ljust n bs) = max n (length bs)"
  by (simp add: ljust_def)

text \<open>\<open>xs[a:b]\<close> for \<open>0 <= a <= b\<close>.\<close>

definition slice :: "nat \<Rightarrow> nat \<Rightarrow> 'a list \<Rightarrow> 'a list" where
  "slice a b xs = take (b - a) (drop a xs)"

lemma length_slice: "length (slice a b xs) = min (b - a) (length xs - a)"
  by (simp add: slice_def min.commute)

text \<open>Writing a block in place: \<open>buf[a:a+len(bs)] = bs\<close> for a block inside the buffer.\<close>

definition splice :: "nat \<Rightarrow> 'a list \<Rightarrow> 'a list \<Rightarrow> 'a list" where
  "splice a bs xs = take a xs @ bs @ drop (a + length bs) xs"

lemma length_splice: "a + length bs \<le> length xs \<Longrightarrow> length (splice a bs xs) = length xs"
  by (simp add: splice_def)

lemma slice_splice_same:
  "a + length bs \<le> length xs \<Longrightarrow> slice a (a + length bs) (splice a bs xs) = bs"
  by (simp add: slice_def splice_def)

lemma nth_splice:
  assumes "a + length bs \<le> length xs" "i < length xs"
  shows "splice a bs xs ! i =
           (if a \<le> i \<and> i < a + length bs then bs ! (i - a) else xs ! i)"
  using assms by (auto simp: splice_def nth_append min_def)

section \<open>Hexadecimal text\<close>

definition hex_char :: "int \<Rightarrow> char" where
  "hex_char d = (if d < 10 then char_of (nat (48 + d)) else char_of (nat (87 + d)))"

fun hex_fixed :: "nat \<Rightarrow> int \<Rightarrow> string" where
  "hex_fixed 0 v = []"
| "hex_fixed (Suc n) v = hex_fixed n (v div 16) @ [hex_char (v mod 16)]"

text \<open>The digits of \<open>format(v, 'x')\<close> for a non-negative value.\<close>

fun hex_nat :: "nat \<Rightarrow> string" where
  "hex_nat n =
     (if n < 16 then [hex_char (int n)] else hex_nat (n div 16) @ [hex_char (int (n mod 16))])"

declare hex_nat.simps [simp del]

text \<open>\<open>format(v, '08x')\<close> for \<open>0 <= v\<close>: at least eight digits.\<close>

definition hex08 :: "int \<Rightarrow> string" where
  "hex08 v = (if v < 16 ^ 8 then hex_fixed 8 v else hex_nat (nat v))"

text \<open>\<open>str(i)\<close> and \<open>hex(i)\<close>.\<close>

fun dec_nat :: "nat \<Rightarrow> string" where
  "dec_nat n = (if n < 10 then [char_of (48 + n)] else dec_nat (n div 10) @ [char_of (48 + n mod 10)])"

declare dec_nat.simps [simp del]

definition str_int :: "int \<Rightarrow> string" where
  "str_int i = (if i < 0 then ''-'' @ dec_nat (nat (- i)) else dec_nat (nat i))"

definition hex_int :: "int \<Rightarrow> string" where
  "hex_int i = (if i < 0 then ''-0x'' @ hex_nat (nat (- i)) else ''0x'' @ hex_nat (nat i))"

text \<open>\<open>format(v, '0nb')\<close> for \<open>0 <= v\<close>: at least \<open>n\<close> binary digits.\<close>

fun bin_nat :: "nat \<Rightarrow> string" where
  "bin_nat n = (if n < 2 then [char_of (48 + n)] else bin_nat (n div 2) @ [char_of (48 + n mod 2)])"

declare bin_nat.simps [simp del]

definition bin_padded :: "nat \<Rightarrow> int \<Rightarrow> string" where
  "bin_padded n v =
     (let digits = bin_nat (nat v) in replicate (n - length digits) (CHR ''0'') @ digits)"

text \<open>\<open>needle in text\<close>, and \<open>text.lower()\<close> on ASCII.\<close>

fun starts_with :: "string \<Rightarrow> string \<Rightarrow> bool" where
  "starts_with [] ys = True"
| "starts_with (x # xs) [] = False"
| "starts_with (x # xs) (y # ys) = (x = y \<and> starts_with xs ys)"

fun contains_text :: "string \<Rightarrow> string \<Rightarrow> bool" where
  "contains_text needle [] = (needle = [])"
| "contains_text needle (y # ys) = (starts_with needle (y # ys) \<or> contains_text needle ys)"

lemma starts_with_self [simp]: "starts_with s s"
  by (induction s) auto

lemma contains_self: "contains_text s s"
  by (cases s) auto

definition ascii_lower :: "string \<Rightarrow> string" where
  "ascii_lower = map (\<lambda>c. let n = of_char c :: nat in if 65 \<le> n \<and> n \<le> 90 then char_of (n + 32) else c)"

text \<open>\<open>str.splitlines()\<close> on ASCII text.\<close>

definition line_break :: "char \<Rightarrow> bool" where
  "line_break c \<longleftrightarrow> of_char c \<in> {10, 11, 12, 13, 28, 29, 30 :: nat}"

fun splitlines_from :: "string \<Rightarrow> string \<Rightarrow> string list" where
  "splitlines_from cur [] = (if cur = [] then [] else [cur])"
| "splitlines_from cur [c] = (if line_break c then [cur] else [cur @ [c]])"
| "splitlines_from cur (c # c' # cs) =
     (if of_char c = (13 :: nat) \<and> of_char c' = (10 :: nat) then cur # splitlines_from [] cs
      else if line_break c then cur # splitlines_from [] (c' # cs)
      else splitlines_from (cur @ [c]) (c' # cs))"

definition splitlines :: "string \<Rightarrow> string list" where
  "splitlines s = splitlines_from [] s"

section \<open>Masks and shifts of Python integers\<close>

lemma and_u32 [bit_facts]: "(x :: int) AND 0xFFFFFFFF = x mod 2 ^ 32"
proof -
  have "x AND mask 32 = take_bit 32 x" by (simp add: take_bit_eq_mask)
  then show ?thesis by (simp add: mask_eq_exp_minus_1 take_bit_eq_mod)
qed

lemma and_u8 [bit_facts]: "(x :: int) AND 0xFF = x mod 256"
proof -
  have "x AND mask 8 = take_bit 8 x" by (simp add: take_bit_eq_mask)
  then show ?thesis by (simp add: mask_eq_exp_minus_1 take_bit_eq_mod)
qed

lemma and_3 [bit_facts]: "(x :: int) AND 3 = x mod 4"
proof -
  have "x AND mask 2 = take_bit 2 x" by (simp add: take_bit_eq_mask)
  then show ?thesis by (simp add: mask_eq_exp_minus_1 take_bit_eq_mod)
qed

lemma and_u11 [bit_facts]: "(x :: int) AND 0x7FF = x mod 2 ^ 11"
proof -
  have "x AND mask 11 = take_bit 11 x" by (simp add: take_bit_eq_mask)
  then show ?thesis by (simp add: mask_eq_exp_minus_1 take_bit_eq_mod)
qed

lemma and_bit_iff [bit_facts]: "(x :: int) AND push_bit n 1 = 0 \<longleftrightarrow> \<not> bit x n"
  by (simp add: bit_iff_and_push_bit_not_eq_0)

lemma and_exp_iff [bit_facts]: "(x :: int) AND 2 ^ n = 0 \<longleftrightarrow> \<not> bit x n"
  using and_bit_iff [of x n] by simp

text \<open>Masks with a single bit, as the simplifier sees them.\<close>

lemma and_one_bit [bit_facts]:
  "(x :: int) AND 1 = 0 \<longleftrightarrow> \<not> bit x 0" "x AND 2 = 0 \<longleftrightarrow> \<not> bit x 1"
  "x AND 4 = 0 \<longleftrightarrow> \<not> bit x 2" "x AND 8 = 0 \<longleftrightarrow> \<not> bit x 3"
  "x AND 16 = 0 \<longleftrightarrow> \<not> bit x 4" "x AND 32 = 0 \<longleftrightarrow> \<not> bit x 5"
  using and_exp_iff [of x 0] and_exp_iff [of x 1] and_exp_iff [of x 2]
    and_exp_iff [of x 3] and_exp_iff [of x 4] and_exp_iff [of x 5] by simp_all

lemma bit_mod_u32 [bit_facts]: "bit ((x :: int) mod 2 ^ 32) n \<longleftrightarrow> n < 32 \<and> bit x n"
  using bit_take_bit_iff [of 32 x n] unfolding take_bit_eq_mod .

lemma bit_one_shift [bit_facts]: "bit (push_bit k (1 :: int)) n \<longleftrightarrow> n = k"
  by (simp add: bit_exp_iff)

text \<open>\<open>v |= 1 << k\<close> and \<open>v &= ~(1 << k)\<close>, bit by bit.\<close>

lemma bit_set_flag [bit_facts]: "bit ((v :: int) OR push_bit k 1) n \<longleftrightarrow> n = k \<or> bit v n"
  by (auto simp: bit_or_iff bit_exp_iff)

lemma bit_clear_flag [bit_facts]:
  "bit ((v :: int) AND NOT (push_bit k 1)) n \<longleftrightarrow> n \<noteq> k \<and> bit v n"
  by (auto simp: bit_and_iff bit_not_iff bit_exp_iff)

text \<open>The same for the five control flags, in the form the simplifier leaves the masks.\<close>

lemma bit_or_mask [bit_facts]:
  "bit ((v :: int) OR 1) n \<longleftrightarrow> n = 0 \<or> bit v n" "bit (v OR 2) n \<longleftrightarrow> n = Suc 0 \<or> bit v n"
  "bit (v OR 4) n \<longleftrightarrow> n = 2 \<or> bit v n" "bit (v OR 8) n \<longleftrightarrow> n = 3 \<or> bit v n"
  "bit (v OR 16) n \<longleftrightarrow> n = 4 \<or> bit v n"
  using bit_set_flag [of v 0 n] bit_set_flag [of v 1 n] bit_set_flag [of v 2 n]
    bit_set_flag [of v 3 n] bit_set_flag [of v 4 n] by simp_all

lemma bit_and_mask [bit_facts]:
  "bit ((v :: int) AND - 2) n \<longleftrightarrow> n \<noteq> 0 \<and> bit v n" "bit (v AND - 3) n \<longleftrightarrow> n \<noteq> Suc 0 \<and> bit v n"
  "bit (v AND - 5) n \<longleftrightarrow> n \<noteq> 2 \<and> bit v n" "bit (v AND - 9) n \<longleftrightarrow> n \<noteq> 3 \<and> bit v n"
  "bit (v AND - 17) n \<longleftrightarrow> n \<noteq> 4 \<and> bit v n"
  using bit_clear_flag [of v 0 n] bit_clear_flag [of v 1 n] bit_clear_flag [of v 2 n]
    bit_clear_flag [of v 3 n] bit_clear_flag [of v 4 n] by simp_all

lemmas ctl_bits = bit_or_mask bit_and_mask

lemma drop_bit_32_mod: "0 \<le> (v::int) \<Longrightarrow> v < 2 ^ 64 \<Longrightarrow>
    push_bit 32 (drop_bit 32 v mod 2 ^ 32) OR (v mod 2 ^ 32) = v"
proof -
  assume v: "0 \<le> v" "v < 2 ^ 64"
  have "drop_bit 32 v mod 2 ^ 32 = drop_bit 32 v"
    using v by (intro mod_pos_pos_trivial) (simp_all add: drop_bit_eq_div)
  moreover have "push_bit 32 (drop_bit 32 v) OR take_bit 32 v = v"
    by (rule bit_eqI) (auto simp: bit_simps)
  ultimately show ?thesis by (simp add: take_bit_eq_mod)
qed

end
