(* ===== verification/Py_Float.thy ===== *)
theory Py_Float
  imports Hil_Errors
begin

text \<open>
  Python floats. A finite double is modelled by the rational number it is; the rounding of an
  operation's exact result to the nearest double is the parameter \<open>fl\<close> of every definition
  that computes with floats. What is proved here holds for every \<open>fl\<close>, or states what it needs.
  Infinities and NaN are outside the model: the modelled inputs are finite and bounded.
\<close>

type_synonym rounding = "rat \<Rightarrow> rat"

text \<open>\<open>x / y\<close>; a zero divisor raises.\<close>

definition fdiv :: "rounding \<Rightarrow> rat \<Rightarrow> rat \<Rightarrow> exn + rat" where
  "fdiv fl x y = (if y = 0 then Inl ZeroDivisionError else Inr (fl (x / y)))"

text \<open>\<open>i * c / j\<close> for an int \<open>i\<close>, a float constant \<open>c\<close> and an int \<open>j\<close>.\<close>

definition scale_ticks :: "rounding \<Rightarrow> int \<Rightarrow> rat \<Rightarrow> int \<Rightarrow> exn + rat" where
  "scale_ticks fl i c j = fdiv fl (fl (fl (of_int i) * c)) (fl (of_int j))"

text \<open>The nearest double is infinite from half a unit above the largest double on.\<close>

definition overflows_double :: "rat \<Rightarrow> bool" where
  "overflows_double x \<longleftrightarrow> \<bar>x\<bar> \<ge> 2 ^ 1024 - 2 ^ 970"

text \<open>\<open>i / j\<close> for ints: the exact quotient is rounded once, also where \<open>i\<close> or \<open>j\<close> is no double.\<close>

definition int_truediv :: "rounding \<Rightarrow> int \<Rightarrow> int \<Rightarrow> exn + rat" where
  "int_truediv fl i j =
     (if j = 0 then Inl ZeroDivisionError
      else if overflows_double (of_int i / of_int j) then Inl OverflowError
      else Inr (fl (of_int i / of_int j)))"

text \<open>\<open>round(x)\<close> of a float (half to even).\<close>

definition py_round :: "rat \<Rightarrow> int" where
  "py_round x =
     (let f = \<lfloor>x\<rfloor>; d = x - of_int f
      in if d < 1 / 2 then f else if 1 / 2 < d then f + 1 else if even f then f else f + 1)"

lemma py_round_of_int [simp]: "py_round (of_int i) = i"
  by (simp add: py_round_def Let_def)

lemma py_round_bounds: "\<bar>x - of_int (py_round x)\<bar> \<le> 1 / 2"
proof -
  have "of_int \<lfloor>x\<rfloor> \<le> x" "x < of_int \<lfloor>x\<rfloor> + 1" by (rule of_int_floor_le, rule floor_correct [THEN conjunct2, simplified])
  then show ?thesis by (auto simp: py_round_def Let_def)
qed

lemma py_round_mono:
  assumes "x \<le> y"
  shows "py_round x \<le> py_round y"
proof (cases "\<lfloor>x\<rfloor> = \<lfloor>y\<rfloor>")
  case True
  with assms show ?thesis by (auto simp: py_round_def Let_def)
next
  case False
  with assms have "\<lfloor>x\<rfloor> + 1 \<le> \<lfloor>y\<rfloor>" using floor_mono [OF assms] by simp
  moreover have "py_round x \<le> \<lfloor>x\<rfloor> + 1" "\<lfloor>y\<rfloor> \<le> py_round y"
    by (auto simp: py_round_def Let_def)
  ultimately show ?thesis by simp
qed

end
