(* ===== verification/Hil_Core.thy ===== *)
theory Hil_Core
  imports Py_Bytes Py_Float
begin

text \<open>
  \<open>host/hil/core.py\<close>: the backend-neutral contract. The frozen dataclasses are records whose
  constructors (\<open>mk_...\<close>) run the checks of \<open>__post_init__\<close>; the methods of the abstract
  class \<open>HilBackend\<close> that have a body are definitions over the backend's identity. What a
  concrete backend owes its clients is the locale \<open>hil_backend\<close>, interpreted on the Zynq
  and the BeagleBone backends in their own theories.
\<close>

section \<open>Data classes\<close>

definition API_VERSION :: string where
  [const_defs]: "API_VERSION = ''0.1''"

record timestamp =
  ts_ticks :: int
  ts_tick_hz :: int
  ts_counter_bits :: int

definition mk_timestamp :: "int \<Rightarrow> int \<Rightarrow> int \<Rightarrow> exn + timestamp" where
  "mk_timestamp ticks hz bits =
     (if ticks < 0 then Inl ValueError
      else if hz \<le> 0 then Inl ValueError
      else if bits \<le> 0 then Inl ValueError
      else Inr \<lparr>ts_ticks = ticks, ts_tick_hz = hz, ts_counter_bits = bits\<rparr>)"

text \<open>\<open>Timestamp.seconds\<close>.\<close>

definition timestamp_seconds :: "rounding \<Rightarrow> timestamp \<Rightarrow> exn + rat" where
  "timestamp_seconds fl t = int_truediv fl (ts_ticks t) (ts_tick_hz t)"

record backend_identity =
  backend_type :: string
  hardware_revision :: string
  firmware_revision :: string
  api_version :: string
  capabilities :: "capability set"
  tick_hz :: int
  counter_bits :: int

definition mk_backend_identity ::
    "string \<Rightarrow> string \<Rightarrow> string \<Rightarrow> string \<Rightarrow> capability set \<Rightarrow> int \<Rightarrow> int
      \<Rightarrow> exn + backend_identity" where
  "mk_backend_identity bt hw fw api caps hz bits =
     (if bt = [] then Inl ValueError
      else if hz \<le> 0 then Inl ValueError
      else if bits \<le> 0 then Inl ValueError
      else Inr \<lparr>backend_type = bt, hardware_revision = hw, firmware_revision = fw,
                api_version = api, capabilities = caps, tick_hz = hz, counter_bits = bits\<rparr>)"

record pwm_measurement =
  pm_channel :: int
  pm_sequence :: int
  pm_period_ticks :: int
  pm_high_ticks :: int
  pm_low_ticks :: int
  pm_valid :: bool
  pm_overflow :: bool

record dio_event =
  ev_id :: int
  ev_target_ticks :: int
  ev_mask :: int
  ev_value :: int

definition mk_dio_event :: "int \<Rightarrow> int \<Rightarrow> int \<Rightarrow> int \<Rightarrow> exn + dio_event" where
  "mk_dio_event eid target msk val =
     (if eid < 0 then Inl ValueError
      else if target < 0 then Inl ValueError
      else if msk < 0 \<or> val < 0 then Inl ValueError
      else Inr \<lparr>ev_id = eid, ev_target_ticks = target, ev_mask = msk, ev_value = val\<rparr>)"

text \<open>The value spaces that the constructors enforce.\<close>

definition valid_timestamp :: "timestamp \<Rightarrow> bool" where
  "valid_timestamp t \<longleftrightarrow> 0 \<le> ts_ticks t \<and> 0 < ts_tick_hz t \<and> 0 < ts_counter_bits t"

definition valid_dio_event :: "dio_event \<Rightarrow> bool" where
  "valid_dio_event e \<longleftrightarrow>
     0 \<le> ev_id e \<and> 0 \<le> ev_target_ticks e \<and> 0 \<le> ev_mask e \<and> 0 \<le> ev_value e"

lemma mk_timestamp_Inr:
  "mk_timestamp ticks hz bits = Inr t \<longleftrightarrow>
     0 \<le> ticks \<and> 0 < hz \<and> 0 < bits
     \<and> t = \<lparr>ts_ticks = ticks, ts_tick_hz = hz, ts_counter_bits = bits\<rparr>"
  by (auto simp: mk_timestamp_def)

lemma mk_backend_identity_Inr:
  "mk_backend_identity bt hw fw api caps hz bits = Inr i \<longleftrightarrow>
     bt \<noteq> [] \<and> 0 < hz \<and> 0 < bits
     \<and> i = \<lparr>backend_type = bt, hardware_revision = hw, firmware_revision = fw,
            api_version = api, capabilities = caps, tick_hz = hz, counter_bits = bits\<rparr>"
  by (auto simp: mk_backend_identity_def)

lemma mk_dio_event_Inr:
  "mk_dio_event eid target msk val = Inr e \<longleftrightarrow>
     valid_dio_event e
     \<and> e = \<lparr>ev_id = eid, ev_target_ticks = target, ev_mask = msk, ev_value = val\<rparr>"
  by (auto simp: mk_dio_event_def valid_dio_event_def)

section \<open>Methods of \<open>HilBackend\<close> with a body\<close>

definition REQUIRED_BACKEND_CAPABILITIES :: "capability set" where
  "REQUIRED_BACKEND_CAPABILITIES = {TIMEBASE, FORCE_SAFE}"

definition supports :: "backend_identity \<Rightarrow> capability \<Rightarrow> bool" where
  "supports ident c \<longleftrightarrow> c \<in> capabilities ident"

definition require_cap :: "backend_identity \<Rightarrow> capability \<Rightarrow> exn + unit" where
  "require_cap ident c = (if supports ident c then Inr () else Inl (UnsupportedCapability c))"

definition missing_capabilities :: "backend_identity \<Rightarrow> capability set" where
  "missing_capabilities ident = REQUIRED_BACKEND_CAPABILITIES - capabilities ident"

definition validate_contract :: "backend_identity \<Rightarrow> exn + unit" where
  "validate_contract ident =
     (if missing_capabilities ident \<noteq> {} then Inl InvalidConfiguration else Inr ())"

text \<open>
  The default bodies of \<open>read_timestamp\<close>, \<open>read_pwm\<close>, \<open>configure_abz\<close>, \<open>start_abz\<close>,
  \<open>stop_abz\<close> and \<open>schedule_dio\<close>: require the capability, then \<open>NotImplementedError\<close>.
\<close>

definition base_operation :: "backend_identity \<Rightarrow> capability \<Rightarrow> ('s, 'a) io" where
  "base_operation ident c = then_io (lift_io (require_cap ident c)) (raise_io NotImplementedError)"

lemma require_cap_Inr [simp]: "require_cap ident c = Inr () \<longleftrightarrow> c \<in> capabilities ident"
  by (simp add: require_cap_def supports_def)

lemma require_cap_Inl [simp]:
  "require_cap ident c = Inl e \<longleftrightarrow> c \<notin> capabilities ident \<and> e = UnsupportedCapability c"
  by (auto simp: require_cap_def supports_def)

lemma require_cap_cases [case_names unsupported supported]:
  obtains "c \<notin> capabilities ident" "require_cap ident c = Inl (UnsupportedCapability c)"
  | "c \<in> capabilities ident" "require_cap ident c = Inr ()"
  by (cases "c \<in> capabilities ident") simp_all

lemma validate_contract_Inr [simp]:
  "validate_contract ident = Inr () \<longleftrightarrow> {TIMEBASE, FORCE_SAFE} \<subseteq> capabilities ident"
  by (auto simp: validate_contract_def missing_capabilities_def REQUIRED_BACKEND_CAPABILITIES_def)

lemma validate_contract_Inl:
  "validate_contract ident = Inl e \<longleftrightarrow>
     e = InvalidConfiguration \<and> \<not> {TIMEBASE, FORCE_SAFE} \<subseteq> capabilities ident"
  by (auto simp: validate_contract_def missing_capabilities_def REQUIRED_BACKEND_CAPABILITIES_def)

section \<open>The contract a concrete backend provides\<close>

text \<open>
  The operations a client (a scenario runner, the bench session) calls on a backend object
  \<open>'b\<close>, over the state \<open>'s\<close> of its transport and hardware. The laws hold of an object its
  constructor has \<open>built\<close>: the identity passed \<open>validate_contract\<close>; an operation whose
  capability is not advertised raises \<open>UnsupportedCapability\<close> and does nothing; asserting the
  safe state and starting or stopping the stimulus fail, if they fail, with an error of the
  \<open>HilError\<close> family; a timestamp carries the metadata of the identity.
\<close>

locale hil_backend =
  fixes built :: "'b \<Rightarrow> bool"
    and ident :: "'b \<Rightarrow> backend_identity"
    and force_safe :: "'b \<Rightarrow> bool \<Rightarrow> ('s, unit) io"
    and read_timestamp :: "'b \<Rightarrow> ('s, timestamp) io"
    and read_pwm :: "'b \<Rightarrow> int \<Rightarrow> ('s, pwm_measurement) io"
    and configure_abz :: "'b \<Rightarrow> (string \<times> pyval) list \<Rightarrow> ('s, unit) io"
    and start_abz :: "'b \<Rightarrow> ('s, unit) io"
    and stop_abz :: "'b \<Rightarrow> ('s, unit) io"
    and schedule_dio :: "'b \<Rightarrow> dio_event \<Rightarrow> ('s, unit) io"
  assumes contract: "built b \<Longrightarrow> validate_contract (ident b) = Inr ()"
    and unsupported_pwm: "PWM_CAPTURE \<notin> capabilities (ident b) \<Longrightarrow>
      read_pwm b ch s = (Inl (UnsupportedCapability PWM_CAPTURE), s)"
    and unsupported_configure: "ABZ_GENERATOR \<notin> capabilities (ident b) \<Longrightarrow>
      configure_abz b cfg s = (Inl (UnsupportedCapability ABZ_GENERATOR), s)"
    and unsupported_start: "ABZ_GENERATOR \<notin> capabilities (ident b) \<Longrightarrow>
      start_abz b s = (Inl (UnsupportedCapability ABZ_GENERATOR), s)"
    and unsupported_stop: "ABZ_GENERATOR \<notin> capabilities (ident b) \<Longrightarrow>
      stop_abz b s = (Inl (UnsupportedCapability ABZ_GENERATOR), s)"
    and unsupported_dio: "DIO_SCHEDULER \<notin> capabilities (ident b) \<Longrightarrow>
      schedule_dio b ev s = (Inl (UnsupportedCapability DIO_SCHEDULER), s)"
    and force_safe_errors: "built b \<Longrightarrow> force_safe b a s = (Inl e, s') \<Longrightarrow> is_hil_error e"
    and start_errors: "built b \<Longrightarrow> start_abz b s = (Inl e, s') \<Longrightarrow> is_hil_error e"
    and stop_errors: "built b \<Longrightarrow> stop_abz b s = (Inl e, s') \<Longrightarrow> is_hil_error e"
    and timestamp_metadata: "read_timestamp b s = (Inr t, s') \<Longrightarrow>
      ts_tick_hz t = tick_hz (ident b) \<and> ts_counter_bits t = counter_bits (ident b)"
begin

lemma always_has_safe_state:
  assumes "built b"
  shows "FORCE_SAFE \<in> capabilities (ident b)" "TIMEBASE \<in> capabilities (ident b)"
  using contract [OF assms] by simp_all

text \<open>A client that starts and then stops the encoder stimulus, as test sequences do.\<close>

lemma start_stop_without_capability:
  assumes "ABZ_GENERATOR \<notin> capabilities (ident b)"
  shows "then_io (start_abz b) (stop_abz b) s = (Inl (UnsupportedCapability ABZ_GENERATOR), s)"
  using assms by (simp add: io_simps unsupported_start)

lemma start_stop_errors:
  assumes "built b" "then_io (start_abz b) (stop_abz b) s = (Inl e, s')"
  shows "is_hil_error e"
  using assms
  by (auto simp: io_simps split: prod.splits sum.splits dest: start_errors stop_errors)

text \<open>
  Two timestamps of one backend are in the same clock domain, so their difference is
  meaningful.
\<close>

lemma timestamps_same_domain:
  assumes "read_timestamp b s = (Inr t, s')" "read_timestamp b r = (Inr u, r')"
  shows "ts_tick_hz t = ts_tick_hz u \<and> ts_counter_bits t = ts_counter_bits u"
  using assms timestamp_metadata by metis

text \<open>
  The clean-up pattern of the bench: after any body, assert the safe state. If the whole
  fails, it fails with the body's error or with one of the contract's error classes.
\<close>

lemma cleanup_errors:
  assumes "built b" "finally_io body (force_safe b True) s = (Inl e, s')"
  shows "is_hil_error e \<or> (\<exists>s1. body s = (Inl e, s1))"
  using assms
  by (auto simp: io_simps split: prod.splits sum.splits dest: force_safe_errors)

end

end
