(* ===== verification/Register_Map.thy ===== *)
theory Register_Map
  imports Hil_Core
begin

text \<open>
  \<open>host/hil/transports/register_map.py\<close>: the frozen 4 KiB AXI4-Lite register ABI between the
  Linux host and the FPGA control plane. The numeric constants are abbreviations, so that
  arithmetic sees the numbers.
\<close>

section \<open>Constants\<close>

abbreviation (input) MAGIC :: int where "MAGIC \<equiv> 0x48494C32"
abbreviation (input) ABI_VERSION :: int where "ABI_VERSION \<equiv> 0x00010000"
abbreviation (input) MAP_SIZE :: int where "MAP_SIZE \<equiv> 0x1000"

abbreviation (input) REG_MAGIC :: int where "REG_MAGIC \<equiv> 0x000"
abbreviation (input) REG_ABI_VERSION :: int where "REG_ABI_VERSION \<equiv> 0x004"
abbreviation (input) REG_BACKEND_ID :: int where "REG_BACKEND_ID \<equiv> 0x008"
abbreviation (input) REG_CAPABILITIES :: int where "REG_CAPABILITIES \<equiv> 0x00C"
abbreviation (input) REG_TICK_HZ :: int where "REG_TICK_HZ \<equiv> 0x010"
abbreviation (input) REG_COUNTER_BITS :: int where "REG_COUNTER_BITS \<equiv> 0x014"
abbreviation (input) REG_TIMESTAMP_LO :: int where "REG_TIMESTAMP_LO \<equiv> 0x018"
abbreviation (input) REG_TIMESTAMP_HI :: int where "REG_TIMESTAMP_HI \<equiv> 0x01C"
abbreviation (input) REG_CONTROL :: int where "REG_CONTROL \<equiv> 0x020"
abbreviation (input) REG_MIN_DEADTIME :: int where "REG_MIN_DEADTIME \<equiv> 0x024"
abbreviation (input) REG_ABZ_STEP :: int where "REG_ABZ_STEP \<equiv> 0x028"
abbreviation (input) REG_BUILD_ID :: int where "REG_BUILD_ID \<equiv> 0x02C"
abbreviation (input) REG_STATUS :: int where "REG_STATUS \<equiv> 0x030"
abbreviation (input) REG_PWM_SEQ :: int where "REG_PWM_SEQ \<equiv> 0x034"
abbreviation (input) REG_ENCODER_POS :: int where "REG_ENCODER_POS \<equiv> 0x038"

abbreviation (input) REG_PWM_BASE :: int where "REG_PWM_BASE \<equiv> 0x040"
abbreviation (input) PWM_STRIDE :: int where "PWM_STRIDE \<equiv> 0x10"
abbreviation (input) REG_PWM_VALID :: int where "REG_PWM_VALID \<equiv> 0x06C"
abbreviation (input) REG_PWM_FAULTS :: int where "REG_PWM_FAULTS \<equiv> 0x070"

abbreviation (input) REG_EVT_TS_LO :: int where "REG_EVT_TS_LO \<equiv> 0x100"
abbreviation (input) REG_EVT_TS_HI :: int where "REG_EVT_TS_HI \<equiv> 0x104"
abbreviation (input) REG_EVT_MASK :: int where "REG_EVT_MASK \<equiv> 0x108"
abbreviation (input) REG_EVT_VALUE :: int where "REG_EVT_VALUE \<equiv> 0x10C"
abbreviation (input) REG_EVT_ID :: int where "REG_EVT_ID \<equiv> 0x110"
abbreviation (input) REG_EVT_PUSH :: int where "REG_EVT_PUSH \<equiv> 0x114"
abbreviation (input) REG_EVT_STATUS :: int where "REG_EVT_STATUS \<equiv> 0x118"

abbreviation (input) CTRL_HIL_ENABLE :: int where "CTRL_HIL_ENABLE \<equiv> push_bit 0 1"
abbreviation (input) CTRL_FORCE_SAFE :: int where "CTRL_FORCE_SAFE \<equiv> push_bit 1 1"
abbreviation (input) CTRL_CLEAR_FAULTS :: int where "CTRL_CLEAR_FAULTS \<equiv> push_bit 2 1"
abbreviation (input) CTRL_ABZ_ENABLE :: int where "CTRL_ABZ_ENABLE \<equiv> push_bit 3 1"
abbreviation (input) CTRL_ABZ_DIRECTION_FORWARD :: int
  where "CTRL_ABZ_DIRECTION_FORWARD \<equiv> push_bit 4 1"

abbreviation (input) EVT_STATUS_EMPTY :: int where "EVT_STATUS_EMPTY \<equiv> push_bit 0 1"
abbreviation (input) EVT_STATUS_FULL :: int where "EVT_STATUS_FULL \<equiv> push_bit 1 1"
abbreviation (input) EVT_STATUS_OVERFLOW :: int where "EVT_STATUS_OVERFLOW \<equiv> push_bit 2 1"
abbreviation (input) EVT_STATUS_ORDER_ERROR :: int where "EVT_STATUS_ORDER_ERROR \<equiv> push_bit 3 1"

abbreviation (input) BACKEND_ID_AX7010 :: int where "BACKEND_ID_AX7010 \<equiv> 0x00007010"
abbreviation (input) BACKEND_ID_AXU2CGB :: int where "BACKEND_ID_AXU2CGB \<equiv> 0x0002C600"

text \<open>The dictionary \<open>BACKEND_TYPES\<close>; a missing key is \<open>None\<close>.\<close>

definition BACKEND_TYPES :: "int \<Rightarrow> string option" where
  "BACKEND_TYPES = map_of [(BACKEND_ID_AX7010, ''zynq7010_ax7010''),
                           (BACKEND_ID_AXU2CGB, ''zu2cg_axu2cgb'')]"

text \<open>The dictionary \<open>CAPABILITY_BITS\<close>, total on the enum.\<close>

fun CAPABILITY_BITS :: "capability \<Rightarrow> nat" where
  "CAPABILITY_BITS TIMEBASE = 0"
| "CAPABILITY_BITS FORCE_SAFE = 1"
| "CAPABILITY_BITS PWM_CAPTURE = 2"
| "CAPABILITY_BITS PWM_GENERATOR = 3"
| "CAPABILITY_BITS PWM_COMPLEMENTARY_MONITOR = 4"
| "CAPABILITY_BITS ABZ_GENERATOR = 5"
| "CAPABILITY_BITS ABZ_CAPTURE = 6"
| "CAPABILITY_BITS SSI_SENSOR_EMULATOR = 7"
| "CAPABILITY_BITS SSI_SENSOR_CAPTURE = 8"
| "CAPABILITY_BITS BISS_SENSOR_EMULATOR = 9"
| "CAPABILITY_BITS SPI_SENSOR_EMULATOR = 10"
| "CAPABILITY_BITS DIO_SCHEDULER = 11"
| "CAPABILITY_BITS FAULT_INJECTION = 12"
| "CAPABILITY_BITS DAC_FEEDBACK = 13"
| "CAPABILITY_BITS PMSM_PLANT_LITE = 14"
| "CAPABILITY_BITS PMSM_PLANT = 15"
| "CAPABILITY_BITS DUAL_INERTIA_PLANT = 16"

definition decode_capabilities :: "int \<Rightarrow> capability set" where
  "decode_capabilities bits =
     set (filter (\<lambda>c. bits AND push_bit (CAPABILITY_BITS c) 1 \<noteq> 0) all_capabilities)"

section \<open>The capability word and the capability set\<close>

text \<open>The word an FPGA build advertises for a set of capabilities (the tests' encoder).\<close>

definition encode_capabilities :: "capability set \<Rightarrow> int" where
  "encode_capabilities cs =
     (\<Sum>c \<leftarrow> all_capabilities. if c \<in> cs then push_bit (CAPABILITY_BITS c) 1 else 0)"

lemma decode_capabilities_iff: "c \<in> decode_capabilities bits \<longleftrightarrow> bit bits (CAPABILITY_BITS c)"
  by (simp add: decode_capabilities_def all_capabilities_complete and_exp_iff)

lemma CAPABILITY_BITS_inj: "CAPABILITY_BITS c = CAPABILITY_BITS d \<longleftrightarrow> c = d"
  by (cases c; cases d) simp_all

lemma CAPABILITY_BITS_less: "CAPABILITY_BITS c < 17"
  by (cases c) simp_all

text \<open>Only the low 17 bits matter, so upper bits of a newer ABI are ignored.\<close>

lemma decode_capabilities_mod: "decode_capabilities (bits mod 2 ^ 17) = decode_capabilities bits"
proof -
  have "bit (take_bit 17 bits) (CAPABILITY_BITS c) = bit bits (CAPABILITY_BITS c)" for c
    using CAPABILITY_BITS_less [of c] by (simp add: bit_take_bit_iff)
  then have "decode_capabilities (take_bit 17 bits) = decode_capabilities bits"
    by (auto simp: decode_capabilities_iff)
  then show ?thesis unfolding take_bit_eq_mod .
qed

end
