(* ===== verification/Uio_Transport.thy ===== *)
theory Uio_Transport
  imports Register_Map
begin

text \<open>
  \<open>host/hil/transports/uio.py\<close>. \<open>UioMmio\<close> is a mapping of the device page (a byte list) with
  its file descriptor; \<open>ZynqUioTransport\<close> is written over the protocol \<open>Mmio32\<close>, here the
  record of operations \<open>mmio32\<close> over a device state \<open>'m\<close>. Two interfaces are stated as
  locales: \<open>control_port\<close> (what a control register must do for the safe-state logic) and
  \<open>mmio_regs\<close> (a plain read/write register file); \<open>UioMmio\<close> provides the second, and a
  register file is a control port.
\<close>

section \<open>The MMIO protocol and \<open>UioMmio\<close>\<close>

record 'm mmio32 =
  read32 :: "int \<Rightarrow> ('m, int) io"
  write32 :: "int \<Rightarrow> int \<Rightarrow> ('m, unit) io"
  close_mmio :: "('m, unit) io"

record uio_mmio =
  uio_fd :: int
  uio_mapped :: "byte list"
  uio_map_open :: bool
  uio_os_fds :: "int list" \<comment> \<open>descriptors the process holds open\<close>

text \<open>\<open>os.close(fd)\<close> on the process's descriptor table.\<close>

definition os_close :: "int \<Rightarrow> (int list, unit) io" where
  "os_close fd = (\<lambda>fds. if fd \<in> set fds then (Inr (), remove1 fd fds) else (Inl OSError, fds))"

text \<open>
  \<open>UioMmio.open\<close>: \<open>os.open\<close> and \<open>mmap.mmap\<close> are the operating system's, so what they
  answer is a parameter; a new descriptor enters the table.
\<close>

definition uio_mmio_open ::
    "(string \<Rightarrow> exn + int) \<Rightarrow> (int \<Rightarrow> int \<Rightarrow> exn + byte list) \<Rightarrow> string \<Rightarrow> int
      \<Rightarrow> (int list, int \<times> byte list) io" where
  "uio_mmio_open os_open os_mmap device map_size =
     (if map_size < MAP_SIZE then raise_io ValueError
      else bind_io (\<lambda>fds. case os_open device of
                       Inl e \<Rightarrow> (Inl e, fds) | Inr fd \<Rightarrow> (Inr fd, fd # fds)) (\<lambda>fd.
           bind_io (catch_io (lift_io (os_mmap fd map_size))
                     (\<lambda>e. then_io (os_close fd) (raise_io e))) (\<lambda>mapped.
           return_io (fd, mapped))))"

text \<open>\<open>_check\<close>: \<open>len\<close> of a closed mapping raises, then the window and alignment test.\<close>

definition uio_check :: "int \<Rightarrow> (uio_mmio, unit) io" where
  "uio_check off = (\<lambda>m.
     if \<not> uio_map_open m then (Inl ValueError, m)
     else if off < 0 \<or> off + 4 > int (length (uio_mapped m)) \<or> off AND 3 \<noteq> 0
     then (Inl ValueError, m)
     else (Inr (), m))"

definition uio_read32 :: "int \<Rightarrow> (uio_mmio, int) io" where
  "uio_read32 off =
     then_io (uio_check off) (\<lambda>m. (Inr (unpack_u32 (uio_mapped m) (nat off)), m))"

definition uio_write32 :: "int \<Rightarrow> int \<Rightarrow> (uio_mmio, unit) io" where
  "uio_write32 off v =
     then_io (uio_check off)
       (\<lambda>m. (Inr (), m\<lparr>uio_mapped := splice (nat off) (le_bytes 4 (v AND 0xFFFFFFFF)) (uio_mapped m)\<rparr>))"

definition uio_close :: "(uio_mmio, unit) io" where
  "uio_close =
     then_io (\<lambda>m. (Inr (), m\<lparr>uio_map_open := False\<rparr>))
       (\<lambda>m. case os_close (uio_fd m) (uio_os_fds m) of (r, fds) \<Rightarrow> (r, m\<lparr>uio_os_fds := fds\<rparr>))"

definition uio_ops :: "uio_mmio mmio32" where
  "uio_ops = \<lparr>read32 = uio_read32, write32 = uio_write32, close_mmio = uio_close\<rparr>"

section \<open>\<open>ZynqUioTransport\<close>\<close>

record zynq_uio =
  zu_identity :: backend_identity
  zu_owns_mmio :: bool

text \<open>The constructor: the identity handshake.\<close>

definition zynq_uio_init ::
    "'m mmio32 \<Rightarrow> string option \<Rightarrow> string \<Rightarrow> bool \<Rightarrow> ('m, zynq_uio) io" where
  "zynq_uio_init M expected hwrev owns =
     bind_io (read32 M REG_MAGIC) (\<lambda>magic.
     bind_io (read32 M REG_ABI_VERSION) (\<lambda>abi.
     then_io (ensure_io (magic = MAGIC) InfrastructureError) (
     then_io (ensure_io (drop_bit 16 abi = drop_bit 16 ABI_VERSION) InfrastructureError) (
     bind_io (read32 M REG_BACKEND_ID) (\<lambda>backend_id.
     bind_io (case BACKEND_TYPES backend_id of
                None \<Rightarrow> raise_io InfrastructureError | Some t \<Rightarrow> return_io t) (\<lambda>btype.
     then_io (ensure_io (expected = None \<or> expected = Some btype) InvalidConfiguration) (
     bind_io (read32 M REG_TICK_HZ) (\<lambda>hz.
     bind_io (read32 M REG_COUNTER_BITS) (\<lambda>bits.
     then_io (ensure_io (\<not> (hz \<le> 0 \<or> bits \<noteq> 64)) InfrastructureError) (
     bind_io (read32 M REG_CAPABILITIES) (\<lambda>capword.
     bind_io (read32 M REG_BUILD_ID) (\<lambda>build.
     bind_io (lift_io (mk_backend_identity btype hwrev (''axi-build-0x'' @ hex08 build)
                         API_VERSION (decode_capabilities capword) hz bits)) (\<lambda>ident.
     return_io \<lparr>zu_identity = ident, zu_owns_mmio = owns\<rparr>)))))))))))))"

text \<open>
  \<open>ZynqUioTransport.open\<close> on a freshly opened mapping: on any failure of the handshake the
  mapping is closed and the exception re-raised.
\<close>

definition zynq_uio_open_on ::
    "'m mmio32 \<Rightarrow> string option \<Rightarrow> string \<Rightarrow> ('m, zynq_uio) io" where
  "zynq_uio_open_on M expected hwrev =
     catch_io (zynq_uio_init M expected hwrev True)
       (\<lambda>e. then_io (close_mmio M) (raise_io e))"

definition zu_read_identity :: "zynq_uio \<Rightarrow> ('m, backend_identity) io" where
  "zu_read_identity T = return_io (zu_identity T)"

definition zu_control :: "'m mmio32 \<Rightarrow> ('m, int) io" where
  "zu_control M = read32 M REG_CONTROL"

definition zu_write_control :: "'m mmio32 \<Rightarrow> int \<Rightarrow> ('m, unit) io" where
  "zu_write_control M v = write32 M REG_CONTROL v"

text \<open>\<open>read_timestamp\<close>: up to eight attempts at an untorn high/low/high read.\<close>

primrec zu_timestamp_attempts :: "'m mmio32 \<Rightarrow> zynq_uio \<Rightarrow> nat \<Rightarrow> ('m, timestamp) io" where
  "zu_timestamp_attempts M T 0 = raise_io InfrastructureError"
| "zu_timestamp_attempts M T (Suc n) =
     bind_io (read32 M REG_TIMESTAMP_HI) (\<lambda>hi0.
     bind_io (read32 M REG_TIMESTAMP_LO) (\<lambda>lo.
     bind_io (read32 M REG_TIMESTAMP_HI) (\<lambda>hi1.
     if hi0 = hi1
     then lift_io (mk_timestamp (push_bit 32 hi0 OR lo) (tick_hz (zu_identity T)) 64)
     else zu_timestamp_attempts M T n)))"

definition zu_read_timestamp :: "'m mmio32 \<Rightarrow> zynq_uio \<Rightarrow> ('m, timestamp) io" where
  "zu_read_timestamp M T = zu_timestamp_attempts M T 8"

definition zu_force_safe :: "'m mmio32 \<Rightarrow> bool \<Rightarrow> ('m, unit) io" where
  "zu_force_safe M asserted =
     bind_io (zu_control M) (\<lambda>v.
     zu_write_control M (if asserted then v OR CTRL_FORCE_SAFE else v AND NOT CTRL_FORCE_SAFE))"

record zynq_health =
  zh_control :: int
  zh_status :: int
  zh_event_status :: int
  zh_event_queue_level :: int
  zh_event_queue_full :: bool
  zh_event_queue_overflow :: bool
  zh_event_queue_order_error :: bool
  zh_pwm_fault_flags :: int

definition zu_health :: "'m mmio32 \<Rightarrow> ('m, zynq_health) io" where
  "zu_health M =
     bind_io (read32 M REG_STATUS) (\<lambda>status.
     bind_io (read32 M REG_EVT_STATUS) (\<lambda>event_status.
     bind_io (zu_control M) (\<lambda>control.
     bind_io (read32 M REG_PWM_FAULTS) (\<lambda>faults.
     return_io
       \<lparr>zh_control = control, zh_status = status, zh_event_status = event_status,
        zh_event_queue_level = drop_bit 8 event_status AND 0xFFFF,
        zh_event_queue_full = (event_status AND EVT_STATUS_FULL \<noteq> 0),
        zh_event_queue_overflow = (event_status AND EVT_STATUS_OVERFLOW \<noteq> 0),
        zh_event_queue_order_error = (event_status AND EVT_STATUS_ORDER_ERROR \<noteq> 0),
        zh_pwm_fault_flags = faults AND 0x3F\<rparr>))))"

definition zu_read_pwm :: "'m mmio32 \<Rightarrow> int \<Rightarrow> ('m, pwm_measurement) io" where
  "zu_read_pwm M channel =
     then_io (ensure_io (0 \<le> channel \<and> channel < 3) InvalidConfiguration) (
     let base = REG_PWM_BASE + channel * PWM_STRIDE in
     bind_io (read32 M REG_PWM_VALID) (\<lambda>valid_bits.
     bind_io (read32 M REG_PWM_SEQ) (\<lambda>sequence.
     bind_io (read32 M (base + 0x0)) (\<lambda>period.
     bind_io (read32 M (base + 0x4)) (\<lambda>high.
     bind_io (read32 M (base + 0x8)) (\<lambda>low.
     return_io
       \<lparr>pm_channel = channel, pm_sequence = sequence, pm_period_ticks = period,
        pm_high_ticks = high, pm_low_ticks = low,
        pm_valid = (valid_bits AND push_bit (nat channel) 1 \<noteq> 0), pm_overflow = False\<rparr>))))))"

text \<open>
  \<open>configure_abz(**config)\<close>. The keyword arguments are a dictionary of dynamic values;
  the inner \<open>get\<close> of a default is evaluated whether or not it is used, which is pure.
\<close>

definition zu_direction_forward :: "(string \<times> pyval) list \<Rightarrow> bool" where
  "zu_direction_forward config =
     truthy (dict_get config ''direction_forward''
       (PBool (dict_get config ''direction'' (PStr ''forward'') \<noteq> PStr ''reverse'')))"

definition zu_configure_abz :: "'m mmio32 \<Rightarrow> (string \<times> pyval) list \<Rightarrow> ('m, unit) io" where
  "zu_configure_abz M config =
     bind_io (lift_io (py_int (dict_get config ''transition_ticks''
                                 (dict_get config ''step_period_ticks'' (PInt 0))))) (\<lambda>transition_ticks.
     then_io (ensure_io (\<not> transition_ticks \<le> 0) InvalidConfiguration) (
     bind_io (lift_io (py_int (dict_get config ''initial_phase'' (PInt 0)))) (\<lambda>phase.
     then_io (ensure_io (phase = 0) InvalidConfiguration) (
     bind_io (lift_io (py_int (dict_get config ''index_interval''
                                 (dict_get config ''index_interval_edges'' (PInt 0))))) (\<lambda>interval.
     then_io (ensure_io (interval = 0) InvalidConfiguration) (
     then_io (write32 M REG_ABZ_STEP transition_ticks) (
     bind_io (zu_control M) (\<lambda>v.
     zu_write_control M
       (if zu_direction_forward config then v OR CTRL_ABZ_DIRECTION_FORWARD
        else v AND NOT CTRL_ABZ_DIRECTION_FORWARD)))))))))"

definition zu_start_abz :: "'m mmio32 \<Rightarrow> ('m, unit) io" where
  "zu_start_abz M =
     bind_io (zu_control M) (\<lambda>v.
     zu_write_control M
       (((v OR CTRL_HIL_ENABLE) OR CTRL_ABZ_ENABLE) AND NOT CTRL_FORCE_SAFE))"

definition zu_stop_abz :: "'m mmio32 \<Rightarrow> ('m, unit) io" where
  "zu_stop_abz M =
     bind_io (zu_control M) (\<lambda>v. zu_write_control M (v AND NOT CTRL_ABZ_ENABLE))"

definition zu_schedule_dio :: "'m mmio32 \<Rightarrow> dio_event \<Rightarrow> ('m, unit) io" where
  "zu_schedule_dio M e =
     bind_io (read32 M REG_EVT_STATUS) (\<lambda>status.
     then_io (ensure_io (status AND EVT_STATUS_FULL = 0) InfrastructureError) (
     then_io (write32 M REG_EVT_TS_LO (ev_target_ticks e AND 0xFFFFFFFF)) (
     then_io (write32 M REG_EVT_TS_HI (drop_bit 32 (ev_target_ticks e) AND 0xFFFFFFFF)) (
     then_io (write32 M REG_EVT_MASK (ev_mask e)) (
     then_io (write32 M REG_EVT_VALUE (ev_value e)) (
     then_io (write32 M REG_EVT_ID (ev_id e)) (
     write32 M REG_EVT_PUSH 1)))))))"

definition zu_clear_faults :: "'m mmio32 \<Rightarrow> ('m, unit) io" where
  "zu_clear_faults M = bind_io (zu_control M) (\<lambda>v. zu_write_control M (v OR CTRL_CLEAR_FAULTS))"

definition zu_close :: "'m mmio32 \<Rightarrow> zynq_uio \<Rightarrow> ('m, unit) io" where
  "zu_close M T = (if zu_owns_mmio T then close_mmio M else return_io ())"

section \<open>Register files\<close>

text \<open>An offset that \<open>UioMmio._check\<close> accepts in the 4 KiB window.\<close>

definition in_window :: "int \<Rightarrow> bool" where
  "in_window off \<longleftrightarrow> 0 \<le> off \<and> off + 4 \<le> MAP_SIZE \<and> off AND 3 = 0"

locale mmio_regs =
  fixes M :: "'m mmio32"
    and reg :: "'m \<Rightarrow> int \<Rightarrow> int"
    and put :: "'m \<Rightarrow> int \<Rightarrow> int \<Rightarrow> 'm"
    and ok :: "'m \<Rightarrow> bool"
  assumes read_reg: "ok m \<Longrightarrow> in_window off \<Longrightarrow> read32 M off m = (Inr (reg m off), m)"
    and write_reg: "ok m \<Longrightarrow> in_window off \<Longrightarrow> write32 M off v m = (Inr (), put m off v)"
    and ok_put: "ok m \<Longrightarrow> in_window off \<Longrightarrow> ok (put m off v)"
    and reg_put: "ok m \<Longrightarrow> in_window off \<Longrightarrow> in_window o' \<Longrightarrow>
      reg (put m off v) o' = (if o' = off then v mod 2 ^ 32 else reg m o')"
    and reg_range: "ok m \<Longrightarrow> in_window off \<Longrightarrow> 0 \<le> reg m off \<and> reg m off < 2 ^ 32"
begin

lemmas run = io_simps read_reg write_reg ok_put reg_put

lemma force_safe_regs:
  assumes "ok m"
  shows "zu_force_safe M b m =
    (Inr (), put m REG_CONTROL
       (if b then reg m REG_CONTROL OR CTRL_FORCE_SAFE
        else reg m REG_CONTROL AND NOT CTRL_FORCE_SAFE))"
  using assms
  by (simp add: zu_force_safe_def zu_control_def zu_write_control_def run in_window_def)

text \<open>The event is staged field by field and then pushed; a full queue is refused untouched.\<close>

lemma schedule_dio_full:
  assumes "ok m" "bit (reg m REG_EVT_STATUS) 1"
  shows "zu_schedule_dio M e m = (Inl InfrastructureError, m)"
  using assms by (simp add: zu_schedule_dio_def run in_window_def bit_facts)

lemma schedule_dio_staged:
  assumes "ok m" "\<not> bit (reg m REG_EVT_STATUS) 1"
  obtains m' where "zu_schedule_dio M e m = (Inr (), m')" "ok m'"
    "reg m' REG_EVT_TS_LO = ev_target_ticks e mod 2 ^ 32"
    "reg m' REG_EVT_TS_HI = (ev_target_ticks e div 2 ^ 32) mod 2 ^ 32"
    "reg m' REG_EVT_MASK = ev_mask e mod 2 ^ 32"
    "reg m' REG_EVT_VALUE = ev_value e mod 2 ^ 32"
    "reg m' REG_EVT_ID = ev_id e mod 2 ^ 32"
    "reg m' REG_EVT_PUSH = 1"
    "reg m' REG_CONTROL = reg m REG_CONTROL"
proof (rule that)
  show "zu_schedule_dio M e m = (Inr (),
    put (put (put (put (put (put m
      REG_EVT_TS_LO (ev_target_ticks e AND 0xFFFFFFFF))
      REG_EVT_TS_HI (drop_bit 32 (ev_target_ticks e) AND 0xFFFFFFFF))
      REG_EVT_MASK (ev_mask e)) REG_EVT_VALUE (ev_value e)) REG_EVT_ID (ev_id e)) REG_EVT_PUSH 1)"
    using assms by (simp add: zu_schedule_dio_def run in_window_def bit_facts)
qed (use assms(1) in \<open>simp_all add: run in_window_def and_u32 drop_bit_eq_div\<close>)

text \<open>The identity handshake reads, and only reads, nine registers.\<close>

lemma handshake:
  assumes "ok m"
  shows "zynq_uio_init M expected hwrev owns m =
    ((if reg m REG_MAGIC \<noteq> MAGIC then Inl InfrastructureError
      else if drop_bit 16 (reg m REG_ABI_VERSION) \<noteq> 1 then Inl InfrastructureError
      else case BACKEND_TYPES (reg m REG_BACKEND_ID) of
        None \<Rightarrow> Inl InfrastructureError
      | Some t \<Rightarrow>
          if \<not> (expected = None \<or> expected = Some t) then Inl InvalidConfiguration
          else if reg m REG_TICK_HZ \<le> 0 \<or> reg m REG_COUNTER_BITS \<noteq> 64
          then Inl InfrastructureError
          else Inr \<lparr>zu_identity =
              \<lparr>backend_type = t, hardware_revision = hwrev,
               firmware_revision = ''axi-build-0x'' @ hex08 (reg m REG_BUILD_ID),
               api_version = API_VERSION,
               capabilities = decode_capabilities (reg m REG_CAPABILITIES),
               tick_hz = reg m REG_TICK_HZ, counter_bits = reg m REG_COUNTER_BITS\<rparr>,
             zu_owns_mmio = owns\<rparr>), m)"
proof -
  have "t \<noteq> []" if "BACKEND_TYPES b = Some t" for b t
    using that by (auto simp: BACKEND_TYPES_def split: if_splits)
  with assms show ?thesis
    by (auto simp: zynq_uio_init_def run in_window_def mk_backend_identity_def drop_bit_eq_div
        split: option.splits)
qed

text \<open>With the handshake passed, the identity is well formed.\<close>

lemma handshake_identity:
  assumes "ok m" "zynq_uio_init M expected hwrev owns m = (Inr T, m')"
  shows "m' = m \<and> 0 < tick_hz (zu_identity T) \<and> counter_bits (zu_identity T) = 64
     \<and> (\<forall>t. expected = Some t \<longrightarrow> backend_type (zu_identity T) = t)
     \<and> capabilities (zu_identity T) = decode_capabilities (reg m REG_CAPABILITIES)"
  using assms by (auto simp: handshake split: if_splits option.splits)

end

section \<open>Control ports\<close>

text \<open>
  What the safe-state logic needs of a device, less than a register file: a control register
  whose enable, encoder and direction bits read back as written, whose FORCE_SAFE bit reads
  as set at least when software has set it (hardware may also assert it), and a step-period
  register that does not disturb them.
\<close>

locale control_port =
  fixes M :: "'m mmio32"
    and seen :: "'m \<Rightarrow> int"
    and after_read :: "'m \<Rightarrow> 'm"
    and after_write :: "'m \<Rightarrow> int \<Rightarrow> 'm"
    and after_step :: "'m \<Rightarrow> int \<Rightarrow> 'm"
    and sw_bit :: "nat \<Rightarrow> 'm \<Rightarrow> bool"
    and ok :: "'m \<Rightarrow> bool"
  assumes ctl_read: "ok m \<Longrightarrow> read32 M REG_CONTROL m = (Inr (seen m), after_read m)"
    and ctl_write: "ok m \<Longrightarrow> write32 M REG_CONTROL v m = (Inr (), after_write m v)"
    and step_write: "ok m \<Longrightarrow> write32 M REG_ABZ_STEP v m = (Inr (), after_step m v)"
    and ok_after: "ok m \<Longrightarrow> ok (after_read m)" "ok m \<Longrightarrow> ok (after_write m v)"
      "ok m \<Longrightarrow> ok (after_step m v)"
    and sw_after_read: "ok m \<Longrightarrow> sw_bit k (after_read m) = sw_bit k m"
    and sw_after_step: "ok m \<Longrightarrow> sw_bit k (after_step m v) = sw_bit k m"
    and sw_after_write: "ok m \<Longrightarrow> k \<in> {0, 1, 3, 4} \<Longrightarrow> sw_bit k (after_write m v) = bit v k"
    and seen_exact: "ok m \<Longrightarrow> k \<in> {0, 3, 4} \<Longrightarrow> bit (seen m) k = sw_bit k m"
    and seen_safe: "ok m \<Longrightarrow> sw_bit 1 m \<Longrightarrow> bit (seen m) 1"
begin

lemmas ctl_run = io_simps ctl_read ctl_write step_write ok_after sw_after_read sw_after_step
  sw_after_write seen_exact

lemma force_safe_port:
  assumes "ok m"
  obtains m' where "zu_force_safe M b m = (Inr (), m')" "ok m'" "sw_bit 1 m' = b"
    "\<And>k. k \<in> {0, 3, 4} \<Longrightarrow> sw_bit k m' = sw_bit k m"
proof (rule that)
  let ?v = "if b then seen m OR CTRL_FORCE_SAFE else seen m AND NOT CTRL_FORCE_SAFE"
  show "zu_force_safe M b m = (Inr (), after_write (after_read m) ?v)"
    using assms by (simp add: zu_force_safe_def zu_control_def zu_write_control_def ctl_run)
  show "ok (after_write (after_read m) ?v)"
    using assms by (simp add: ctl_run)
  show "sw_bit 1 (after_write (after_read m) ?v) = b"
    using assms by (simp add: ctl_run ctl_bits)
  show "sw_bit k (after_write (after_read m) ?v) = sw_bit k m" if "k \<in> {0, 3, 4}" for k
    using assms that by (auto simp: ctl_run ctl_bits)
qed

lemma start_abz_port:
  assumes "ok m"
  obtains m' where "zu_start_abz M m = (Inr (), m')" "ok m'"
    "sw_bit 0 m'" "sw_bit 3 m'" "\<not> sw_bit 1 m'" "sw_bit 4 m' = sw_bit 4 m"
proof (rule that)
  let ?v = "((seen m OR CTRL_HIL_ENABLE) OR CTRL_ABZ_ENABLE) AND NOT CTRL_FORCE_SAFE"
  show "zu_start_abz M m = (Inr (), after_write (after_read m) ?v)"
    using assms by (simp add: zu_start_abz_def zu_control_def zu_write_control_def ctl_run)
  show "ok (after_write (after_read m) ?v)"
    using assms by (simp add: ctl_run)
  show "sw_bit 0 (after_write (after_read m) ?v)" "sw_bit 3 (after_write (after_read m) ?v)"
    "\<not> sw_bit 1 (after_write (after_read m) ?v)"
    "sw_bit 4 (after_write (after_read m) ?v) = sw_bit 4 m"
    using assms by (simp_all add: ctl_run ctl_bits)
qed

lemma stop_abz_port:
  assumes "ok m"
  obtains m' where "zu_stop_abz M m = (Inr (), m')" "ok m'" "\<not> sw_bit 3 m'"
    "sw_bit 1 m \<Longrightarrow> sw_bit 1 m'" "\<And>k. k \<in> {0, 4} \<Longrightarrow> sw_bit k m' = sw_bit k m"
proof (rule that)
  let ?v = "seen m AND NOT CTRL_ABZ_ENABLE"
  show "zu_stop_abz M m = (Inr (), after_write (after_read m) ?v)"
    using assms by (simp add: zu_stop_abz_def zu_control_def zu_write_control_def ctl_run)
  show "ok (after_write (after_read m) ?v)"
    using assms by (simp add: ctl_run)
  show "\<not> sw_bit 3 (after_write (after_read m) ?v)"
    using assms by (simp add: ctl_run ctl_bits)
  show "sw_bit 1 m \<Longrightarrow> sw_bit 1 (after_write (after_read m) ?v)"
    using assms by (simp add: ctl_run ctl_bits seen_safe [unfolded One_nat_def])
  show "sw_bit k (after_write (after_read m) ?v) = sw_bit k m" if "k \<in> {0, 4}" for k
    using assms that by (auto simp: ctl_run ctl_bits)
qed

text \<open>
  Sequences of control calls. An exception does not end the sequence here: the caller may
  catch it and go on.
\<close>

lemma keeps_safe_force: "keeps (\<lambda>m. ok m \<and> sw_bit 1 m) (zu_force_safe M True)"
  by (rule keepsI) (auto elim: force_safe_port [of _ True])

lemma keeps_safe_stop: "keeps (\<lambda>m. ok m \<and> sw_bit 1 m) (zu_stop_abz M)"
  by (rule keepsI) (auto elim: stop_abz_port)

lemma keeps_safe_clear: "keeps (\<lambda>m. ok m \<and> sw_bit 1 m) (zu_clear_faults M)"
  by (rule keepsI)
    (auto simp: zu_clear_faults_def zu_control_def zu_write_control_def ctl_run ctl_bits
      seen_safe [unfolded One_nat_def])

lemma keeps_safe_configure: "keeps (\<lambda>m. ok m \<and> sw_bit 1 m) (zu_configure_abz M cfg)"
proof -
  let ?P = "\<lambda>m. ok m \<and> sw_bit 1 m"
  have step: "keeps ?P (write32 M REG_ABZ_STEP v)" for v
    by (rule keepsI) (auto simp: ctl_run)
  have dir: "keeps ?P (bind_io (zu_control M) (\<lambda>v. zu_write_control M
      (if zu_direction_forward cfg then v OR CTRL_ABZ_DIRECTION_FORWARD
       else v AND NOT CTRL_ABZ_DIRECTION_FORWARD)))"
    by (rule keepsI)
      (auto simp: zu_control_def zu_write_control_def ctl_run ctl_bits
        seen_safe [unfolded One_nat_def])
  show ?thesis
    unfolding zu_configure_abz_def
    by (intro keeps_bind keeps_then keeps_lift keeps_ensure step dir)
qed

end

text \<open>A register file is a control port whose FORCE_SAFE bit is exactly what was written.\<close>

sublocale mmio_regs \<subseteq> port: control_port M "\<lambda>m. reg m REG_CONTROL" "\<lambda>m. m"
  "\<lambda>m v. put m REG_CONTROL v" "\<lambda>m v. put m REG_ABZ_STEP v" "\<lambda>k m. bit (reg m REG_CONTROL) k" ok
proof (unfold_locales, goal_cases)
  case (9 m k v)
  then have "k < 32" by auto
  with 9 show ?case by (simp add: reg_put in_window_def bit_mod_u32 [simplified])
qed (auto simp: run in_window_def)

section \<open>\<open>UioMmio\<close> is a register file\<close>

definition uio_reg :: "uio_mmio \<Rightarrow> int \<Rightarrow> int" where
  "uio_reg m off = unpack_u32 (uio_mapped m) (nat off)"

definition uio_put :: "uio_mmio \<Rightarrow> int \<Rightarrow> int \<Rightarrow> uio_mmio" where
  "uio_put m off v =
     m\<lparr>uio_mapped := splice (nat off) (le_bytes 4 (v AND 0xFFFFFFFF)) (uio_mapped m)\<rparr>"

definition uio_ok :: "uio_mmio \<Rightarrow> bool" where
  "uio_ok m \<longleftrightarrow> uio_map_open m \<and> MAP_SIZE \<le> int (length (uio_mapped m))"

lemma uio_check_ok: "uio_ok m \<Longrightarrow> in_window off \<Longrightarrow> uio_check off m = (Inr (), m)"
  by (auto simp: uio_check_def uio_ok_def in_window_def)

lemma unpack_splice:
  assumes "a + 4 \<le> length xs" "b + 4 \<le> length xs" "a mod 4 = 0" "b mod 4 = 0" "length bs = 4"
  shows "unpack_u32 (splice a bs xs) b = (if b = a then le_value bs else unpack_u32 xs b)"
proof (cases "b = a")
  case True
  with assms show ?thesis by (simp add: unpack_u32_def splice_def)
next
  case False
  then have "b + 4 \<le> a \<or> a + 4 \<le> b" using assms(3,4) by presburger
  then have "take 4 (drop b (take a xs @ bs @ drop (a + 4) xs)) = take 4 (drop b xs)"
    using assms by (intro take_drop_update_other) simp_all
  with False assms(5) show ?thesis by (simp add: unpack_u32_def splice_def)
qed

interpretation uio: mmio_regs uio_ops uio_reg uio_put uio_ok
proof (unfold_locales, goal_cases)
  case (1 m off)
  then show ?case by (simp add: uio_ops_def uio_read32_def io_simps uio_check_ok uio_reg_def)
next
  case (2 m off v)
  then show ?case by (simp add: uio_ops_def uio_write32_def io_simps uio_check_ok uio_put_def)
next
  case (3 m off v)
  then show ?case
    by (auto simp: uio_ok_def uio_put_def in_window_def length_splice)
next
  case (4 m off o' v)
  then have "nat off + 4 \<le> length (uio_mapped m)" "nat o' + 4 \<le> length (uio_mapped m)"
    by (auto simp: uio_ok_def in_window_def)
  moreover have "nat off mod 4 = 0" "nat o' mod 4 = 0"
    using 4 by (simp_all add: in_window_def and_3 nat_mod_as_int)
  moreover have "nat o' = nat off \<longleftrightarrow> o' = off"
    using 4 by (auto simp: in_window_def)
  ultimately show ?case
    by (simp add: uio_reg_def uio_put_def unpack_splice le_value_le_bytes and_u32)
next
  case (5 m off)
  then have "nat off + 4 \<le> length (uio_mapped m)"
    by (auto simp: uio_ok_def in_window_def)
  from unpack_u32_range [OF this] show ?case by (simp add: uio_reg_def)
qed

section \<open>Sequences of transport calls\<close>

text \<open>
  The calls a backend makes on the transport, run one after the other. The abstract state of
  the transport is the four software-owned bits of the control register; each call has a
  one-line effect on it, and the register implementation refines that.
\<close>

datatype zu_call =
    CallForceSafe bool
  | CallStartAbz
  | CallStopAbz
  | CallConfigureAbz "(string \<times> pyval) list"
  | CallClearFaults
  | CallScheduleDio dio_event
  | CallReadPwm int
  | CallHealth
  | CallReadTimestamp

primrec zu_run_call :: "'m mmio32 \<Rightarrow> zynq_uio \<Rightarrow> zu_call \<Rightarrow> ('m, unit) io" where
  "zu_run_call M T (CallForceSafe b) = zu_force_safe M b"
| "zu_run_call M T CallStartAbz = zu_start_abz M"
| "zu_run_call M T CallStopAbz = zu_stop_abz M"
| "zu_run_call M T (CallConfigureAbz cfg) = zu_configure_abz M cfg"
| "zu_run_call M T CallClearFaults = zu_clear_faults M"
| "zu_run_call M T (CallScheduleDio e) = zu_schedule_dio M e"
| "zu_run_call M T (CallReadPwm ch) = then_io (zu_read_pwm M ch) (return_io ())"
| "zu_run_call M T CallHealth = then_io (zu_health M) (return_io ())"
| "zu_run_call M T CallReadTimestamp = then_io (zu_read_timestamp M T) (return_io ())"

text \<open>The caller catches what a call raises and goes on.\<close>

primrec zu_run_calls :: "'m mmio32 \<Rightarrow> zynq_uio \<Rightarrow> zu_call list \<Rightarrow> 'm \<Rightarrow> 'm" where
  "zu_run_calls M T [] m = m"
| "zu_run_calls M T (c # cs) m = zu_run_calls M T cs (snd (zu_run_call M T c m))"

record ctl_state =
  cs_enabled :: bool
  cs_safe :: bool
  cs_abz :: bool
  cs_forward :: bool

definition ctl_abs :: "int \<Rightarrow> ctl_state" where
  "ctl_abs v = \<lparr>cs_enabled = bit v 0, cs_safe = bit v 1, cs_abz = bit v 3, cs_forward = bit v 4\<rparr>"

text \<open>The configurations \<open>configure_abz\<close> accepts.\<close>

definition abz_config_ok :: "(string \<times> pyval) list \<Rightarrow> bool" where
  "abz_config_ok cfg \<longleftrightarrow>
     (case py_int (dict_get cfg ''transition_ticks''
                     (dict_get cfg ''step_period_ticks'' (PInt 0))) of
        Inr t \<Rightarrow> 0 < t | Inl _ \<Rightarrow> False)
     \<and> py_int (dict_get cfg ''initial_phase'' (PInt 0)) = Inr 0
     \<and> py_int (dict_get cfg ''index_interval''
                 (dict_get cfg ''index_interval_edges'' (PInt 0))) = Inr 0"

fun ctl_step :: "zu_call \<Rightarrow> ctl_state \<Rightarrow> ctl_state" where
  "ctl_step (CallForceSafe b) s = s\<lparr>cs_safe := b\<rparr>"
| "ctl_step CallStartAbz s = s\<lparr>cs_enabled := True, cs_abz := True, cs_safe := False\<rparr>"
| "ctl_step CallStopAbz s = s\<lparr>cs_abz := False\<rparr>"
| "ctl_step (CallConfigureAbz cfg) s =
     (if abz_config_ok cfg then s\<lparr>cs_forward := zu_direction_forward cfg\<rparr> else s)"
| "ctl_step _ s = s"

text \<open>\<open>zu_read_timestamp\<close> leaves a register file alone, whatever it answers.\<close>

context mmio_regs
begin

lemma timestamp_state: "ok m \<Longrightarrow> snd (zu_timestamp_attempts M T n m) = m"
  by (induction n) (simp_all add: run in_window_def)

lemma configure_rejected: "\<not> abz_config_ok cfg \<Longrightarrow> snd (zu_configure_abz M cfg m) = m"
  by (auto simp: zu_configure_abz_def abz_config_ok_def io_simps split: sum.splits)

lemma configure_accepted:
  assumes "ok m" "abz_config_ok cfg"
  shows "\<exists>t. zu_configure_abz M cfg m = (Inr (), put (put m REG_ABZ_STEP t) REG_CONTROL
     (if zu_direction_forward cfg then reg m REG_CONTROL OR CTRL_ABZ_DIRECTION_FORWARD
      else reg m REG_CONTROL AND NOT CTRL_ABZ_DIRECTION_FORWARD))"
  using assms
  by (auto simp: zu_configure_abz_def abz_config_ok_def zu_control_def zu_write_control_def
      run in_window_def split: sum.splits)

lemma ctl_abs_put:
  "ok m \<Longrightarrow> ctl_abs (reg (put m REG_CONTROL v) REG_CONTROL) = ctl_abs v"
  by (simp add: run in_window_def ctl_abs_def bit_mod_u32 [simplified])

lemma run_call_refines:
  assumes "ok m"
  shows "ok (snd (zu_run_call M T c m))
    \<and> ctl_abs (reg (snd (zu_run_call M T c m)) REG_CONTROL) = ctl_step c (ctl_abs (reg m REG_CONTROL))"
proof (cases c)
  case (CallForceSafe b)
  with assms show ?thesis
    by (simp add: force_safe_regs ctl_abs_put ok_put in_window_def)
      (simp add: ctl_abs_def ctl_bits)
next
  case CallStartAbz
  with assms show ?thesis
    by (simp add: zu_start_abz_def zu_control_def zu_write_control_def run in_window_def)
      (simp add: ctl_abs_def ctl_bits bit_mod_u32 [simplified])
next
  case CallStopAbz
  with assms show ?thesis
    by (simp add: zu_stop_abz_def zu_control_def zu_write_control_def run in_window_def)
      (simp add: ctl_abs_def ctl_bits bit_mod_u32 [simplified])
next
  case (CallConfigureAbz cfg)
  show ?thesis
  proof (cases "abz_config_ok cfg")
    case True
    with assms obtain t where "zu_configure_abz M cfg m =
       (Inr (), put (put m REG_ABZ_STEP t) REG_CONTROL
       (if zu_direction_forward cfg then reg m REG_CONTROL OR CTRL_ABZ_DIRECTION_FORWARD
        else reg m REG_CONTROL AND NOT CTRL_ABZ_DIRECTION_FORWARD))"
      using configure_accepted by blast
    with True assms CallConfigureAbz show ?thesis
      by (simp add: ctl_abs_put ok_put in_window_def) (simp add: ctl_abs_def ctl_bits)
  qed (use assms CallConfigureAbz in \<open>simp add: configure_rejected\<close>)
next
  case CallClearFaults
  with assms show ?thesis
    by (simp add: zu_clear_faults_def zu_control_def zu_write_control_def run in_window_def)
      (simp add: ctl_abs_def ctl_bits bit_mod_u32 [simplified])
next
  case (CallScheduleDio e)
  show ?thesis
  proof (cases "bit (reg m REG_EVT_STATUS) 1")
    case True
    with assms CallScheduleDio show ?thesis by (simp add: schedule_dio_full)
  next
    case False
    with assms obtain m' where "zu_schedule_dio M e m = (Inr (), m')" "ok m'"
      "reg m' REG_CONTROL = reg m REG_CONTROL"
      by (rule schedule_dio_staged)
    with CallScheduleDio show ?thesis by simp
  qed
next
  case (CallReadPwm ch)
  have "snd (zu_read_pwm M ch m) = m"
    using assms
    by (cases "ch \<in> {0, 1, 2}") (auto simp: zu_read_pwm_def Let_def run in_window_def)
  with assms CallReadPwm show ?thesis
    by (cases "zu_read_pwm M ch m") (auto simp: io_simps split: sum.splits)
next
  case CallHealth
  with assms show ?thesis by (simp add: zu_health_def zu_control_def run in_window_def)
next
  case CallReadTimestamp
  with assms timestamp_state [of m T 8] show ?thesis
    by (cases "zu_read_timestamp M T m")
      (auto simp: zu_read_timestamp_def io_simps split: sum.splits)
qed

lemma run_calls_refines:
  "ok m \<Longrightarrow> ok (zu_run_calls M T cs m)
    \<and> ctl_abs (reg (zu_run_calls M T cs m) REG_CONTROL) = fold ctl_step cs (ctl_abs (reg m REG_CONTROL))"
  by (induction cs arbitrary: m) (simp_all add: run_call_refines)

end

section \<open>The timestamp read\<close>

text \<open>
  What \<open>read_timestamp\<close> relies on in the hardware: the two halves of a free-running counter
  that never runs backwards (it has 64 bits) and that advances by at most \<open>d\<close> ticks between
  the moment a register read samples it and the next one.
\<close>

definition counter_device :: "'m mmio32 \<Rightarrow> ('m \<Rightarrow> int) \<Rightarrow> int \<Rightarrow> bool" where
  "counter_device M now d \<longleftrightarrow>
     (\<forall>m. 0 \<le> now m
        \<and> (\<exists>m'. read32 M REG_TIMESTAMP_HI m = (Inr (now m div 2 ^ 32), m')
              \<and> now m \<le> now m' \<and> now m' \<le> now m + d)
        \<and> (\<exists>m'. read32 M REG_TIMESTAMP_LO m = (Inr (now m mod 2 ^ 32), m')
              \<and> now m \<le> now m' \<and> now m' \<le> now m + d))"

lemma counter_reads:
  assumes "counter_device M now d"
  obtains m1 m2 m3 where
    "read32 M REG_TIMESTAMP_HI m = (Inr (now m div 2 ^ 32), m1)"
    "read32 M REG_TIMESTAMP_LO m1 = (Inr (now m1 mod 2 ^ 32), m2)"
    "read32 M REG_TIMESTAMP_HI m2 = (Inr (now m2 div 2 ^ 32), m3)"
    "0 \<le> now m" "now m \<le> now m1" "now m1 \<le> now m2" "now m2 \<le> now m3"
    "now m1 \<le> now m + d" "now m2 \<le> now m1 + d" "now m3 \<le> now m2 + d"
  using assms unfolding counter_device_def by metis

text \<open>An untorn sample: the high half did not change around the low half.\<close>

lemma join_halves:
  fixes a b c :: int
  assumes "0 \<le> a" "a \<le> b" "b \<le> c" "a div 2 ^ 32 = c div 2 ^ 32"
  shows "push_bit 32 (a div 2 ^ 32) OR (b mod 2 ^ 32) = b"
proof -
  have "a div 2 ^ 32 \<le> b div 2 ^ 32" "b div 2 ^ 32 \<le> c div 2 ^ 32"
    using assms by (simp_all add: zdiv_mono1)
  then have "a div 2 ^ 32 = b div 2 ^ 32" using assms(4) by linarith
  moreover have "push_bit 32 (b div 2 ^ 32) OR (b mod 2 ^ 32) = b"
    unfolding drop_bit_eq_div [symmetric] take_bit_eq_mod [symmetric]
    by (rule bit_eqI) (auto simp: bit_or_iff bit_push_bit_iff bit_drop_bit_eq bit_take_bit_iff)
  ultimately show ?thesis by simp
qed

lemma timestamp_attempt:
  assumes dev: "counter_device M now d" and hz: "0 < tick_hz (zu_identity T)"
  obtains (sampled) t m' where "zu_timestamp_attempts M T (Suc n) m = (Inr t, m')"
      "now m \<le> ts_ticks t" "ts_ticks t \<le> now m'"
      "ts_tick_hz t = tick_hz (zu_identity T)" "ts_counter_bits t = 64"
  | (torn) m' where "zu_timestamp_attempts M T (Suc n) m = zu_timestamp_attempts M T n m'"
      "now m \<le> now m'" "now m' \<le> now m + 3 * d" "now m div 2 ^ 32 < now m' div 2 ^ 32"
proof -
  from dev obtain m1 m2 m3 where r:
    "read32 M REG_TIMESTAMP_HI m = (Inr (now m div 2 ^ 32), m1)"
    "read32 M REG_TIMESTAMP_LO m1 = (Inr (now m1 mod 2 ^ 32), m2)"
    "read32 M REG_TIMESTAMP_HI m2 = (Inr (now m2 div 2 ^ 32), m3)"
    and t: "0 \<le> now m" "now m \<le> now m1" "now m1 \<le> now m2" "now m2 \<le> now m3"
    "now m1 \<le> now m + d" "now m2 \<le> now m1 + d" "now m3 \<le> now m2 + d"
    by (rule counter_reads)
  have mono: "now m div 2 ^ 32 \<le> now m2 div 2 ^ 32" "now m2 div 2 ^ 32 \<le> now m3 div 2 ^ 32"
    using t by (simp_all add: zdiv_mono1)
  show thesis
  proof (cases "now m div 2 ^ 32 = now m2 div 2 ^ 32")
    case True
    with t have "push_bit 32 (now m div 2 ^ 32) OR (now m1 mod 2 ^ 32) = now m1"
      by (intro join_halves)
    with True r t hz show thesis
      by (intro sampled [of "\<lparr>ts_ticks = now m1, ts_tick_hz = tick_hz (zu_identity T),
            ts_counter_bits = 64\<rparr>" m3]) (simp_all add: io_simps mk_timestamp_def)
  next
    case False
    with r t mono show thesis
      by (intro torn [of m3]) (simp_all add: io_simps)
  qed
qed

section \<open>Properties\<close>

text \<open>C1: After any sequence of transport calls on a mapped device page, rejected ones included,
  the enable, safe, encoder and direction bits of the control register are exactly what the
  one-line abstract effects of the calls say: asserting or releasing FORCE_SAFE sets that bit
  alone, starting the encoder enables and releases, stopping it clears the encoder bit alone,
  an accepted configuration sets the direction, and nothing else touches them.\<close>

theorem control_calls_refine:
  assumes "uio_ok m"
  shows "uio_ok (zu_run_calls uio_ops T cs m)
    \<and> ctl_abs (uio_reg (zu_run_calls uio_ops T cs m) REG_CONTROL)
        = fold ctl_step cs (ctl_abs (uio_reg m REG_CONTROL))"
  by (rule uio.run_calls_refines [OF assms])

definition blank_page :: uio_mmio where
  "blank_page = \<lparr>uio_fd = 3, uio_mapped = replicate 4096 0, uio_map_open = True, uio_os_fds = [3]\<rparr>"

definition bench_uio :: zynq_uio where
  "bench_uio = \<lparr>zu_identity = \<lparr>backend_type = ''zynq7010_ax7010'',
      hardware_revision = [], firmware_revision = [], api_version = [], capabilities = {},
      tick_hz = 100000000, counter_bits = 64\<rparr>, zu_owns_mmio = True\<rparr>"

definition bench_event :: dio_event where
  "bench_event = \<lparr>ev_id = 7, ev_target_ticks = 2 ^ 40 + 5, ev_mask = 3, ev_value = 1\<rparr>"

lemma blank_page_ok: "uio_ok blank_page"
  by (simp add: uio_ok_def blank_page_def)

lemma control_calls_refine_witness:
  "ctl_abs (uio_reg (zu_run_calls uio_ops bench_uio
      [CallForceSafe True, CallStopAbz, CallScheduleDio bench_event, CallClearFaults] blank_page) REG_CONTROL)
     = (ctl_abs (uio_reg blank_page REG_CONTROL))\<lparr>cs_safe := True, cs_abz := False\<rparr>"
  using control_calls_refine [OF blank_page_ok, of bench_uio
      "[CallForceSafe True, CallStopAbz, CallScheduleDio bench_event, CallClearFaults]"]
  by simp

text \<open>C2: Once the safe state has been asserted, no sequence of transport calls releases it except
  an explicit release or a start of the encoder stimulus: encoder stop and configuration,
  fault clearing, event scheduling and every read keep FORCE_SAFE set.\<close>

theorem safe_state_latched:
  assumes "uio_ok m" and "\<forall>c \<in> set cs. c \<noteq> CallForceSafe False \<and> c \<noteq> CallStartAbz"
  shows "bit (uio_reg (zu_run_calls uio_ops T (before @ CallForceSafe True # cs) m) REG_CONTROL) 1"
proof -
  have keep: "cs_safe (fold ctl_step cs s)" if "cs_safe s" for s
    using assms(2) that
  proof (induction cs arbitrary: s)
    case (Cons c cs)
    then have "cs_safe (ctl_step c s)" by (cases c) auto
    with Cons show ?case by simp
  qed simp
  have "cs_safe (ctl_abs (uio_reg
      (zu_run_calls uio_ops T (before @ CallForceSafe True # cs) m) REG_CONTROL))"
    using uio.run_calls_refines [OF assms(1), of T "before @ CallForceSafe True # cs"]
    by (simp add: keep)
  then show ?thesis by (simp add: ctl_abs_def)
qed

lemma safe_state_latched_witness:
  "bit (uio_reg (zu_run_calls uio_ops bench_uio
      ([CallStartAbz] @ CallForceSafe True # [CallConfigureAbz [], CallStopAbz, CallHealth])
      blank_page) REG_CONTROL) 1"
  by (rule safe_state_latched [OF blank_page_ok]) simp




text \<open>A counter that ticks once per register read.\<close>

definition ticking :: "int mmio32" where
  "ticking = \<lparr>
     read32 = (\<lambda>off n. (Inr (if off = REG_TIMESTAMP_HI then max 0 n div 2 ^ 32
                              else if off = REG_TIMESTAMP_LO then max 0 n mod 2 ^ 32 else 0), max 0 n + 1)),
     write32 = (\<lambda>off v n. (Inr (), n)),
     close_mmio = (\<lambda>n. (Inr (), n))\<rparr>"




text \<open>The call \<open>UioMmio.open\<close> never leaks a descriptor: a window smaller than the register page is
  refused before the device is opened, a failed mapping closes the descriptor it had opened and
  re-raises, and only a returned mapping keeps one descriptor open.\<close>

theorem uio_open_no_leak:
  "case uio_mmio_open os_open os_mmap device map_size fds of
     (Inl e, fds') \<Rightarrow> fds' = fds \<and>
       (e = ValueError \<and> map_size < MAP_SIZE \<or> os_open device = Inl e
        \<or> (\<exists>fd. os_open device = Inr fd \<and> os_mmap fd map_size = Inl e))
   | (Inr (fd, mapped), fds') \<Rightarrow> fds' = fd # fds \<and> MAP_SIZE \<le> map_size
       \<and> os_open device = Inr fd \<and> os_mmap fd map_size = Inr mapped"
  by (auto simp: uio_mmio_open_def io_simps os_close_def split: sum.splits)

end
