(* ===== verification/Zynq_Backend.thy ===== *)
theory Zynq_Backend
  imports Uio_Transport
begin

text \<open>
  \<open>host/hil/backends/zynq.py\<close>: the semantic adapter \<open>_ZynqTransportBackend\<close> around a transport,
  the two board classes, and \<open>open_uio\<close>. The transport is an arbitrary object in the code
  (\<open>Any\<close>): a record of handlers, each of which may be missing (\<open>getattr\<close> gives \<open>None\<close>), may
  raise anything, and may return a value of a wrong type (\<open>None\<close> in the results below). The
  UIO transport is one such object. The adapter implements the contract \<open>hil_backend\<close>.
\<close>

section \<open>Transports\<close>

record 'm zynq_transport =
  zt_read_identity :: "('m, backend_identity option) io"
  zt_read_timestamp :: "('m, timestamp option) io option"
  zt_force_safe :: "(bool \<Rightarrow> ('m, unit) io) option"
  zt_health :: "('m, zynq_health option) io option"
  zt_read_pwm :: "(int \<Rightarrow> ('m, pwm_measurement option) io) option"
  zt_configure_abz :: "((string \<times> pyval) list \<Rightarrow> ('m, unit) io) option"
  zt_start_abz :: "('m, unit) io option"
  zt_stop_abz :: "('m, unit) io option"
  zt_schedule_dio :: "(dio_event \<Rightarrow> ('m, unit) io) option"

text \<open>The UIO transport provides every handler and returns values of the right types.\<close>

definition some_io :: "('m, 'a) io \<Rightarrow> ('m, 'a option) io" where
  "some_io m = bind_io m (\<lambda>a. return_io (Some a))"

definition uio_transport :: "'m mmio32 \<Rightarrow> zynq_uio \<Rightarrow> 'm zynq_transport" where
  "uio_transport M T =
     \<lparr>zt_read_identity = some_io (zu_read_identity T),
      zt_read_timestamp = Some (some_io (zu_read_timestamp M T)),
      zt_force_safe = Some (zu_force_safe M),
      zt_health = Some (some_io (zu_health M)),
      zt_read_pwm = Some (\<lambda>ch. some_io (zu_read_pwm M ch)),
      zt_configure_abz = Some (zu_configure_abz M),
      zt_start_abz = Some (zu_start_abz M),
      zt_stop_abz = Some (zu_stop_abz M),
      zt_schedule_dio = Some (zu_schedule_dio M)\<rparr>"

section \<open>The adapter\<close>

record 'm zynq_backend =
  zb_transport :: "'m zynq_transport"
  zb_identity :: backend_identity

text \<open>The constructor; \<open>expected\<close> is the class attribute \<open>expected_backend_types\<close>.\<close>

definition zynq_backend_init ::
    "string set \<Rightarrow> 'm zynq_transport \<Rightarrow> ('m, 'm zynq_backend) io" where
  "zynq_backend_init expected T =
     bind_io (catch_io (zt_read_identity T) (\<lambda>_. raise_io InfrastructureError)) (\<lambda>res.
     case res of
       None \<Rightarrow> raise_io InfrastructureError
     | Some ident \<Rightarrow>
         then_io (ensure_io (\<not> (expected \<noteq> {} \<and> backend_type ident \<notin> expected)) InvalidConfiguration) (
         then_io (lift_io (validate_contract ident)) (
         return_io \<lparr>zb_transport = T, zb_identity = ident\<rparr>)))"

text \<open>\<open>_call\<close>: the capability, then the handler, then the mapping of its exceptions.\<close>

definition zb_call :: "'m zynq_backend \<Rightarrow> capability \<Rightarrow> ('m, 'a) io option \<Rightarrow> ('m, 'a) io" where
  "zb_call b cap handler =
     then_io (lift_io (require_cap (zb_identity b) cap)) (
     case handler of
       None \<Rightarrow> raise_io InfrastructureError
     | Some h \<Rightarrow> catch_io h (\<lambda>e.
         if e = InvalidConfiguration \<or> e = InfrastructureError then raise_io e
         else raise_io InfrastructureError))"

definition zb_read_timestamp :: "'m zynq_backend \<Rightarrow> ('m, timestamp) io" where
  "zb_read_timestamp b =
     bind_io (zb_call b TIMEBASE (zt_read_timestamp (zb_transport b))) (\<lambda>res.
     case res of
       None \<Rightarrow> raise_io InfrastructureError
     | Some t \<Rightarrow>
         then_io (ensure_io (\<not> (ts_tick_hz t \<noteq> tick_hz (zb_identity b)
                              \<or> ts_counter_bits t \<noteq> counter_bits (zb_identity b)))
                   InfrastructureError)
           (return_io t))"

definition zb_force_safe :: "'m zynq_backend \<Rightarrow> bool \<Rightarrow> ('m, unit) io" where
  "zb_force_safe b asserted =
     zb_call b FORCE_SAFE (map_option (\<lambda>h. h asserted) (zt_force_safe (zb_transport b)))"

definition zb_health :: "'m zynq_backend \<Rightarrow> ('m, zynq_health) io" where
  "zb_health b =
     (case zt_health (zb_transport b) of
        None \<Rightarrow> raise_io InfrastructureError
      | Some h \<Rightarrow>
          bind_io (catch_io h (\<lambda>_. raise_io InfrastructureError)) (\<lambda>res.
          case res of None \<Rightarrow> raise_io InfrastructureError | Some r \<Rightarrow> return_io r))"

definition zb_read_pwm :: "'m zynq_backend \<Rightarrow> int \<Rightarrow> ('m, pwm_measurement) io" where
  "zb_read_pwm b ch =
     bind_io (zb_call b PWM_CAPTURE (map_option (\<lambda>h. h ch) (zt_read_pwm (zb_transport b)))) (\<lambda>res.
     case res of None \<Rightarrow> raise_io InfrastructureError | Some v \<Rightarrow> return_io v)"

definition zb_configure_abz :: "'m zynq_backend \<Rightarrow> (string \<times> pyval) list \<Rightarrow> ('m, unit) io" where
  "zb_configure_abz b cfg =
     zb_call b ABZ_GENERATOR (map_option (\<lambda>h. h cfg) (zt_configure_abz (zb_transport b)))"

definition zb_start_abz :: "'m zynq_backend \<Rightarrow> ('m, unit) io" where
  "zb_start_abz b = zb_call b ABZ_GENERATOR (zt_start_abz (zb_transport b))"

definition zb_stop_abz :: "'m zynq_backend \<Rightarrow> ('m, unit) io" where
  "zb_stop_abz b = zb_call b ABZ_GENERATOR (zt_stop_abz (zb_transport b))"

definition zb_schedule_dio :: "'m zynq_backend \<Rightarrow> dio_event \<Rightarrow> ('m, unit) io" where
  "zb_schedule_dio b ev =
     zb_call b DIO_SCHEDULER (map_option (\<lambda>h. h ev) (zt_schedule_dio (zb_transport b)))"

text \<open>\<open>Axu2cgbBackend\<close> and \<open>Ax7010Backend\<close>; \<open>open_uio\<close> on a freshly opened mapping.\<close>

definition axu2cgb_types :: "string set" where
  "axu2cgb_types = {''zynq_axu2cgb'', ''zu2cg_axu2cgb''}"

definition ax7010_types :: "string set" where
  "ax7010_types = {''zynq7010_ax7010'', ''zynq_ax7010''}"

definition axu2cgb_open_uio_on :: "'m mmio32 \<Rightarrow> string \<Rightarrow> ('m, 'm zynq_backend) io" where
  "axu2cgb_open_uio_on M hwrev =
     bind_io (zynq_uio_open_on M (Some ''zu2cg_axu2cgb'') hwrev) (\<lambda>T.
     zynq_backend_init axu2cgb_types (uio_transport M T))"

definition ax7010_open_uio_on :: "'m mmio32 \<Rightarrow> string \<Rightarrow> ('m, 'm zynq_backend) io" where
  "ax7010_open_uio_on M hwrev =
     bind_io (zynq_uio_open_on M (Some ''zynq7010_ax7010'') hwrev) (\<lambda>T.
     zynq_backend_init ax7010_types (uio_transport M T))"

section \<open>The adapter implements the contract\<close>

text \<open>An object some run of the constructor returned.\<close>

definition zb_built :: "'m zynq_backend \<Rightarrow> bool" where
  "zb_built b \<longleftrightarrow>
     (\<exists>expected s s'. zynq_backend_init expected (zb_transport b) s = (Inr b, s'))"

lemma zynq_backend_init_Inr:
  "zynq_backend_init expected T s = (Inr b, s') \<Longrightarrow>
     zb_transport b = T \<and> validate_contract (zb_identity b) = Inr ()
     \<and> (expected = {} \<or> backend_type (zb_identity b) \<in> expected)"
  by (auto simp: zynq_backend_init_def io_results split: option.splits)

lemma zb_built_contract: "zb_built b \<Longrightarrow> validate_contract (zb_identity b) = Inr ()"
  by (auto simp: zb_built_def dest!: zynq_backend_init_Inr)

lemma zb_call_unsupported:
  "cap \<notin> capabilities (zb_identity b) \<Longrightarrow> zb_call b cap h s = (Inl (UnsupportedCapability cap), s)"
  by (simp add: zb_call_def io_simps require_cap_def supports_def)

lemma zb_call_errors:
  assumes "zb_call b cap h s = (Inl e, s')"
  shows "e = InvalidConfiguration \<or> e = InfrastructureError
     \<or> e = UnsupportedCapability cap \<and> cap \<notin> capabilities (zb_identity b)"
  using assms
  by (auto simp: zb_call_def io_results split: option.splits if_splits)

lemma zb_call_value:
  assumes "zb_call b cap h s = (Inr v, s')"
  shows "cap \<in> capabilities (zb_identity b) \<and> (\<exists>f. h = Some f \<and> f s = (Inr v, s'))"
  using assms
  by (auto simp: zb_call_def io_results split: option.splits if_splits)

lemma zb_call_hil_error: "zb_call b cap h s = (Inl e, s') \<Longrightarrow> is_hil_error e"
  using zb_call_errors [of b cap h s e s'] by auto

interpretation zynq: hil_backend zb_built zb_identity zb_force_safe zb_read_timestamp zb_read_pwm
  zb_configure_abz zb_start_abz zb_stop_abz zb_schedule_dio
proof (unfold_locales, goal_cases)
  case (1 b)
  then show ?case by (rule zb_built_contract)
next
  case (2 b ch s)
  then show ?case by (simp add: zb_read_pwm_def bind_io_apply zb_call_unsupported)
next
  case (3 b cfg s)
  then show ?case by (simp add: zb_configure_abz_def zb_call_unsupported)
next
  case (4 b s)
  then show ?case by (simp add: zb_start_abz_def zb_call_unsupported)
next
  case (5 b s)
  then show ?case by (simp add: zb_stop_abz_def zb_call_unsupported)
next
  case (6 b ev s)
  then show ?case by (simp add: zb_schedule_dio_def zb_call_unsupported)
next
  case (7 b a s e s')
  from 7(2) show ?case unfolding zb_force_safe_def by (rule zb_call_hil_error)
next
  case (8 b s e s')
  from 8(2) show ?case unfolding zb_start_abz_def by (rule zb_call_hil_error)
next
  case (9 b s e s')
  from 9(2) show ?case unfolding zb_stop_abz_def by (rule zb_call_hil_error)
next
  case (10 b s t s')
  then show ?case
    by (auto simp: zb_read_timestamp_def io_results split: option.splits)
qed

lemma zb_call_raised:
  assumes "zb_call b cap handler s = (Inl e, s')"
  shows "if cap \<notin> capabilities (zb_identity b) then e = UnsupportedCapability cap \<and> s' = s
        else case handler of
          None \<Rightarrow> e = InfrastructureError \<and> s' = s
        | Some h \<Rightarrow> \<exists>e'. h s = (Inl e', s')
            \<and> e = (if e' = InvalidConfiguration then InvalidConfiguration else InfrastructureError)"
  using assms by (auto simp: zb_call_def io_results split: option.splits if_splits)

section \<open>Properties\<close>

text \<open>Whatever the transport object does, a backend call either returns what the handler
  returned, or raises an error of the contract: \<open>UnsupportedCapability\<close> exactly when the
  capability is not in the identity (then the transport was not touched), otherwise
  \<open>InvalidConfiguration\<close> when the handler raised that, or \<open>InfrastructureError\<close> for a missing
  handler and for every other exception.\<close>

theorem zynq_call_outcomes:
  "case zb_call b cap handler s of
     (Inr v, s') \<Rightarrow> cap \<in> capabilities (zb_identity b)
        \<and> (\<exists>h. handler = Some h \<and> h s = (Inr v, s'))
   | (Inl e, s') \<Rightarrow>
        if cap \<notin> capabilities (zb_identity b) then e = UnsupportedCapability cap \<and> s' = s
        else case handler of
          None \<Rightarrow> e = InfrastructureError \<and> s' = s
        | Some h \<Rightarrow> \<exists>e'. h s = (Inl e', s')
            \<and> e = (if e' = InvalidConfiguration then InvalidConfiguration else InfrastructureError)"
proof (cases "zb_call b cap handler s")
  case (Pair r s')
  then show ?thesis
    using zb_call_raised [of b cap handler s _ s'] zb_call_value [of b cap handler s _ s']
    by (cases r) simp_all
qed

text \<open>The capability word of a page, and the two that the contract requires.\<close>

definition page_meets_contract :: "uio_mmio \<Rightarrow> bool" where
  "page_meets_contract m \<longleftrightarrow>
     {TIMEBASE, FORCE_SAFE} \<subseteq> decode_capabilities (uio_reg m REG_CAPABILITIES)"

lemma zynq_init_uio:
  "zynq_backend_init types (uio_transport M T) s =
    ((if types \<noteq> {} \<and> backend_type (zu_identity T) \<notin> types then Inl InvalidConfiguration
      else if \<not> {TIMEBASE, FORCE_SAFE} \<subseteq> capabilities (zu_identity T) then Inl InvalidConfiguration
      else Inr \<lparr>zb_transport = uio_transport M T, zb_identity = zu_identity T\<rparr>), s)"
  by (auto simp: zynq_backend_init_def uio_transport_def some_io_def zu_read_identity_def io_simps
      validate_contract_def missing_capabilities_def REQUIRED_BACKEND_CAPABILITIES_def)

lemma uio_open_passed:
  assumes "uio_ok m" "uio_reg m REG_MAGIC = MAGIC" "uio_reg m REG_ABI_VERSION div 2 ^ 16 = 1"
    "BACKEND_TYPES (uio_reg m REG_BACKEND_ID) = Some t" "0 < uio_reg m REG_TICK_HZ"
    "uio_reg m REG_COUNTER_BITS = 64"
  obtains T where "zynq_uio_open_on uio_ops (Some t) hwrev m = (Inr T, m)"
    "backend_type (zu_identity T) = t"
    "capabilities (zu_identity T) = decode_capabilities (uio_reg m REG_CAPABILITIES)"
  using assms
  by (auto simp: zynq_uio_open_on_def catch_io_apply uio.handshake [OF assms(1)] drop_bit_eq_div)

text \<open>C7: On a page whose handshake passes for the board, \<open>Axu2cgbBackend.open_uio\<close> returns a backend
  whose identity meets the contract when the hardware reports TIMEBASE and FORCE_SAFE. When it
  does not, the call raises InvalidConfiguration but the mapping and its descriptor stay open:
  nothing closes the transport that had already been opened.\<close>

theorem open_uio_contract:
  assumes "uio_ok m" "uio_reg m REG_MAGIC = MAGIC" "uio_reg m REG_ABI_VERSION div 2 ^ 16 = 1"
    "uio_reg m REG_BACKEND_ID = BACKEND_ID_AXU2CGB" "0 < uio_reg m REG_TICK_HZ"
    "uio_reg m REG_COUNTER_BITS = 64"
  shows "if page_meets_contract m
    then \<exists>b. axu2cgb_open_uio_on uio_ops hwrev m = (Inr b, m) \<and> zb_built b
       \<and> backend_type (zb_identity b) = ''zu2cg_axu2cgb''
       \<and> validate_contract (zb_identity b) = Inr ()
    else axu2cgb_open_uio_on uio_ops hwrev m = (Inl InvalidConfiguration, m)"
proof -
  have bt: "BACKEND_TYPES (uio_reg m REG_BACKEND_ID) = Some ''zu2cg_axu2cgb''"
    using assms(4) by (simp add: BACKEND_TYPES_def)
  obtain T where T: "zynq_uio_open_on uio_ops (Some ''zu2cg_axu2cgb'') hwrev m = (Inr T, m)"
    "backend_type (zu_identity T) = ''zu2cg_axu2cgb''"
    "capabilities (zu_identity T) = decode_capabilities (uio_reg m REG_CAPABILITIES)"
    by (rule uio_open_passed [OF assms(1-3) bt assms(5,6)])
  let ?b = "\<lparr>zb_transport = uio_transport uio_ops T, zb_identity = zu_identity T\<rparr>"
  have r: "axu2cgb_open_uio_on uio_ops hwrev m =
      ((if page_meets_contract m then Inr ?b else Inl InvalidConfiguration), m)"
    using T by (simp add: axu2cgb_open_uio_on_def bind_io_apply zynq_init_uio axu2cgb_types_def
        page_meets_contract_def)
  show ?thesis
  proof (cases "page_meets_contract m")
    case True
    with r have "zynq_backend_init axu2cgb_types (uio_transport uio_ops T) m = (Inr ?b, m)"
      using T by (simp add: axu2cgb_open_uio_on_def bind_io_apply)
    then have "zb_built ?b" unfolding zb_built_def
      by (intro exI [of _ axu2cgb_types] exI [of _ m]) simp
    with True r T zb_built_contract [OF this] show ?thesis by simp
  qed (simp add: r)
qed

text \<open>A page of an AXU2CGB bitstream that reports the capability word \<open>caps\<close>.\<close>

definition axu2cgb_page :: "int \<Rightarrow> uio_mmio" where
  "axu2cgb_page caps =
     uio_put (uio_put (uio_put (uio_put (uio_put (uio_put blank_page REG_MAGIC MAGIC)
       REG_ABI_VERSION ABI_VERSION) REG_BACKEND_ID BACKEND_ID_AXU2CGB) REG_TICK_HZ 100000000)
       REG_COUNTER_BITS 64) REG_CAPABILITIES caps"

lemma axu2cgb_page_regs:
  "uio_ok (axu2cgb_page caps)" "uio_reg (axu2cgb_page caps) REG_MAGIC = MAGIC"
  "uio_reg (axu2cgb_page caps) REG_ABI_VERSION = ABI_VERSION"
  "uio_reg (axu2cgb_page caps) REG_BACKEND_ID = BACKEND_ID_AXU2CGB"
  "uio_reg (axu2cgb_page caps) REG_TICK_HZ = 100000000"
  "uio_reg (axu2cgb_page caps) REG_COUNTER_BITS = 64"
  "uio_reg (axu2cgb_page caps) REG_CAPABILITIES = caps mod 2 ^ 32"
  by (simp_all add: axu2cgb_page_def uio.reg_put uio.ok_put blank_page_ok in_window_def)

lemma open_uio_contract_witness:
  "axu2cgb_open_uio_on uio_ops [] (axu2cgb_page 1) = (Inl InvalidConfiguration, axu2cgb_page 1)
   \<and> (\<exists>b. axu2cgb_open_uio_on uio_ops [] (axu2cgb_page 3) = (Inr b, axu2cgb_page 3) \<and> zb_built b)"
proof -
  have "\<not> page_meets_contract (axu2cgb_page 1)" "page_meets_contract (axu2cgb_page 3)"
    by (simp_all add: page_meets_contract_def axu2cgb_page_regs decode_capabilities_iff)
  with open_uio_contract [OF axu2cgb_page_regs(1,2), of 1 "[]"]
    open_uio_contract [OF axu2cgb_page_regs(1,2), of 3 "[]"]
  show ?thesis by (auto simp: axu2cgb_page_regs)
qed

lemma zb_safe_uio:
  assumes "uio_ok m" and b: "zb_built b" "zb_transport b = uio_transport uio_ops T"
  shows "zb_force_safe b True m = (Inr (), uio_put m REG_CONTROL (uio_reg m REG_CONTROL OR CTRL_FORCE_SAFE))"
    and "bit (uio_reg (uio_put m REG_CONTROL (uio_reg m REG_CONTROL OR CTRL_FORCE_SAFE)) REG_CONTROL) 1"
    and "uio_ok (uio_put m REG_CONTROL (uio_reg m REG_CONTROL OR CTRL_FORCE_SAFE))"
proof -
  have "FORCE_SAFE \<in> capabilities (zb_identity b)"
    by (rule zynq.always_has_safe_state [OF b(1)])
  then show "zb_force_safe b True m = (Inr (), uio_put m REG_CONTROL (uio_reg m REG_CONTROL OR CTRL_FORCE_SAFE))"
    using assms(1) b(2) by (simp add: zb_force_safe_def zb_call_def uio_transport_def io_simps
        require_cap_def supports_def uio.force_safe_regs)
  show "bit (uio_reg (uio_put m REG_CONTROL (uio_reg m REG_CONTROL OR CTRL_FORCE_SAFE)) REG_CONTROL) 1"
    using assms(1) by (simp add: uio.reg_put in_window_def ctl_bits bit_mod_u32 [simplified])
  show "uio_ok (uio_put m REG_CONTROL (uio_reg m REG_CONTROL OR CTRL_FORCE_SAFE))"
    using assms(1) by (simp add: uio.ok_put in_window_def)
qed

text \<open>The clean-up pattern of the bench on a backend over a mapped page: run any body that
  leaves the page mapped, then in a finally clause assert the safe state. FORCE_SAFE is set at
  the end whether the body returned or raised, the clean-up itself cannot fail, and what comes
  out is the body's own value or exception.\<close>

theorem cleanup_reaches_safe_state:
  assumes "uio_ok m" and body: "keeps uio_ok body"
    and b: "zb_built b" "zb_transport b = uio_transport uio_ops T"
  shows "\<exists>m'. finally_io body (zb_force_safe b True) m = (fst (body m), m')
     \<and> uio_ok m' \<and> bit (uio_reg m' REG_CONTROL) 1
     \<and> (\<forall>off. in_window off \<and> off \<noteq> REG_CONTROL \<longrightarrow> uio_reg m' off = uio_reg (snd (body m)) off)"
proof -
  obtain r m1 where run: "body m = (r, m1)" by fastforce
  then have m1: "uio_ok m1" using body assms(1) by (rule_tac keepsD)
  show ?thesis
    using m1 run zb_safe_uio [OF m1 b]
    by (auto simp: finally_io_apply uio.reg_put in_window_def)
qed

definition bench_backend :: "uio_mmio zynq_backend" where
  "bench_backend =
     (let T = bench_uio\<lparr>zu_identity := (zu_identity bench_uio)\<lparr>capabilities := {TIMEBASE, FORCE_SAFE}\<rparr>\<rparr>
      in \<lparr>zb_transport = uio_transport uio_ops T, zb_identity = zu_identity T\<rparr>)"

lemma bench_backend_built:
  "zb_built bench_backend"
  "zb_transport bench_backend = uio_transport uio_ops
     (bench_uio\<lparr>zu_identity := (zu_identity bench_uio)\<lparr>capabilities := {TIMEBASE, FORCE_SAFE}\<rparr>\<rparr>)"
proof -
  show "zb_transport bench_backend = uio_transport uio_ops
     (bench_uio\<lparr>zu_identity := (zu_identity bench_uio)\<lparr>capabilities := {TIMEBASE, FORCE_SAFE}\<rparr>\<rparr>)"
    by (simp add: bench_backend_def Let_def)
  have "zynq_backend_init {} (zb_transport bench_backend) blank_page = (Inr bench_backend, blank_page)"
    by (simp add: bench_backend_def Let_def zynq_init_uio)
  then show "zb_built bench_backend" unfolding zb_built_def by blast
qed

lemma cleanup_reaches_safe_state_witness:
  "\<exists>m'. finally_io (zu_start_abz uio_ops) (zb_force_safe bench_backend True) blank_page
      = (fst (zu_start_abz uio_ops blank_page), m')
     \<and> bit (uio_reg m' REG_CONTROL) 1"
proof -
  have "keeps uio_ok (zu_start_abz uio_ops)"
    by (rule keepsI) (auto elim: uio.port.start_abz_port)
  from cleanup_reaches_safe_state [OF blank_page_ok this bench_backend_built] show ?thesis by blast
qed

end
