(* ===== verification/Pru_Protocol.thy ===== *)
theory Pru_Protocol
  imports Hil_Core
begin

text \<open>
  \<open>boards/beaglebone_black/host/hil_pru_protocol.py\<close> and the client of \<open>hil_pru_cli.py\<close>: the
  32-byte RPMsg message \<open>struct.Struct("<IHHIIIIII")\<close> and its codec, the validation of a
  response, and \<open>HilPru.request\<close> over the kernel's character device, which is a record of
  system calls on a world \<open>'w\<close>. The interface \<open>pru_rpc\<close> is what the BeagleBone backend relies
  on: a response belongs to the request. \<open>HilPru\<close> provides it.
\<close>

section \<open>Constants\<close>

abbreviation (input) PRU_MAGIC :: int where "PRU_MAGIC \<equiv> 0x304C4948"
abbreviation (input) PROTOCOL_VERSION :: int where "PROTOCOL_VERSION \<equiv> 1"
abbreviation (input) FIRMWARE_VERSION :: int where "FIRMWARE_VERSION \<equiv> 0x00010000"
abbreviation (input) B1_FIRMWARE_VERSION :: int where "B1_FIRMWARE_VERSION \<equiv> 0x00020000"
abbreviation (input) B1_RAW_FIRMWARE_VERSION :: int where "B1_RAW_FIRMWARE_VERSION \<equiv> 0x00020200"
abbreviation (input) B2_FIRMWARE_VERSION :: int where "B2_FIRMWARE_VERSION \<equiv> 0x00031000"
abbreviation (input) B2_SERIAL_FIRMWARE_VERSION :: int where "B2_SERIAL_FIRMWARE_VERSION \<equiv> 0x00032000"
abbreviation (input) CAP_TIMEBASE :: int where "CAP_TIMEBASE \<equiv> push_bit 0 1"
abbreviation (input) CAP_RPMSG :: int where "CAP_RPMSG \<equiv> push_bit 1 1"
abbreviation (input) CAP_GPIO_LOOPBACK :: int where "CAP_GPIO_LOOPBACK \<equiv> push_bit 2 1"
abbreviation (input) CAP_FORCE_SAFE :: int where "CAP_FORCE_SAFE \<equiv> push_bit 3 1"
abbreviation (input) CAP_WATCHDOG :: int where "CAP_WATCHDOG \<equiv> push_bit 4 1"
abbreviation (input) CAP_PWM_CAPTURE :: int where "CAP_PWM_CAPTURE \<equiv> push_bit 5 1"
abbreviation (input) CAP_PWM_COMPLEMENTARY_MONITOR :: int where "CAP_PWM_COMPLEMENTARY_MONITOR \<equiv> push_bit 6 1"
abbreviation (input) CAP_SHARED_SNAPSHOT :: int where "CAP_SHARED_SNAPSHOT \<equiv> push_bit 7 1"
abbreviation (input) CAP_RAW_EDGE_CAPTURE :: int where "CAP_RAW_EDGE_CAPTURE \<equiv> push_bit 8 1"
abbreviation (input) CAP_STIMULUS_ENGINE :: int where "CAP_STIMULUS_ENGINE \<equiv> push_bit 9 1"
abbreviation (input) CAP_ABZ_EMULATOR :: int where "CAP_ABZ_EMULATOR \<equiv> push_bit 10 1"
abbreviation (input) CAP_SCHEDULED_GPIO :: int where "CAP_SCHEDULED_GPIO \<equiv> push_bit 11 1"
abbreviation (input) CAP_HALL_EMULATOR :: int where "CAP_HALL_EMULATOR \<equiv> push_bit 12 1"
abbreviation (input) CAP_SSI_EMULATOR :: int where "CAP_SSI_EMULATOR \<equiv> push_bit 13 1"
abbreviation (input) CAP_BISS_EMULATOR :: int where "CAP_BISS_EMULATOR \<equiv> push_bit 14 1"
abbreviation (input) CAP_SPI_SENSOR_EMULATOR :: int where "CAP_SPI_SENSOR_EMULATOR \<equiv> push_bit 15 1"
abbreviation (input) CAP_SCHEDULED_APPLY :: int where "CAP_SCHEDULED_APPLY \<equiv> push_bit 16 1"
abbreviation (input) MSG_HELLO :: int where "MSG_HELLO \<equiv> 1"
abbreviation (input) MSG_TIME :: int where "MSG_TIME \<equiv> 2"
abbreviation (input) MSG_GPIO_LOOPBACK :: int where "MSG_GPIO_LOOPBACK \<equiv> 3"
abbreviation (input) MSG_FORCE_SAFE :: int where "MSG_FORCE_SAFE \<equiv> 4"
abbreviation (input) MSG_PING :: int where "MSG_PING \<equiv> 5"
abbreviation (input) MSG_CAPTURE_CONFIG :: int where "MSG_CAPTURE_CONFIG \<equiv> 6"
abbreviation (input) MSG_CAPTURE_START :: int where "MSG_CAPTURE_START \<equiv> 7"
abbreviation (input) MSG_CAPTURE_STOP :: int where "MSG_CAPTURE_STOP \<equiv> 8"
abbreviation (input) MSG_CAPTURE_CLEAR :: int where "MSG_CAPTURE_CLEAR \<equiv> 9"
abbreviation (input) MSG_CAPTURE_STATUS :: int where "MSG_CAPTURE_STATUS \<equiv> 10"
abbreviation (input) MSG_RAW_CONFIG :: int where "MSG_RAW_CONFIG \<equiv> 11"
abbreviation (input) MSG_RAW_START :: int where "MSG_RAW_START \<equiv> 12"
abbreviation (input) MSG_RAW_STOP :: int where "MSG_RAW_STOP \<equiv> 13"
abbreviation (input) MSG_RAW_CLEAR :: int where "MSG_RAW_CLEAR \<equiv> 14"
abbreviation (input) MSG_RAW_STATUS :: int where "MSG_RAW_STATUS \<equiv> 15"
abbreviation (input) MSG_ABZ_CONFIG :: int where "MSG_ABZ_CONFIG \<equiv> 16"
abbreviation (input) MSG_ABZ_START :: int where "MSG_ABZ_START \<equiv> 17"
abbreviation (input) MSG_ABZ_STOP :: int where "MSG_ABZ_STOP \<equiv> 18"
abbreviation (input) MSG_ABZ_STATUS :: int where "MSG_ABZ_STATUS \<equiv> 19"
abbreviation (input) MSG_ABZ_DIRECTION :: int where "MSG_ABZ_DIRECTION \<equiv> 20"
abbreviation (input) MSG_ABZ_ARM :: int where "MSG_ABZ_ARM \<equiv> 21"
abbreviation (input) MSG_ABZ_SCHEDULE :: int where "MSG_ABZ_SCHEDULE \<equiv> 22"
abbreviation (input) MSG_HALL_CONFIG :: int where "MSG_HALL_CONFIG \<equiv> 23"
abbreviation (input) MSG_HALL_START :: int where "MSG_HALL_START \<equiv> 24"
abbreviation (input) MSG_HALL_STOP :: int where "MSG_HALL_STOP \<equiv> 25"
abbreviation (input) MSG_HALL_STATUS :: int where "MSG_HALL_STATUS \<equiv> 26"
abbreviation (input) MSG_SERIAL_CONFIG :: int where "MSG_SERIAL_CONFIG \<equiv> 27"
abbreviation (input) MSG_SERIAL_DATA :: int where "MSG_SERIAL_DATA \<equiv> 28"
abbreviation (input) MSG_SERIAL_START :: int where "MSG_SERIAL_START \<equiv> 29"
abbreviation (input) MSG_SERIAL_STOP :: int where "MSG_SERIAL_STOP \<equiv> 30"
abbreviation (input) MSG_SERIAL_STATUS :: int where "MSG_SERIAL_STATUS \<equiv> 31"
abbreviation (input) MSG_STIM_STATUS :: int where "MSG_STIM_STATUS \<equiv> 32"
abbreviation (input) MSG_RESPONSE_BIT :: int where "MSG_RESPONSE_BIT \<equiv> 0x8000"
abbreviation (input) ERR_BAD_LENGTH :: int where "ERR_BAD_LENGTH \<equiv> push_bit 0 1"
abbreviation (input) ERR_BAD_MAGIC :: int where "ERR_BAD_MAGIC \<equiv> push_bit 1 1"
abbreviation (input) ERR_BAD_VERSION :: int where "ERR_BAD_VERSION \<equiv> push_bit 2 1"
abbreviation (input) ERR_BAD_COMMAND :: int where "ERR_BAD_COMMAND \<equiv> push_bit 3 1"
abbreviation (input) ERR_INVALID_ARGUMENT :: int where "ERR_INVALID_ARGUMENT \<equiv> push_bit 4 1"
abbreviation (input) ERR_LOOPBACK_NO_RISE :: int where "ERR_LOOPBACK_NO_RISE \<equiv> push_bit 5 1"
abbreviation (input) ERR_LOOPBACK_NO_FALL :: int where "ERR_LOOPBACK_NO_FALL \<equiv> push_bit 6 1"
abbreviation (input) ERR_CAPTURE_RUNNING :: int where "ERR_CAPTURE_RUNNING \<equiv> push_bit 7 1"
abbreviation (input) ERR_SCHEDULE_BUSY :: int where "ERR_SCHEDULE_BUSY \<equiv> push_bit 8 1"
abbreviation (input) ERR_UNSUPPORTED_MODE :: int where "ERR_UNSUPPORTED_MODE \<equiv> push_bit 9 1"
abbreviation (input) ERR_NOT_ARMED :: int where "ERR_NOT_ARMED \<equiv> push_bit 10 1"

section \<open>Messages\<close>

record message =
  m_type :: int
  m_seq :: int
  m_flags :: int
  m_arg0 :: int
  m_arg1 :: int
  m_arg2 :: int
  m_arg3 :: int
  m_magic :: int
  m_version :: int

text \<open>The widths of \<open>WIRE\<close> in order, and a message's values under them.\<close>

definition WIRE :: "nat list" where
  "WIRE = [4, 2, 2, 4, 4, 4, 4, 4, 4]"

definition msg_values :: "message \<Rightarrow> int list" where
  "msg_values m = [m_magic m, m_version m, m_type m, m_seq m, m_flags m,
                   m_arg0 m, m_arg1 m, m_arg2 m, m_arg3 m]"

definition msg_pack :: "message \<Rightarrow> exn + byte list" where
  "msg_pack m = pack_fields (zip WIRE (msg_values m))"

fun msg_of_values :: "int list \<Rightarrow> message option" where
  "msg_of_values [magic, version, typ, sq, flags, a0, a1, a2, a3] =
     Some \<lparr>m_type = typ, m_seq = sq, m_flags = flags, m_arg0 = a0, m_arg1 = a1, m_arg2 = a2,
           m_arg3 = a3, m_magic = magic, m_version = version\<rparr>"
| "msg_of_values _ = None"

definition msg_unpack :: "byte list \<Rightarrow> exn + message" where
  "msg_unpack payload =
     (if length payload \<noteq> sum_list WIRE then Inl ValueError
      else case msg_of_values (unpack_fields WIRE payload) of
             None \<Rightarrow> Inl StructError | Some m \<Rightarrow> Inr m)"

definition validate_response :: "int \<Rightarrow> int \<Rightarrow> message \<Rightarrow> exn + unit" where
  "validate_response request_type request_seq m =
     (if m_magic m \<noteq> PRU_MAGIC then Inl RuntimeError
      else if m_version m \<noteq> PROTOCOL_VERSION then Inl RuntimeError
      else if m_type m \<noteq> (request_type OR MSG_RESPONSE_BIT) then Inl RuntimeError
      else if m_seq m \<noteq> request_seq then Inl RuntimeError
      else Inr ())"

text \<open>The value space of the wire.\<close>

definition msg_fits :: "message \<Rightarrow> bool" where
  "msg_fits m \<longleftrightarrow> (\<forall>v \<in> set [m_magic m, m_seq m, m_flags m, m_arg0 m, m_arg1 m, m_arg2 m, m_arg3 m].
                     0 \<le> v \<and> v < 2 ^ 32)
     \<and> (\<forall>v \<in> set [m_version m, m_type m]. 0 \<le> v \<and> v < 2 ^ 16)"

lemma WIRE_size: "sum_list WIRE = 32"
  by (simp add: WIRE_def)

lemma msg_fits_fields: "fields_fit (zip WIRE (msg_values m)) \<longleftrightarrow> msg_fits m"
  by (auto simp: WIRE_def msg_values_def msg_fits_def)

lemma msg_of_values_values [simp]: "msg_of_values (msg_values m) = Some m"
  by (simp add: msg_values_def)

lemma msg_of_values_Some: "msg_of_values vs = Some m \<longleftrightarrow> vs = msg_values m"
  by (auto simp: msg_values_def elim: msg_of_values.elims)

lemma msg_values_inj [simp]: "msg_values m = msg_values m' \<longleftrightarrow> m = m'"
  by (metis msg_of_values_values option.inject)

lemma msg_of_nine: "length vs = 9 \<Longrightarrow> \<exists>m. vs = msg_values m"
proof -
  assume "length vs = 9"
  then obtain a b c d e f g h i where "vs = [a, b, c, d, e, f, g, h, i]"
    by (auto simp: eval_nat_numeral length_Suc_conv)
  then have "msg_of_values vs \<noteq> None" by simp
  then show ?thesis by (auto simp: msg_of_values_Some)
qed

lemma msg_pack_Inr: "(\<exists>bs. msg_pack m = Inr bs) \<longleftrightarrow> msg_fits m"
  by (auto simp: msg_pack_def pack_fields_Inr msg_fits_fields)

lemma msg_pack_Inl: "msg_pack m = Inl e \<longleftrightarrow> e = StructError \<and> \<not> msg_fits m"
  by (auto simp: msg_pack_def pack_fields_Inl msg_fits_fields)

lemma msg_pack_length: "msg_pack m = Inr bs \<Longrightarrow> length bs = 32"
  using pack_fields_length [of "zip WIRE (msg_values m)" bs]
  by (simp add: msg_pack_def WIRE_def msg_values_def)

text \<open>The codec is a bijection between the messages that fit and the 32-byte payloads.\<close>

lemma msg_unpack_pack: "msg_pack m = Inr bs \<Longrightarrow> msg_unpack bs = Inr m"
proof -
  assume p: "msg_pack m = Inr bs"
  have "unpack_fields (map fst (zip WIRE (msg_values m))) bs = map snd (zip WIRE (msg_values m))"
    by (rule unpack_pack_fields) (use p in \<open>simp add: msg_pack_def\<close>)
  then have "unpack_fields WIRE bs = msg_values m"
    by (simp add: WIRE_def msg_values_def)
  with msg_pack_length [OF p] show ?thesis
    by (simp add: msg_unpack_def WIRE_size msg_of_values_values)
qed

lemma msg_unpack_Inr:
  "msg_unpack bs = Inr m \<longleftrightarrow> length bs = 32 \<and> unpack_fields WIRE bs = msg_values m"
  by (auto simp: msg_unpack_def WIRE_size msg_of_values_Some split: option.splits)

lemma msg_unpack_Inl: "msg_unpack bs = Inl e \<longleftrightarrow> e = ValueError \<and> length bs \<noteq> 32"
proof -
  have "\<exists>m. unpack_fields WIRE bs = msg_values m"
    by (rule msg_of_nine) (simp add: WIRE_def)
  then show ?thesis
    by (auto simp: msg_unpack_def WIRE_size msg_of_values_values)
qed

lemma msg_pack_unpack: "msg_unpack bs = Inr m \<Longrightarrow> msg_pack m = Inr bs"
  using pack_unpack_fields [of bs WIRE]
  by (auto simp: msg_unpack_Inr WIRE_size msg_pack_def)

lemma msg_unpack_fits: "msg_unpack bs = Inr m \<Longrightarrow> msg_fits m"
  using msg_pack_unpack msg_pack_Inr by blast

lemma validate_response_Inr:
  "validate_response t q m = Inr () \<longleftrightarrow>
     m_magic m = PRU_MAGIC \<and> m_version m = PROTOCOL_VERSION
     \<and> m_type m = (t OR MSG_RESPONSE_BIT) \<and> m_seq m = q"
  by (auto simp: validate_response_def)

lemma validate_response_Inl:
  "validate_response t q m = Inl e \<longleftrightarrow>
     e = RuntimeError \<and> validate_response t q m \<noteq> Inr ()"
  by (auto simp: validate_response_def)

section \<open>The client \<open>HilPru\<close>\<close>

text \<open>
  The system calls on the RPMsg character device: \<open>os.write\<close>, \<open>poll\<close> (the event masks that
  are ready within the timeout, none when it expires), \<open>os.read\<close>, \<open>os.close\<close>.
\<close>

record 'w rpmsg_os =
  os_open_rdwr :: "string \<Rightarrow> ('w, int) io"
  os_write :: "int \<Rightarrow> byte list \<Rightarrow> ('w, int) io"
  os_poll :: "int \<Rightarrow> int \<Rightarrow> ('w, int list) io"
  os_read :: "int \<Rightarrow> nat \<Rightarrow> ('w, byte list) io"
  os_close_fd :: "int \<Rightarrow> ('w, unit) io"

record hil_pru =
  hp_timeout_ms :: int
  hp_fd :: int
  hp_seq :: int

abbreviation (input) POLLIN :: int where "POLLIN \<equiv> 1"
abbreviation (input) POLLERR :: int where "POLLERR \<equiv> 8"
abbreviation (input) POLLHUP :: int where "POLLHUP \<equiv> 16"

definition hil_pru_init :: "'w rpmsg_os \<Rightarrow> string \<Rightarrow> int \<Rightarrow> ('w, hil_pru) io" where
  "hil_pru_init D device timeout_ms =
     bind_io (os_open_rdwr D device) (\<lambda>fd.
     return_io \<lparr>hp_timeout_ms = timeout_ms, hp_fd = fd, hp_seq = 1\<rparr>)"

text \<open>A system call seen from a state that also holds the client object.\<close>

definition on_world :: "('w, 'a) io \<Rightarrow> ('w \<times> 'c, 'a) io" where
  "on_world m = (\<lambda>(w, c). case m w of (r, w') \<Rightarrow> (r, (w', c)))"

lemma on_world_results [io_results]:
  "on_world m (w, c) = (r, (w', c')) \<longleftrightarrow> m w = (r, w') \<and> c' = c"
  by (auto simp: on_world_def split: prod.splits)

text \<open>\<open>seq = self.seq; self.seq += 1\<close>\<close>

definition hp_next_seq :: "('w \<times> hil_pru, int) io" where
  "hp_next_seq = (\<lambda>(w, c). (Inr (hp_seq c), (w, c\<lparr>hp_seq := hp_seq c + 1\<rparr>)))"

definition hp_request_message :: "int \<Rightarrow> int \<Rightarrow> int \<Rightarrow> int \<Rightarrow> int \<Rightarrow> int \<Rightarrow> message" where
  "hp_request_message t sq a0 a1 a2 a3 =
     \<lparr>m_type = t, m_seq = sq, m_flags = 0, m_arg0 = a0, m_arg1 = a1, m_arg2 = a2, m_arg3 = a3,
      m_magic = PRU_MAGIC, m_version = PROTOCOL_VERSION\<rparr>"

definition hp_exchange :: "'w rpmsg_os \<Rightarrow> int \<Rightarrow> int \<Rightarrow> byte list \<Rightarrow> ('w, byte list) io" where
  "hp_exchange D fd timeout packet =
     bind_io (os_write D fd packet) (\<lambda>written.
     then_io (ensure_io (written = int (length packet)) RuntimeError) (
     bind_io (os_poll D fd timeout) (\<lambda>events.
     case events of
       [] \<Rightarrow> raise_io TimeoutError
     | ev # _ \<Rightarrow>
         then_io (ensure_io (ev AND (POLLERR OR POLLHUP) = 0) RuntimeError)
           (os_read D fd 512))))"

definition hp_request ::
    "'w rpmsg_os \<Rightarrow> int \<Rightarrow> int \<Rightarrow> int \<Rightarrow> int \<Rightarrow> int \<Rightarrow> ('w \<times> hil_pru, message) io" where
  "hp_request D t a0 a1 a2 a3 =
     bind_io hp_next_seq (\<lambda>sq.
     bind_io (lift_io (msg_pack (hp_request_message t sq a0 a1 a2 a3))) (\<lambda>packet.
     bind_io (\<lambda>(w, c). on_world (hp_exchange D (hp_fd c) (hp_timeout_ms c) packet) (w, c)) (\<lambda>payload.
     bind_io (lift_io (msg_unpack payload)) (\<lambda>response.
     then_io (lift_io (validate_response t sq response)) (
     return_io response)))))"

definition hp_close :: "'w rpmsg_os \<Rightarrow> ('w \<times> hil_pru, unit) io" where
  "hp_close D = (\<lambda>(w, c). on_world (os_close_fd D (hp_fd c)) (w, c))"

text \<open>\<open>discover_device\<close>: \<open>exists\<close> and the glob result are the file system's.\<close>

definition find_device :: "string list \<Rightarrow> (string \<Rightarrow> bool) \<Rightarrow> string list \<Rightarrow> string option" where
  "find_device fixed path_exists globbed = List.find path_exists (fixed @ sort globbed)"

definition discover_device :: "(string \<Rightarrow> bool) \<Rightarrow> string list \<Rightarrow> string option \<Rightarrow> exn + string" where
  "discover_device path_exists globbed explicit =
     (if explicit \<noteq> None \<and> explicit \<noteq> Some [] then Inr (the explicit)
      else case find_device [''/dev/rpmsg_pru30'', ''/dev/rpmsg-pru30''] path_exists globbed of
             Some c \<Rightarrow> Inr c | None \<Rightarrow> Inl FileNotFoundError)"

text \<open>\<open>CAP_NAMES\<close> and \<open>hello\<close>.\<close>

definition CAP_NAMES :: "(int \<times> string) list" where
  "CAP_NAMES =
     [(CAP_TIMEBASE, ''timebase''), (CAP_RPMSG, ''rpmsg''), (CAP_GPIO_LOOPBACK, ''gpio_loopback''),
      (CAP_FORCE_SAFE, ''force_safe''), (CAP_WATCHDOG, ''watchdog''),
      (CAP_PWM_CAPTURE, ''pwm_capture''),
      (CAP_PWM_COMPLEMENTARY_MONITOR, ''pwm_complementary_monitor''),
      (CAP_SHARED_SNAPSHOT, ''shared_snapshot''), (CAP_RAW_EDGE_CAPTURE, ''raw_edge_capture''),
      (CAP_STIMULUS_ENGINE, ''stimulus_engine''), (CAP_ABZ_EMULATOR, ''abz_emulator''),
      (CAP_SCHEDULED_GPIO, ''scheduled_gpio''), (CAP_HALL_EMULATOR, ''hall_emulator''),
      (CAP_SSI_EMULATOR, ''ssi_emulator''), (CAP_BISS_EMULATOR, ''biss_emulator''),
      (CAP_SPI_SENSOR_EMULATOR, ''spi_sensor_emulator''),
      (CAP_SCHEDULED_APPLY, ''scheduled_apply'')]"

record hello_report =
  hr_status :: int
  hr_capabilities_raw :: int
  hr_capabilities :: "string list"
  hr_tick_hz :: int
  hr_counter_bits :: int
  hr_firmware_version :: string

type_synonym 's rpc = "int \<Rightarrow> int \<Rightarrow> int \<Rightarrow> int \<Rightarrow> int \<Rightarrow> ('s, message) io"

definition hello :: "'s rpc \<Rightarrow> ('s, hello_report) io" where
  "hello request =
     bind_io (request MSG_HELLO 0 0 0 0) (\<lambda>r.
     return_io
       \<lparr>hr_status = m_flags r, hr_capabilities_raw = m_arg0 r,
        hr_capabilities = map snd (filter (\<lambda>(b, _). m_arg0 r AND b \<noteq> 0) CAP_NAMES),
        hr_tick_hz = m_arg1 r, hr_counter_bits = m_arg2 r,
        hr_firmware_version = ''0x'' @ hex08 (m_arg3 r)\<rparr>)"

section \<open>The interface of a PRU endpoint\<close>

text \<open>
  What a client of \<open>request\<close> may rely on: a response that is returned is a well-formed message
  of this protocol version that answers this request type.
\<close>

locale pru_rpc =
  fixes request :: "'s rpc"
  assumes response_ok: "request t a0 a1 a2 a3 s = (Inr r, s') \<Longrightarrow>
      msg_fits r \<and> m_magic r = PRU_MAGIC \<and> m_version r = PROTOCOL_VERSION
      \<and> m_type r = (t OR MSG_RESPONSE_BIT)"
begin

text \<open>The greeting: clock metadata and capabilities are 32-bit words.\<close>

lemma hello_ranges:
  assumes "hello request s = (Inr h, s')"
  shows "0 \<le> hr_tick_hz h \<and> hr_tick_hz h < 2 ^ 32 \<and> 0 \<le> hr_counter_bits h
    \<and> 0 \<le> hr_capabilities_raw h \<and> hr_capabilities_raw h < 2 ^ 32"
  using assms by (auto simp: hello_def io_results msg_fits_def dest!: response_ok)

lemma hello_capability:
  assumes "hello request s = (Inr h, s')" "(b, name) \<in> set CAP_NAMES"
  shows "name \<in> set (hr_capabilities h) \<longleftrightarrow> hr_capabilities_raw h AND b \<noteq> 0"
proof -
  have "distinct (map snd CAP_NAMES)" by (simp add: CAP_NAMES_def)
  then have inj: "inj_on snd (set CAP_NAMES)" by (simp add: distinct_map)
  have uniq: "b' = b" if "(b', name) \<in> set CAP_NAMES" for b'
    using inj_onD [OF inj _ that assms(2)] by simp
  have "hr_capabilities h =
      map snd (filter (\<lambda>(b, _). hr_capabilities_raw h AND b \<noteq> 0) CAP_NAMES)"
    using assms(1) by (auto simp: hello_def io_results)
  then have "name \<in> set (hr_capabilities h) \<longleftrightarrow>
      (\<exists>b'. (b', name) \<in> set CAP_NAMES \<and> hr_capabilities_raw h AND b' \<noteq> 0)"
    by (auto simp: image_iff)
  with uniq assms(2) show ?thesis by blast
qed

end

lemma hp_request_Inr:
  "hp_request D t a0 a1 a2 a3 (w, c) = (Inr r, (w', c')) \<longleftrightarrow>
     (\<exists>packet payload.
        msg_pack (hp_request_message t (hp_seq c) a0 a1 a2 a3) = Inr packet
        \<and> hp_exchange D (hp_fd c) (hp_timeout_ms c) packet w = (Inr payload, w')
        \<and> msg_unpack payload = Inr r \<and> validate_response t (hp_seq c) r = Inr ())
     \<and> c' = c\<lparr>hp_seq := hp_seq c + 1\<rparr>"
  by (auto simp: hp_request_def io_results hp_next_seq_def)

interpretation hilpru: pru_rpc "hp_request D"
proof (unfold_locales, goal_cases)
  case (1 t a0 a1 a2 a3 s r s')
  obtain w c w' c' where s: "s = (w, c)" "s' = (w', c')" by (cases s, cases s')
  from 1 show ?case
    unfolding s hp_request_Inr by (auto simp: validate_response_Inr dest: msg_unpack_fits)
qed

section \<open>A link to a firmware\<close>

text \<open>
  A concrete device to run the client on: a first-in first-out channel to a firmware \<open>fw\<close> that
  answers every well-formed request once. For each request the head of \<open>rl_slow\<close> says whether
  the answer arrives only after the client's poll has timed out.
\<close>

record rpmsg_link =
  rl_inbox :: "byte list list"
  rl_late :: "byte list list"
  rl_slow :: "bool list"

definition link_write :: "(message \<Rightarrow> message) \<Rightarrow> int \<Rightarrow> byte list \<Rightarrow> (rpmsg_link, int) io" where
  "link_write fw fd bs = (\<lambda>w.
     (Inr (int (length bs)),
      case msg_unpack bs of Inl _ \<Rightarrow> w
      | Inr m \<Rightarrow> (case msg_pack (fw m) of Inl _ \<Rightarrow> w
        | Inr reply \<Rightarrow>
            if rl_slow w \<noteq> [] \<and> hd (rl_slow w)
            then w\<lparr>rl_late := rl_late w @ [reply], rl_slow := tl (rl_slow w)\<rparr>
            else w\<lparr>rl_inbox := rl_inbox w @ [reply], rl_slow := tl (rl_slow w)\<rparr>)))"

definition link_poll :: "int \<Rightarrow> int \<Rightarrow> (rpmsg_link, int list) io" where
  "link_poll fd timeout = (\<lambda>w.
     if rl_inbox w = [] then (Inr [], w\<lparr>rl_inbox := rl_late w, rl_late := []\<rparr>)
     else (Inr [POLLIN], w))"

definition link_read :: "int \<Rightarrow> nat \<Rightarrow> (rpmsg_link, byte list) io" where
  "link_read fd n = (\<lambda>w.
     case rl_inbox w of [] \<Rightarrow> (Inl BlockingIOError, w)
     | p # ps \<Rightarrow> (Inr (take n p), w\<lparr>rl_inbox := ps\<rparr>))"

definition link_os :: "(message \<Rightarrow> message) \<Rightarrow> rpmsg_link rpmsg_os" where
  "link_os fw = \<lparr>os_open_rdwr = \<lambda>_. return_io 5, os_write = link_write fw, os_poll = link_poll,
     os_read = link_read, os_close_fd = \<lambda>_. return_io ()\<rparr>"

definition answers :: "(message \<Rightarrow> message) \<Rightarrow> bool" where
  "answers fw \<longleftrightarrow> (\<forall>m. msg_fits m \<longrightarrow>
     msg_fits (fw m) \<and> validate_response (m_type m) (m_seq m) (fw m) = Inr ())"

lemma link_exchange:
  assumes "msg_pack m = Inr packet" "msg_pack (fw m) = Inr reply"
  shows "rl_inbox w = [] \<Longrightarrow> rl_slow w = False # bs \<Longrightarrow>
      hp_exchange (link_os fw) fd tmo packet w = (Inr reply, w\<lparr>rl_slow := bs\<rparr>)"
    and "rl_inbox w = [] \<Longrightarrow> rl_late w = [] \<Longrightarrow> rl_slow w = True # bs \<Longrightarrow>
      hp_exchange (link_os fw) fd tmo packet w = (Inl TimeoutError, w\<lparr>rl_inbox := [reply], rl_slow := bs\<rparr>)"
    and "rl_inbox w = [old] \<Longrightarrow> length old \<le> 512 \<Longrightarrow> rl_slow w = False # bs \<Longrightarrow>
      hp_exchange (link_os fw) fd tmo packet w = (Inr old, w\<lparr>rl_inbox := [reply], rl_slow := bs\<rparr>)"
  using assms msg_pack_length [OF assms(2)] msg_unpack_pack [OF assms(1)]
  by (simp_all add: hp_exchange_def link_os_def link_write_def link_poll_def link_read_def io_simps)

lemma hp_request_run:
  assumes "msg_pack (hp_request_message t (hp_seq c) a0 a1 a2 a3) = Inr packet"
    "hp_exchange D (hp_fd c) (hp_timeout_ms c) packet w = (r, w')"
  shows "hp_request D t a0 a1 a2 a3 (w, c) =
    ((case r of Inl e \<Rightarrow> Inl e
      | Inr payload \<Rightarrow> (case msg_unpack payload of Inl e \<Rightarrow> Inl e
        | Inr m \<Rightarrow> (case validate_response t (hp_seq c) m of Inl e \<Rightarrow> Inl e | Inr _ \<Rightarrow> Inr m))),
     (w', c\<lparr>hp_seq := hp_seq c + 1\<rparr>))"
  using assms
  by (simp add: hp_request_def io_simps hp_next_seq_def on_world_def split: sum.splits)

text \<open>A request and the reply of an answering firmware, on the wire.\<close>

lemma answers_wire:
  assumes "answers fw" "msg_fits (hp_request_message t q a0 a1 a2 a3)"
  obtains packet reply where
    "msg_pack (hp_request_message t q a0 a1 a2 a3) = Inr packet"
    "msg_pack (fw (hp_request_message t q a0 a1 a2 a3)) = Inr reply"
    "msg_unpack reply = Inr (fw (hp_request_message t q a0 a1 a2 a3))"
    "validate_response t q (fw (hp_request_message t q a0 a1 a2 a3)) = Inr ()"
proof -
  let ?m = "hp_request_message t q a0 a1 a2 a3"
  from assms have "msg_fits (fw ?m)" "validate_response t q (fw ?m) = Inr ()"
    unfolding answers_def by (force simp: hp_request_message_def)+
  with assms(2) that show thesis
    using msg_pack_Inr [of ?m] msg_pack_Inr [of "fw ?m"] msg_unpack_pack by metis
qed

lemma request_on_time:
  assumes "answers fw" "msg_fits (hp_request_message t (hp_seq c) a0 a1 a2 a3)"
    "rl_inbox w = []" "rl_slow w = False # bs"
  shows "hp_request (link_os fw) t a0 a1 a2 a3 (w, c) =
    (Inr (fw (hp_request_message t (hp_seq c) a0 a1 a2 a3)),
     (w\<lparr>rl_slow := bs\<rparr>, c\<lparr>hp_seq := hp_seq c + 1\<rparr>))"
proof -
  obtain packet reply where pr:
    "msg_pack (hp_request_message t (hp_seq c) a0 a1 a2 a3) = Inr packet"
    "msg_pack (fw (hp_request_message t (hp_seq c) a0 a1 a2 a3)) = Inr reply"
    "msg_unpack reply = Inr (fw (hp_request_message t (hp_seq c) a0 a1 a2 a3))"
    "validate_response t (hp_seq c) (fw (hp_request_message t (hp_seq c) a0 a1 a2 a3)) = Inr ()"
    by (rule answers_wire [OF assms(1,2)])
  then show ?thesis
    by (simp add: hp_request_run [OF pr(1) link_exchange(1) [where fw = fw, OF pr(1,2) assms(3,4)]])
qed

text \<open>\<open>stale\<close>: exactly one answer to an earlier request is waiting in the channel.\<close>

definition stale :: "rpmsg_link \<times> hil_pru \<Rightarrow> bool" where
  "stale s \<longleftrightarrow> (\<exists>old m. rl_inbox (fst s) = [old] \<and> msg_unpack old = Inr m \<and> m_seq m < hp_seq (snd s))"

lemma request_late:
  assumes "answers fw" "msg_fits (hp_request_message t (hp_seq c) a0 a1 a2 a3)"
    "rl_inbox w = []" "rl_late w = []" "rl_slow w = True # bs"
  shows "\<exists>w'. hp_request (link_os fw) t a0 a1 a2 a3 (w, c) =
      (Inl TimeoutError, (w', c\<lparr>hp_seq := hp_seq c + 1\<rparr>))
    \<and> stale (w', c\<lparr>hp_seq := hp_seq c + 1\<rparr>) \<and> rl_slow w' = bs"
proof -
  obtain packet reply where pr:
    "msg_pack (hp_request_message t (hp_seq c) a0 a1 a2 a3) = Inr packet"
    "msg_pack (fw (hp_request_message t (hp_seq c) a0 a1 a2 a3)) = Inr reply"
    "msg_unpack reply = Inr (fw (hp_request_message t (hp_seq c) a0 a1 a2 a3))"
    "validate_response t (hp_seq c) (fw (hp_request_message t (hp_seq c) a0 a1 a2 a3)) = Inr ()"
    by (rule answers_wire [OF assms(1,2)])
  then show ?thesis
    by (simp add: hp_request_run [OF pr(1) link_exchange(2) [where fw = fw, OF pr(1,2) assms(3-5)]]
        stale_def validate_response_Inr)
qed

lemma request_stale:
  assumes "answers fw" "msg_fits (hp_request_message t (hp_seq c) a0 a1 a2 a3)"
    "stale (w, c)" "rl_slow w = False # bs"
  shows "\<exists>w'. hp_request (link_os fw) t a0 a1 a2 a3 (w, c) =
      (Inl RuntimeError, (w', c\<lparr>hp_seq := hp_seq c + 1\<rparr>))
    \<and> stale (w', c\<lparr>hp_seq := hp_seq c + 1\<rparr>) \<and> rl_slow w' = bs"
proof -
  obtain packet reply where pr:
    "msg_pack (hp_request_message t (hp_seq c) a0 a1 a2 a3) = Inr packet"
    "msg_pack (fw (hp_request_message t (hp_seq c) a0 a1 a2 a3)) = Inr reply"
    "msg_unpack reply = Inr (fw (hp_request_message t (hp_seq c) a0 a1 a2 a3))"
    "validate_response t (hp_seq c) (fw (hp_request_message t (hp_seq c) a0 a1 a2 a3)) = Inr ()"
    by (rule answers_wire [OF assms(1,2)])
  obtain old m where old: "rl_inbox w = [old]" "msg_unpack old = Inr m" "m_seq m < hp_seq c"
    using assms(3) by (auto simp: stale_def)
  then have len: "length old \<le> 512" by (simp add: msg_unpack_Inr)
  have "validate_response t (hp_seq c) m = Inl RuntimeError"
    using old(3) by (auto simp: validate_response_def)
  with pr old show ?thesis
    by (simp add: hp_request_run [OF pr(1) link_exchange(3) [where fw = fw, OF pr(1,2) old(1) len assms(4)]]
        stale_def validate_response_Inr)
qed

section \<open>Properties\<close>

text \<open>C9: The wire codec is exact in both directions: packing a message gives some payload exactly
  when unpacking that payload gives the message; a message packs when and only when every field
  is in its unsigned range (otherwise \<open>struct.error\<close>), and a payload unpacks when and only when
  it has 32 bytes (otherwise ValueError).\<close>

theorem message_codec_exact:
  "(msg_pack m = Inr bs \<longleftrightarrow> msg_unpack bs = Inr m)
   \<and> (\<forall>e. msg_pack m = Inl e \<longleftrightarrow> e = StructError \<and> \<not> msg_fits m)
   \<and> (\<forall>e. msg_unpack bs = Inl e \<longleftrightarrow> e = ValueError \<and> length bs \<noteq> 32)"
  using msg_unpack_pack msg_pack_unpack msg_pack_Inl msg_unpack_Inl by blast

text \<open>C8: One call of \<open>request\<close> consumes one sequence number whatever happens, and a response it
  returns was read from the device and is a well-formed message of this protocol version with
  the type of this request's answer and the sequence number of this request: an answer to
  another request is never returned.\<close>

theorem request_answers_its_request:
  "case hp_request D t a0 a1 a2 a3 (w, c) of
     (r, (w', c')) \<Rightarrow> c' = c\<lparr>hp_seq := hp_seq c + 1\<rparr>
       \<and> (case r of Inl _ \<Rightarrow> True
          | Inr m \<Rightarrow> msg_fits m \<and> m_magic m = PRU_MAGIC \<and> m_version m = PROTOCOL_VERSION
              \<and> m_type m = (t OR MSG_RESPONSE_BIT) \<and> m_seq m = hp_seq c
              \<and> (\<exists>packet payload. msg_pack (hp_request_message t (hp_seq c) a0 a1 a2 a3) = Inr packet
                   \<and> hp_exchange D (hp_fd c) (hp_timeout_ms c) packet w = (Inr payload, w')
                   \<and> msg_unpack payload = Inr m))"
proof -
  obtain r w' c' where run: "hp_request D t a0 a1 a2 a3 (w, c) = (r, (w', c'))"
    by (cases "hp_request D t a0 a1 a2 a3 (w, c)") auto
  have "c' = c\<lparr>hp_seq := hp_seq c + 1\<rparr>"
    using run by (cases r) (auto simp: hp_request_def io_results hp_next_seq_def)
  moreover have "msg_fits m \<and> m_magic m = PRU_MAGIC \<and> m_version m = PROTOCOL_VERSION
      \<and> m_type m = (t OR MSG_RESPONSE_BIT) \<and> m_seq m = hp_seq c
      \<and> (\<exists>packet payload. msg_pack (hp_request_message t (hp_seq c) a0 a1 a2 a3) = Inr packet
           \<and> hp_exchange D (hp_fd c) (hp_timeout_ms c) packet w = (Inr payload, w')
           \<and> msg_unpack payload = Inr m)" if "r = Inr m" for m
    using run unfolding that hp_request_Inr validate_response_Inr
    by (blast dest: msg_unpack_fits)
  ultimately show ?thesis using run by (cases r) simp_all
qed

text \<open>A sequence of requests of one type from one client.\<close>

definition repeat_request :: "(message \<Rightarrow> message) \<Rightarrow> nat \<Rightarrow> int \<Rightarrow> rpmsg_link \<times> hil_pru
    \<Rightarrow> (exn + message) list" where
  "repeat_request fw n t s = fst (run_all (replicate n (hp_request (link_os fw) t 0 0 0 0)) s)"

lemma plain_request_fits:
  "0 \<le> t \<Longrightarrow> t < 2 ^ 16 \<Longrightarrow> 0 \<le> q \<Longrightarrow> q < 2 ^ 32 \<Longrightarrow> msg_fits (hp_request_message t q 0 0 0 0)"
  by (auto simp: msg_fits_def hp_request_message_def)

lemma repeat_stale:
  assumes "answers fw" "0 \<le> t" "t < 2 ^ 16"
  shows "stale (w, c) \<Longrightarrow> rl_slow w = replicate n False \<Longrightarrow> 0 \<le> hp_seq c \<Longrightarrow>
    hp_seq c + int n \<le> 2 ^ 32 \<Longrightarrow> repeat_request fw n t (w, c) = replicate n (Inl RuntimeError)"
proof (induction n arbitrary: w c)
  case 0
  then show ?case by (simp add: repeat_request_def)
next
  case (Suc n)
  let ?c = "c\<lparr>hp_seq := hp_seq c + 1\<rparr>"
  have "msg_fits (hp_request_message t (hp_seq c) 0 0 0 0)"
    using Suc.prems by (intro plain_request_fits assms) auto
  from request_stale [OF assms(1) this Suc.prems(1), of "replicate n False"] Suc.prems(2)
  obtain w' where w': "hp_request (link_os fw) t 0 0 0 0 (w, c) = (Inl RuntimeError, (w', ?c))"
    "stale (w', ?c)" "rl_slow w' = replicate n False" by auto
  with Suc.IH [OF w'(2,3)] Suc.prems(3,4) show ?case
    by (simp add: repeat_request_def)
qed

lemma repeat_on_time:
  assumes "answers fw" "0 \<le> t" "t < 2 ^ 16"
  shows "rl_inbox w = [] \<Longrightarrow> rl_slow w = replicate n False \<Longrightarrow> 0 \<le> hp_seq c \<Longrightarrow>
    hp_seq c + int n \<le> 2 ^ 32 \<Longrightarrow> repeat_request fw n t (w, c)
      = map (\<lambda>i. Inr (fw (hp_request_message t (hp_seq c + int i) 0 0 0 0))) [0..<n]"
proof (induction n arbitrary: w c)
  case 0
  then show ?case by (simp add: repeat_request_def)
next
  case (Suc n)
  let ?c = "c\<lparr>hp_seq := hp_seq c + 1\<rparr>" and ?w = "w\<lparr>rl_slow := replicate n False\<rparr>"
  have "msg_fits (hp_request_message t (hp_seq c) 0 0 0 0)"
    using Suc.prems by (intro plain_request_fits assms) auto
  from request_on_time [OF assms(1) this Suc.prems(1), of "replicate n False"] Suc.prems(2)
  have "hp_request (link_os fw) t 0 0 0 0 (w, c) =
    (Inr (fw (hp_request_message t (hp_seq c) 0 0 0 0)), (?w, ?c))" by simp
  moreover have "repeat_request fw n t (?w, ?c)
      = map (\<lambda>i. Inr (fw (hp_request_message t (hp_seq ?c + int i) 0 0 0 0))) [0..<n]"
    using Suc.prems by (intro Suc.IH) simp_all
  moreover have "[0..<Suc n] = 0 # map Suc [0..<n]" by (simp add: map_Suc_upt upt_conv_Cons)
  ultimately show ?case
    by (simp add: repeat_request_def comp_def algebra_simps del: upt_Suc)
qed


definition echo_firmware :: "message \<Rightarrow> message" where
  "echo_firmware m = m\<lparr>m_type := m_type m OR MSG_RESPONSE_BIT, m_magic := PRU_MAGIC,
                        m_version := PROTOCOL_VERSION\<rparr>"

lemma echo_answers: "answers echo_firmware"
proof -
  have "0 \<le> m_type m OR 0x8000 \<and> m_type m OR 0x8000 < 0x10000" if "msg_fits m" for m
    using that OR_upper [of "m_type m" 16 "0x8000"] by (auto simp: msg_fits_def)
  then show ?thesis
    by (auto simp: answers_def echo_firmware_def validate_response_def msg_fits_def)
qed


end
