(* ===== verification/Pwm_Shared.thy ===== *)
theory Pwm_Shared
  imports Hil_Core
begin

text \<open>
  \<open>boards/beaglebone_black/host/hil_pwm_shared.py\<close>: the lock-free reader of the PWM statistics
  and edge ring that PRU0 keeps in shared RAM. The mapping changes under the reader: memory is
  a function \<open>mem\<close> of time, the state of the reader is the current time, and every byte that
  is copied is read at its own moment, so any interleaving with the writer is covered. The
  writer's side (the firmware's \<open>pwm_capture_core.c\<close>) is a hypothesis of the theorems:
  \<open>seqlock_writer\<close> and \<open>ring_writer\<close>.
\<close>

section \<open>The shared structure\<close>

abbreviation (input) PWM_MAGIC :: int where "PWM_MAGIC \<equiv> 0x314D5750"
abbreviation (input) PWM_VERSION :: int where "PWM_VERSION \<equiv> 1"
abbreviation (input) RING_CAPACITY :: nat where "RING_CAPACITY \<equiv> 128"

definition CHANNEL_NAMES :: "string list" where
  "CHANNEL_NAMES = [''UH'', ''UL'', ''VH'', ''VL'', ''WH'', ''WL'']"

definition PAIR_NAMES :: "string list" where
  "PAIR_NAMES = [''U'', ''V'', ''W'']"

record channel_snapshot =
  ch_period_ticks :: int
  ch_high_ticks :: int
  ch_low_ticks :: int
  ch_last_rise_ticks :: int
  ch_last_fall_ticks :: int
  ch_rise_count :: int
  ch_fall_count :: int
  ch_flags :: int

record pair_snapshot =
  pr_deadtime_high_to_low_ticks :: int
  pr_deadtime_low_to_high_ticks :: int
  pr_deadtime_high_to_low_count :: int
  pr_deadtime_low_to_high_count :: int
  pr_overlap_count :: int
  pr_violation_count :: int
  pr_flags :: int

record edge_record =
  er_timestamp_ticks :: int
  er_logical_inputs :: int
  er_changed_inputs :: int
  er_fault_flags :: int

record pwm_shared =
  ps_magic :: int
  ps_version :: int
  ps_total_size :: int
  ps_seq_lock :: int
  ps_tick_hz :: int
  ps_channel_count :: int
  ps_pair_count :: int
  ps_ring_capacity :: int
  ps_running :: int
  ps_min_deadtime_ticks :: int
  ps_input_bits :: int
  ps_changed_bits :: int
  ps_last_timestamp_ticks :: int
  ps_event_seq :: int
  ps_ring_head :: int
  ps_ring_count :: int
  ps_fault_flags :: int
  ps_channel :: "channel_snapshot list"
  ps_pair :: "pair_snapshot list"
  ps_ring :: "edge_record list"

text \<open>\<open>ctypes.sizeof\<close> and the field offsets of the little-endian structure.\<close>

abbreviation (input) PWM_SHARED_SIZE :: nat where "PWM_SHARED_SIZE \<equiv> 2416"
abbreviation (input) PWM_SUMMARY_SIZE :: nat where "PWM_SUMMARY_SIZE \<equiv> 368"
abbreviation (input) SEQ_LOCK_OFFSET :: nat where "SEQ_LOCK_OFFSET \<equiv> 12"
abbreviation (input) EVENT_SEQ_OFFSET :: nat where "EVENT_SEQ_OFFSET \<equiv> 52"
abbreviation (input) EDGE_RECORD_SIZE :: nat where "EDGE_RECORD_SIZE \<equiv> 16"

definition channel_at :: "byte list \<Rightarrow> nat \<Rightarrow> channel_snapshot" where
  "channel_at b o' = \<lparr>ch_period_ticks = unpack_u32 b o', ch_high_ticks = unpack_u32 b (o' + 4),
     ch_low_ticks = unpack_u32 b (o' + 8), ch_last_rise_ticks = unpack_u32 b (o' + 12),
     ch_last_fall_ticks = unpack_u32 b (o' + 16), ch_rise_count = unpack_u32 b (o' + 20),
     ch_fall_count = unpack_u32 b (o' + 24), ch_flags = unpack_u32 b (o' + 28)\<rparr>"

definition pair_at :: "byte list \<Rightarrow> nat \<Rightarrow> pair_snapshot" where
  "pair_at b o' = \<lparr>pr_deadtime_high_to_low_ticks = unpack_u32 b o',
     pr_deadtime_low_to_high_ticks = unpack_u32 b (o' + 4),
     pr_deadtime_high_to_low_count = unpack_u32 b (o' + 8),
     pr_deadtime_low_to_high_count = unpack_u32 b (o' + 12),
     pr_overlap_count = unpack_u32 b (o' + 16), pr_violation_count = unpack_u32 b (o' + 20),
     pr_flags = unpack_u32 b (o' + 24)\<rparr>"

definition edge_of :: "byte list \<Rightarrow> edge_record" where
  "edge_of r = \<lparr>er_timestamp_ticks = unpack_u32 r 0, er_logical_inputs = unpack_u32 r 4,
     er_changed_inputs = unpack_u32 r 8, er_fault_flags = unpack_u32 r 12\<rparr>"

definition slot_bytes :: "byte list \<Rightarrow> nat \<Rightarrow> byte list" where
  "slot_bytes b i = slice (PWM_SUMMARY_SIZE + i * EDGE_RECORD_SIZE)
                          (PWM_SUMMARY_SIZE + i * EDGE_RECORD_SIZE + EDGE_RECORD_SIZE) b"

text \<open>\<open>PwmShared.from_buffer_copy\<close>\<close>

definition pwm_of_bytes :: "byte list \<Rightarrow> pwm_shared" where
  "pwm_of_bytes b =
     \<lparr>ps_magic = unpack_u32 b 0, ps_version = unpack_u32 b 4, ps_total_size = unpack_u32 b 8,
      ps_seq_lock = unpack_u32 b 12, ps_tick_hz = unpack_u32 b 16,
      ps_channel_count = unpack_u32 b 20, ps_pair_count = unpack_u32 b 24,
      ps_ring_capacity = unpack_u32 b 28, ps_running = unpack_u32 b 32,
      ps_min_deadtime_ticks = unpack_u32 b 36, ps_input_bits = unpack_u32 b 40,
      ps_changed_bits = unpack_u32 b 44, ps_last_timestamp_ticks = unpack_u32 b 48,
      ps_event_seq = unpack_u32 b 52, ps_ring_head = unpack_u32 b 56,
      ps_ring_count = unpack_u32 b 60, ps_fault_flags = unpack_u32 b 64,
      ps_channel = map (\<lambda>i. channel_at b (80 + 32 * i)) [0..<6],
      ps_pair = map (\<lambda>i. pair_at b (272 + 32 * i)) [0..<3],
      ps_ring = map (\<lambda>i. edge_of (slot_bytes b i)) [0..<RING_CAPACITY]\<rparr>"

definition validate_snapshot :: "pwm_shared \<Rightarrow> exn + unit" where
  "validate_snapshot s =
     (if ps_magic s \<noteq> PWM_MAGIC then Inl RuntimeError
      else if ps_version s \<noteq> PWM_VERSION then Inl RuntimeError
      else if ps_total_size s \<noteq> int PWM_SHARED_SIZE then Inl RuntimeError
      else if ps_channel_count s \<noteq> int (length CHANNEL_NAMES) then Inl RuntimeError
      else if ps_pair_count s \<noteq> int (length PAIR_NAMES) then Inl RuntimeError
      else if ps_ring_capacity s \<noteq> int RING_CAPACITY then Inl RuntimeError
      else Inr ())"

section \<open>Reading a memory that changes\<close>

type_synonym memory = "nat \<Rightarrow> byte list"

text \<open>\<open>_u32(mapped, offset)\<close>: one aligned word, read at once.\<close>

definition read_u32 :: "memory \<Rightarrow> nat \<Rightarrow> (nat, int) io" where
  "read_u32 mem off = (\<lambda>t. (Inr (unpack_u32 (mem t) off), Suc t))"

text \<open>\<open>mapped[a : a + n]\<close>: byte \<open>i\<close> is read at time \<open>t + i\<close>.\<close>

definition read_block :: "memory \<Rightarrow> nat \<Rightarrow> nat \<Rightarrow> (nat, byte list) io" where
  "read_block mem a n = (\<lambda>t. (Inr (map (\<lambda>i. mem (t + i) ! (a + i)) [0..<n]), t + n))"

definition copy_ring_window ::
    "memory \<Rightarrow> byte list \<Rightarrow> nat \<Rightarrow> nat \<Rightarrow> (nat, byte list) io" where
  "copy_ring_window mem full start_slot record_count =
     (if record_count = 0 then return_io full
      else
        let first_count = min record_count (RING_CAPACITY - start_slot);
            first_src = PWM_SUMMARY_SIZE + start_slot * EDGE_RECORD_SIZE;
            first_len = first_count * EDGE_RECORD_SIZE;
            second_count = record_count - first_count
        in bind_io (read_block mem first_src first_len) (\<lambda>blk.
           let full1 = splice first_src blk full in
           if second_count = 0 then return_io full1
           else bind_io (read_block mem PWM_SUMMARY_SIZE (second_count * EDGE_RECORD_SIZE)) (\<lambda>blk2.
                return_io (splice PWM_SUMMARY_SIZE blk2 full1))))"

text \<open>One pass of the loop; \<open>None\<close> is \<open>continue\<close>.\<close>

definition ring_attempt :: "memory \<Rightarrow> nat \<Rightarrow> byte list \<Rightarrow> (nat, pwm_shared option) io" where
  "ring_attempt mem ring_limit summary_blob =
     (let full = summary_blob @ replicate (PWM_SHARED_SIZE - PWM_SUMMARY_SIZE) 0;
          summary = pwm_of_bytes full;
          ring_count = min (nat (ps_ring_count summary)) RING_CAPACITY;
          emit_count = min ring_count ring_limit
      in
      then_io (lift_io (validate_snapshot summary)) (
      if emit_count = 0 then return_io (Some summary)
      else if ps_running summary \<noteq> 0 \<and> RING_CAPACITY \<le> emit_count then raise_io RuntimeError
      else
        let start_slot = nat ((ps_ring_head summary - int emit_count) mod int RING_CAPACITY) in
        bind_io (copy_ring_window mem full start_slot emit_count) (\<lambda>full'.
        bind_io (read_u32 mem EVENT_SEQ_OFFSET) (\<lambda>event_seq_after.
        let advanced = (event_seq_after - ps_event_seq summary) AND 0xFFFFFFFF in
        if int (RING_CAPACITY - emit_count) < advanced then return_io None
        else
          let snapshot = pwm_of_bytes full' in
          then_io (lift_io (validate_snapshot snapshot)) (return_io (Some snapshot))))))"

definition snapshot_attempt :: "memory \<Rightarrow> nat \<Rightarrow> (nat, pwm_shared option) io" where
  "snapshot_attempt mem ring_limit =
     bind_io (read_u32 mem SEQ_LOCK_OFFSET) (\<lambda>seq0.
     if seq0 AND 1 \<noteq> 0 then return_io None
     else
       bind_io (read_block mem 0 PWM_SUMMARY_SIZE) (\<lambda>summary_blob.
       bind_io (read_u32 mem SEQ_LOCK_OFFSET) (\<lambda>seq1.
       if seq0 \<noteq> unpack_u32 summary_blob SEQ_LOCK_OFFSET \<or> seq0 \<noteq> seq1 \<or> seq1 AND 1 \<noteq> 0
       then return_io None
       else ring_attempt mem ring_limit summary_blob)))"

primrec snapshot_attempts :: "memory \<Rightarrow> nat \<Rightarrow> nat \<Rightarrow> (nat, pwm_shared) io" where
  "snapshot_attempts mem ring_limit 0 = raise_io RuntimeError"
| "snapshot_attempts mem ring_limit (Suc n) =
     bind_io (snapshot_attempt mem ring_limit) (\<lambda>r.
     case r of Some s \<Rightarrow> return_io s | None \<Rightarrow> snapshot_attempts mem ring_limit n)"

definition read_consistent_snapshot_from_buffer ::
    "memory \<Rightarrow> int \<Rightarrow> int \<Rightarrow> (nat, pwm_shared) io" where
  "read_consistent_snapshot_from_buffer mem retries ring_limit =
     (if retries \<le> 0 then raise_io ValueError
      else if ring_limit < 0 then raise_io ValueError
      else snapshot_attempts mem (nat ring_limit) (nat retries))"

text \<open>The \<open>recent_edges\<close> of \<open>snapshot_to_dict\<close>: the last records before the head, oldest first.\<close>

definition recent_edges :: "pwm_shared \<Rightarrow> int \<Rightarrow> edge_record list" where
  "recent_edges s ring_limit =
     (let ring_count = min (nat (ps_ring_count s)) RING_CAPACITY;
          emit_count = min ring_count (nat (max 0 ring_limit));
          start = nat ((ps_ring_head s - int emit_count) mod int RING_CAPACITY)
      in map (\<lambda>k. ps_ring s ! ((start + k) mod RING_CAPACITY)) [0..<emit_count])"

text \<open>
  \<open>read_consistent_snapshot\<close>: open \<open>/dev/mem\<close>, map the shared RAM, read, and release both in
  finally clauses. The state is the time, the descriptors that are open and the number of live
  mappings; what \<open>os.open\<close> and \<open>mmap\<close> answer is a parameter.
\<close>

type_synonym reader_state = "nat \<times> int list \<times> nat"

definition read_consistent_snapshot ::
    "exn + int \<Rightarrow> (int \<Rightarrow> exn + memory) \<Rightarrow> int \<Rightarrow> int \<Rightarrow> (reader_state, pwm_shared) io" where
  "read_consistent_snapshot os_open os_mmap retries ring_limit =
     bind_io (\<lambda>(t, fds, k). case os_open of Inl e \<Rightarrow> (Inl e, (t, fds, k))
                            | Inr fd \<Rightarrow> (Inr fd, (t, fd # fds, k))) (\<lambda>fd.
     finally_io
       (bind_io (\<lambda>(t, fds, k). case os_mmap fd of Inl e \<Rightarrow> (Inl e, (t, fds, k))
                              | Inr mem \<Rightarrow> (Inr mem, (t, fds, k + 1))) (\<lambda>mem.
        finally_io
          (\<lambda>(t, fds, k). case read_consistent_snapshot_from_buffer mem retries ring_limit t of
                           (r, t') \<Rightarrow> (r, (t', fds, k)))
          (\<lambda>(t, fds, k). (Inr (), (t, fds, k - 1)))))
       (\<lambda>(t, fds, k). (Inr (), (t, remove1 fd fds, k))))"

lemma read_consistent_snapshot_releases:
  "snd (snd (read_consistent_snapshot os_open os_mmap retries rlim (t, fds, k))) = (fds, k)"
  by (auto simp: read_consistent_snapshot_def io_simps split: sum.splits prod.splits)

section \<open>The writer\<close>

text \<open>
  The seqlock discipline: the lock word is a counter \<open>c\<close> that never decreases, the summary
  changes only in steps where the counter is odd or moves, and the counter cannot go once
  around its 32 bits within one pass of the reader (at most 2,500 reads).
\<close>

definition seqlock_writer :: "memory \<Rightarrow> (nat \<Rightarrow> nat) \<Rightarrow> bool" where
  "seqlock_writer mem c \<longleftrightarrow>
     (\<forall>t. PWM_SHARED_SIZE \<le> length (mem t)
        \<and> unpack_u32 (mem t) SEQ_LOCK_OFFSET = int (c t mod 2 ^ 32)
        \<and> c t \<le> c (Suc t)
        \<and> (c t = c (Suc t) \<and> even (c t) \<longrightarrow>
             take PWM_SUMMARY_SIZE (mem (Suc t)) = take PWM_SUMMARY_SIZE (mem t))
        \<and> c (t + 2500) < c t + 2 ^ 32)"

text \<open>
  The ring discipline: event number \<open>i\<close> (a 16-byte record \<open>ev i\<close>) is announced in
  \<open>event_seq\<close> before its slot \<open>i mod 128\<close> is written and published in \<open>ring_head\<close> after.
  So a slot holds record \<open>i\<close> from its publication until event \<open>i + 128\<close> is announced.
\<close>

definition ring_writer ::
    "memory \<Rightarrow> (nat \<Rightarrow> nat) \<Rightarrow> (nat \<Rightarrow> nat) \<Rightarrow> (nat \<Rightarrow> nat) \<Rightarrow> (nat \<Rightarrow> byte list) \<Rightarrow> bool" where
  "ring_writer mem c announced published ev \<longleftrightarrow>
     (\<forall>t. unpack_u32 (mem t) EVENT_SEQ_OFFSET = int (announced t mod 2 ^ 32)
        \<and> (even (c t) \<longrightarrow> announced t = published t
              \<and> unpack_u32 (mem t) 56 = int (published t mod RING_CAPACITY)
              \<and> unpack_u32 (mem t) 60 = int (min (published t) RING_CAPACITY))
        \<and> announced t \<le> announced (Suc t) \<and> announced (t + 2500) < announced t + 2 ^ 32
        \<and> (\<forall>i. i < published t \<and> announced t \<le> i + RING_CAPACITY \<longrightarrow>
              slot_bytes (mem t) (i mod RING_CAPACITY) = ev i)
        \<and> published t \<le> published (Suc t))"

section \<open>Consistency of the reader\<close>

lemma steps_mono:
  fixes f :: "nat \<Rightarrow> nat"
  assumes "\<And>t. f t \<le> f (Suc t)" "t \<le> u"
  shows "f t \<le> f u"
  using assms(2) by (induction rule: dec_induct) (auto intro: le_trans assms(1))

lemma counter_word_eq:
  fixes a b m :: nat
  assumes "a \<le> b" "b < a + m" "a mod m = b mod m"
  shows "a = b"
proof -
  have "m dvd b - a" using assms(1,3) by (metis mod_eq_dvd_iff_nat)
  with assms(2) have "b - a = 0"
    by (metis assms(1) less_diff_conv2 add.commute nat_dvd_not_less neq0_conv)
  with assms(1) show ?thesis by simp
qed

lemma and_one_even: "(x :: int) AND 1 = 0 \<longleftrightarrow> even x"
  by (simp add: and_one_eq even_iff_mod_2_eq_zero)

lemma seqlock_writerD:
  assumes "seqlock_writer mem c"
  shows "PWM_SHARED_SIZE \<le> length (mem t)"
    and "unpack_u32 (mem t) SEQ_LOCK_OFFSET = int (c t mod 2 ^ 32)"
    and "t \<le> u \<Longrightarrow> c t \<le> c u"
    and "c t = c (Suc t) \<Longrightarrow> even (c t) \<Longrightarrow>
      take PWM_SUMMARY_SIZE (mem (Suc t)) = take PWM_SUMMARY_SIZE (mem t)"
    and "c (t + 2500) < c t + 2 ^ 32"
proof -
  have step: "c t \<le> c (Suc t)" for t using assms unfolding seqlock_writer_def by blast
  show "t \<le> u \<Longrightarrow> c t \<le> c u" using step by (rule steps_mono)
qed (use assms in \<open>unfold seqlock_writer_def, blast+\<close>)

lemma summary_stable:
  assumes "seqlock_writer mem c" "even (c t)" "c (t + k) = c t" "j \<le> k"
  shows "take PWM_SUMMARY_SIZE (mem (t + j)) = take PWM_SUMMARY_SIZE (mem t)"
  using assms(4)
proof (induction j)
  case (Suc j)
  have "c t \<le> c (t + j)" "c (t + j) \<le> c (Suc (t + j))" "c (Suc (t + j)) \<le> c (t + k)"
    using Suc.prems by (intro seqlock_writerD(3) [OF assms(1)]; simp)+
  with assms(3) have "c (t + j) = c t" "c (Suc (t + j)) = c t" by simp_all
  with assms(2) have "take PWM_SUMMARY_SIZE (mem (Suc (t + j))) = take PWM_SUMMARY_SIZE (mem (t + j))"
    by (intro seqlock_writerD(4) [OF assms(1)]) simp_all
  with Suc show ?case by simp
qed simp

lemma unpack_take: "off + 4 \<le> n \<Longrightarrow> unpack_u32 (take n b) off = unpack_u32 b off"
  by (simp add: unpack_u32_def drop_take min_def)

lemma unpack_prefix:
  "take n b = take n b' \<Longrightarrow> off + 4 \<le> n \<Longrightarrow> unpack_u32 b off = unpack_u32 b' off"
  by (metis unpack_take)

lemma read_block_stable:
  assumes "\<And>j. j \<le> n \<Longrightarrow> take n (mem (t + j)) = take n (mem t)" "n \<le> length (mem t)"
  shows "read_block mem 0 n t = (Inr (take n (mem t)), t + n)"
proof -
  have "mem (t + i) ! i = mem t ! i" if "i < n" for i
    using assms(1) [of i] that by (metis less_imp_le nth_take)
  then have "map (\<lambda>i. mem (t + i) ! (0 + i)) [0..<n] = take n (mem t)"
    using assms(2) by (intro nth_equalityI) simp_all
  then show ?thesis by (simp add: read_block_def)
qed

text \<open>Past the seqlock checks the copied summary is the memory's at the start of the pass.\<close>

lemma seqlock_pass:
  assumes w: "seqlock_writer mem c"
  obtains (retry) t' where "snapshot_attempt mem rlim t = (Inr None, t')"
  | (pass) "snapshot_attempt mem rlim t = ring_attempt mem rlim (take PWM_SUMMARY_SIZE (mem t)) (t + 370)"
    "even (c t)" "c (t + 369) = c t"
proof -
  let ?seq = "\<lambda>t. unpack_u32 (mem t) SEQ_LOCK_OFFSET"
  have word: "?seq u = int (c u mod 2 ^ 32)" and len: "PWM_SHARED_SIZE \<le> length (mem u)" for u
    using seqlock_writerD(1,2) [OF w] by blast+
  show thesis
  proof (cases "?seq t AND 1 \<noteq> 0 \<or> ?seq t \<noteq> ?seq (t + 369)")
    case True
    show thesis
    proof (rule retry)
      show "snapshot_attempt mem rlim t = (Inr None, snd (snapshot_attempt mem rlim t))"
        using True
        by (auto simp: snapshot_attempt_def read_u32_def read_block_def io_simps add.commute [of t])
    qed
  next
    case False
    then have sq: "?seq t AND 1 = 0" "?seq (t + 369) = ?seq t" by auto
    from False have "even (int (c t mod 2 ^ 32))" "int (c t mod 2 ^ 32) = int (c (t + 369) mod 2 ^ 32)"
      unfolding word and_one_even by blast+
    then have "even (c t mod 2 ^ 32)" "c t mod 2 ^ 32 = c (t + 369) mod 2 ^ 32"
      by (simp_all only: even_of_nat of_nat_eq_iff)
    then have "even (c t)" "c t mod 2 ^ 32 = c (t + 369) mod 2 ^ 32"
      by (simp_all add: dvd_mod_iff)
    moreover have "c t \<le> c (t + 369)" "c (t + 369) \<le> c (t + 2500)" "c (t + 2500) < c t + 2 ^ 32"
      by (intro seqlock_writerD(3) [OF w] seqlock_writerD(5) [OF w]; simp)+
    ultimately have c: "even (c t)" "c (t + 369) = c t"
      using counter_word_eq [of "c t" "c (t + 369)" "2 ^ 32"] by simp_all
    have "read_block mem 0 PWM_SUMMARY_SIZE (Suc t) = (Inr (take PWM_SUMMARY_SIZE (mem (Suc t))), Suc t + 368)"
    proof (rule read_block_stable)
      fix j :: nat assume "j \<le> 368"
      then show "take 368 (mem (Suc t + j)) = take 368 (mem (Suc t))"
        using summary_stable [OF w c, of "Suc j"] summary_stable [OF w c, of 1] by simp
    qed (use len [of "Suc t"] in simp)
    moreover have same: "take PWM_SUMMARY_SIZE (mem (Suc t)) = take PWM_SUMMARY_SIZE (mem t)"
      using summary_stable [OF w c, of 1] by simp
    ultimately have "snapshot_attempt mem rlim t
        = ring_attempt mem rlim (take PWM_SUMMARY_SIZE (mem t)) (t + 370)"
      using sq
      by (simp add: snapshot_attempt_def read_u32_def io_simps unpack_take add.commute [of t])
    then show thesis using c by (rule pass)
  qed
qed

section \<open>The ring window\<close>

lemma read_block_at:
  assumes "read_block mem a n t = (Inr blk, t')"
  shows "length blk = n" "t' = t + n" "\<And>i. i < n \<Longrightarrow> blk ! i = mem (t + i) ! (a + i)"
  using assms by (auto simp: read_block_def)

lemma slot_bytes_nth:
  "i < 128 \<Longrightarrow> b < 16 \<Longrightarrow> PWM_SHARED_SIZE \<le> length m \<Longrightarrow>
     slot_bytes m i ! b = m ! (368 + 16 * i + b)"
  by (simp add: slot_bytes_def slice_def algebra_simps)

lemma length_slot_bytes:
  "i < 128 \<Longrightarrow> PWM_SHARED_SIZE \<le> length m \<Longrightarrow> length (slot_bytes m i) = 16"
  by (simp add: slot_bytes_def length_slice)

text \<open>Every byte of the copied slots was in memory at some moment of the copy.\<close>

lemma copy_ring_window_bytes:
  assumes "length full = PWM_SHARED_SIZE" "start < 128" "0 < count" "count \<le> 128"
  obtains full' where "copy_ring_window mem full start count t = (Inr full', t + 16 * count)"
    "length full' = PWM_SHARED_SIZE" "take PWM_SUMMARY_SIZE full' = take PWM_SUMMARY_SIZE full"
    "\<And>k b. k < count \<Longrightarrow> b < 16 \<Longrightarrow> \<exists>u. t \<le> u \<and> u < t + 16 * count
       \<and> full' ! (368 + 16 * ((start + k) mod 128) + b) = mem u ! (368 + 16 * ((start + k) mod 128) + b)"
proof -
  let ?f = "min count (128 - start)"
  let ?blk = "map (\<lambda>i. mem (t + i) ! (368 + start * 16 + i)) [0..<?f * 16]"
  let ?full1 = "splice (368 + start * 16) ?blk full"
  let ?s = "count - ?f"
  let ?blk2 = "map (\<lambda>i. mem (t + ?f * 16 + i) ! (368 + i)) [0..<?s * 16]"
  let ?full2 = "if ?s = 0 then ?full1 else splice 368 ?blk2 ?full1"
  have fit: "368 + start * 16 + length ?blk \<le> length full" using assms by simp
  have len1: "length ?full1 = 2416" using length_splice [OF fit] assms(1) by simp
  have fit2: "368 + length ?blk2 \<le> length ?full1" using assms len1 by simp
  have nth1: "?full1 ! p = (if 368 + start * 16 \<le> p \<and> p < 368 + start * 16 + ?f * 16
      then mem (t + (p - (368 + start * 16))) ! p else full ! p)" if "p < 2416" for p
    using nth_splice [OF fit, of p] that assms(1) by auto
  have nth2: "?full2 ! p = (if 368 \<le> p \<and> p < 368 + ?s * 16
      then mem (t + ?f * 16 + (p - 368)) ! p else ?full1 ! p)" if "p < 2416" for p
    using nth_splice [OF fit2, of p] that len1 by auto
  show thesis
  proof (rule that)
    show "copy_ring_window mem full start count t = (Inr ?full2, t + 16 * count)"
      using assms by (simp add: copy_ring_window_def read_block_def io_simps Let_def) arith
    show len: "length ?full2 = 2416" by (simp only: len1 length_splice [OF fit2] split: if_split) simp
    show "take 368 ?full2 = take 368 full"
    proof (rule nth_equalityI)
      fix i assume "i < length (take 368 ?full2)"
      then have i: "i < 368" by simp
      then show "take 368 ?full2 ! i = take 368 full ! i"
        using nth2 [of i] nth1 [of i] by simp
    qed (use len assms(1) in simp)
    fix k b :: nat assume k: "k < count" and b: "b < 16"
    show "\<exists>u. t \<le> u \<and> u < t + 16 * count
       \<and> ?full2 ! (368 + 16 * ((start + k) mod 128) + b) = mem u ! (368 + 16 * ((start + k) mod 128) + b)"
    proof (cases "start + k < 128")
      case True
      let ?p = "368 + 16 * (start + k) + b"
      have p: "?p < 2416" "368 + start * 16 \<le> ?p" "?p < 368 + start * 16 + ?f * 16"
        "\<not> ?p < 368 + ?s * 16"
        using True k b assms by (simp_all add: min_def, arith+)
      have "?full2 ! ?p = mem (t + (?p - (368 + start * 16))) ! ?p"
        using nth2 [OF p(1)] nth1 [OF p(1)] p(2-4) by simp
      with True k b show ?thesis
        by (intro exI [of _ "t + (?p - (368 + start * 16))"]) simp
    next
      case False
      let ?q = "start + k - 128"
      let ?p = "368 + 16 * ?q + b"
      have md: "(start + k) mod 128 = ?q" using False k assms by (simp add: mod_if)
      have p: "?p < 2416" "368 \<le> ?p" "?p < 368 + ?s * 16"
        using False k b assms by (simp_all add: min_def, arith+)
      have "?full2 ! ?p = mem (t + ?f * 16 + (?p - 368)) ! ?p"
        by (rule trans [OF nth2 [OF p(1)] if_P]) (rule conjI [OF p(2,3)])
      moreover have "t \<le> t + ?f * 16 + (?p - 368)" "t + ?f * 16 + (?p - 368) < t + 16 * count"
        using False k b assms by (simp_all add: min_def, arith+)
      ultimately show ?thesis unfolding md by blast
    qed
  qed
qed

section \<open>One pass of the reader\<close>

definition summary_of :: "pwm_shared \<Rightarrow> pwm_shared" where
  "summary_of s = s\<lparr>ps_ring := []\<rparr>"

lemma summary_of_prefix:
  assumes "take PWM_SUMMARY_SIZE b = take PWM_SUMMARY_SIZE b'"
  shows "summary_of (pwm_of_bytes b) = summary_of (pwm_of_bytes b')"
proof -
  have u: "unpack_u32 b off = unpack_u32 b' off" if "off + 4 \<le> 368" for off
    using assms that by (rule unpack_prefix)
  have ch: "channel_at b (80 + 32 * i) = channel_at b' (80 + 32 * i)" if "i < 6" for i
    using that by (simp add: channel_at_def u)
  have pr: "pair_at b (272 + 32 * i) = pair_at b' (272 + 32 * i)" if "i < 3" for i
    using that by (simp add: pair_at_def u)
  show ?thesis
    by (simp add: summary_of_def pwm_of_bytes_def u ch pr del: upt_rec_numeral cong: map_cong)
qed

lemma summary_fields:
  assumes "summary_of s = summary_of s'"
  shows "ps_ring_count s = ps_ring_count s'" "ps_ring_head s = ps_ring_head s'"
    "ps_event_seq s = ps_event_seq s'" "ps_running s = ps_running s'"
    "validate_snapshot s = validate_snapshot s'"
  using assms by (simp_all add: summary_of_def validate_snapshot_def) (cases s; cases s'; simp)+

lemma ring_writerD:
  assumes "ring_writer mem c announced published ev"
  shows "unpack_u32 (mem t) EVENT_SEQ_OFFSET = int (announced t mod 2 ^ 32)"
    and "even (c t) \<Longrightarrow> announced t = published t"
    and "even (c t) \<Longrightarrow> unpack_u32 (mem t) 56 = int (published t mod RING_CAPACITY)"
    and "even (c t) \<Longrightarrow> unpack_u32 (mem t) 60 = int (min (published t) RING_CAPACITY)"
    and "t \<le> u \<Longrightarrow> announced t \<le> announced u"
    and "t \<le> u \<Longrightarrow> published t \<le> published u"
    and "announced (t + 2500) < announced t + 2 ^ 32"
    and "i < published t \<Longrightarrow> announced t \<le> i + RING_CAPACITY \<Longrightarrow>
      slot_bytes (mem t) (i mod RING_CAPACITY) = ev i"
proof -
  have a: "announced t \<le> announced (Suc t)" and p: "published t \<le> published (Suc t)" for t
    using assms unfolding ring_writer_def by blast+
  show "t \<le> u \<Longrightarrow> announced t \<le> announced u" using a by (rule steps_mono)
  show "t \<le> u \<Longrightarrow> published t \<le> published u" using p by (rule steps_mono)
qed (use assms in \<open>unfold ring_writer_def, blast+\<close>)

text \<open>The counter difference modulo \<open>2^32\<close> that the reader computes is the true difference.\<close>

lemma advanced_exact:
  fixes a b :: nat
  assumes "a \<le> b" "b < a + 2 ^ 32"
  shows "(int (b mod 2 ^ 32) - int (a mod 2 ^ 32)) AND 0xFFFFFFFF = int (b - a)"
proof -
  have "(int (b mod 2 ^ 32) - int (a mod 2 ^ 32)) mod 2 ^ 32 = (int b - int a) mod 2 ^ 32"
    by (simp add: of_nat_mod mod_simps)
  also have "\<dots> = int (b - a)" using assms by (simp add: of_nat_diff)
  finally show ?thesis by (simp add: and_u32)
qed

lemma window_kept:
  assumes rw: "ring_writer mem c announced published ev" and w: "seqlock_writer mem c"
    and c: "even (c t)"
    and emit: "0 < n" "n \<le> published t" "n \<le> 128"
    and full: "length full = PWM_SHARED_SIZE"
    and start: "start = (published t - n) mod 128"
    and bytes: "\<And>k b. k < n \<Longrightarrow> b < 16 \<Longrightarrow> \<exists>u. t \<le> u \<and> u \<le> v
       \<and> full ! (368 + 16 * ((start + k) mod 128) + b) = mem u ! (368 + 16 * ((start + k) mod 128) + b)"
    and room: "announced v + n \<le> announced t + 128"
    and k: "k < n"
  shows "slot_bytes full ((start + k) mod 128) = ev (published t - n + k)"
proof (rule nth_equalityI)
  let ?i = "published t - n + k"
  have slot: "(start + k) mod 128 = ?i mod 128" by (simp add: start mod_simps)
  have at: "slot_bytes (mem u) (?i mod 128) = ev ?i" if "t \<le> u" "u \<le> v" for u
  proof (rule ring_writerD(8) [OF rw])
    show "?i < published u" using ring_writerD(6) [OF rw that(1)] emit k by simp
    show "announced u \<le> ?i + 128"
      using ring_writerD(5) [OF rw that(2)] ring_writerD(2) [OF rw c] room emit by simp
  qed
  have len: "PWM_SHARED_SIZE \<le> length (mem u)" for u by (rule seqlock_writerD(1) [OF w])
  have ev: "length (ev ?i) = 16"
  proof -
    from bytes [OF k, of 0] obtain u where "t \<le> u" "u \<le> v" by auto
    from at [OF this] length_slot_bytes [OF _ len] show ?thesis by (metis mod_less_divisor zero_less_numeral)
  qed
  show "length (slot_bytes full ((start + k) mod 128)) = length (ev ?i)"
    using ev full by (simp add: length_slot_bytes)
  fix b assume "b < length (slot_bytes full ((start + k) mod 128))"
  then have b: "b < 16" using full by (simp add: length_slot_bytes)
  from bytes [OF k b] obtain u where u: "t \<le> u" "u \<le> v"
    "full ! (368 + 16 * ((start + k) mod 128) + b) = mem u ! (368 + 16 * ((start + k) mod 128) + b)"
    by blast
  have "slot_bytes full ((start + k) mod 128) ! b = full ! (368 + 16 * ((start + k) mod 128) + b)"
    using b full by (simp add: slot_bytes_nth)
  also have "\<dots> = slot_bytes (mem u) (?i mod 128) ! b"
    using u(3) b len [of u] by (simp add: slot_bytes_nth slot)
  finally show "slot_bytes full ((start + k) mod 128) ! b = ev ?i ! b"
    by (simp add: at [OF u(1,2)])
qed

definition window_of :: "nat \<Rightarrow> nat \<Rightarrow> (nat \<Rightarrow> byte list) \<Rightarrow> edge_record list" where
  "window_of n count ev = map (\<lambda>k. edge_of (ev (count - n + k))) [0..<n]"

lemma ring_nth: "i < 128 \<Longrightarrow> ps_ring (pwm_of_bytes b) ! i = edge_of (slot_bytes b i)"
  by (simp add: pwm_of_bytes_def del: upt_rec_numeral)

lemma start_slot_nat:
  assumes "n \<le> p"
  shows "nat ((int (p mod 128) - int n) mod 128) = (p - n) mod 128"
proof -
  have "(int (p mod 128) - int n) mod 128 = int (p - n) mod 128"
    using assms by (simp add: of_nat_diff of_nat_mod mod_simps)
  also have "\<dots> = int ((p - n) mod 128)" by (simp add: of_nat_mod)
  finally show ?thesis by simp
qed

text \<open>What a pass that returns a snapshot has seen: the summary and the window of one instant.\<close>

lemma ring_attempt_window:
  assumes w: "seqlock_writer mem c" and c: "even (c t)"
    and run: "ring_attempt mem rlim (take PWM_SUMMARY_SIZE (mem t)) (t + 370) = (Inr (Some s), t')"
  shows "summary_of s = summary_of (pwm_of_bytes (mem t)) \<and> validate_snapshot s = Inr () \<and> t \<le> t'
    \<and> (ring_writer mem c announced published ev \<longrightarrow>
        recent_edges s (int rlim) = window_of (min (min (published t) 128) rlim) (published t) ev)"
proof -
  define full where "full = take PWM_SUMMARY_SIZE (mem t) @ replicate (PWM_SHARED_SIZE - PWM_SUMMARY_SIZE) 0"
  define sm where "sm = pwm_of_bytes full"
  define emit where "emit = min (min (nat (ps_ring_count sm)) 128) rlim"
  define start where "start = nat ((ps_ring_head sm - int emit) mod int 128)"
  have len: "PWM_SHARED_SIZE \<le> length (mem u)" for u by (rule seqlock_writerD(1) [OF w])
  have lfull: "length full = 2416" using len [of t] by (simp add: full_def)
  have sum: "summary_of sm = summary_of (pwm_of_bytes (mem t))"
    unfolding sm_def full_def using len [of t] by (intro summary_of_prefix) simp
  have count: "nat (ps_ring_count sm) = min (published t) 128"
    and head: "ps_ring_head sm = int (published t mod 128)"
    and evs: "ps_event_seq sm = int (announced t mod 2 ^ 32)"
    if rw: "ring_writer mem c announced published ev"
    using summary_fields [OF sum] ring_writerD(3,4) [OF rw c] ring_writerD(1) [OF rw, of t]
    by (simp_all add: pwm_of_bytes_def)
  note run' = run [unfolded ring_attempt_def Let_def, folded full_def, folded sm_def,
      folded emit_def, folded start_def]
  show ?thesis
  proof (cases "emit = 0")
    case True
    with run' have s: "s = sm" "validate_snapshot sm = Inr ()" "t' = t + 370"
      by (auto simp: io_results)
    have "recent_edges s (int rlim) = []"
      using True by (simp add: recent_edges_def Let_def s(1) emit_def del: upt_rec_numeral)
    with True s sum count show ?thesis by (auto simp: window_of_def emit_def)
  next
    case False
    then have emit: "0 < emit" "emit \<le> 128" by (simp_all add: emit_def)
    have st: "start < 128" by (simp add: nat_less_iff start_def)
    obtain full' where copy:
      "copy_ring_window mem full start emit (t + 370) = (Inr full', t + 370 + 16 * emit)"
      "length full' = 2416" "take 368 full' = take 368 full"
      "\<And>k b. k < emit \<Longrightarrow> b < 16 \<Longrightarrow> \<exists>u. t + 370 \<le> u \<and> u < t + 370 + 16 * emit
         \<and> full' ! (368 + 16 * ((start + k) mod 128) + b) = mem u ! (368 + 16 * ((start + k) mod 128) + b)"
      using copy_ring_window_bytes [OF lfull st emit, of mem "t + 370"] by blast
    define v where "v = t + 370 + 16 * emit"
    define adv where "adv = (unpack_u32 (mem v) 52 - ps_event_seq sm) AND 0xFFFFFFFF"
    from run' False copy(1) have res: "\<not> int (128 - emit) < adv" "s = pwm_of_bytes full'"
      "validate_snapshot (pwm_of_bytes full') = Inr ()" "t' = Suc v"
      by (auto simp: io_results read_u32_def adv_def v_def split: if_splits)
    have sums: "summary_of s = summary_of (pwm_of_bytes (mem t))"
      unfolding res(2) using copy(3) len [of t] by (intro summary_of_prefix) (simp add: full_def)
    moreover have "recent_edges s (int rlim) = window_of (min (min (published t) 128) rlim) (published t) ev"
      if rw: "ring_writer mem c announced published ev"
    proof -
      define n where "n = min (min (published t) 128) rlim"
      have n: "emit = n" using count [OF rw] by (simp add: emit_def n_def)
      have start: "start = (published t - n) mod 128"
        using start_slot_nat [of n "published t"] by (simp add: start_def head [OF rw] n n_def)
      have "announced t \<le> announced v" "announced v \<le> announced (t + 2500)"
        using emit by (auto intro!: ring_writerD(5) [OF rw] simp: v_def)
      then have "adv = int (announced v - announced t)"
        using ring_writerD(7) [OF rw, of t] advanced_exact [of "announced t" "announced v"]
        by (simp add: adv_def ring_writerD(1) [OF rw] evs [OF rw])
      with res(1) emit have room: "announced v + n \<le> announced t + 128" unfolding n by linarith
      have "slot_bytes full' ((start + k) mod 128) = ev (published t - n + k)" if "k < n" for k
      proof (rule window_kept [OF rw w c _ _ _ copy(2) start _ room that])
        fix k b :: nat assume "k < n" "b < 16"
        with copy(4) [of k b] obtain u where "t + 370 \<le> u" "u < v"
          "full' ! (368 + 16 * ((start + k) mod 128) + b) = mem u ! (368 + 16 * ((start + k) mod 128) + b)"
          unfolding v_def n by blast
        then show "\<exists>u\<ge>t. u \<le> v \<and>
            full' ! (368 + 16 * ((start + k) mod 128) + b) = mem u ! (368 + 16 * ((start + k) mod 128) + b)"
          by (intro exI [of _ u]) simp
      qed (use emit n in \<open>simp_all add: n_def\<close>)
      moreover have "ps_ring_count s = ps_ring_count sm" "ps_ring_head s = ps_ring_head sm"
        using summary_fields(1,2) [OF sums] summary_fields(1,2) [OF sum] by simp_all
      moreover from this have "recent_edges s (int rlim)
          = map (\<lambda>k. ps_ring s ! ((start + k) mod 128)) [0..<emit]"
        by (simp add: recent_edges_def Let_def start_def emit_def del: upt_rec_numeral)
      ultimately show ?thesis
        by (simp add: window_of_def res(2) ring_nth n flip: n_def del: upt_rec_numeral)
    qed
    ultimately show ?thesis using res by (simp add: v_def)
  qed
qed

lemma snapshot_attempt_window:
  assumes w: "seqlock_writer mem c" and run: "snapshot_attempt mem rlim t = (Inr (Some s), t')"
  shows "t \<le> t' \<and> even (c t) \<and> summary_of s = summary_of (pwm_of_bytes (mem t))
    \<and> (ring_writer mem c announced published ev \<longrightarrow>
        recent_edges s (int rlim) = window_of (min (min (published t) 128) rlim) (published t) ev)"
  using w
proof (cases rule: seqlock_pass [where rlim = rlim and t = t])
  case pass
  with run ring_attempt_window [OF w pass(2), of rlim s t'] show ?thesis by simp
qed (use run in simp)

text \<open>Time only goes forward.\<close>

lemma keeps_time_reads:
  "keeps (\<lambda>u. t \<le> u) (read_u32 mem off)" "keeps (\<lambda>u. t \<le> u) (read_block mem a n)"
  by (simp_all add: keeps_def read_u32_def read_block_def)

lemma keeps_time_attempt: "keeps (\<lambda>u. t \<le> u) (snapshot_attempt mem rlim)"
  unfolding snapshot_attempt_def ring_attempt_def copy_ring_window_def Let_def
  by (intro keeps_intros keeps_time_reads)

lemma snapshot_attempt_time: "snapshot_attempt mem rlim t = (r, t') \<Longrightarrow> t \<le> t'"
  using keepsD [OF keeps_time_attempt, of t t mem rlim r t'] by simp

lemma snapshot_attempts_window:
  assumes w: "seqlock_writer mem c"
  shows "snapshot_attempts mem rlim n t = (Inr s, t') \<Longrightarrow>
    \<exists>u. t \<le> u \<and> u \<le> t' \<and> even (c u) \<and> summary_of s = summary_of (pwm_of_bytes (mem u))
      \<and> (ring_writer mem c announced published ev \<longrightarrow>
          recent_edges s (int rlim) = window_of (min (min (published u) 128) rlim) (published u) ev)"
proof (induction n arbitrary: t)
  case 0
  then show ?case by (simp add: io_results)
next
  case (Suc n)
  then obtain r t1 where first: "snapshot_attempt mem rlim t = (Inr r, t1)"
    and rest: "(case r of Some x \<Rightarrow> return_io x | None \<Rightarrow> snapshot_attempts mem rlim n) t1 = (Inr s, t')"
    by (auto simp: io_results)
  show ?case
  proof (cases r)
    case None
    with rest Suc.IH [of t1] snapshot_attempt_time [OF first] show ?thesis
      by (metis (no_types, lifting) le_trans option.case(1))
  next
    case (Some x)
    with rest have "x = s" "t1 = t'" by (simp_all add: io_results)
    with snapshot_attempt_window [OF w first [unfolded Some]] show ?thesis by blast
  qed
qed

text \<open>The exceptions of the reader.\<close>

lemma validate_snapshot_error: "validate_snapshot s = Inl e \<Longrightarrow> e \<in> {RuntimeError}"
  by (auto simp: validate_snapshot_def split: if_splits)

lemma snapshot_attempt_errors: "raises_only {RuntimeError} (snapshot_attempt mem rlim)"
proof -
  have reads: "raises_only {RuntimeError} (read_u32 mem off)" "raises_only {RuntimeError} (read_block mem a n)"
    for off a n
    by (simp_all add: raises_only_def read_u32_def read_block_def)
  show ?thesis
    unfolding snapshot_attempt_def ring_attempt_def copy_ring_window_def Let_def
    by (intro raises_only_intros reads) (erule validate_snapshot_error | rule insertI1)+
qed

lemma snapshot_attempts_errors: "raises_only {RuntimeError} (snapshot_attempts mem rlim n)"
proof (induction n)
  case (Suc n)
  then show ?case
    unfolding snapshot_attempts.simps
    by (intro raises_only_bind snapshot_attempt_errors) (simp add: raises_only_return split: option.split)
qed (simp add: raises_only_raise)

lemma snapshot_never_type_error:
  assumes "read_consistent_snapshot_from_buffer mem retries rlim t = (Inl e, t')"
  shows "e \<noteq> TypeError"
proof -
  have "raises_only {ValueError, RuntimeError} (read_consistent_snapshot_from_buffer mem retries rlim)"
    unfolding read_consistent_snapshot_from_buffer_def
    using snapshot_attempts_errors
    by (intro raises_only_if) (auto simp: raises_only_def raise_io_def)
  from raises_onlyD [OF this assms] show ?thesis by auto
qed

section \<open>A memory that does not change\<close>

text \<open>A stopped capture with two published edges.\<close>

definition still_header :: "int list" where
  "still_header =
     [PWM_MAGIC, PWM_VERSION, 2416, 0, 200000000, 6, 3, 128, 0, 0, 0, 0, 0, 2, 2, 2]"

definition still_page :: "byte list" where
  "still_page = concat (map (le_bytes 4) still_header) @ replicate 2352 0"

lemma unpack_words:
  "i < length vs \<Longrightarrow> unpack_u32 (concat (map (le_bytes 4) vs) @ rest) (4 * i) = vs ! i mod 2 ^ 32"
proof (induction vs arbitrary: i)
  case (Cons v vs)
  show ?case
  proof (cases i)
    case 0
    then show ?thesis by (simp add: unpack_u32_def le_value_le_bytes)
  next
    case (Suc j)
    with Cons have "unpack_u32 (concat (map (le_bytes 4) vs) @ rest) (4 * j) = vs ! j mod 2 ^ 32" by simp
    with Suc show ?thesis by (simp add: unpack_u32_def)
  qed
qed simp

lemma length_words: "length (concat (map (le_bytes 4) vs)) = 4 * length vs"
  by (induction vs) simp_all

lemma still_words:
  "unpack_u32 still_page 0 = PWM_MAGIC" "unpack_u32 still_page 4 = 1"
  "unpack_u32 still_page 8 = 2416" "unpack_u32 still_page 12 = 0"
  "unpack_u32 still_page 16 = 200000000"
  "unpack_u32 still_page 20 = 6" "unpack_u32 still_page 24 = 3"
  "unpack_u32 still_page 28 = 128" "unpack_u32 still_page 32 = 0"
  "unpack_u32 still_page 52 = 2" "unpack_u32 still_page 56 = 2" "unpack_u32 still_page 60 = 2"
  using unpack_words [of 0 still_header "replicate 2352 0"]
    unpack_words [of 1 still_header "replicate 2352 0"]
    unpack_words [of 2 still_header "replicate 2352 0"]
    unpack_words [of 3 still_header "replicate 2352 0"]
    unpack_words [of 4 still_header "replicate 2352 0"]
    unpack_words [of 5 still_header "replicate 2352 0"]
    unpack_words [of 6 still_header "replicate 2352 0"]
    unpack_words [of 7 still_header "replicate 2352 0"]
    unpack_words [of 8 still_header "replicate 2352 0"]
    unpack_words [of 13 still_header "replicate 2352 0"]
    unpack_words [of 14 still_header "replicate 2352 0"]
    unpack_words [of 15 still_header "replicate 2352 0"]
  unfolding still_page_def [symmetric] by (simp_all add: still_header_def)

lemma still_page_facts:
  "length still_page = 2416"
  "slot_bytes still_page 0 = replicate 16 0" "slot_bytes still_page (Suc 0) = replicate 16 0"
  "ps_seq_lock (pwm_of_bytes still_page) = 0" "ps_running (pwm_of_bytes still_page) = 0"
  "validate_snapshot (pwm_of_bytes still_page) = Inr ()"
proof -
  have len: "length (concat (map (le_bytes 4) still_header)) = 64"
    unfolding length_words by (simp add: still_header_def)
  then show "length still_page = 2416" by (simp add: still_page_def del: length_concat)
  show "slot_bytes still_page 0 = replicate 16 0" "slot_bytes still_page (Suc 0) = replicate 16 0"
    using len by (simp_all add: still_page_def slot_bytes_def slice_def del: length_concat)
  show "ps_seq_lock (pwm_of_bytes still_page) = 0" "ps_running (pwm_of_bytes still_page) = 0"
    "validate_snapshot (pwm_of_bytes still_page) = Inr ()"
    by (simp_all add: pwm_of_bytes_def still_words validate_snapshot_def CHANNEL_NAMES_def
        PAIR_NAMES_def del: upt_rec_numeral)
qed

lemma still_writers:
  "seqlock_writer (\<lambda>_. still_page) (\<lambda>_. 0)"
  "ring_writer (\<lambda>_. still_page) (\<lambda>_. 0) (\<lambda>_. 2) (\<lambda>_. 2) (\<lambda>_. replicate 16 0)"
proof -
  show "seqlock_writer (\<lambda>_. still_page) (\<lambda>_. 0)"
    by (simp add: seqlock_writer_def still_page_facts still_words)
  have "slot_bytes still_page (i mod 128) = replicate 16 0" if "i < 2" for i
    using that still_page_facts(2,3) by (auto simp: less_2_cases_iff)
  then show "ring_writer (\<lambda>_. still_page) (\<lambda>_. 0) (\<lambda>_. 2) (\<lambda>_. 2) (\<lambda>_. replicate 16 0)"
    by (simp add: ring_writer_def still_words)
qed

text \<open>The copied image of a memory that does not change.\<close>

lemma still_window:
  assumes "PWM_SHARED_SIZE \<le> length m" "length full = PWM_SHARED_SIZE" "start < 128" "n \<le> 128"
  obtains full' where "copy_ring_window (\<lambda>_. m) full start n t = (Inr full', t + 16 * n)"
    "length full' = PWM_SHARED_SIZE" "take PWM_SUMMARY_SIZE full' = take PWM_SUMMARY_SIZE full"
proof (cases "n = 0")
  case True
  with assms show thesis by (intro that [of full]) (simp_all add: copy_ring_window_def io_simps)
next
  case False
  then have "0 < n" by simp
  then show thesis
    by (rule copy_ring_window_bytes [OF assms(2,3) _ assms(4), of "\<lambda>_. m" t])
      (erule that, assumption+)
qed

lemma still_attempt:
  assumes m: "PWM_SHARED_SIZE \<le> length m"
  shows "if odd (ps_seq_lock (pwm_of_bytes m)) then \<exists>t'. snapshot_attempt (\<lambda>_. m) rlim t = (Inr None, t')
    else if validate_snapshot (pwm_of_bytes m) \<noteq> Inr ()
       \<or> (ps_running (pwm_of_bytes m) \<noteq> 0
           \<and> 128 \<le> min (min (nat (ps_ring_count (pwm_of_bytes m))) 128) rlim)
    then \<exists>t'. snapshot_attempt (\<lambda>_. m) rlim t = (Inl RuntimeError, t')
    else \<exists>s t'. snapshot_attempt (\<lambda>_. m) rlim t = (Inr (Some s), t')
       \<and> summary_of s = summary_of (pwm_of_bytes m)"
proof (cases "odd (ps_seq_lock (pwm_of_bytes m))")
  case True
  then show ?thesis
    by (simp add: snapshot_attempt_def read_u32_def io_simps and_one_even pwm_of_bytes_def)
next
  case False
  define full where "full = take PWM_SUMMARY_SIZE m @ replicate (PWM_SHARED_SIZE - PWM_SUMMARY_SIZE) 0"
  define sm where "sm = pwm_of_bytes full"
  define emit where "emit = min (min (nat (ps_ring_count sm)) 128) rlim"
  define start where "start = nat ((ps_ring_head sm - int emit) mod int 128)"
  have lfull: "length full = 2416" using m by (simp add: full_def)
  have st: "start < 128" by (simp add: nat_less_iff start_def)
  have emit: "emit \<le> 128" by (simp add: emit_def)
  have sum: "summary_of sm = summary_of (pwm_of_bytes m)"
    unfolding sm_def full_def using m by (intro summary_of_prefix) simp
  note same = summary_fields [OF sum]
  have "read_block (\<lambda>_. m) 0 368 (Suc t) = (Inr (take 368 m), Suc t + 368)"
    using m by (intro read_block_stable) simp_all
  then have pass: "snapshot_attempt (\<lambda>_. m) rlim t = ring_attempt (\<lambda>_. m) rlim (take 368 m) (t + 370)"
    using False by (simp add: snapshot_attempt_def read_u32_def io_simps unpack_take and_one_even
        pwm_of_bytes_def add.commute [of t])
  obtain full' where copy: "copy_ring_window (\<lambda>_. m) full start emit (t + 370)
      = (Inr full', t + 370 + 16 * emit)" "take 368 full' = take 368 full"
    using still_window [OF m lfull st emit] by blast
  have sum': "summary_of (pwm_of_bytes full') = summary_of sm"
    unfolding sm_def using copy(2) by (rule summary_of_prefix)
  have "(unpack_u32 m 52 - ps_event_seq sm) AND 0xFFFFFFFF = 0"
    using same(3) by (simp add: pwm_of_bytes_def)
  then have ra: "ring_attempt (\<lambda>_. m) rlim (take 368 m) (t + 370) =
     (if validate_snapshot sm \<noteq> Inr () then (Inl RuntimeError, t + 370)
      else if emit = 0 then (Inr (Some sm), t + 370)
      else if ps_running sm \<noteq> 0 \<and> 128 \<le> emit then (Inl RuntimeError, t + 370)
      else (Inr (Some (pwm_of_bytes full')), Suc (t + 370 + 16 * emit)))"
    using copy(1) summary_fields(5) [OF sum'] emit
    unfolding ring_attempt_def Let_def
    unfolding full_def [symmetric] sm_def [symmetric] emit_def [symmetric] start_def [symmetric]
    by (auto simp: io_simps read_u32_def validate_snapshot_def)
  show ?thesis
    using False sum sum' same unfolding pass ra
    by (auto simp: emit_def)
qed

lemma still_result:
  assumes "PWM_SHARED_SIZE \<le> length m"
  shows "(retries \<le> 0 \<or> rlim < 0 \<longrightarrow>
       read_consistent_snapshot_from_buffer (\<lambda>_. m) retries rlim t = (Inl ValueError, t))
   \<and> (0 < retries \<and> 0 \<le> rlim \<longrightarrow>
       (if even (ps_seq_lock (pwm_of_bytes m)) \<and> validate_snapshot (pwm_of_bytes m) = Inr ()
           \<and> \<not> (ps_running (pwm_of_bytes m) \<noteq> 0
                \<and> 128 \<le> min (min (nat (ps_ring_count (pwm_of_bytes m))) 128) (nat rlim))
        then \<exists>s t'. read_consistent_snapshot_from_buffer (\<lambda>_. m) retries rlim t = (Inr s, t')
               \<and> summary_of s = summary_of (pwm_of_bytes m)
        else \<exists>t'. read_consistent_snapshot_from_buffer (\<lambda>_. m) retries rlim t = (Inl RuntimeError, t')))"
proof -
  have odd: "\<exists>t'. snapshot_attempts (\<lambda>_. m) l n t = (Inl RuntimeError, t')"
    if "odd (ps_seq_lock (pwm_of_bytes m))" for l n t
  proof (induction n arbitrary: t)
    case (Suc n)
    from still_attempt [OF assms, of l t] that
    obtain t1 where "snapshot_attempt (\<lambda>_. m) l t = (Inr None, t1)" by auto
    with Suc [of t1] show ?case by (simp add: io_simps)
  qed (simp add: io_simps)
  show ?thesis
  proof (cases "0 < retries \<and> 0 \<le> rlim")
    case True
    then obtain n where "nat retries = Suc n" by (metis gr0_implies_Suc zero_less_nat_eq)
    with True have run: "read_consistent_snapshot_from_buffer (\<lambda>_. m) retries rlim t
        = snapshot_attempts (\<lambda>_. m) (nat rlim) (Suc n) t"
      by (simp add: read_consistent_snapshot_from_buffer_def)
    show ?thesis
      using True odd [of "nat rlim" "Suc n" t] still_attempt [OF assms, of "nat rlim" t]
      unfolding run
      by (cases "odd (ps_seq_lock (pwm_of_bytes m))") (auto simp: io_simps split: if_splits)
  qed (auto simp: read_consistent_snapshot_from_buffer_def io_simps)
qed

lemma pwm_snapshot_still_run:
  "\<exists>s t'. read_consistent_snapshot_from_buffer (\<lambda>_. still_page) 1000 16 0 = (Inr s, t')"
  using still_result [of still_page 1000 16 0] by (auto simp: still_page_facts)

section \<open>Properties\<close>

text \<open>C11: Against a writer that follows the seqlock and ring disciplines of the firmware, in any
  interleaving and with every byte read at its own moment, a snapshot that the reader returns is
  never torn: its statistics are exactly the shared structure at one instant \<open>u\<close> of the call at
  which no update was in progress, and its recent-edge window is exactly the last edges
  published at that instant, in order, none overwritten while it was being copied.\<close>

theorem pwm_snapshot_untorn:
  assumes "seqlock_writer mem c" and "ring_writer mem c announced published ev"
    and "read_consistent_snapshot_from_buffer mem retries rlim t = (Inr s, t')"
  shows "\<exists>u. t \<le> u \<and> u \<le> t' \<and> even (c u) \<and> summary_of s = summary_of (pwm_of_bytes (mem u))
    \<and> recent_edges s rlim = window_of (min (min (published u) 128) (nat rlim)) (published u) ev"
proof -
  from assms(3) have rlim: "0 \<le> rlim"
    and run: "snapshot_attempts mem (nat rlim) (nat retries) t = (Inr s, t')"
    by (auto simp: read_consistent_snapshot_from_buffer_def io_results split: if_splits)
  from snapshot_attempts_window [OF assms(1) run, of announced published ev] assms(2) rlim
  show ?thesis by auto
qed

lemma pwm_snapshot_untorn_witness:
  "\<exists>s t'. read_consistent_snapshot_from_buffer (\<lambda>_. still_page) 1000 16 0 = (Inr s, t')
     \<and> recent_edges s 16 = [edge_of (replicate 16 0), edge_of (replicate 16 0)]"
proof -
  from pwm_snapshot_still_run obtain s t' where
    run: "read_consistent_snapshot_from_buffer (\<lambda>_. still_page) 1000 16 0 = (Inr s, t')" by blast
  from pwm_snapshot_untorn [OF still_writers run] run show ?thesis
    by (auto simp: window_of_def upt_rec)
qed



end
