(* ===== verification/Bbb_Backend.thy ===== *)
theory Bbb_Backend
  imports Pru_Protocol Pwm_Shared
begin

text \<open>
  \<open>host/hil/backends/beaglebone_pru.py\<close>: the BeagleBone backend over two PRU endpoints. The
  endpoints are request functions (\<open>'s rpc\<close>) on a state \<open>'s\<close> that holds the clients and the
  hardware; the snapshot reader is a function that may be called with or without a ring limit.
  The duck-typed \<open>protocol\<close> argument is the module \<open>hil_pru_protocol\<close>, which \<open>open\<close> passes.
  The backend implements the contract \<open>hil_backend\<close>.
\<close>

section \<open>Endpoints\<close>

record 's pru_handle =
  ph_request :: "'s rpc"
  ph_close :: "('s, unit) io"

type_synonym 's snapshot_reader = "int option \<Rightarrow> ('s, pwm_shared) io"

record bbb_hello =
  bh_capabilities_raw :: int
  bh_tick_hz :: int
  bh_counter_bits :: int
  bh_firmware_version :: int

record 's bbb_backend =
  bb_capture :: "'s pru_handle"
  bb_stimulus :: "'s pru_handle option"
  bb_snapshot_reader :: "'s snapshot_reader"
  bb_owns_clients :: bool
  bb_capture_hello :: bbb_hello
  bb_stimulus_hello :: "bbb_hello option"
  bb_identity :: backend_identity

text \<open>\<open>_check_response\<close>\<close>

definition bb_check_response :: "message \<Rightarrow> exn + unit" where
  "bb_check_response r =
     (if m_flags r = 0 then Inr ()
      else if m_flags r AND ERR_INVALID_ARGUMENT \<noteq> 0 then Inl InvalidConfiguration
      else Inl InfrastructureError)"

text \<open>\<open>_request\<close>, and the same wrapping of exceptions in \<open>_hello\<close>.\<close>

definition bb_request :: "'s rpc \<Rightarrow> int \<Rightarrow> int \<Rightarrow> int \<Rightarrow> int \<Rightarrow> int \<Rightarrow> ('s, message) io" where
  "bb_request rpc t a0 a1 a2 a3 =
     bind_io (catch_io (rpc t a0 a1 a2 a3) (\<lambda>_. raise_io InfrastructureError)) (\<lambda>response.
     then_io (lift_io (bb_check_response response)) (return_io response))"

definition bb_hello :: "'s rpc \<Rightarrow> ('s, bbb_hello) io" where
  "bb_hello rpc =
     bind_io (catch_io (rpc MSG_HELLO 0 0 0 0) (\<lambda>_. raise_io InfrastructureError)) (\<lambda>response.
     then_io (lift_io (bb_check_response response)) (
     then_io (ensure_io (\<not> (m_arg1 response \<le> 0 \<or> m_arg2 response \<le> 0)) InfrastructureError) (
     return_io \<lparr>bh_capabilities_raw = m_arg0 response, bh_tick_hz = m_arg1 response,
                bh_counter_bits = m_arg2 response, bh_firmware_version = m_arg3 response\<rparr>)))"

text \<open>\<open>_map_capabilities\<close>\<close>

definition capability_mapping :: "(int \<times> capability) list" where
  "capability_mapping =
     [(CAP_TIMEBASE, TIMEBASE), (CAP_FORCE_SAFE, FORCE_SAFE), (CAP_PWM_CAPTURE, PWM_CAPTURE),
      (CAP_PWM_COMPLEMENTARY_MONITOR, PWM_COMPLEMENTARY_MONITOR),
      (CAP_ABZ_EMULATOR, ABZ_GENERATOR), (CAP_SSI_EMULATOR, SSI_SENSOR_EMULATOR),
      (CAP_BISS_EMULATOR, BISS_SENSOR_EMULATOR), (CAP_SPI_SENSOR_EMULATOR, SPI_SENSOR_EMULATOR)]"

definition map_capabilities :: "int \<Rightarrow> int \<Rightarrow> capability set" where
  "map_capabilities pru0_caps pru1_caps =
     (let combined = pru0_caps OR pru1_caps
      in set (map snd (filter (\<lambda>(b, _). b \<noteq> 0 \<and> combined AND b \<noteq> 0) capability_mapping)))"

text \<open>The stimulus capabilities that demand a FORCE_SAFE of their own.\<close>

definition stimulus_active :: "int \<Rightarrow> bool" where
  "stimulus_active stim_caps \<longleftrightarrow>
     (\<exists>b \<in> set [CAP_ABZ_EMULATOR, CAP_HALL_EMULATOR, CAP_SSI_EMULATOR, CAP_BISS_EMULATOR,
                CAP_SPI_SENSOR_EMULATOR]. stim_caps AND b \<noteq> 0)"

definition firmware_string :: "int \<Rightarrow> int option \<Rightarrow> string" where
  "firmware_string fw0 fw1 =
     ''pru0=0x'' @ hex08 fw0 @ (case fw1 of None \<Rightarrow> [] | Some v \<Rightarrow> '';pru1=0x'' @ hex08 v)"

text \<open>The constructor.\<close>

definition bbb_init ::
    "'s pru_handle \<Rightarrow> 's pru_handle option \<Rightarrow> 's snapshot_reader \<Rightarrow> string \<Rightarrow> bool
      \<Rightarrow> ('s, 's bbb_backend) io" where
  "bbb_init capture stimulus reader hwrev owns =
     bind_io (bb_hello (ph_request capture)) (\<lambda>h0.
     bind_io (case stimulus of None \<Rightarrow> return_io None
              | Some st \<Rightarrow> bind_io (bb_hello (ph_request st)) (\<lambda>h. return_io (Some h))) (\<lambda>h1.
     then_io (case h1 of None \<Rightarrow> return_io ()
              | Some h \<Rightarrow> ensure_io (\<not> (bh_tick_hz h \<noteq> bh_tick_hz h0
                                        \<or> bh_counter_bits h \<noteq> bh_counter_bits h0))
                            InfrastructureError) (
     let caps = map_capabilities (bh_capabilities_raw h0)
                  (case h1 of None \<Rightarrow> 0 | Some h \<Rightarrow> bh_capabilities_raw h) in
     then_io (case h1 of None \<Rightarrow> return_io ()
              | Some h \<Rightarrow> ensure_io (\<not> (stimulus_active (bh_capabilities_raw h)
                                        \<and> bh_capabilities_raw h AND Pru_Protocol.CAP_FORCE_SAFE = 0))
                            InfrastructureError) (
     bind_io (lift_io (mk_backend_identity ''bbb_pru'' hwrev
                (firmware_string (bh_firmware_version h0) (map_option bh_firmware_version h1))
                API_VERSION caps (bh_tick_hz h0) (bh_counter_bits h0))) (\<lambda>ident.
     then_io (lift_io (validate_contract ident)) (
     return_io \<lparr>bb_capture = capture, bb_stimulus = stimulus, bb_snapshot_reader = reader,
                bb_owns_clients = owns, bb_capture_hello = h0, bb_stimulus_hello = h1,
                bb_identity = ident\<rparr>))))))"

text \<open>
  \<open>open\<close>: discovery answers a path or raises, \<open>new_client\<close> is the constructor of \<open>HilPru\<close>;
  whatever fails after the capture client exists closes the clients that exist, and re-raises.
\<close>

definition discover_pru1 :: "(string \<Rightarrow> bool) \<Rightarrow> string list \<Rightarrow> string option \<Rightarrow> string option" where
  "discover_pru1 path_exists globbed explicit =
     (if explicit \<noteq> None \<and> explicit \<noteq> Some [] then explicit
      else find_device [''/dev/rpmsg_pru31'', ''/dev/rpmsg-pru31''] path_exists globbed)"

definition bbb_open ::
    "(string \<Rightarrow> bool) \<Rightarrow> string list \<Rightarrow> string list \<Rightarrow> (string \<Rightarrow> ('s, 's pru_handle) io)
      \<Rightarrow> 's snapshot_reader \<Rightarrow> string option \<Rightarrow> string option \<Rightarrow> bool \<Rightarrow> string
      \<Rightarrow> ('s, 's bbb_backend) io" where
  "bbb_open path_exists glob30 glob31 new_client reader pru0_device pru1_device require_stimulus hwrev =
     bind_io (lift_io (discover_device path_exists glob30 pru0_device)) (\<lambda>capture_path.
     bind_io (new_client capture_path) (\<lambda>capture.
     bind_io (catch_io
        (case discover_pru1 path_exists glob31 pru1_device of
           Some p \<Rightarrow> bind_io (new_client p) (\<lambda>st. return_io (Some st))
         | None \<Rightarrow> if require_stimulus then raise_io FileNotFoundError else return_io None)
        (\<lambda>e. then_io (ph_close capture) (raise_io e))) (\<lambda>stimulus.
     catch_io (bbb_init capture stimulus reader hwrev True)
       (\<lambda>e. then_io (case stimulus of None \<Rightarrow> return_io () | Some st \<Rightarrow> ph_close st)
            (then_io (ph_close capture) (raise_io e))))))"

section \<open>Operations\<close>

definition bb_read_timestamp :: "'s bbb_backend \<Rightarrow> ('s, timestamp) io" where
  "bb_read_timestamp b =
     then_io (lift_io (require_cap (bb_identity b) TIMEBASE)) (
     bind_io (bb_request (ph_request (bb_capture b)) MSG_TIME 0 0 0 0) (\<lambda>r.
     then_io (ensure_io (\<not> (m_arg1 r \<noteq> tick_hz (bb_identity b)
                              \<or> m_arg2 r \<noteq> counter_bits (bb_identity b))) InfrastructureError) (
     lift_io (mk_timestamp (m_arg0 r) (m_arg1 r) (m_arg2 r)))))"

definition bb_clients :: "'s bbb_backend \<Rightarrow> 's pru_handle list" where
  "bb_clients b = bb_capture b # (case bb_stimulus b of None \<Rightarrow> [] | Some st \<Rightarrow> [st])"

definition bb_force_safe :: "'s bbb_backend \<Rightarrow> bool \<Rightarrow> ('s, unit) io" where
  "bb_force_safe b asserted =
     then_io (lift_io (require_cap (bb_identity b) FORCE_SAFE)) (
     then_io (ensure_io asserted InvalidConfiguration) (
     for_io (\<lambda>c. then_io (bb_request (ph_request c) MSG_FORCE_SAFE 0 0 0 0) (return_io ()))
       (bb_clients b)))"

definition bb_read_snapshot :: "'s bbb_backend \<Rightarrow> ('s, pwm_shared) io" where
  "bb_read_snapshot b =
     bind_io (catch_io (bb_snapshot_reader b (Some 0))
                (\<lambda>e. if e = TypeError then bb_snapshot_reader b None
                     else raise_io InfrastructureError)) (\<lambda>snapshot.
     then_io (ensure_io (ps_tick_hz snapshot = tick_hz (bb_identity b)) InfrastructureError)
       (return_io snapshot))"

record bbb_health =
  hl_capture_ticks :: int
  hl_tick_hz :: int
  hl_counter_bits :: int
  hl_pru0_capabilities_raw :: int
  hl_stimulus :: "(int \<times> int) option" \<comment> \<open>stimulus ticks, PRU1 capabilities\<close>
  hl_pwm :: "(bool \<times> int \<times> int) option" \<comment> \<open>running, event sequence, fault flags\<close>

definition bb_health :: "'s bbb_backend \<Rightarrow> ('s, bbb_health) io" where
  "bb_health b =
     bind_io (bb_read_timestamp b) (\<lambda>t.
     bind_io (case bb_stimulus b of None \<Rightarrow> return_io None
              | Some st \<Rightarrow> bind_io (bb_request (ph_request st) MSG_TIME 0 0 0 0) (\<lambda>r.
                  case bb_stimulus_hello b of None \<Rightarrow> raise_io TypeError
                  | Some h \<Rightarrow> return_io (Some (m_arg0 r, bh_capabilities_raw h)))) (\<lambda>stim.
     bind_io (if supports (bb_identity b) PWM_CAPTURE
              then bind_io (bb_read_snapshot b) (\<lambda>s.
                     return_io (Some (ps_running s \<noteq> 0, ps_event_seq s, ps_fault_flags s)))
              else return_io None) (\<lambda>pwm.
     return_io \<lparr>hl_capture_ticks = ts_ticks t, hl_tick_hz = ts_tick_hz t,
                hl_counter_bits = ts_counter_bits t,
                hl_pru0_capabilities_raw = bh_capabilities_raw (bb_capture_hello b),
                hl_stimulus = stim, hl_pwm = pwm\<rparr>)))"

abbreviation (input) PWM_VALID_MASK :: int
  where "PWM_VALID_MASK \<equiv> (push_bit 2 1 OR push_bit 3 1) OR push_bit 4 1"

definition bb_read_pwm :: "'s bbb_backend \<Rightarrow> int \<Rightarrow> ('s, pwm_measurement) io" where
  "bb_read_pwm b channel =
     then_io (lift_io (require_cap (bb_identity b) PWM_CAPTURE)) (
     then_io (ensure_io (0 \<le> channel \<and> channel < 6) InvalidConfiguration) (
     bind_io (bb_read_snapshot b) (\<lambda>s.
     let sample = ps_channel s ! nat channel in
     return_io \<lparr>pm_channel = channel, pm_sequence = ps_event_seq s,
                pm_period_ticks = ch_period_ticks sample, pm_high_ticks = ch_high_ticks sample,
                pm_low_ticks = ch_low_ticks sample,
                pm_valid = (ch_flags sample AND PWM_VALID_MASK = PWM_VALID_MASK),
                pm_overflow = False\<rparr>)))"

definition bb_stimulus_rpc :: "'s bbb_backend \<Rightarrow> ('s, 's rpc) io" where
  "bb_stimulus_rpc b =
     (case bb_stimulus b of None \<Rightarrow> raise_io InfrastructureError
      | Some st \<Rightarrow> return_io (ph_request st))"

definition bb_configure_abz :: "'s bbb_backend \<Rightarrow> (string \<times> pyval) list \<Rightarrow> ('s, unit) io" where
  "bb_configure_abz b config =
     then_io (lift_io (require_cap (bb_identity b) ABZ_GENERATOR)) (
     bind_io (lift_io (py_int (dict_get config ''transition_ticks'' (PInt 0)))) (\<lambda>transition_ticks.
     bind_io (lift_io (py_int (dict_get config ''initial_phase'' (PInt 0)))) (\<lambda>initial_phase.
     bind_io (lift_io (py_int (dict_get config ''index_interval'' (PInt 0)))) (\<lambda>index_interval.
     bind_io (lift_io (py_int (dict_get config ''index_width''
                (PInt (if index_interval \<noteq> 0 then 1 else 0))))) (\<lambda>index_width.
     let direction_forward = truthy (dict_get config ''direction_forward'' (PBool True)) in
     then_io (ensure_io (\<not> transition_ticks \<le> 0) InvalidConfiguration) (
     then_io (ensure_io (0 \<le> initial_phase \<and> initial_phase \<le> 3) InvalidConfiguration) (
     then_io (ensure_io (\<not> (index_interval < 0 \<or> index_width < 0)) InvalidConfiguration) (
     then_io (ensure_io (\<not> (index_interval \<noteq> 0 \<and> index_width > index_interval)) InvalidConfiguration) (
     let flags = (if direction_forward then 0 else 1) OR push_bit 8 initial_phase in
     bind_io (bb_stimulus_rpc b) (\<lambda>rpc.
     then_io (bb_request rpc MSG_ABZ_CONFIG transition_ticks index_interval index_width flags)
       (return_io ())))))))))))"

definition bb_start_abz :: "'s bbb_backend \<Rightarrow> ('s, unit) io" where
  "bb_start_abz b =
     then_io (lift_io (require_cap (bb_identity b) ABZ_GENERATOR)) (
     bind_io (bb_stimulus_rpc b) (\<lambda>rpc.
     then_io (bb_request rpc MSG_ABZ_START 0 0 0 0) (return_io ())))"

definition bb_stop_abz :: "'s bbb_backend \<Rightarrow> ('s, unit) io" where
  "bb_stop_abz b =
     then_io (lift_io (require_cap (bb_identity b) ABZ_GENERATOR)) (
     bind_io (bb_stimulus_rpc b) (\<lambda>rpc.
     then_io (bb_request rpc MSG_ABZ_STOP 0 0 0 0) (return_io ())))"

text \<open>\<open>schedule_dio\<close> is inherited: the capability, then \<open>NotImplementedError\<close>.\<close>

definition bb_schedule_dio :: "'s bbb_backend \<Rightarrow> dio_event \<Rightarrow> ('s, unit) io" where
  "bb_schedule_dio b ev = base_operation (bb_identity b) DIO_SCHEDULER"

definition bb_close :: "'s bbb_backend \<Rightarrow> ('s, unit) io" where
  "bb_close b =
     (if \<not> bb_owns_clients b then return_io ()
      else then_io (case bb_stimulus b of None \<Rightarrow> return_io () | Some st \<Rightarrow> ph_close st)
             (ph_close (bb_capture b)))"

section \<open>The backend implements the contract\<close>

lemma bb_check_response_results:
  "bb_check_response r = Inr () \<longleftrightarrow> m_flags r = 0"
  "bb_check_response r = Inl e \<longleftrightarrow> m_flags r \<noteq> 0 \<and>
     e = (if m_flags r AND ERR_INVALID_ARGUMENT \<noteq> 0 then InvalidConfiguration else InfrastructureError)"
  by (auto simp: bb_check_response_def)

lemma bb_request_Inr:
  "bb_request rpc t a0 a1 a2 a3 s = (Inr r, s') \<longleftrightarrow>
     rpc t a0 a1 a2 a3 s = (Inr r, s') \<and> m_flags r = 0"
  by (auto simp: bb_request_def io_results bb_check_response_results)

lemma bb_request_Inl:
  assumes "bb_request rpc t a0 a1 a2 a3 s = (Inl e, s')"
  shows "e = InvalidConfiguration \<or> e = InfrastructureError"
  using assms by (auto simp: bb_request_def io_results bb_check_response_results split: if_splits)

definition bb_built :: "'s bbb_backend \<Rightarrow> bool" where
  "bb_built b \<longleftrightarrow> (\<exists>capture stimulus reader hwrev owns s s'.
     bbb_init capture stimulus reader hwrev owns s = (Inr b, s'))"

text \<open>What the constructor has established when it returns.\<close>

lemma bbb_init_Inr:
  assumes "bbb_init capture stimulus reader hwrev owns s = (Inr b, s')"
  shows "bb_capture b = capture" "bb_stimulus b = stimulus" "bb_snapshot_reader b = reader"
    "validate_contract (bb_identity b) = Inr ()"
    "capabilities (bb_identity b) = map_capabilities (bh_capabilities_raw (bb_capture_hello b))
       (case bb_stimulus_hello b of None \<Rightarrow> 0 | Some h \<Rightarrow> bh_capabilities_raw h)"
    "tick_hz (bb_identity b) = bh_tick_hz (bb_capture_hello b)"
    "counter_bits (bb_identity b) = bh_counter_bits (bb_capture_hello b)"
    "bb_stimulus b = None \<longleftrightarrow> bb_stimulus_hello b = None"
    "bb_stimulus_hello b = Some h \<Longrightarrow> bh_tick_hz h = bh_tick_hz (bb_capture_hello b)
       \<and> bh_counter_bits h = bh_counter_bits (bb_capture_hello b)
       \<and> (stimulus_active (bh_capabilities_raw h) \<longrightarrow> bh_capabilities_raw h AND CAP_FORCE_SAFE \<noteq> 0)"
  using assms unfolding bbb_init_def Let_def
  by (cases stimulus; auto simp: io_results mk_backend_identity_Inr)+

lemma bb_built_contract: "bb_built b \<Longrightarrow> validate_contract (bb_identity b) = Inr ()"
  unfolding bb_built_def by (auto dest: bbb_init_Inr(4))

lemma bb_require_unsupported:
  "c \<notin> capabilities (bb_identity b) \<Longrightarrow>
     then_io (lift_io (require_cap (bb_identity b) c)) m s = (Inl (UnsupportedCapability c), s)"
  by (simp add: then_io_apply lift_io_apply require_cap_def supports_def)

lemma bb_stimulus_call_errors:
  assumes "then_io (lift_io (require_cap (bb_identity b) ABZ_GENERATOR)) (
     bind_io (bb_stimulus_rpc b) (\<lambda>rpc. then_io (bb_request rpc t a0 a1 a2 a3) (return_io ()))) s
     = (Inl e, s')"
  shows "is_hil_error e"
  using assms
  by (auto simp: io_results bb_stimulus_rpc_def dest!: bb_request_Inl split: option.splits)

lemma bb_force_safe_errors: "bb_force_safe b a s = (Inl e, s') \<Longrightarrow> is_hil_error e"
proof -
  have "is_hil_error e" if "for_io (\<lambda>c. then_io (bb_request (ph_request c) MSG_FORCE_SAFE 0 0 0 0)
      (return_io ())) cs s = (Inl e, s')" for cs and s s' :: 'a
    using that
    by (induction cs arbitrary: s) (auto simp: io_results dest!: bb_request_Inl)
  then show "bb_force_safe b a s = (Inl e, s') \<Longrightarrow> is_hil_error e"
    by (auto simp: bb_force_safe_def io_results)
qed

interpretation bbb: hil_backend bb_built bb_identity bb_force_safe bb_read_timestamp bb_read_pwm
  bb_configure_abz bb_start_abz bb_stop_abz bb_schedule_dio
proof (unfold_locales, goal_cases)
  case (1 b)
  then show ?case by (rule bb_built_contract)
next
  case (2 b ch s)
  then show ?case unfolding bb_read_pwm_def by (rule bb_require_unsupported)
next
  case (3 b cfg s)
  then show ?case unfolding bb_configure_abz_def by (rule bb_require_unsupported)
next
  case (4 b s)
  then show ?case unfolding bb_start_abz_def by (rule bb_require_unsupported)
next
  case (5 b s)
  then show ?case unfolding bb_stop_abz_def by (rule bb_require_unsupported)
next
  case (6 b ev s)
  then show ?case unfolding bb_schedule_dio_def base_operation_def by (rule bb_require_unsupported)
next
  case (7 b a s e s')
  from 7(2) show ?case by (rule bb_force_safe_errors)
next
  case (8 b s e s')
  from 8(2) show ?case unfolding bb_start_abz_def by (rule bb_stimulus_call_errors)
next
  case (9 b s e s')
  from 9(2) show ?case unfolding bb_stop_abz_def by (rule bb_stimulus_call_errors)
next
  case (10 b s t s')
  then show ?case by (auto simp: bb_read_timestamp_def io_results mk_timestamp_Inr)
qed

section \<open>Capabilities and the safe state\<close>

lemma map_capabilities_iff:
  "c \<in> map_capabilities a b \<longleftrightarrow> (\<exists>w. (w, c) \<in> set capability_mapping \<and> (a OR b) AND w \<noteq> 0)"
proof -
  have "\<forall>(w, c) \<in> set capability_mapping. w \<noteq> 0" by (simp add: capability_mapping_def)
  then show ?thesis by (force simp: map_capabilities_def Let_def image_iff)
qed

lemma no_dio_scheduler: "DIO_SCHEDULER \<notin> map_capabilities a b"
  by (simp add: map_capabilities_iff capability_mapping_def)

text \<open>Every client acknowledged: the requests in order, each answered with status zero.\<close>

fun acknowledged :: "'s pru_handle list \<Rightarrow> 's \<Rightarrow> 's \<Rightarrow> bool" where
  "acknowledged [] s s' = (s' = s)"
| "acknowledged (c # cs) s s' =
     (case ph_request c MSG_FORCE_SAFE 0 0 0 0 s of
        (Inr r, s1) \<Rightarrow> m_flags r = 0 \<and> acknowledged cs s1 s' | (Inl _, _) \<Rightarrow> False)"

lemma for_acknowledged:
  "for_io (\<lambda>c. then_io (bb_request (ph_request c) MSG_FORCE_SAFE 0 0 0 0) (return_io ())) cs s = (Inr (), s')
     \<longleftrightarrow> acknowledged cs s s'"
proof (induction cs arbitrary: s)
  case Nil
  then show ?case by (auto simp: io_results)
next
  case (Cons c cs)
  then show ?case
    by (cases "ph_request c MSG_FORCE_SAFE 0 0 0 0 s")
      (auto simp: io_results bb_request_Inr split: sum.splits)
qed

section \<open>Properties\<close>


text \<open>A bench of two endpoints with scripted greetings, and a state that records the stimulus.\<close>

definition greeting :: "int \<Rightarrow> message" where
  "greeting caps = (hp_request_message (MSG_HELLO OR MSG_RESPONSE_BIT) 1 caps 200000000 32 0x00010000)"

definition capture_down :: "bool pru_handle" where
  "capture_down = \<lparr>ph_request = (\<lambda>t _ _ _ _. if t = MSG_HELLO then return_io (greeting 0x29)
                                else raise_io TimeoutError), ph_close = return_io ()\<rparr>"

definition stimulus_up :: "bool pru_handle" where
  "stimulus_up = \<lparr>ph_request = (\<lambda>t _ _ _ _ running.
      (Inr (if t = MSG_HELLO then greeting 0x408 else hp_request_message (t OR MSG_RESPONSE_BIT) 1 0 0 0 0),
       if t = MSG_FORCE_SAFE then False else if t = MSG_ABZ_START then True else running)),
     ph_close = return_io ()\<rparr>"

definition no_reader :: "bool snapshot_reader" where
  "no_reader = (\<lambda>_. raise_io OSError)"

definition bench_bbb :: "bool bbb_backend" where
  "bench_bbb = \<lparr>bb_capture = capture_down, bb_stimulus = Some stimulus_up,
     bb_snapshot_reader = no_reader, bb_owns_clients = True,
     bb_capture_hello = \<lparr>bh_capabilities_raw = 0x29, bh_tick_hz = 200000000, bh_counter_bits = 32,
                         bh_firmware_version = 0x00010000\<rparr>,
     bb_stimulus_hello = Some \<lparr>bh_capabilities_raw = 0x408, bh_tick_hz = 200000000,
                         bh_counter_bits = 32, bh_firmware_version = 0x00010000\<rparr>,
     bb_identity = \<lparr>backend_type = ''bbb_pru'', hardware_revision = ''rev'',
        firmware_revision = firmware_string 0x00010000 (Some 0x00010000), api_version = API_VERSION,
        capabilities = map_capabilities 0x29 0x408, tick_hz = 200000000, counter_bits = 32\<rparr>\<rparr>"

lemma bench_bbb_init:
  "bbb_init capture_down (Some stimulus_up) no_reader ''rev'' True False = (Inr bench_bbb, False)"
proof -
  have caps: "{TIMEBASE, FORCE_SAFE} \<subseteq> map_capabilities 0x29 0x408"
    by (simp add: map_capabilities_def Let_def capability_mapping_def)
  then have "REQUIRED_BACKEND_CAPABILITIES - map_capabilities 0x29 0x408 = {}"
    by (simp add: REQUIRED_BACKEND_CAPABILITIES_def)
  then show ?thesis
    by (simp add: bbb_init_def validate_contract_def missing_capabilities_def return_io_apply bb_hello_def bb_check_response_def capture_down_def stimulus_up_def
        greeting_def hp_request_message_def io_simps Let_def stimulus_active_def
        mk_backend_identity_def bench_bbb_def)
qed




text \<open>Reading a PWM channel of the BeagleBone backend through the shared-RAM reader gives the
  period, high and low ticks and the validity flags of that channel as they stood together at
  one instant of the call, with the event sequence of the same instant: the fields of a
  measurement never come from different updates of the capture firmware.\<close>

theorem bbb_read_pwm_untorn:
  assumes "seqlock_writer mem c"
    and "bb_snapshot_reader b = (\<lambda>limit. read_consistent_snapshot_from_buffer mem 1000
           (case limit of None \<Rightarrow> 0 | Some n \<Rightarrow> n))"
    and "bb_read_pwm b ch t = (Inr p, t')"
  shows "\<exists>u. t \<le> u \<and> u \<le> t' \<and> even (c u) \<and> 0 \<le> ch \<and> ch < 6 \<and>
     (let shared = pwm_of_bytes (mem u); sample = ps_channel shared ! nat ch in
      pm_sequence p = ps_event_seq shared \<and> pm_period_ticks p = ch_period_ticks sample
      \<and> pm_high_ticks p = ch_high_ticks sample \<and> pm_low_ticks p = ch_low_ticks sample
      \<and> (pm_valid p \<longleftrightarrow> ch_flags sample AND PWM_VALID_MASK = PWM_VALID_MASK))"
proof -
  from assms(3) obtain s where ch: "0 \<le> ch" "ch < 6"
    and snap: "bb_read_snapshot b t = (Inr s, t')"
    and p: "pm_sequence p = ps_event_seq s" "pm_period_ticks p = ch_period_ticks (ps_channel s ! nat ch)"
      "pm_high_ticks p = ch_high_ticks (ps_channel s ! nat ch)"
      "pm_low_ticks p = ch_low_ticks (ps_channel s ! nat ch)"
      "pm_valid p \<longleftrightarrow> ch_flags (ps_channel s ! nat ch) AND PWM_VALID_MASK = PWM_VALID_MASK"
    by (auto simp: bb_read_pwm_def io_results Let_def)
  have errs: "e \<noteq> TypeError" if "read_consistent_snapshot_from_buffer mem 1000 0 t = (Inl e, t1)" for e t1
    using that by (rule snapshot_never_type_error)
  from snap have "read_consistent_snapshot_from_buffer mem 1000 0 t = (Inr s, t')"
    using errs by (auto simp: bb_read_snapshot_def assms(2) io_results split: if_splits)
  then have "snapshot_attempts mem 0 1000 t = (Inr s, t')"
    by (simp add: read_consistent_snapshot_from_buffer_def)
  from snapshot_attempts_window [OF assms(1) this]
  obtain u where u: "t \<le> u" "u \<le> t'" "even (c u)" "summary_of s = summary_of (pwm_of_bytes (mem u))"
    by blast
  from u(4) have "ps_channel s = ps_channel (pwm_of_bytes (mem u))"
    "ps_event_seq s = ps_event_seq (pwm_of_bytes (mem u))"
    by (cases s; cases "pwm_of_bytes (mem u)"; simp add: summary_of_def)+
  with u ch p show ?thesis by (intro exI [of _ u]) (simp add: Let_def)
qed

definition bench_pwm :: "nat bbb_backend" where
  "bench_pwm = \<lparr>bb_capture = \<lparr>ph_request = (\<lambda>_ _ _ _ _. raise_io TimeoutError), ph_close = return_io ()\<rparr>,
     bb_stimulus = None,
     bb_snapshot_reader = (\<lambda>limit. read_consistent_snapshot_from_buffer (\<lambda>_. still_page) 1000
        (case limit of None \<Rightarrow> 0 | Some n \<Rightarrow> n)),
     bb_owns_clients = True,
     bb_capture_hello = \<lparr>bh_capabilities_raw = 0x29, bh_tick_hz = 200000000, bh_counter_bits = 32,
                         bh_firmware_version = 0x00010000\<rparr>,
     bb_stimulus_hello = None,
     bb_identity = \<lparr>backend_type = ''bbb_pru'', hardware_revision = ''rev'', firmware_revision = [],
        api_version = API_VERSION, capabilities = {TIMEBASE, FORCE_SAFE, PWM_CAPTURE},
        tick_hz = 200000000, counter_bits = 32\<rparr>\<rparr>"

lemma bbb_read_pwm_untorn_witness:
  "\<exists>p t'. bb_read_pwm bench_pwm 0 0 = (Inr p, t') \<and> pm_sequence p = 2"
proof -
  obtain s t' where s: "read_consistent_snapshot_from_buffer (\<lambda>_. still_page) 1000 0 0 = (Inr s, t')"
    "summary_of s = summary_of (pwm_of_bytes still_page)"
    using still_result [of still_page 1000 0 0] by (auto simp: still_page_facts)
  have "ps_tick_hz s = ps_tick_hz (pwm_of_bytes still_page)"
    using s(2) by (cases s; cases "pwm_of_bytes still_page"; simp add: summary_of_def)
  also have "\<dots> = 200000000"
    by (simp add: pwm_of_bytes_def still_words del: upt_rec_numeral)
  finally obtain p where p: "bb_read_pwm bench_pwm 0 0 = (Inr p, t')"
    using s(1) by (simp add: bb_read_pwm_def bb_read_snapshot_def bench_pwm_def io_simps
        require_cap_def supports_def Let_def)
  moreover have "pm_sequence p = ps_event_seq (pwm_of_bytes still_page)"
    using bbb_read_pwm_untorn [OF still_writers(1) _ p] by (auto simp: bench_pwm_def Let_def)
  ultimately show ?thesis
    by (simp add: pwm_of_bytes_def still_words del: upt_rec_numeral)
qed

end
