(* ===== verification/Raw_Capture.thy ===== *)
theory Raw_Capture
  imports Py_Float Py_Bytes "HOL-Library.Multiset"
begin

text \<open>
  \<open>boards/beaglebone_black/host/hil_raw_shared.py\<close>: the frozen raw-edge capture of PRU0 and its
  off-line analysis into per-channel period, high and low times and per-pair dead times and
  overlaps. The integer part of the analysis is compared with a reference that works on the
  lists of rising and falling edges; the conversions to microseconds and nanoseconds are float
  computations over a rounding \<open>fl\<close>.
\<close>

section \<open>The shared structure\<close>

abbreviation (input) RAW_MAGIC :: int where "RAW_MAGIC \<equiv> 0x31574152"
abbreviation (input) RAW_VERSION :: int where "RAW_VERSION \<equiv> 1"
abbreviation (input) RAW_CAPACITY :: nat where "RAW_CAPACITY \<equiv> 1024"
abbreviation (input) RAW_SHARED_SIZE :: nat where "RAW_SHARED_SIZE \<equiv> 8256"
abbreviation (input) RAW_HEADER_SIZE :: nat where "RAW_HEADER_SIZE \<equiv> 64"

definition RAW_MASKS :: "int list" where
  "RAW_MASKS = [push_bit 1 1, push_bit 2 1, push_bit 3 1, push_bit 5 1, push_bit 14 1, push_bit 15 1]"

record raw_edge =
  re_timestamp_ticks :: int
  re_raw_inputs :: int

record raw_shared =
  rs_magic :: int
  rs_version :: int
  rs_total_size :: int
  rs_tick_hz :: int
  rs_capacity :: int
  rs_running :: int
  rs_configured_event_limit :: int
  rs_event_count :: int
  rs_initial_raw_inputs :: int
  rs_final_raw_inputs :: int
  rs_start_ticks :: int
  rs_stop_ticks :: int
  rs_stop_reason :: int
  rs_input_mask :: int
  rs_generation :: int
  rs_overflow_count :: int
  rs_ring :: "raw_edge list"

definition raw_of_bytes :: "byte list \<Rightarrow> raw_shared" where
  "raw_of_bytes b =
     \<lparr>rs_magic = unpack_u32 b 0, rs_version = unpack_u32 b 4, rs_total_size = unpack_u32 b 8,
      rs_tick_hz = unpack_u32 b 12, rs_capacity = unpack_u32 b 16, rs_running = unpack_u32 b 20,
      rs_configured_event_limit = unpack_u32 b 24, rs_event_count = unpack_u32 b 28,
      rs_initial_raw_inputs = unpack_u32 b 32, rs_final_raw_inputs = unpack_u32 b 36,
      rs_start_ticks = unpack_u32 b 40, rs_stop_ticks = unpack_u32 b 44,
      rs_stop_reason = unpack_u32 b 48, rs_input_mask = unpack_u32 b 52,
      rs_generation = unpack_u32 b 56, rs_overflow_count = unpack_u32 b 60,
      rs_ring = map (\<lambda>i. \<lparr>re_timestamp_ticks = unpack_u32 b (64 + 8 * i),
                         re_raw_inputs = unpack_u32 b (68 + 8 * i)\<rparr>) [0..<RAW_CAPACITY]\<rparr>"

definition raw_validate :: "raw_shared \<Rightarrow> exn + unit" where
  "raw_validate s =
     (if rs_magic s \<noteq> RAW_MAGIC then Inl RuntimeError
      else if rs_version s \<noteq> RAW_VERSION then Inl RuntimeError
      else if rs_total_size s \<noteq> int RAW_SHARED_SIZE then Inl RuntimeError
      else if rs_capacity s \<noteq> int RAW_CAPACITY then Inl RuntimeError
      else if rs_event_count s > int RAW_CAPACITY then Inl RuntimeError
      else Inr ())"

text \<open>\<open>read_frozen_raw_capture\<close>: the state is the open descriptors and the number of mappings.\<close>

definition read_frozen_raw_capture ::
    "exn + int \<Rightarrow> (int \<Rightarrow> exn + byte list) \<Rightarrow> (int list \<times> nat, raw_shared) io" where
  "read_frozen_raw_capture os_open os_mmap =
     bind_io (\<lambda>(fds, k). case os_open of Inl e \<Rightarrow> (Inl e, (fds, k)) | Inr fd \<Rightarrow> (Inr fd, (fd # fds, k))) (\<lambda>fd.
     finally_io
       (bind_io (\<lambda>(fds, k). case os_mmap fd of Inl e \<Rightarrow> (Inl e, (fds, k))
                          | Inr mem \<Rightarrow> (Inr mem, (fds, k + 1))) (\<lambda>mem.
        finally_io
          (let header = raw_of_bytes (take RAW_SHARED_SIZE mem) in
           then_io (ensure_io (length (take RAW_SHARED_SIZE mem) = RAW_SHARED_SIZE) ValueError) (
           then_io (lift_io (raw_validate header)) (
           then_io (ensure_io (rs_running header = 0) RuntimeError) (
           return_io header))))
          (\<lambda>(fds, k). (Inr (), (fds, k - 1)))))
       (\<lambda>(fds, k). (Inr (), (remove1 fd fds, k))))"

section \<open>Records\<close>

definition raw_to_logical :: "int \<Rightarrow> int" where
  "raw_to_logical raw =
     fold (\<lambda>(index, m) logical. if raw AND m \<noteq> 0 then logical OR push_bit index 1 else logical)
       (zip [0..<6] RAW_MASKS) 0"

record raw_record =
  rr_index :: nat
  rr_timestamp_ticks :: int
  rr_raw_inputs :: int
  rr_logical_inputs :: int
  rr_changed_inputs :: int

fun raw_records_from :: "nat \<Rightarrow> int \<Rightarrow> raw_edge list \<Rightarrow> raw_record list" where
  "raw_records_from index previous [] = []"
| "raw_records_from index previous (item # items) =
     (let logical = raw_to_logical (re_raw_inputs item)
      in \<lparr>rr_index = index, rr_timestamp_ticks = re_timestamp_ticks item,
          rr_raw_inputs = re_raw_inputs item, rr_logical_inputs = logical,
          rr_changed_inputs = logical XOR previous\<rparr>
         # raw_records_from (Suc index) logical items)"

definition raw_records :: "raw_shared \<Rightarrow> exn + raw_record list" where
  "raw_records s =
     bind_exn (raw_validate s) (\<lambda>_.
     Inr (raw_records_from 0 (raw_to_logical (rs_initial_raw_inputs s))
            (take (min (nat (rs_event_count s)) RAW_CAPACITY) (rs_ring s))))"

section \<open>Analysis\<close>

definition delta :: "int \<Rightarrow> int \<Rightarrow> int" where
  "delta previous now = (now - previous) AND 0xFFFFFFFF"

definition append_delta :: "int list \<Rightarrow> int \<Rightarrow> int option \<Rightarrow> int list" where
  "append_delta destination now previous =
     (case previous of None \<Rightarrow> destination | Some p \<Rightarrow> destination @ [delta p now])"

record chan_acc =
  ca_rise_last :: "int option"
  ca_fall_last :: "int option"
  ca_period :: "int list"
  ca_high :: "int list"
  ca_low :: "int list"
  ca_rises :: nat
  ca_falls :: nat

definition chan_init :: chan_acc where
  "chan_init = \<lparr>ca_rise_last = None, ca_fall_last = None, ca_period = [], ca_high = [], ca_low = [],
                ca_rises = 0, ca_falls = 0\<rparr>"

definition chan_step :: "int \<Rightarrow> int \<Rightarrow> int \<Rightarrow> nat \<Rightarrow> chan_acc \<Rightarrow> chan_acc" where
  "chan_step timestamp rise_bits fall_bits channel a =
     (let b = push_bit channel 1;
          a = (if rise_bits AND b \<noteq> 0
               then a\<lparr>ca_period := append_delta (ca_period a) timestamp (ca_rise_last a),
                      ca_low := append_delta (ca_low a) timestamp (ca_fall_last a),
                      ca_rise_last := Some timestamp, ca_rises := ca_rises a + 1\<rparr>
               else a)
      in if fall_bits AND b \<noteq> 0
         then a\<lparr>ca_high := append_delta (ca_high a) timestamp (ca_rise_last a),
                ca_fall_last := Some timestamp, ca_falls := ca_falls a + 1\<rparr>
         else a)"

record pair_acc =
  pa_pending_hl :: "int option"
  pa_pending_lh :: "int option"
  pa_dead_hl :: "int list"
  pa_dead_lh :: "int list"
  pa_overlaps :: nat
  pa_violations :: nat
  pa_overlap_active :: bool

definition pair_init :: pair_acc where
  "pair_init = \<lparr>pa_pending_hl = None, pa_pending_lh = None, pa_dead_hl = [], pa_dead_lh = [],
                pa_overlaps = 0, pa_violations = 0, pa_overlap_active = False\<rparr>"

definition ticks_to_ns :: "rounding \<Rightarrow> int \<Rightarrow> int \<Rightarrow> exn + rat" where
  "ticks_to_ns fl ticks tick_hz = scale_ticks fl ticks 1000000000 tick_hz"

definition ticks_to_us :: "rounding \<Rightarrow> int \<Rightarrow> int \<Rightarrow> exn + rat" where
  "ticks_to_us fl ticks tick_hz = scale_ticks fl ticks 1000000 tick_hz"

text \<open>\<open>dt_ns < min_deadtime_ns\<close> with the conversion, which raises for a zero \<open>tick_hz\<close>.\<close>

definition violates :: "rounding \<Rightarrow> rat \<Rightarrow> int \<Rightarrow> int \<Rightarrow> exn + bool" where
  "violates fl min_ns tick_hz dt_ticks =
     bind_exn (ticks_to_ns fl dt_ticks tick_hz) (\<lambda>dt_ns. Inr (0 < min_ns \<and> dt_ns < min_ns))"

definition close_hl :: "rounding \<Rightarrow> rat \<Rightarrow> int \<Rightarrow> int \<Rightarrow> pair_acc \<Rightarrow> exn + pair_acc" where
  "close_hl fl min_ns tick_hz timestamp a =
     (case pa_pending_hl a of
        None \<Rightarrow> Inr (a\<lparr>pa_pending_hl := None\<rparr>)
      | Some start \<Rightarrow>
          let dt = delta start timestamp in
          bind_exn (violates fl min_ns tick_hz dt) (\<lambda>v.
          Inr (a\<lparr>pa_dead_hl := pa_dead_hl a @ [dt],
                 pa_violations := pa_violations a + (if v then 1 else 0),
                 pa_pending_hl := None\<rparr>)))"

definition close_lh :: "rounding \<Rightarrow> rat \<Rightarrow> int \<Rightarrow> int \<Rightarrow> pair_acc \<Rightarrow> exn + pair_acc" where
  "close_lh fl min_ns tick_hz timestamp a =
     (case pa_pending_lh a of
        None \<Rightarrow> Inr (a\<lparr>pa_pending_lh := None\<rparr>)
      | Some start \<Rightarrow>
          let dt = delta start timestamp in
          bind_exn (violates fl min_ns tick_hz dt) (\<lambda>v.
          Inr (a\<lparr>pa_dead_lh := pa_dead_lh a @ [dt],
                 pa_violations := pa_violations a + (if v then 1 else 0),
                 pa_pending_lh := None\<rparr>)))"

definition pair_step ::
    "rounding \<Rightarrow> rat \<Rightarrow> int \<Rightarrow> int \<Rightarrow> int \<Rightarrow> int \<Rightarrow> int \<Rightarrow> nat \<Rightarrow> pair_acc \<Rightarrow> exn + pair_acc" where
  "pair_step fl min_ns tick_hz timestamp state rise_bits fall_bits pair a =
     (let hi_bit = push_bit (pair * 2) 1; lo_bit = push_bit (pair * 2 + 1) 1;
          a1 = (if fall_bits AND hi_bit \<noteq> 0 then a\<lparr>pa_pending_hl := Some timestamp\<rparr> else a)
      in
      bind_exn (if rise_bits AND lo_bit \<noteq> 0 then close_hl fl min_ns tick_hz timestamp a1 else Inr a1) (\<lambda>a2.
      let a3 = (if fall_bits AND lo_bit \<noteq> 0 then a2\<lparr>pa_pending_lh := Some timestamp\<rparr> else a2) in
      bind_exn (if rise_bits AND hi_bit \<noteq> 0 then close_lh fl min_ns tick_hz timestamp a3 else Inr a3) (\<lambda>a4.
      let overlap_now = (state AND hi_bit \<noteq> 0 \<and> state AND lo_bit \<noteq> 0) in
      Inr (a4\<lparr>pa_overlaps := pa_overlaps a4 + (if overlap_now \<and> \<not> pa_overlap_active a4 then 1 else 0),
              pa_overlap_active := overlap_now\<rparr>))))"

record raw_acc =
  ra_previous :: int
  ra_channels :: "chan_acc list"
  ra_pairs :: "pair_acc list"

definition raw_step :: "rounding \<Rightarrow> rat \<Rightarrow> int \<Rightarrow> raw_record \<Rightarrow> raw_acc \<Rightarrow> exn + raw_acc" where
  "raw_step fl min_ns tick_hz r acc =
     (let state = rr_logical_inputs r; changed = rr_changed_inputs r;
          rise_bits = changed AND state; fall_bits = changed AND ra_previous acc
      in
      bind_exn (map_exn (\<lambda>(pair, a). pair_step fl min_ns tick_hz (rr_timestamp_ticks r) state
                                       rise_bits fall_bits pair a)
                  (zip [0..<3] (ra_pairs acc))) (\<lambda>pairs.
      Inr \<lparr>ra_previous = state,
           ra_channels = map (\<lambda>(c, a). chan_step (rr_timestamp_ticks r) rise_bits fall_bits c a)
                           (zip [0..<6] (ra_channels acc)),
           ra_pairs = pairs\<rparr>))"

definition raw_loop :: "rounding \<Rightarrow> rat \<Rightarrow> raw_shared \<Rightarrow> exn + raw_acc" where
  "raw_loop fl min_ns s =
     bind_exn (raw_validate s) (\<lambda>_.
     bind_exn (raw_records s) (\<lambda>records.
     fold_exn (raw_step fl min_ns (rs_tick_hz s)) records
       \<lparr>ra_previous = raw_to_logical (rs_initial_raw_inputs s),
        ra_channels = replicate 6 chan_init, ra_pairs = replicate 3 pair_init\<rparr>))"

section \<open>Summaries\<close>

definition percentile_sorted :: "rounding \<Rightarrow> rat list \<Rightarrow> rat \<Rightarrow> rat option" where
  "percentile_sorted fl vs p =
     (if vs = [] then None
      else if length vs = 1 then Some (vs ! 0)
      else
        let position = fl (fl (of_nat (length vs - 1)) * p);
            lo = nat (py_trunc position);
            hi = min (lo + 1) (length vs - 1);
            frac = fl (position - fl (of_nat lo))
        in Some (fl (fl (vs ! lo * fl (1 - frac)) + fl (vs ! hi * frac))))"

record summary =
  su_count :: nat
  su_min :: "rat option"
  su_mean :: "rat option"
  su_p50 :: "rat option"
  su_p95 :: "rat option"
  su_p99 :: "rat option"
  su_max :: "rat option"

text \<open>\<open>statistics.fmean\<close> is the correctly rounded sum divided by the count.\<close>

definition summarize :: "rounding \<Rightarrow> rat list \<Rightarrow> summary" where
  "summarize fl values =
     (if values = [] then \<lparr>su_count = 0, su_min = None, su_mean = None, su_p50 = None, su_p95 = None,
                          su_p99 = None, su_max = None\<rparr>
      else
        let ordered = sort values in
        \<lparr>su_count = length values, su_min = Some (ordered ! 0),
         su_mean = Some (fl (fl (sum_list ordered) / fl (of_nat (length ordered)))),
         su_p50 = percentile_sorted fl ordered (fl (50 / 100)),
         su_p95 = percentile_sorted fl ordered (fl (95 / 100)),
         su_p99 = percentile_sorted fl ordered (fl (99 / 100)),
         su_max = Some (last ordered)\<rparr>)"

text \<open>The histogram: every distinct tick value in increasing order with its count and conversion.\<close>

definition tick_histogram :: "(int \<Rightarrow> exn + rat) \<Rightarrow> int list \<Rightarrow> exn + (int \<times> nat \<times> rat) list" where
  "tick_histogram conv values =
     map_exn (\<lambda>ticks. bind_exn (conv ticks) (\<lambda>v. Inr (ticks, count_list values ticks, v)))
       (sort (remdups values))"

definition summarize_ticks ::
    "rounding \<Rightarrow> int list \<Rightarrow> int \<Rightarrow> bool \<Rightarrow> exn + summary \<times> (int \<times> nat \<times> rat) list" where
  "summarize_ticks fl values tick_hz scale_us =
     (let conv = (\<lambda>t. if scale_us then ticks_to_us fl t tick_hz else ticks_to_ns fl t tick_hz) in
      bind_exn (map_exn conv values) (\<lambda>converted.
      bind_exn (tick_histogram conv values) (\<lambda>histogram.
      Inr (summarize fl converted, histogram))))"

section \<open>The report\<close>

type_synonym tick_summary = "summary \<times> (int \<times> nat \<times> rat) list"

record channel_report =
  cr_rise_count :: nat
  cr_fall_count :: nat
  cr_period_us :: tick_summary
  cr_high_us :: tick_summary
  cr_low_us :: tick_summary

record pair_report =
  qr_deadtime_high_to_low_ns :: tick_summary
  qr_deadtime_low_to_high_ns :: tick_summary
  qr_overlap_count :: nat
  qr_violation_count :: nat

record raw_report =
  rp_shared :: raw_shared
  rp_capture_duration_us :: "rat option"
  rp_event_rate_hz :: "rat option"
  rp_initial_logical_inputs :: int
  rp_final_logical_inputs :: int
  rp_channels :: "channel_report list"
  rp_pairs :: "pair_report list"

definition channel_report_of :: "rounding \<Rightarrow> int \<Rightarrow> chan_acc \<Rightarrow> exn + channel_report" where
  "channel_report_of fl hz a =
     bind_exn (summarize_ticks fl (ca_period a) hz True) (\<lambda>period.
     bind_exn (summarize_ticks fl (ca_high a) hz True) (\<lambda>high.
     bind_exn (summarize_ticks fl (ca_low a) hz True) (\<lambda>low.
     Inr \<lparr>cr_rise_count = ca_rises a, cr_fall_count = ca_falls a, cr_period_us = period,
          cr_high_us = high, cr_low_us = low\<rparr>)))"

definition pair_report_of :: "rounding \<Rightarrow> int \<Rightarrow> pair_acc \<Rightarrow> exn + pair_report" where
  "pair_report_of fl hz a =
     bind_exn (summarize_ticks fl (pa_dead_hl a) hz False) (\<lambda>hl.
     bind_exn (summarize_ticks fl (pa_dead_lh a) hz False) (\<lambda>lh.
     Inr \<lparr>qr_deadtime_high_to_low_ns = hl, qr_deadtime_low_to_high_ns = lh,
          qr_overlap_count = pa_overlaps a, qr_violation_count = pa_violations a\<rparr>))"

definition duration_ticks :: "raw_shared \<Rightarrow> int" where
  "duration_ticks s =
     (if rs_stop_ticks s \<noteq> 0 then (rs_stop_ticks s - rs_start_ticks s) AND 0xFFFFFFFF else 0)"

text \<open>The fields copied from the header are the header itself here.\<close>

definition analyze_raw_capture :: "rounding \<Rightarrow> rat \<Rightarrow> raw_shared \<Rightarrow> exn + raw_report" where
  "analyze_raw_capture fl min_ns s =
     (let hz = rs_tick_hz s in
      bind_exn (raw_loop fl min_ns s) (\<lambda>acc.
      bind_exn (map_exn (channel_report_of fl hz) (ra_channels acc)) (\<lambda>channels.
      bind_exn (map_exn (pair_report_of fl hz) (ra_pairs acc)) (\<lambda>pairs.
      bind_exn (if hz \<noteq> 0 then bind_exn (ticks_to_us fl (duration_ticks s) hz) (\<lambda>d. Inr (Some d))
                else Inr None) (\<lambda>duration.
      bind_exn (case duration of
                  None \<Rightarrow> Inr None
                | Some d \<Rightarrow> if d > 0
                    then bind_exn (fdiv fl (fl (fl (of_int (rs_event_count s)) * 1000000)) d) (\<lambda>r. Inr (Some r))
                    else Inr None) (\<lambda>rate.
      Inr \<lparr>rp_shared = s, rp_capture_duration_us = duration, rp_event_rate_hz = rate,
           rp_initial_logical_inputs = raw_to_logical (rs_initial_raw_inputs s),
           rp_final_logical_inputs = raw_to_logical (rs_final_raw_inputs s),
           rp_channels = channels, rp_pairs = pairs\<rparr>))))))"

section \<open>Reference: edge lists\<close>

text \<open>
  A capture seen from outside: the sampled states in order. The rising and falling edges of a
  channel are the moments its bit changes.
\<close>

type_synonym samples = "(int \<times> int) list" \<comment> \<open>timestamp and logical state\<close>

fun rises :: "nat \<Rightarrow> int \<Rightarrow> samples \<Rightarrow> int list" where
  "rises c prev [] = []"
| "rises c prev ((t, s) # xs) = (if \<not> bit prev c \<and> bit s c then [t] else []) @ rises c s xs"

fun falls :: "nat \<Rightarrow> int \<Rightarrow> samples \<Rightarrow> int list" where
  "falls c prev [] = []"
| "falls c prev ((t, s) # xs) = (if bit prev c \<and> \<not> bit s c then [t] else []) @ falls c s xs"

definition last_state :: "int \<Rightarrow> samples \<Rightarrow> int" where
  "last_state prev xs = (if xs = [] then prev else snd (last xs))"

lemma last_state_snoc [simp]: "last_state prev (xs @ [(t, s)]) = s"
  by (simp add: last_state_def)

lemma last_state_Nil [simp]: "last_state prev [] = prev"
  by (simp add: last_state_def)

lemma last_state_Cons: "last_state prev ((t, s) # xs) = last_state s xs"
  by (simp add: last_state_def)

lemma rises_snoc:
  "rises c prev (xs @ [(t, s)]) =
     rises c prev xs @ (if \<not> bit (last_state prev xs) c \<and> bit s c then [t] else [])"
  by (induction c prev xs rule: rises.induct) (simp_all add: last_state_Cons)

lemma falls_snoc:
  "falls c prev (xs @ [(t, s)]) =
     falls c prev xs @ (if bit (last_state prev xs) c \<and> \<not> bit s c then [t] else [])"
  by (induction c prev xs rule: falls.induct) (simp_all add: last_state_Cons)

text \<open>Edges of one channel alternate, starting with the one its initial level allows.\<close>

lemma edges_alternate:
  "length (rises c prev xs) + (if bit prev c then 1 else 0)
     = length (falls c prev xs) + (if bit (last_state prev xs) c then 1 else 0)"
proof (induction xs rule: rev_induct)
  case (snoc x xs)
  then show ?case by (cases x) (auto simp: rises_snoc falls_snoc split: if_splits)
qed simp

definition deltas :: "int list \<Rightarrow> int list \<Rightarrow> int list" where
  "deltas xs ys = map2 delta xs ys"

lemma deltas_snoc1: "length xs = length ys \<Longrightarrow> deltas (xs @ [x]) (ys @ [y]) = deltas xs ys @ [delta x y]"
  by (simp add: deltas_def)

lemma deltas_long: "length ys \<le> length xs \<Longrightarrow> deltas (xs @ zs) ys = deltas xs ys"
  by (simp add: deltas_def zip_append1)

lemma deltas_long2: "length xs \<le> length ys \<Longrightarrow> deltas xs (ys @ zs) = deltas xs ys"
  by (simp add: deltas_def zip_append2)

lemma deltas_step:
  "length ys = length xs - 1 \<Longrightarrow> xs \<noteq> [] \<Longrightarrow> deltas xs (ys @ [y]) = deltas xs ys @ [delta (last xs) y]"
proof -
  assume "length ys = length xs - 1" "xs \<noteq> []"
  then obtain zs z where xs: "xs = zs @ [z]" "length ys = length zs"
    by (metis append_butlast_last_id length_butlast)
  then show ?thesis by (simp add: deltas_snoc1 deltas_long)
qed

lemma deltas_Nil [simp]: "deltas [] ys = []" "deltas xs [] = []"
  by (simp_all add: deltas_def)

section \<open>The channel statistics are those of the edge lists\<close>

definition last_opt :: "int list \<Rightarrow> int option" where
  "last_opt xs = (if xs = [] then None else Some (last xs))"

lemma append_delta_last: "append_delta ds t (last_opt xs) = ds @ (if xs = [] then [] else [delta (last xs) t])"
  by (simp add: append_delta_def last_opt_def)

definition chan_of_edges :: "bool \<Rightarrow> int list \<Rightarrow> int list \<Rightarrow> chan_acc" where
  "chan_of_edges high_first up down =
     \<lparr>ca_rise_last = last_opt up, ca_fall_last = last_opt down, ca_period = deltas up (tl up),
      ca_high = (if high_first then deltas up (tl down) else deltas up down),
      ca_low = (if high_first then deltas down up else deltas down (tl up)),
      ca_rises = length up, ca_falls = length down\<rparr>"

lemma rise_fall_bits:
  fixes prev s :: int
  shows "((s XOR prev) AND s) AND push_bit c 1 \<noteq> 0 \<longleftrightarrow> \<not> bit prev c \<and> bit s c"
    and "((s XOR prev) AND prev) AND push_bit c 1 \<noteq> 0 \<longleftrightarrow> bit prev c \<and> \<not> bit s c"
  by (auto simp: push_bit_eq_mult and_exp_eq_0_iff_not_bit bit_simps)

lemma and_shift_one: "s AND push_bit c 1 \<noteq> 0 \<longleftrightarrow> bit s c" for s :: int
  by (simp add: push_bit_eq_mult and_exp_eq_0_iff_not_bit)

lemma chan_rise:
  assumes "length up + (if hf then 1 else 0) = length down"
  shows "chan_of_edges hf (up @ [t]) down =
    (let a = chan_of_edges hf up down in
     a\<lparr>ca_period := append_delta (ca_period a) t (ca_rise_last a),
       ca_low := append_delta (ca_low a) t (ca_fall_last a),
       ca_rise_last := Some t, ca_rises := ca_rises a + 1\<rparr>)"
proof -
  have p: "deltas (up @ [t]) (tl (up @ [t])) = append_delta (deltas up (tl up)) t (last_opt up)"
    by (cases "up = []") (simp_all add: append_delta_last deltas_step deltas_long)
  show ?thesis
  proof (cases hf)
    case True
    with assms have "length down = length up + 1" "down \<noteq> []" by auto
    with True p show ?thesis
      by (simp add: chan_of_edges_def Let_def append_delta_def deltas_step deltas_long last_opt_def)
  next
    case False
    with assms p show ?thesis
      by (cases "up = []")
        (auto simp: chan_of_edges_def Let_def append_delta_def deltas_step deltas_long last_opt_def)
  qed
qed

lemma chan_fall:
  assumes "length up + (if hf then 1 else 0) = length down + 1"
  shows "chan_of_edges hf up (down @ [t]) =
    (let a = chan_of_edges hf up down in
     a\<lparr>ca_high := append_delta (ca_high a) t (ca_rise_last a),
       ca_fall_last := Some t, ca_falls := ca_falls a + 1\<rparr>)"
proof (cases hf)
  case True
  with assms show ?thesis
    by (cases "down = []")
      (auto simp: chan_of_edges_def Let_def append_delta_def deltas_step deltas_long last_opt_def)
next
  case False
  with assms have "length up = length down + 1" "up \<noteq> []" by auto
  with False show ?thesis
    by (simp add: chan_of_edges_def Let_def append_delta_def deltas_step deltas_long last_opt_def)
qed

lemma chan_step_edges:
  fixes prev s :: int
  assumes "prev = last_state init xs"
  shows "chan_step t ((s XOR prev) AND s) ((s XOR prev) AND prev) c
       (chan_of_edges (bit init c) (rises c init xs) (falls c init xs))
     = chan_of_edges (bit init c) (rises c init (xs @ [(t, s)])) (falls c init (xs @ [(t, s)]))"
proof -
  let ?R = "rises c init xs" and ?F = "falls c init xs"
  note alt = edges_alternate [of c init xs]
  consider (rise) "\<not> bit prev c" "bit s c" | (fall) "bit prev c" "\<not> bit s c"
    | (none) "bit prev c = bit s c" by blast
  then show ?thesis
  proof cases
    case rise
    with alt assms have "length ?R + (if bit init c then 1 else 0) = length ?F" by simp
    from chan_rise [OF this, of t] rise assms show ?thesis
      by (simp only: chan_step_def rise_fall_bits rises_snoc falls_snoc Let_def) simp
  next
    case fall
    with alt assms have "length ?R + (if bit init c then 1 else 0) = length ?F + 1" by simp
    from chan_fall [OF this, of t] fall assms show ?thesis
      by (simp only: chan_step_def rise_fall_bits rises_snoc falls_snoc Let_def) simp
  next
    case none
    with assms show ?thesis
      by (simp only: chan_step_def rise_fall_bits rises_snoc falls_snoc Let_def) auto
  qed
qed

section \<open>Pairs\<close>

text \<open>What holds of a pair's accumulator after any number of samples.\<close>

definition pair_ok :: "nat \<Rightarrow> nat \<Rightarrow> pair_acc \<Rightarrow> bool" where
  "pair_ok hi_falls lo_falls a \<longleftrightarrow>
     (\<forall>d \<in> set (pa_dead_hl a) \<union> set (pa_dead_lh a). 0 \<le> d \<and> d < 2 ^ 32)
     \<and> length (pa_dead_hl a) + (if pa_pending_hl a = None then 0 else 1) \<le> hi_falls
     \<and> length (pa_dead_lh a) + (if pa_pending_lh a = None then 0 else 1) \<le> lo_falls
     \<and> pa_violations a \<le> length (pa_dead_hl a) + length (pa_dead_lh a)"

lemma delta_range: "0 \<le> delta a b" "delta a b < 2 ^ 32"
  by (simp_all add: delta_def and_u32)

lemma pair_ok_pending:
  "pair_ok h l a \<Longrightarrow> pair_ok (Suc h) l (a\<lparr>pa_pending_hl := Some t\<rparr>)"
  "pair_ok h l a \<Longrightarrow> pair_ok h (Suc l) (a\<lparr>pa_pending_lh := Some t\<rparr>)"
  by (auto simp: pair_ok_def split: if_splits)

lemma pair_ok_close:
  "pair_ok h l a \<Longrightarrow> close_hl fl mn hz t a = Inr a' \<Longrightarrow> pair_ok h l a' \<and> pa_overlaps a' = pa_overlaps a
     \<and> pa_overlap_active a' = pa_overlap_active a"
  "pair_ok h l a \<Longrightarrow> close_lh fl mn hz t a = Inr a' \<Longrightarrow> pair_ok h l a' \<and> pa_overlaps a' = pa_overlaps a
     \<and> pa_overlap_active a' = pa_overlap_active a"
  by (auto simp: close_hl_def close_lh_def pair_ok_def bind_exn_Inr Let_def delta_range [simplified]
      split: option.splits if_splits)

lemma pair_step_ok:
  fixes prev s :: int
  assumes ok: "pair_ok (length (falls (2 * p) init xs)) (length (falls (2 * p + 1) init xs)) a"
    and prev: "prev = last_state init xs"
    and step: "pair_step fl mn hz t s ((s XOR prev) AND s) ((s XOR prev) AND prev) p a = Inr a'"
  shows "pair_ok (length (falls (2 * p) init (xs @ [(t, s)])))
                 (length (falls (2 * p + 1) init (xs @ [(t, s)]))) a'
    \<and> pa_overlap_active a' = (bit s (2 * p) \<and> bit s (2 * p + 1))
    \<and> pa_overlaps a' = pa_overlaps a +
        (if bit s (2 * p) \<and> bit s (2 * p + 1) \<and> \<not> pa_overlap_active a then 1 else 0)"
proof -
  let ?r = "(s XOR prev) AND s" and ?f = "(s XOR prev) AND prev"
  let ?h = "length (falls (2 * p) init xs)" and ?l = "length (falls (2 * p + 1) init xs)"
  let ?h' = "length (falls (2 * p) init (xs @ [(t, s)]))"
    and ?l' = "length (falls (2 * p + 1) init (xs @ [(t, s)]))"
  define a1 where "a1 = (if ?f AND push_bit (p * 2) 1 \<noteq> 0 then a\<lparr>pa_pending_hl := Some t\<rparr> else a)"
  from step obtain a2 a4 where
    a2: "(if ?r AND push_bit (p * 2 + 1) 1 \<noteq> 0 then close_hl fl mn hz t a1 else Inr a1) = Inr a2"
    and a4: "(if ?r AND push_bit (p * 2) 1 \<noteq> 0
        then close_lh fl mn hz t (if ?f AND push_bit (p * 2 + 1) 1 \<noteq> 0 then a2\<lparr>pa_pending_lh := Some t\<rparr> else a2)
        else Inr (if ?f AND push_bit (p * 2 + 1) 1 \<noteq> 0 then a2\<lparr>pa_pending_lh := Some t\<rparr> else a2)) = Inr a4"
    and a': "a' = a4\<lparr>pa_overlaps := pa_overlaps a4 +
         (if (s AND push_bit (p * 2) 1 \<noteq> 0 \<and> s AND push_bit (p * 2 + 1) 1 \<noteq> 0) \<and> \<not> pa_overlap_active a4
          then 1 else 0),
       pa_overlap_active := (s AND push_bit (p * 2) 1 \<noteq> 0 \<and> s AND push_bit (p * 2 + 1) 1 \<noteq> 0)\<rparr>"
    unfolding pair_step_def Let_def a1_def [symmetric] bind_exn_Inr by blast
  define a3 where "a3 = (if ?f AND push_bit (p * 2 + 1) 1 \<noteq> 0 then a2\<lparr>pa_pending_lh := Some t\<rparr> else a2)"
  have h': "?h' = ?h + (if bit prev (p * 2) \<and> \<not> bit s (p * 2) then 1 else 0)"
    and l': "?l' = ?l + (if bit prev (p * 2 + 1) \<and> \<not> bit s (p * 2 + 1) then 1 else 0)"
    by (simp_all add: falls_snoc prev mult.commute)
  have 1: "pair_ok ?h' ?l a1 \<and> pa_overlaps a1 = pa_overlaps a \<and> pa_overlap_active a1 = pa_overlap_active a"
    unfolding a1_def rise_fall_bits h' using ok pair_ok_pending(1) [OF ok] by auto
  have 2: "pair_ok ?h' ?l a2 \<and> pa_overlaps a2 = pa_overlaps a \<and> pa_overlap_active a2 = pa_overlap_active a"
    using 1 a2 pair_ok_close(1) [of ?h' ?l a1 fl mn hz t a2] by (auto split: if_splits)
  have 3: "pair_ok ?h' ?l' a3 \<and> pa_overlaps a3 = pa_overlaps a \<and> pa_overlap_active a3 = pa_overlap_active a"
    unfolding a3_def rise_fall_bits l' using 2 pair_ok_pending(2) [of ?h' ?l a2] by auto
  have 4: "pair_ok ?h' ?l' a4 \<and> pa_overlaps a4 = pa_overlaps a \<and> pa_overlap_active a4 = pa_overlap_active a"
    using 3 a4 pair_ok_close(2) [of ?h' ?l' a3 fl mn hz t a4] unfolding a3_def [symmetric]
    by (auto split: if_splits)
  have "pair_ok ?h' ?l' a'" using 4 unfolding a' by (simp add: pair_ok_def)
  with 4 show ?thesis unfolding a' and_shift_one by (simp add: mult.commute)
qed

section \<open>The whole loop\<close>

definition samples_of :: "raw_edge list \<Rightarrow> samples" where
  "samples_of es = map (\<lambda>e. (re_timestamp_ticks e, raw_to_logical (re_raw_inputs e))) es"

text \<open>The number of times a pair enters the state with both switches on.\<close>

definition both_on :: "nat \<Rightarrow> int \<Rightarrow> bool" where
  "both_on p s \<longleftrightarrow> bit s (2 * p) \<and> bit s (2 * p + 1)"

fun overlap_entries :: "nat \<Rightarrow> bool \<Rightarrow> samples \<Rightarrow> nat" where
  "overlap_entries p active [] = 0"
| "overlap_entries p active ((t, s) # xs) =
     (if both_on p s \<and> \<not> active then 1 else 0) + overlap_entries p (both_on p s) xs"

definition active_after :: "nat \<Rightarrow> samples \<Rightarrow> bool" where
  "active_after p xs \<longleftrightarrow> xs \<noteq> [] \<and> both_on p (snd (last xs))"

lemma overlap_entries_snoc:
  "overlap_entries p False (xs @ [(t, s)]) = overlap_entries p False xs
     + (if both_on p s \<and> \<not> active_after p xs then 1 else 0)"
proof -
  have "overlap_entries p b (xs @ [(t, s)]) = overlap_entries p b xs
     + (if both_on p s \<and> \<not> (if xs = [] then b else both_on p (snd (last xs))) then 1 else 0)" for b
    by (induction p b xs rule: overlap_entries.induct) auto
  then show ?thesis by (auto simp: active_after_def)
qed

definition raw_inv :: "int \<Rightarrow> samples \<Rightarrow> raw_acc \<Rightarrow> bool" where
  "raw_inv init xs acc \<longleftrightarrow>
     ra_previous acc = last_state init xs
     \<and> ra_channels acc = map (\<lambda>c. chan_of_edges (bit init c) (rises c init xs) (falls c init xs)) [0..<6]
     \<and> length (ra_pairs acc) = 3
     \<and> (\<forall>p < 3. pair_ok (length (falls (2 * p) init xs)) (length (falls (2 * p + 1) init xs)) (ra_pairs acc ! p)
          \<and> pa_overlap_active (ra_pairs acc ! p) = active_after p xs
          \<and> pa_overlaps (ra_pairs acc ! p) = overlap_entries p False xs)"

lemma raw_inv_init:
  "raw_inv init [] \<lparr>ra_previous = init, ra_channels = replicate 6 chan_init, ra_pairs = replicate 3 pair_init\<rparr>"
proof -
  have "replicate 6 chan_init = map (\<lambda>c. chan_of_edges (bit init c) [] []) [0..<6]"
    by (intro nth_equalityI) (simp_all add: chan_of_edges_def chan_init_def last_opt_def)
  then show ?thesis
    by (simp add: raw_inv_def pair_init_def pair_ok_def active_after_def)
qed

lemma raw_step_inv:
  assumes inv: "raw_inv init xs acc"
    and r: "rr_changed_inputs r = rr_logical_inputs r XOR ra_previous acc"
    and step: "raw_step fl mn hz r acc = Inr acc'"
  shows "raw_inv init (xs @ [(rr_timestamp_ticks r, rr_logical_inputs r)]) acc'"
proof -
  let ?t = "rr_timestamp_ticks r" and ?s = "rr_logical_inputs r" and ?prev = "ra_previous acc"
  let ?xs' = "xs @ [(?t, ?s)]"
  let ?rb = "(?s XOR ?prev) AND ?s" and ?fb = "(?s XOR ?prev) AND ?prev"
  have prev: "?prev = last_state init xs" using inv by (simp add: raw_inv_def)
  from step obtain pairs where
    ps: "map_exn (\<lambda>(p, a). pair_step fl mn hz ?t ?s ?rb ?fb p a) (zip [0..<3] (ra_pairs acc)) = Inr pairs"
    and acc': "acc' = \<lparr>ra_previous = ?s,
      ra_channels = map (\<lambda>(c, a). chan_step ?t ?rb ?fb c a) (zip [0..<6] (ra_channels acc)),
      ra_pairs = pairs\<rparr>"
    unfolding raw_step_def Let_def r bind_exn_Inr by blast
  have ch: "map (\<lambda>(c, a). chan_step ?t ?rb ?fb c a) (zip [0..<6] (ra_channels acc))
      = map (\<lambda>c. chan_of_edges (bit init c) (rises c init ?xs') (falls c init ?xs')) [0..<6]"
    using inv chan_step_edges [OF prev, of ?t ?s] unfolding raw_inv_def
    by (intro nth_equalityI) (simp_all del: upt_rec_numeral)
  have len: "length pairs = 3" using map_exn_length [OF ps] inv by (simp add: raw_inv_def)
  have "pair_step fl mn hz ?t ?s ?rb ?fb p (ra_pairs acc ! p) = Inr (pairs ! p)" if "p < 3" for p
    using ps that inv unfolding map_exn_Inr list_all2_conv_all_nth raw_inv_def by (auto simp del: upt_rec_numeral)
  note stp = this
  have "\<forall>p < 3. pair_ok (length (falls (2 * p) init ?xs')) (length (falls (2 * p + 1) init ?xs')) (pairs ! p)
       \<and> pa_overlap_active (pairs ! p) = both_on p ?s
       \<and> pa_overlaps (pairs ! p) = overlap_entries p False xs + (if both_on p ?s \<and> \<not> active_after p xs then 1 else 0)"
  proof (intro allI impI)
    fix p :: nat assume p: "p < 3"
    with inv have ok: "pair_ok (length (falls (2 * p) init xs)) (length (falls (2 * p + 1) init xs)) (ra_pairs acc ! p)"
      and "pa_overlap_active (ra_pairs acc ! p) = active_after p xs"
      and "pa_overlaps (ra_pairs acc ! p) = overlap_entries p False xs"
      by (simp_all add: raw_inv_def)
    with pair_step_ok [OF ok prev stp [OF p]]
    show "pair_ok (length (falls (2 * p) init ?xs')) (length (falls (2 * p + 1) init ?xs')) (pairs ! p)
       \<and> pa_overlap_active (pairs ! p) = both_on p ?s
       \<and> pa_overlaps (pairs ! p) = overlap_entries p False xs + (if both_on p ?s \<and> \<not> active_after p xs then 1 else 0)"
      unfolding both_on_def by simp
  qed
  then show ?thesis
    using ch len unfolding acc' raw_inv_def
    by (simp add: overlap_entries_snoc active_after_def del: upt_rec_numeral)
qed

lemma raw_fold_inv:
  "raw_inv init xs acc \<Longrightarrow> fold_exn (raw_step fl mn hz) (raw_records_from i (ra_previous acc) es) acc = Inr acc'
     \<Longrightarrow> raw_inv init (xs @ samples_of es) acc'"
proof (induction es arbitrary: i xs acc)
  case Nil
  then show ?case by (simp add: samples_of_def)
next
  case (Cons e es)
  let ?r = "\<lparr>rr_index = i, rr_timestamp_ticks = re_timestamp_ticks e, rr_raw_inputs = re_raw_inputs e,
     rr_logical_inputs = raw_to_logical (re_raw_inputs e),
     rr_changed_inputs = raw_to_logical (re_raw_inputs e) XOR ra_previous acc\<rparr>"
  from Cons.prems(2) obtain acc1 where step: "raw_step fl mn hz ?r acc = Inr acc1"
    and rest: "fold_exn (raw_step fl mn hz)
      (raw_records_from (Suc i) (raw_to_logical (re_raw_inputs e)) es) acc1 = Inr acc'"
    by (auto simp: Let_def bind_exn_Inr)
  from raw_step_inv [OF Cons.prems(1) _ step]
  have inv1: "raw_inv init (xs @ [(re_timestamp_ticks e, raw_to_logical (re_raw_inputs e))]) acc1" by simp
  then have "ra_previous acc1 = raw_to_logical (re_raw_inputs e)" by (simp add: raw_inv_def)
  with Cons.IH [OF inv1] rest show ?case by (simp add: samples_of_def)
qed

definition initial_logical :: "raw_shared \<Rightarrow> int" where
  "initial_logical s = raw_to_logical (rs_initial_raw_inputs s)"

text \<open>The samples an analysis looks at.\<close>

definition captured :: "raw_shared \<Rightarrow> samples" where
  "captured s = samples_of (take (min (nat (rs_event_count s)) RAW_CAPACITY) (rs_ring s))"

lemma raw_loop_inv:
  assumes "raw_loop fl mn s = Inr acc"
  shows "raw_inv (initial_logical s) (captured s) acc"
proof -
  from assms have "fold_exn (raw_step fl mn (rs_tick_hz s))
      (raw_records_from 0 (initial_logical s) (take (min (nat (rs_event_count s)) RAW_CAPACITY) (rs_ring s)))
      \<lparr>ra_previous = initial_logical s, ra_channels = replicate 6 chan_init, ra_pairs = replicate 3 pair_init\<rparr>
      = Inr acc"
    by (auto simp: raw_loop_def raw_records_def bind_exn_Inr initial_logical_def)
  then show ?thesis
    using raw_fold_inv [OF raw_inv_init [of "initial_logical s"]] unfolding captured_def
    by fastforce
qed

text \<open>C15: when the analysis of a capture returns, the statistics of every channel are those of the
  reference computed on the channel's lists of rising and falling edges: the counts are their
  lengths, the periods the differences (modulo 2^32) of consecutive rising edges, and the high
  and low times those of each rising edge to the falling edge after it and of each falling edge
  to the rising edge after it; the two counts differ by the change of level between the first and
  the last sample.\<close>
theorem raw_channels_are_edge_lists:
  assumes "raw_loop fl min_ns s = Inr acc" "c < 6"
    and "up = rises c (initial_logical s) (captured s)"
    and "down = falls c (initial_logical s) (captured s)"
    and "high_first = bit (initial_logical s) c"
  shows "ca_rises (ra_channels acc ! c) = length up
    \<and> ca_falls (ra_channels acc ! c) = length down
    \<and> ca_period (ra_channels acc ! c) = map2 delta up (tl up)
    \<and> ca_high (ra_channels acc ! c) = map2 delta up (if high_first then tl down else down)
    \<and> ca_low (ra_channels acc ! c) = map2 delta down (if high_first then up else tl up)
    \<and> int (length up) - int (length down)
        = of_bool (bit (last_state (initial_logical s) (captured s)) c) - of_bool high_first"
proof -
  from raw_loop_inv [OF assms(1)] assms(2-5)
  have ch: "ra_channels acc ! c = chan_of_edges high_first up down"
    by (simp add: raw_inv_def del: upt_rec_numeral)
  have "int (length up) - int (length down)
      = of_bool (bit (last_state (initial_logical s) (captured s)) c) - of_bool high_first"
    using edges_alternate [of c "initial_logical s" "captured s"] assms(3-5) by (auto split: if_splits)
  then show ?thesis unfolding ch by (simp add: chan_of_edges_def deltas_def)
qed

text \<open>When the analysis of a capture returns, every dead time of every pair lies in [0, 2^32)
  ticks, there are at most as many dead times of a direction as falling edges of the switch that
  opens it, at most as many violations as dead times, and the overlap count is the number of times
  the samples enter the state with both switches on (the state before the first sample counting
  as not overlapping, whatever it was).\<close>
theorem raw_pairs_bounded:
  assumes "raw_loop fl min_ns s = Inr acc" "p < 3" "pr = ra_pairs acc ! p"
  shows "(\<forall>d \<in> set (pa_dead_hl pr @ pa_dead_lh pr). 0 \<le> d \<and> d < 2 ^ 32)
    \<and> length (pa_dead_hl pr) \<le> length (falls (2 * p) (initial_logical s) (captured s))
    \<and> length (pa_dead_lh pr) \<le> length (falls (2 * p + 1) (initial_logical s) (captured s))
    \<and> pa_violations pr \<le> length (pa_dead_hl pr) + length (pa_dead_lh pr)
    \<and> pa_overlaps pr = overlap_entries p False (captured s)"
proof -
  from raw_loop_inv [OF assms(1)] assms(2,3)
  have "pair_ok (length (falls (2 * p) (initial_logical s) (captured s)))
      (length (falls (2 * p + 1) (initial_logical s) (captured s))) pr"
    and ov: "pa_overlaps pr = overlap_entries p False (captured s)"
    by (simp_all add: raw_inv_def)
  then show ?thesis unfolding pair_ok_def by auto
qed

section \<open>Records\<close>

lemma records_from_chain:
  "length (raw_records_from i prev es) = length es
   \<and> map rr_logical_inputs (raw_records_from i prev es) = map (raw_to_logical \<circ> re_raw_inputs) es
   \<and> map rr_index (raw_records_from i prev es) = [i..<i + length es]
   \<and> (\<forall>k < length es. rr_logical_inputs (raw_records_from i prev es ! k)
        = foldl (\<lambda>a r. a XOR rr_changed_inputs r) prev (take (Suc k) (raw_records_from i prev es)))"
proof (induction i prev es rule: raw_records_from.induct)
  case (2 i prev item items)
  let ?l = "raw_to_logical (re_raw_inputs item)"
  have "prev XOR (?l XOR prev) = ?l"
    by (metis xor.assoc xor.commute xor.right_neutral xor_self_eq)
  with 2 [OF refl] show ?case
    by (auto simp: Let_def nth_Cons upt_conv_Cons split: nat.splits simp del: upt_Suc)
qed simp

text \<open>The records of a valid capture are as many as its event count and numbered in order, and the
  recorded changes chain: the state of every record is the initial state with all changes up to it
  applied by exclusive or.\<close>
theorem raw_records_chain:
  assumes "raw_validate s = Inr ()" "rs_event_count s \<ge> 0" "length (rs_ring s) = RAW_CAPACITY"
  shows "\<exists>rs. raw_records s = Inr rs \<and> length rs = nat (rs_event_count s)
    \<and> map rr_index rs = [0..<nat (rs_event_count s)]
    \<and> (\<forall>k < length rs. rr_raw_inputs (rs ! k) = re_raw_inputs (rs_ring s ! k)
         \<and> rr_logical_inputs (rs ! k) = raw_to_logical (re_raw_inputs (rs_ring s ! k))
         \<and> rr_logical_inputs (rs ! k)
           = foldl (\<lambda>a r. a XOR rr_changed_inputs r) (initial_logical s) (take (Suc k) rs))"
proof -
  have n: "nat (rs_event_count s) \<le> 1024" using assms(1) by (auto simp: raw_validate_def split: if_splits)
  define es where "es = take (min (nat (rs_event_count s)) RAW_CAPACITY) (rs_ring s)"
  have len: "length es = nat (rs_event_count s)" using n assms(3) by (simp add: es_def)
  have nth: "es ! k = rs_ring s ! k" if "k < length es" for k using that by (simp add: es_def)
  have raw: "map rr_raw_inputs (raw_records_from i p es) = map re_raw_inputs es" for i p
    by (induction i p es rule: raw_records_from.induct) (simp_all add: Let_def)
  note ch = records_from_chain [of 0 "initial_logical s" es]
  have "raw_records s = Inr (raw_records_from 0 (initial_logical s) es)"
    using assms(1) by (simp add: raw_records_def es_def initial_logical_def)
  moreover have "rr_logical_inputs (raw_records_from 0 (initial_logical s) es ! k)
      = raw_to_logical (re_raw_inputs (rs_ring s ! k))
    \<and> rr_raw_inputs (raw_records_from 0 (initial_logical s) es ! k) = re_raw_inputs (rs_ring s ! k)"
    if k: "k < length es" for k
    using ch k nth [OF k] raw [of 0 "initial_logical s"]
    by (metis comp_apply nth_map)
  ultimately show ?thesis using ch len by auto
qed

section \<open>Histograms\<close>

definition expand :: "(int \<times> nat \<times> rat) list \<Rightarrow> int list" where
  "expand h = concat (map (\<lambda>(t, n, v). replicate n t) h)"

lemma list_all2_right: "list_all2 P xs ys \<Longrightarrow> y \<in> set ys \<Longrightarrow> \<exists>x \<in> set xs. P x y"
  by (induction rule: list_all2_induct) auto

lemma count_mset_list: "count (mset xs) x = count_list xs x"
  by (induction xs) auto

text \<open>A tick histogram loses nothing: its entries expand to a permutation of the values, in
  strictly increasing order of ticks, and each carries the conversion of its ticks.\<close>
theorem tick_histogram_exact:
  assumes "tick_histogram conv vs = Inr h"
  shows "mset (expand h) = mset vs \<and> sorted (map fst h) \<and> distinct (map fst h)
    \<and> (\<forall>(t, n, v) \<in> set h. 0 < n \<and> conv t = Inr v)"
proof -
  let ?ts = "sort (remdups vs)"
  from assms have all: "list_all2 (\<lambda>t y. bind_exn (conv t) (\<lambda>v. Inr (t, count_list vs t, v)) = Inr y) ?ts h"
    by (simp add: tick_histogram_def map_exn_Inr)
  then have h: "map fst h = ?ts \<and> map (fst \<circ> snd) h = map (count_list vs) ?ts"
    by (induction rule: list_all2_induct) (auto simp: bind_exn_Inr)
  have e: "expand h = concat (map (\<lambda>t. replicate (count_list vs t) t) ?ts)"
    unfolding expand_def using all by (induction rule: list_all2_induct) (auto simp: bind_exn_Inr)
  have "count (mset (concat (map (\<lambda>t. replicate (f t) t) ts))) x = (if x \<in> set ts then f x else 0)"
    if "distinct ts" for ts :: "int list" and f x
    using that by (induction ts) auto
  then have "mset (expand h) = mset vs"
    unfolding e by (intro multiset_eqI) (auto simp: count_mset_list count_list_0_iff)
  moreover have "\<forall>(t, n, v) \<in> set h. 0 < n \<and> conv t = Inr v"
  proof clarify
    fix t n v assume "(t, n, v) \<in> set h"
    with list_all2_right [OF all] obtain t' where "t' \<in> set ?ts" "bind_exn (conv t') (\<lambda>v. Inr (t', count_list vs t', v)) = Inr (t, n, v)"
      by blast
    then show "0 < n \<and> conv t = Inr v" by (auto simp: bind_exn_Inr count_list_0_iff intro: gr0I)
  qed
  ultimately show ?thesis using h by simp
qed

definition example_capture :: raw_shared where
  "example_capture =
     \<lparr>rs_magic = RAW_MAGIC, rs_version = 1, rs_total_size = int RAW_SHARED_SIZE, rs_tick_hz = 200000000,
      rs_capacity = int RAW_CAPACITY, rs_running = 0, rs_configured_event_limit = 4, rs_event_count = 4,
      rs_initial_raw_inputs = 2, rs_final_raw_inputs = 2, rs_start_ticks = 0, rs_stop_ticks = 900,
      rs_stop_reason = 1, rs_input_mask = 0, rs_generation = 1, rs_overflow_count = 0,
      rs_ring = [\<lparr>re_timestamp_ticks = 4294967295, re_raw_inputs = 0\<rparr>,
                 \<lparr>re_timestamp_ticks = 99, re_raw_inputs = 4\<rparr>,
                 \<lparr>re_timestamp_ticks = 199, re_raw_inputs = 0\<rparr>,
                 \<lparr>re_timestamp_ticks = 299, re_raw_inputs = 2\<rparr>]\<rparr>"

lemma raw_example_capture_returns: "\<exists>acc. raw_loop (\<lambda>x. x) 0 example_capture = Inr acc"
proof -
  have "\<not> isl (raw_loop (\<lambda>x. x) 0 example_capture)" by code_simp
  then show ?thesis by (cases "raw_loop (\<lambda>x. x) 0 example_capture") auto
qed

lemma raw_example_initial: "initial_logical example_capture = 1"
  by code_simp

lemma raw_example_captured: "captured example_capture = [(4294967295, 0), (99, 2), (199, 0), (299, 1)]"
  by code_simp

lemma raw_example_edges:
  "rises 0 (initial_logical example_capture) (captured example_capture) = [299]"
  "falls 0 (initial_logical example_capture) (captured example_capture) = [4294967295]"
  "rises (Suc 0) (initial_logical example_capture) (captured example_capture) = [99]"
  "falls (Suc 0) (initial_logical example_capture) (captured example_capture) = [199]"
  "bit (initial_logical example_capture) 0" "\<not> bit (initial_logical example_capture) (Suc 0)"
  unfolding raw_example_initial raw_example_captured by (simp_all add: bit_iff_odd)

lemma raw_channels_are_edge_lists_witness:
  "\<exists>acc. raw_loop (\<lambda>x. x) 0 example_capture = Inr acc
    \<and> ca_low (ra_channels acc ! 0) = [300] \<and> ca_high (ra_channels acc ! 0) = []
    \<and> ca_high (ra_channels acc ! 1) = [100]"
proof -
  obtain acc where acc: "raw_loop (\<lambda>x. x) 0 example_capture = Inr acc"
    using raw_example_capture_returns by blast
  note st = raw_channels_are_edge_lists [OF acc _ refl refl refl]
  have "ca_low (ra_channels acc ! 0) = [300]" using st [of 0] by (simp add: raw_example_edges delta_def)
  moreover have "ca_high (ra_channels acc ! 0) = []" using st [of 0] by (simp add: raw_example_edges delta_def)
  moreover have "ca_high (ra_channels acc ! 1) = [100]" using st [of 1] by (simp add: raw_example_edges delta_def)
  ultimately show ?thesis using acc by blast
qed

lemma raw_pairs_bounded_witness:
  "\<exists>acc. raw_loop (\<lambda>x. x) 0 example_capture = Inr acc \<and> pa_overlaps (ra_pairs acc ! 0) = 0
    \<and> length (pa_dead_hl (ra_pairs acc ! 0)) \<le> 1"
proof -
  obtain acc where acc: "raw_loop (\<lambda>x. x) 0 example_capture = Inr acc"
    using raw_example_capture_returns by blast
  have a: "overlap_entries 0 False (captured example_capture) = 0"
    "length (falls (2 * 0) (initial_logical example_capture) (captured example_capture)) = 1"
    by (simp_all add: raw_example_edges) (simp add: raw_example_captured both_on_def bit_iff_odd)
  from raw_pairs_bounded [OF acc, of 0, OF _ refl] acc show ?thesis unfolding a by fastforce
qed

lemma raw_records_chain_witness:
  "\<exists>rs. raw_records (example_capture\<lparr>rs_event_count := 1024, rs_ring := replicate RAW_CAPACITY \<lparr>re_timestamp_ticks = 0, re_raw_inputs = 4\<rparr>\<rparr>) = Inr rs
     \<and> length rs = 1024"
proof -
  define z where "z = replicate RAW_CAPACITY \<lparr>re_timestamp_ticks = 0, re_raw_inputs = 4\<rparr>"
  have "length z = 1024" unfolding z_def by (rule length_replicate)
  then show ?thesis
    using raw_records_chain [of "example_capture\<lparr>rs_event_count := 1024, rs_ring := z\<rparr>"]
    unfolding z_def [symmetric] by (auto simp: raw_validate_def example_capture_def)
qed

lemma tick_histogram_exact_witness:
  "\<exists>h. tick_histogram (\<lambda>t. Inr (of_int t)) [3, 1, 3] = Inr h \<and> mset (expand h) = mset [3, 1, 3]"
proof -
  have "tick_histogram (\<lambda>t. Inr (of_int t)) [3, 1, 3] = Inr [(1, 1, 1), (3, 2, 3)]" by code_simp
  with tick_histogram_exact [OF this] show ?thesis by blast
qed

section \<open>Reading the device\<close>

text \<open>C16: reading a capture closes what it opened on every path, failed or not: the open descriptors
  and the number of mappings afterwards are those before. A capture is returned only when the mapped
  bytes are those of a valid structure that is no longer running.\<close>
theorem frozen_capture_released:
  "case read_frozen_raw_capture os_open os_mmap (fds, k) of (r, st) \<Rightarrow>
     st = (fds, k)
     \<and> (case r of
          Inr s \<Rightarrow> (\<exists>fd mem. os_open = Inr fd \<and> os_mmap fd = Inr mem \<and> RAW_SHARED_SIZE \<le> length mem
                     \<and> s = raw_of_bytes (take RAW_SHARED_SIZE mem)
                     \<and> raw_validate s = Inr () \<and> rs_running s = 0)
        | Inl e \<Rightarrow> os_open = Inl e \<or> (\<exists>fd. os_open = Inr fd \<and>
            (os_mmap fd = Inl e \<or> (\<exists>mem. os_mmap fd = Inr mem \<and>
               (e = ValueError \<and> length mem < RAW_SHARED_SIZE \<or> e = RuntimeError)))))"
proof (cases os_open)
  case (Inl e)
  then show ?thesis by (simp add: read_frozen_raw_capture_def bind_io_def)
next
  case fd: (Inr fd)
  show ?thesis
  proof (cases "os_mmap fd")
    case (Inl e)
    with fd show ?thesis by (simp add: read_frozen_raw_capture_def bind_io_def finally_io_apply)
  next
    case mem: (Inr mem)
    define h where "h = raw_of_bytes (take RAW_SHARED_SIZE mem)"
    have "raw_validate h = Inl e \<Longrightarrow> e = RuntimeError" for e
      by (auto simp: raw_validate_def split: if_splits)
    with fd mem show ?thesis
      by (cases "raw_validate h")
        (auto simp: read_frozen_raw_capture_def bind_io_def finally_io_apply then_io_apply lift_io_apply
          ensure_io_apply return_io_apply Let_def h_def [symmetric])
  qed
qed

section \<open>A clock of zero\<close>

text \<open>The guard of the capture's duration against a zero clock is not enough. With
  \<open>tick_hz = 0\<close>, a valid capture in which a channel has one measured period, high or low time is not
  analysed: the conversion of that time raises \<open>ZeroDivisionError\<close>.\<close>
theorem zero_clock_raises:
  assumes "raw_loop fl min_ns s = Inr acc" "rs_tick_hz s = 0" "fl 0 = 0"
    and "a \<in> set (ra_channels acc)" "ca_period a \<noteq> [] \<or> ca_high a \<noteq> [] \<or> ca_low a \<noteq> []"
  shows "analyze_raw_capture fl min_ns s = Inl ZeroDivisionError"
proof -
  have conv: "ticks_to_us fl t 0 = Inl ZeroDivisionError" for t
    by (simp add: ticks_to_us_def scale_ticks_def fdiv_def assms(3))
  have st: "summarize_ticks fl vs 0 True = (if vs = [] then Inr (summarize fl [], []) else Inl ZeroDivisionError)" for vs
    by (cases vs) (simp_all add: summarize_ticks_def conv tick_histogram_def)
  have rep: "channel_report_of fl 0 b = Inl ZeroDivisionError \<or> (\<exists>v. channel_report_of fl 0 b = Inr v)" for b
    by (simp add: channel_report_of_def st)
  have bad: "channel_report_of fl 0 a = Inl ZeroDivisionError"
    using assms(5) by (auto simp: channel_report_of_def st)
  have "map_exn (channel_report_of fl 0) bs = Inl ZeroDivisionError" if "a \<in> set bs" for bs
    using that
  proof (induction bs)
    case (Cons b bs)
    then show ?case using rep [of b] bad by (cases "a = b") auto
  qed simp
  with assms(4) show ?thesis by (simp add: analyze_raw_capture_def assms(1,2) Let_def)
qed

lemma zero_clock_raises_witness:
  "analyze_raw_capture (\<lambda>x. x) 0 (example_capture\<lparr>rs_tick_hz := 0, rs_initial_raw_inputs := 0,
      rs_event_count := 2\<rparr>\<lparr>rs_ring := [\<lparr>re_timestamp_ticks = 5, re_raw_inputs = 2\<rparr>, \<lparr>re_timestamp_ticks = 9, re_raw_inputs = 0\<rparr>]\<rparr>)
    = Inl ZeroDivisionError"
proof -
  let ?s = "example_capture\<lparr>rs_tick_hz := 0, rs_initial_raw_inputs := 0,
      rs_event_count := 2\<rparr>\<lparr>rs_ring := [\<lparr>re_timestamp_ticks = 5, re_raw_inputs = 2\<rparr>, \<lparr>re_timestamp_ticks = 9, re_raw_inputs = 0\<rparr>]\<rparr>"
  have "\<not> isl (raw_loop (\<lambda>x. x) 0 ?s)" by code_simp
  then obtain acc where acc: "raw_loop (\<lambda>x. x) 0 ?s = Inr acc" by (cases "raw_loop (\<lambda>x. x) 0 ?s") auto
  have "case raw_loop (\<lambda>x. x) 0 ?s of Inl _ \<Rightarrow> False | Inr acc \<Rightarrow>
      ra_channels acc \<noteq> [] \<and> ca_high (hd (ra_channels acc)) \<noteq> []" by code_simp
  with acc have "hd (ra_channels acc) \<in> set (ra_channels acc)" "ca_high (hd (ra_channels acc)) \<noteq> []" by simp_all
  with zero_clock_raises [OF acc] show ?thesis by (simp add: example_capture_def)
qed

end
