(* ===== verification/Can_Socket.thy ===== *)
theory Can_Socket
  imports Py_Bytes Complex_Main
begin

text \<open>
  \<open>fieldbus/canopen/socketcan.py\<close>: the classical CAN frame, its Linux wire format and the
  \<open>SocketCanBus\<close> transport. The socket module is a record of operations on an arbitrary state;
  the host is little-endian (both supported hosts are).
\<close>

section \<open>Frames\<close>

record can_frame =
  cf_can_id :: int
  cf_data :: "byte list"

text \<open>\<open>CanFrame(can_id, data)\<close> with the checks of \<open>__post_init__\<close>.\<close>

definition mk_can_frame :: "int \<Rightarrow> byte list \<Rightarrow> exn + can_frame" where
  "mk_can_frame can_id data =
     (if \<not> (0 \<le> can_id \<and> can_id \<le> 0x7FF) then Inl ValueError
      else if length data > 8 then Inl ValueError
      else Inr \<lparr>cf_can_id = can_id, cf_data = data\<rparr>)"

definition can_frame_ok :: "can_frame \<Rightarrow> bool" where
  "can_frame_ok f \<longleftrightarrow> 0 \<le> cf_can_id f \<and> cf_can_id f \<le> 0x7FF \<and> length (cf_data f) \<le> 8"

lemma mk_can_frame_Inr:
  "mk_can_frame i d = Inr f \<longleftrightarrow> f = \<lparr>cf_can_id = i, cf_data = d\<rparr> \<and> can_frame_ok f"
  by (auto simp: mk_can_frame_def can_frame_ok_def)

lemma mk_can_frame_Inl: "mk_can_frame i d = Inl e \<Longrightarrow> e = ValueError"
  by (auto simp: mk_can_frame_def split: if_splits)

abbreviation (input) CAN_FRAME_SIZE :: nat where "CAN_FRAME_SIZE \<equiv> 16"

text \<open>\<open>struct.Struct("=IB3x8s")\<close>.\<close>

definition pack_can_frame :: "can_frame \<Rightarrow> exn + byte list" where
  "pack_can_frame f =
     (let payload = ljust 8 (cf_data f) in
      bind_exn (pack_uint 4 (cf_can_id f)) (\<lambda>i.
      bind_exn (pack_uint 1 (int (length (cf_data f)))) (\<lambda>n.
      Inr (i @ n @ [0, 0, 0] @ take 8 payload))))"

definition unpack_can_frame :: "byte list \<Rightarrow> exn + can_frame" where
  "unpack_can_frame payload =
     (if length payload \<noteq> CAN_FRAME_SIZE then Inl ValueError
      else
        let can_id = le_value (slice 0 4 payload); dlc = le_value (slice 4 5 payload);
            data = slice 8 16 payload
        in if dlc > 8 then Inl ValueError
           else mk_can_frame (can_id AND 0x7FF) (take (nat dlc) data))"

lemma unpack_can_frame_ok: "unpack_can_frame bs = Inr f \<Longrightarrow> can_frame_ok f"
  by (auto simp: unpack_can_frame_def Let_def mk_can_frame_Inr split: if_splits)

lemma unpack_can_frame_error: "unpack_can_frame bs = Inl e \<Longrightarrow> e = ValueError"
  by (auto simp: unpack_can_frame_def Let_def dest: mk_can_frame_Inl split: if_splits)

definition can_wire :: "can_frame \<Rightarrow> byte list" where
  "can_wire f = le_bytes 4 (cf_can_id f) @ [word_of_nat (length (cf_data f)), 0, 0, 0] @ ljust 8 (cf_data f)"

lemma pack_can_frame_wire: "can_frame_ok f \<Longrightarrow> pack_can_frame f = Inr (can_wire f)"
  by (simp add: pack_can_frame_def pack_uint_def can_frame_ok_def can_wire_def Let_def)

lemma length_can_wire: "can_frame_ok f \<Longrightarrow> length (can_wire f) = CAN_FRAME_SIZE"
  by (simp add: can_wire_def can_frame_ok_def)

text \<open>
  The identifier word of \<open>linux/can.h\<close>: bit 31 marks a 29-bit identifier, bit 30 a remote request
  and bit 29 an error message; \<open>wire_with_flags\<close> is a frame with these bits and the upper identifier
  bits in \<open>hi\<close>.
\<close>

definition wire_with_flags :: "int \<Rightarrow> can_frame \<Rightarrow> byte list" where
  "wire_with_flags hi f =
     le_bytes 4 (cf_can_id f + 0x800 * hi) @ [word_of_nat (length (cf_data f)), 0, 0, 0] @ ljust 8 (cf_data f)"

lemma wire_with_flags_0: "wire_with_flags 0 f = can_wire f"
  by (simp add: wire_with_flags_def can_wire_def)

lemma unpack_wire_with_flags:
  assumes ok: "can_frame_ok f" and hi: "0 \<le> hi" "hi < 2 ^ 21"
  shows "unpack_can_frame (wire_with_flags hi f) = Inr f"
proof -
  let ?w = "wire_with_flags hi f" and ?d = "cf_data f"
  from ok have i: "0 \<le> cf_can_id f" "cf_can_id f \<le> 0x7FF" and n: "length ?d \<le> 8"
    by (simp_all add: can_frame_ok_def)
  have len: "length ?w = CAN_FRAME_SIZE" using n by (simp add: wire_with_flags_def)
  have "le_value (slice 0 4 ?w) = (cf_can_id f + 0x800 * hi) mod 256 ^ 4"
    by (simp add: slice_def wire_with_flags_def le_value_le_bytes)
  also have "\<dots> = cf_can_id f + 0x800 * hi" using i hi by (intro mod_pos_pos_trivial) simp_all
  finally have id: "le_value (slice 0 4 ?w) AND 0x7FF = cf_can_id f" using i by (simp add: and_u11)
  have dlc: "le_value (slice 4 5 ?w) = int (length ?d)"
    using n by (simp add: slice_def wire_with_flags_def unsigned_of_nat take_bit_nat_eq_self
        flip: of_nat_take_bit)
  have data: "take (length ?d) (slice 8 16 ?w) = ?d"
    using n by (simp add: slice_def wire_with_flags_def ljust_def)
  show ?thesis
    using len id dlc data n ok by (simp add: unpack_can_frame_def Let_def mk_can_frame_Inr)
qed

section \<open>The transport\<close>

text \<open>The operations of Python's \<open>socket\<close> module on descriptors.\<close>

record 's socket_api =
  os_socket :: "('s, int) io"
  os_bind :: "int \<Rightarrow> string \<Rightarrow> ('s, unit) io"
  os_settimeout :: "int \<Rightarrow> rat \<Rightarrow> ('s, unit) io"
  os_send :: "int \<Rightarrow> byte list \<Rightarrow> ('s, int) io"
  os_recv :: "int \<Rightarrow> nat \<Rightarrow> ('s, byte list) io"
  os_close :: "int \<Rightarrow> ('s, unit) io"

record socket_can_bus =
  sb_interface :: string
  sb_sock :: int

definition socket_can_init :: "string \<Rightarrow> int \<Rightarrow> exn + socket_can_bus" where
  "socket_can_init interface sock =
     (if interface = [] then Inl ValueError else Inr \<lparr>sb_interface = interface, sb_sock = sock\<rparr>)"

text \<open>\<open>platform\<close>: whether the platform has \<open>AF_CAN\<close> and \<open>CAN_RAW\<close>.\<close>

definition socket_can_open ::
    "'s socket_api \<Rightarrow> bool \<Rightarrow> string \<Rightarrow> rat option \<Rightarrow> ('s, socket_can_bus) io" where
  "socket_can_open api platform interface timeout_s =
     then_io (ensure_io platform RuntimeError) (
     bind_io (os_socket api) (\<lambda>sock.
     catch_io
       (then_io (os_bind api sock interface) (
        then_io (case timeout_s of
                   None \<Rightarrow> return_io ()
                 | Some t \<Rightarrow> then_io (ensure_io (\<not> t \<le> 0) ValueError) (os_settimeout api sock t)) (
        lift_io (socket_can_init interface sock))))
       (\<lambda>e. then_io (os_close api sock) (raise_io e))))"

definition can_send :: "'s socket_api \<Rightarrow> socket_can_bus \<Rightarrow> can_frame \<Rightarrow> ('s, unit) io" where
  "can_send api b f =
     bind_io (lift_io (pack_can_frame f)) (\<lambda>encoded.
     bind_io (os_send api (sb_sock b) encoded) (\<lambda>written.
     ensure_io (written = int (length encoded)) RuntimeError))"

definition can_recv :: "'s socket_api \<Rightarrow> socket_can_bus \<Rightarrow> ('s, can_frame) io" where
  "can_recv api b =
     bind_io (os_recv api (sb_sock b) CAN_FRAME_SIZE) (\<lambda>payload. lift_io (unpack_can_frame payload))"

definition can_close :: "'s socket_api \<Rightarrow> socket_can_bus \<Rightarrow> ('s, unit) io" where
  "can_close api b = os_close api (sb_sock b)"

text \<open>The protocol \<open>CanBus\<close> of \<open>sdo.py\<close>, and the transport seen as one.\<close>

record 's can_bus =
  bus_send :: "can_frame \<Rightarrow> ('s, unit) io"
  bus_recv :: "('s, can_frame) io"

definition socket_bus :: "'s socket_api \<Rightarrow> socket_can_bus \<Rightarrow> 's can_bus" where
  "socket_bus api b = \<lparr>bus_send = can_send api b, bus_recv = can_recv api b\<rparr>"

section \<open>Properties\<close>


text \<open>The CAN wire codec is exact on classical frames: a valid frame packs into 16 bytes that
  unpack to it, and whatever unpacks is a valid frame; anything else raises \<open>ValueError\<close>.\<close>
theorem can_frame_codec:
  "(can_frame_ok f \<longrightarrow> (\<exists>w. pack_can_frame f = Inr w \<and> length w = CAN_FRAME_SIZE \<and> unpack_can_frame w = Inr f))
   \<and> (case unpack_can_frame bs of Inr g \<Rightarrow> can_frame_ok g \<and> length bs = CAN_FRAME_SIZE | Inl e \<Rightarrow> e = ValueError)"
proof -
  have "unpack_can_frame (can_wire f) = Inr f" if "can_frame_ok f"
    using unpack_wire_with_flags [OF that, of 0] by (simp add: wire_with_flags_0)
  moreover have "case unpack_can_frame bs of Inr g \<Rightarrow> can_frame_ok g \<and> length bs = CAN_FRAME_SIZE | Inl e \<Rightarrow> e = ValueError"
    using unpack_can_frame_ok [of bs] unpack_can_frame_error [of bs]
    by (cases "unpack_can_frame bs") (auto simp: unpack_can_frame_def split: if_splits)
  ultimately show ?thesis by (auto simp: pack_can_frame_wire length_can_wire)
qed

lemma can_frame_codec_witness:
  "\<exists>w. pack_can_frame \<lparr>cf_can_id = 0x585, cf_data = [1, 2, 3]\<rparr> = Inr w
     \<and> unpack_can_frame w = Inr \<lparr>cf_can_id = 0x585, cf_data = [1, 2, 3]\<rparr>"
  using can_frame_codec [of "\<lparr>cf_can_id = 0x585, cf_data = [1, 2, 3]\<rparr>" "[]"]
  by (auto simp: can_frame_ok_def)

text \<open>The receiver drops the upper 21 bits of the identifier word, flags included: a frame with a
  29-bit identifier, a remote request or an error message unpacks to the standard data frame that
  shares its low 11 bits, although the two differ on the wire.\<close>
theorem extended_frame_aliased:
  assumes "can_frame_ok f" "0 < hi" "hi < 2 ^ 21"
  shows "unpack_can_frame (wire_with_flags hi f) = Inr f \<and> pack_can_frame f \<noteq> Inr (wire_with_flags hi f)"
proof -
  have "wire_with_flags hi f \<noteq> can_wire f"
  proof
    assume "wire_with_flags hi f = can_wire f"
    then have "le_bytes 4 (cf_can_id f + 0x800 * hi) = le_bytes 4 (cf_can_id f)"
      by (simp add: wire_with_flags_def can_wire_def)
    moreover have "0 \<le> cf_can_id f" "cf_can_id f \<le> 0x7FF" using assms(1) by (simp_all add: can_frame_ok_def)
    ultimately have "cf_can_id f + 0x800 * hi = cf_can_id f"
      using assms(2,3) by (intro le_bytes_inj [where n = 4]) auto
    with assms(2) show False by simp
  qed
  with unpack_wire_with_flags [OF assms(1), of hi] assms(2,3) show ?thesis
    by (simp add: pack_can_frame_wire [OF assms(1)])
qed

lemma extended_frame_aliased_witness:
  "unpack_can_frame (wire_with_flags (2 ^ 20) \<lparr>cf_can_id = 0x705, cf_data = [5]\<rparr>)
     = Inr \<lparr>cf_can_id = 0x705, cf_data = [5]\<rparr>"
  using extended_frame_aliased [of "\<lparr>cf_can_id = 0x705, cf_data = [5]\<rparr>" "2 ^ 20"]
  by (simp add: can_frame_ok_def)

text \<open>A socket module that keeps the set of open descriptors.\<close>

definition tracks_sockets :: "'s socket_api \<Rightarrow> ('s \<Rightarrow> int set) \<Rightarrow> bool" where
  "tracks_sockets api opened \<longleftrightarrow>
     (\<forall>st. (case os_socket api st of
              (Inl e, st') \<Rightarrow> opened st' = opened st
            | (Inr fd, st') \<Rightarrow> fd \<notin> opened st \<and> opened st' = insert fd (opened st)))
     \<and> (\<forall>fd i st. opened (snd (os_bind api fd i st)) = opened st)
     \<and> (\<forall>fd t st. opened (snd (os_settimeout api fd t st)) = opened st)
     \<and> (\<forall>fd st. \<exists>st'. os_close api fd st = (Inr (), st') \<and> opened st' = opened st - {fd})"

text \<open>Opening the bus leaks no socket: when \<open>open\<close> raises, whatever failed, the open descriptors
  are those before; when it returns, the descriptor of the bus is the only new one, the interface is
  the non-empty one asked for, and the timeout, if any, was positive.\<close>
theorem socket_can_open_balanced:
  assumes api: "tracks_sockets api opened"
    and run: "socket_can_open api platform interface timeout_s st = (r, st')"
  shows "case r of
      Inl e \<Rightarrow> opened st' = opened st
    | Inr b \<Rightarrow> platform \<and> sb_sock b \<notin> opened st \<and> opened st' = insert (sb_sock b) (opened st)
        \<and> sb_interface b = interface \<and> interface \<noteq> [] \<and> (\<forall>t. timeout_s = Some t \<longrightarrow> 0 < t)"
proof (cases platform)
  case False
  with run show ?thesis by (auto simp: socket_can_open_def then_io_apply ensure_io_apply)
next
  case True
  obtain r1 st1 where s: "os_socket api st = (r1, st1)" by (rule prod.exhaust)
  have so: "case os_socket api st of (Inl e, st') \<Rightarrow> opened st' = opened st
      | (Inr fd, st') \<Rightarrow> fd \<notin> opened st \<and> opened st' = insert fd (opened st)"
    using api [unfolded tracks_sockets_def, THEN conjunct1, THEN spec, of st] .
  have os: "opened (snd (os_bind api fd i x)) = opened x" "opened (snd (os_settimeout api fd t x)) = opened x"
    "\<exists>x'. os_close api fd x = (Inr (), x') \<and> opened x' = opened x - {fd}" for fd i t x
    using api [unfolded tracks_sockets_def, THEN conjunct2] by simp_all
  show ?thesis
  proof (cases r1)
    case (Inl e)
    with True s have "socket_can_open api platform interface timeout_s st = (Inl e, st1)"
      by (simp add: socket_can_open_def then_io_apply ensure_io_apply bind_io_apply)
    with run have "r = Inl e" "st' = st1" by simp_all
    with so s Inl show ?thesis by simp
  next
    case (Inr fd)
    define body where "body = then_io (os_bind api fd interface) (
        then_io (case timeout_s of
                   None \<Rightarrow> return_io ()
                 | Some t \<Rightarrow> then_io (ensure_io (\<not> t \<le> 0) ValueError) (os_settimeout api fd t)) (
        lift_io (socket_can_init interface fd)))"
    have new: "fd \<notin> opened st" "opened st1 = insert fd (opened st)"
      using so s Inr by simp_all
    have keep: "keeps (\<lambda>x. opened x = opened st1) body"
      unfolding body_def
      by (intro keeps_then keeps_lift; cases timeout_s)
        (auto simp: keeps_def os return_io_def then_io_apply ensure_io_apply)
    obtain r2 st2 where b: "body st1 = (r2, st2)" by (rule prod.exhaust)
    have o2: "opened st2 = opened st1" using keepsD [OF keep _ b] by simp
    have run': "catch_io body (\<lambda>e. then_io (os_close api fd) (raise_io e)) st1 = (r, st')"
      using run True s Inr by (simp add: socket_can_open_def then_io_apply ensure_io_apply bind_io_apply body_def)
    show ?thesis
    proof (cases r2)
      case (Inl e)
      obtain st3 where "os_close api fd st2 = (Inr (), st3)" "opened st3 = opened st2 - {fd}"
        using os(3) by blast
      with run' b Inl o2 new show ?thesis by (auto simp: catch_io_apply then_io_apply raise_io_apply)
    next
      case (Inr v)
      with run' b have "r = Inr v" "st' = st2" by (auto simp: catch_io_apply)
      moreover have "v = \<lparr>sb_interface = interface, sb_sock = fd\<rparr> \<and> interface \<noteq> [] \<and> (\<forall>t. timeout_s = Some t \<longrightarrow> 0 < t)"
        using b Inr unfolding body_def
        by (auto simp: io_results socket_can_init_def split: if_splits option.splits)
      ultimately show ?thesis using o2 new True by auto
    qed
  qed
qed

lemma socket_can_open_balanced_witness:
  "let api = \<lparr>os_socket = (\<lambda>s. (Inr 7, insert 7 s)), os_bind = (\<lambda>fd i s. (Inl OSError, s)),
       os_settimeout = (\<lambda>fd t s. (Inr (), s)), os_send = (\<lambda>fd b s. (Inr 16, s)),
       os_recv = (\<lambda>fd n s. (Inl OSError, s)), os_close = (\<lambda>fd s. (Inr (), s - {fd}))\<rparr>
   in snd (socket_can_open (api\<lparr>os_socket := \<lambda>s. if (7 :: int) \<in> s then (Inl OSError, s) else (Inr 7, insert 7 s)\<rparr>)
        True ''can0'' None {}) = ({} :: int set)"
proof -
  define api :: "int set socket_api" where "api = \<lparr>os_socket = (\<lambda>s. if 7 \<in> s then (Inl OSError, s) else (Inr 7, insert 7 s)),
       os_bind = (\<lambda>fd i s. (Inl OSError, s)), os_settimeout = (\<lambda>fd t s. (Inr (), s)), os_send = (\<lambda>fd b s. (Inr 16, s)),
       os_recv = (\<lambda>fd n s. (Inl OSError, s)), os_close = (\<lambda>fd s. (Inr (), s - {fd}))\<rparr>"
  have "tracks_sockets api (\<lambda>s. s)" by (simp add: tracks_sockets_def api_def)
  moreover obtain r st' where run: "socket_can_open api True ''can0'' None {} = (r, st')" by (rule prod.exhaust)
  moreover have "isl r" using run
    by (auto simp: socket_can_open_def api_def then_io_apply ensure_io_apply bind_io_apply catch_io_apply raise_io_apply)
  ultimately have "st' = {}" using socket_can_open_balanced [of api "\<lambda>s. s" True "''can0''" None "{}" r st']
    by (cases r) auto
  with run show ?thesis by (simp add: Let_def api_def)
qed

end
