(* ===== verification/Canopen.thy ===== *)
theory Canopen
  imports Can_Socket
begin

text \<open>
  The CANopen services of \<open>fieldbus/canopen/\<close> over an arbitrary bus: NMT and heartbeat
  (\<open>nmt.py\<close>), emergency objects (\<open>emcy.py\<close>), expedited SDO transfers (\<open>sdo.py\<close>) and process
  data objects (\<open>pdo.py\<close>).
\<close>

section \<open>NMT and heartbeat\<close>

datatype nmt_command =
    START_REMOTE_NODE
  | STOP_REMOTE_NODE
  | ENTER_PRE_OPERATIONAL
  | RESET_NODE
  | RESET_COMMUNICATION

fun nmt_command_value :: "nmt_command \<Rightarrow> int" where
  "nmt_command_value START_REMOTE_NODE = 0x01"
| "nmt_command_value STOP_REMOTE_NODE = 0x02"
| "nmt_command_value ENTER_PRE_OPERATIONAL = 0x80"
| "nmt_command_value RESET_NODE = 0x81"
| "nmt_command_value RESET_COMMUNICATION = 0x82"

datatype nmt_state = BOOTUP | STOPPED | OPERATIONAL | PRE_OPERATIONAL

fun nmt_state_value :: "nmt_state \<Rightarrow> int" where
  "nmt_state_value BOOTUP = 0x00"
| "nmt_state_value STOPPED = 0x04"
| "nmt_state_value OPERATIONAL = 0x05"
| "nmt_state_value PRE_OPERATIONAL = 0x7F"

definition nmt_state_of_value :: "int \<Rightarrow> nmt_state option" where
  "nmt_state_of_value v =
     List.find (\<lambda>s. nmt_state_value s = v) [BOOTUP, STOPPED, OPERATIONAL, PRE_OPERATIONAL]"

lemma nmt_state_of_value_value [simp]: "nmt_state_of_value (nmt_state_value s) = Some s"
  by (cases s) (simp_all add: nmt_state_of_value_def)

lemma nmt_state_of_value_Some: "nmt_state_of_value v = Some s \<Longrightarrow> nmt_state_value s = v"
  by (auto simp: nmt_state_of_value_def split: if_splits)

record heartbeat =
  hb_node_id :: int
  hb_state :: nmt_state

definition build_nmt_frame :: "nmt_command \<Rightarrow> int \<Rightarrow> exn + can_frame" where
  "build_nmt_frame command node_id =
     (if \<not> (0 \<le> node_id \<and> node_id \<le> 127) then Inl ValueError
      else bind_exn (bytes_of_ints [nmt_command_value command, node_id]) (mk_can_frame 0x000))"

definition parse_heartbeat :: "can_frame \<Rightarrow> exn + heartbeat" where
  "parse_heartbeat frame =
     (if \<not> (0x701 \<le> cf_can_id frame \<and> cf_can_id frame \<le> 0x77F) then Inl ValueError
      else if length (cf_data frame) \<noteq> 1 then Inl ValueError
      else
        let node_id = cf_can_id frame - 0x700 in
        case nmt_state_of_value (uint (cf_data frame ! 0)) of
          None \<Rightarrow> Inl ValueError
        | Some state \<Rightarrow> Inr \<lparr>hb_node_id = node_id, hb_state = state\<rparr>)"

primrec heartbeat_loop :: "'s can_bus \<Rightarrow> int \<Rightarrow> nat \<Rightarrow> ('s, heartbeat) io" where
  "heartbeat_loop bus node_id 0 = raise_io TimeoutError"
| "heartbeat_loop bus node_id (Suc n) =
     bind_io (bus_recv bus) (\<lambda>frame.
     if cf_can_id frame = 0x700 + node_id then lift_io (parse_heartbeat frame)
     else heartbeat_loop bus node_id n)"

definition wait_for_heartbeat :: "'s can_bus \<Rightarrow> int \<Rightarrow> int \<Rightarrow> ('s, heartbeat) io" where
  "wait_for_heartbeat bus node_id max_frames =
     then_io (ensure_io (1 \<le> node_id \<and> node_id \<le> 127) ValueError) (
     heartbeat_loop bus node_id (nat max_frames))"

section \<open>Emergency objects\<close>

record emcy =
  em_node_id :: int
  em_error_code :: int
  em_error_register :: int
  em_manufacturer_data :: "byte list"

definition parse_emcy :: "can_frame \<Rightarrow> exn + emcy" where
  "parse_emcy frame =
     (if \<not> (0x081 \<le> cf_can_id frame \<and> cf_can_id frame \<le> 0x0FF) then Inl ValueError
      else if length (cf_data frame) \<noteq> 8 then Inl ValueError
      else Inr \<lparr>em_node_id = cf_can_id frame - 0x80,
                em_error_code = from_bytes False (slice 0 2 (cf_data frame)),
                em_error_register = uint (cf_data frame ! 2),
                em_manufacturer_data = slice 3 8 (cf_data frame)\<rparr>)"

section \<open>SDO client\<close>

record sdo_upload_result =
  up_index :: int
  up_subindex :: int
  up_data :: "byte list"

record 's sdo_client =
  sc_bus :: "'s can_bus"
  sc_node_id :: int
  sc_max_frames :: int

definition sdo_client_init :: "'s can_bus \<Rightarrow> int \<Rightarrow> int \<Rightarrow> exn + 's sdo_client" where
  "sdo_client_init bus node_id max_frames =
     (if \<not> (1 \<le> node_id \<and> node_id \<le> 127) then Inl ValueError
      else if max_frames \<le> 0 then Inl ValueError
      else Inr \<lparr>sc_bus = bus, sc_node_id = node_id, sc_max_frames = max_frames\<rparr>)"

definition request_cob_id :: "'s sdo_client \<Rightarrow> int" where
  "request_cob_id c = 0x600 + sc_node_id c"

definition response_cob_id :: "'s sdo_client \<Rightarrow> int" where
  "response_cob_id c = 0x580 + sc_node_id c"

text \<open>The text of an abort; \<open>hex_padded n\<close> is \<open>format(v, '0nx')\<close> for a non-negative value.\<close>

definition ABORT_CODES :: "(int \<times> string) list" where
  "ABORT_CODES =
     [(0x05040000, ''SDO protocol timed out''), (0x06010000, ''unsupported object access''),
      (0x06010002, ''attempt to write read-only object''), (0x06020000, ''object does not exist''),
      (0x06090011, ''subindex does not exist''), (0x06090030, ''value range exceeded''),
      (0x08000000, ''general error'')]"

definition hex_padded :: "nat \<Rightarrow> int \<Rightarrow> string" where
  "hex_padded n v = (if v < 16 ^ n then hex_fixed n v else hex_nat (nat v))"

definition abort_message :: "int \<Rightarrow> int \<Rightarrow> int \<Rightarrow> string" where
  "abort_message code index subindex =
     ''SDO abort 0x'' @ hex_padded 8 code @ '' at 0x'' @ hex_padded 4 index @ '':'' @ hex_padded 2 subindex @ '': ''
     @ (case map_of ABORT_CODES code of None \<Rightarrow> ''unknown SDO abort'' | Some t \<Rightarrow> t)"

lemma abort_message_sample:
  "abort_message 0x06020000 0x6040 0 = ''SDO abort 0x06020000 at 0x6040:00: object does not exist''"
  by code_simp

text \<open>\<open>_response\<close>: the loop over at most \<open>max_frames\<close> received frames.\<close>

primrec sdo_response_loop :: "'s sdo_client \<Rightarrow> int \<Rightarrow> int \<Rightarrow> nat \<Rightarrow> ('s, can_frame) io" where
  "sdo_response_loop c index subindex 0 = raise_io TimeoutError"
| "sdo_response_loop c index subindex (Suc n) =
     bind_io (bus_recv (sc_bus c)) (\<lambda>frame.
     let d = cf_data frame in
     if cf_can_id frame \<noteq> response_cob_id c then sdo_response_loop c index subindex n
     else if length d \<noteq> 8 then raise_io RuntimeError
     else
       let response_index = uint (d ! 1) OR push_bit 8 (uint (d ! 2)) in
       if response_index \<noteq> index \<or> uint (d ! 3) \<noteq> subindex then sdo_response_loop c index subindex n
       else if uint (d ! 0) = 0x80 then
         raise_io (SdoAbort (from_bytes False (slice 4 8 d)) index subindex)
       else return_io frame)"

definition sdo_response :: "'s sdo_client \<Rightarrow> int \<Rightarrow> int \<Rightarrow> ('s, can_frame) io" where
  "sdo_response c index subindex = sdo_response_loop c index subindex (nat (sc_max_frames c))"

definition download_commands :: "(nat \<times> int) list" where
  "download_commands = [(1, 0x2F), (2, 0x2B), (3, 0x27), (4, 0x23)]"

text \<open>The request frame of a download, or the exception that building it raises.\<close>

definition download_request :: "'s sdo_client \<Rightarrow> int \<Rightarrow> int \<Rightarrow> byte list \<Rightarrow> exn + can_frame" where
  "download_request c index subindex data =
     (case map_of download_commands (length data) of
        None \<Rightarrow> Inl ValueError
      | Some command \<Rightarrow>
          bind_exn (bytes_of_ints [command, index AND 0xFF, drop_bit 8 index, subindex]) (\<lambda>payload.
          mk_can_frame (request_cob_id c) (payload @ ljust 4 data)))"

definition sdo_download :: "'s sdo_client \<Rightarrow> int \<Rightarrow> int \<Rightarrow> byte list \<Rightarrow> ('s, unit) io" where
  "sdo_download c index subindex data =
     bind_io (lift_io (download_request c index subindex data)) (\<lambda>request.
     then_io (bus_send (sc_bus c) request) (
     bind_io (sdo_response c index subindex) (\<lambda>response.
     ensure_io (uint (cf_data response ! 0) = 0x60) RuntimeError)))"

definition upload_request :: "'s sdo_client \<Rightarrow> int \<Rightarrow> int \<Rightarrow> exn + can_frame" where
  "upload_request c index subindex =
     bind_exn (bytes_of_ints [0x40, index AND 0xFF, drop_bit 8 index, subindex]) (\<lambda>payload.
     mk_can_frame (request_cob_id c) (payload @ [0, 0, 0, 0]))"

definition sdo_upload :: "'s sdo_client \<Rightarrow> int \<Rightarrow> int \<Rightarrow> ('s, sdo_upload_result) io" where
  "sdo_upload c index subindex =
     bind_io (lift_io (upload_request c index subindex)) (\<lambda>request.
     then_io (bus_send (sc_bus c) request) (
     bind_io (sdo_response c index subindex) (\<lambda>response.
     let command = uint (cf_data response ! 0) in
     then_io (ensure_io (\<not> (command AND 0xE0 \<noteq> 0x40 \<or> \<not> (command AND 0x02 \<noteq> 0))) RuntimeError) (
     let n = (if command AND 0x01 \<noteq> 0 then 4 - (drop_bit 2 command AND 0x03) else 4) in
     return_io \<lparr>up_index = index, up_subindex = subindex,
                up_data = slice 4 (nat (4 + n)) (cf_data response)\<rparr>))))"

definition sdo_download_int ::
    "'s sdo_client \<Rightarrow> nat \<Rightarrow> bool \<Rightarrow> int \<Rightarrow> int \<Rightarrow> int \<Rightarrow> ('s, unit) io" where
  "sdo_download_int c n sg index subindex v =
     bind_io (lift_io (to_bytes n sg v)) (sdo_download c index subindex)"

definition download_u8 :: "'s sdo_client \<Rightarrow> int \<Rightarrow> int \<Rightarrow> int \<Rightarrow> ('s, unit) io" where
  "download_u8 c = sdo_download_int c 1 False"

definition download_i8 :: "'s sdo_client \<Rightarrow> int \<Rightarrow> int \<Rightarrow> int \<Rightarrow> ('s, unit) io" where
  "download_i8 c = sdo_download_int c 1 True"

definition download_u16 :: "'s sdo_client \<Rightarrow> int \<Rightarrow> int \<Rightarrow> int \<Rightarrow> ('s, unit) io" where
  "download_u16 c = sdo_download_int c 2 False"

definition download_i16 :: "'s sdo_client \<Rightarrow> int \<Rightarrow> int \<Rightarrow> int \<Rightarrow> ('s, unit) io" where
  "download_i16 c = sdo_download_int c 2 True"

definition download_u32 :: "'s sdo_client \<Rightarrow> int \<Rightarrow> int \<Rightarrow> int \<Rightarrow> ('s, unit) io" where
  "download_u32 c = sdo_download_int c 4 False"

definition download_i32 :: "'s sdo_client \<Rightarrow> int \<Rightarrow> int \<Rightarrow> int \<Rightarrow> ('s, unit) io" where
  "download_i32 c = sdo_download_int c 4 True"

definition upload_u16 :: "'s sdo_client \<Rightarrow> int \<Rightarrow> int \<Rightarrow> ('s, int) io" where
  "upload_u16 c index subindex =
     bind_io (sdo_upload c index subindex) (\<lambda>r.
     then_io (ensure_io (length (up_data r) = 2) RuntimeError) (
     return_io (from_bytes False (up_data r))))"

section \<open>What a client does on the bus\<close>

datatype bus_event = Sent can_frame | Received can_frame

text \<open>The bus with a log of the frames handed to it and received from it.\<close>

definition log_bus :: "'s can_bus \<Rightarrow> ('s \<times> bus_event list) can_bus" where
  "log_bus b =
     \<lparr>bus_send = (\<lambda>f (s, l). case bus_send b f s of (r, s') \<Rightarrow> (r, (s', l @ [Sent f]))),
      bus_recv = (\<lambda>(s, l). case bus_recv b s of
                     (Inl e, s') \<Rightarrow> (Inl e, (s', l))
                   | (Inr f, s') \<Rightarrow> (Inr f, (s', l @ [Received f])))\<rparr>"

definition log_client :: "'s sdo_client \<Rightarrow> ('s \<times> bus_event list) sdo_client" where
  "log_client c =
     \<lparr>sc_bus = log_bus (sc_bus c), sc_node_id = sc_node_id c, sc_max_frames = sc_max_frames c\<rparr>"

lemma log_client_simps [simp]:
  "sc_bus (log_client c) = log_bus (sc_bus c)" "sc_node_id (log_client c) = sc_node_id c"
  "sc_max_frames (log_client c) = sc_max_frames c" "request_cob_id (log_client c) = request_cob_id c"
  "response_cob_id (log_client c) = response_cob_id c"
  "download_request (log_client c) = download_request c" "upload_request (log_client c) = upload_request c"
  by (simp_all add: log_client_def request_cob_id_def response_cob_id_def download_request_def
      upload_request_def fun_eq_iff split: option.splits)

lemma log_recv_results:
  "bus_recv (log_bus b) st = (Inr f, st') \<longleftrightarrow>
     (\<exists>s'. bus_recv b (fst st) = (Inr f, s') \<and> st' = (s', snd st @ [Received f]))"
  "bus_recv (log_bus b) st = (Inl e, st') \<longleftrightarrow> (\<exists>s'. bus_recv b (fst st) = (Inl e, s') \<and> st' = (s', snd st))"
  by (auto simp: log_bus_def split: prod.splits sum.splits)

lemma log_send_results:
  "bus_send (log_bus b) f st = (r, st') \<longleftrightarrow>
     (\<exists>s'. bus_send b f (fst st) = (r, s') \<and> st' = (s', snd st @ [Sent f]))"
  by (auto simp: log_bus_def split: prod.splits)

text \<open>The node, index and subindex a frame answers.\<close>

definition answer_index :: "byte list \<Rightarrow> int" where
  "answer_index d = uint (d ! 1) OR push_bit 8 (uint (d ! 2))"

definition sdo_answer :: "'s sdo_client \<Rightarrow> int \<Rightarrow> int \<Rightarrow> can_frame \<Rightarrow> bool" where
  "sdo_answer c index subindex f \<longleftrightarrow>
     cf_can_id f = response_cob_id c \<and> length (cf_data f) = 8
     \<and> answer_index (cf_data f) = index \<and> uint (cf_data f ! 3) = subindex"

text \<open>The received frames and the outcome of the response loop.\<close>

lemma sdo_response_loop_log:
  "sdo_response_loop (log_client c) i s n st = (r, st') \<Longrightarrow>
     \<exists>rs. snd st' = snd st @ map Received rs \<and> length rs \<le> n
       \<and> (\<forall>f \<in> set (butlast rs). \<not> sdo_answer c i s f)
       \<and> (case r of
            Inr f \<Rightarrow> rs \<noteq> [] \<and> last rs = f \<and> sdo_answer c i s f \<and> uint (cf_data f ! 0) \<noteq> 0x80
          | Inl e \<Rightarrow> (rs \<noteq> [] \<and> sdo_answer c i s (last rs) \<longrightarrow>
               uint (cf_data (last rs) ! 0) = 0x80
               \<and> e = SdoAbort (from_bytes False (slice 4 8 (cf_data (last rs)))) i s))"
proof (induction n arbitrary: st)
  case 0
  then show ?case by (auto simp: io_results intro!: exI [of _ "[]"])
next
  case (Suc n)
  show ?case
  proof (cases "bus_recv (sc_bus c) (fst st)")
    case recv: (Pair r1 s1)
    show ?thesis
    proof (cases r1)
      case (Inl e)
      with recv Suc.prems show ?thesis
        by (auto simp: bind_io_def log_bus_def split: prod.splits intro!: exI [of _ "[]"])
    next
      case (Inr f)
      let ?st1 = "(s1, snd st @ [Received f])"
      let ?d = "cf_data f"
      have run: "bus_recv (log_bus (sc_bus c)) st = (Inr f, ?st1)"
        using recv Inr by (simp add: log_recv_results)
      show ?thesis
      proof (cases "cf_can_id f = response_cob_id c \<and> length ?d \<noteq> 8")
        case True
        with Suc.prems run have "r = Inl RuntimeError" "st' = ?st1"
          by (auto simp: bind_io_def Let_def raise_io_def)
        with True show ?thesis by (intro exI [of _ "[f]"]) (simp add: sdo_answer_def)
      next
        case noterr: False
        show ?thesis
        proof (cases "sdo_answer c i s f")
          case True
          with Suc.prems run have "if uint (?d ! 0) = 0x80
              then r = Inl (SdoAbort (from_bytes False (slice 4 8 ?d)) i s) \<and> st' = ?st1
              else r = Inr f \<and> st' = ?st1"
            by (auto simp: bind_io_def Let_def raise_io_def return_io_def sdo_answer_def answer_index_def)
          with True show ?thesis by (intro exI [of _ "[f]"]) (auto split: if_splits)
        next
          case False
          with noterr Suc.prems run have "sdo_response_loop (log_client c) i s n ?st1 = (r, st')"
            by (auto simp: bind_io_def Let_def sdo_answer_def answer_index_def split: if_splits)
          from Suc.IH [OF this] obtain rs where rs: "snd st' = snd ?st1 @ map Received rs" "length rs \<le> n"
            "\<forall>f \<in> set (butlast rs). \<not> sdo_answer c i s f"
            "case r of
            Inr f \<Rightarrow> rs \<noteq> [] \<and> last rs = f \<and> sdo_answer c i s f \<and> uint (cf_data f ! 0) \<noteq> 0x80
          | Inl e \<Rightarrow> (rs \<noteq> [] \<and> sdo_answer c i s (last rs) \<longrightarrow>
               uint (cf_data (last rs) ! 0) = 0x80
               \<and> e = SdoAbort (from_bytes False (slice 4 8 (cf_data (last rs)))) i s)" by blast
          with False show ?thesis
            by (intro exI [of _ "f # rs"]) (auto split: sum.splits if_splits)
        qed
      qed
    qed
  qed
qed

section \<open>The master interface\<close>

text \<open>
  What the services above SDO rely on: a download that returns is one complete transaction
  (the request, foreign traffic, the positive answer of the node to that object); one that
  raises is at most the request and received frames.
\<close>

definition positive_answer :: "'s sdo_client \<Rightarrow> int \<Rightarrow> int \<Rightarrow> can_frame \<Rightarrow> bool" where
  "positive_answer c i s f \<longleftrightarrow> sdo_answer c i s f \<and> uint (cf_data f ! 0) = 0x60"

type_synonym object_write = "int \<times> int \<times> byte list"

text \<open>A complete transaction for a write, and one that was given up.\<close>

definition transaction ::
    "(int \<Rightarrow> int \<Rightarrow> byte list \<Rightarrow> exn + can_frame) \<Rightarrow> (int \<Rightarrow> int \<Rightarrow> can_frame \<Rightarrow> bool)
      \<Rightarrow> object_write \<Rightarrow> bus_event list \<Rightarrow> bool" where
  "transaction request ack = (\<lambda>(i, s, d) ev.
     \<exists>f rs a. request i s d = Inr f \<and> ack i s a \<and> ev = Sent f # map Received rs @ [Received a])"

definition given_up ::
    "(int \<Rightarrow> int \<Rightarrow> byte list \<Rightarrow> exn + can_frame) \<Rightarrow> object_write \<Rightarrow> bus_event list \<Rightarrow> bool" where
  "given_up request = (\<lambda>(i, s, d) ev.
     ev = [] \<or> (\<exists>f rs. request i s d = Inr f \<and> ev = Sent f # map Received rs))"

locale sdo_master =
  fixes dl :: "int \<Rightarrow> int \<Rightarrow> byte list \<Rightarrow> ('s, unit) io"
    and events :: "'s \<Rightarrow> bus_event list"
    and request :: "int \<Rightarrow> int \<Rightarrow> byte list \<Rightarrow> exn + can_frame"
    and ack :: "int \<Rightarrow> int \<Rightarrow> can_frame \<Rightarrow> bool"
  assumes dl_returns: "dl i s d st = (Inr (), st') \<Longrightarrow>
      \<exists>f rs a. request i s d = Inr f \<and> ack i s a
        \<and> events st' = events st @ Sent f # map Received rs @ [Received a]"
    and dl_raises: "dl i s d st = (Inl e, st') \<Longrightarrow>
      events st' = events st
      \<or> (\<exists>f rs. request i s d = Inr f \<and> events st' = events st @ Sent f # map Received rs)"
begin

lemma writes_return:
  "for_io (\<lambda>(i, s, d). dl i s d) ws st = (Inr (), st') \<Longrightarrow>
     \<exists>evs. events st' = events st @ concat evs \<and> list_all2 (transaction request ack) ws evs"
proof (induction ws arbitrary: st)
  case (Cons w ws)
  obtain i s d where w: "w = (i, s, d)" by (cases w) auto
  from Cons.prems obtain st1 where "dl i s d st = (Inr (), st1)"
    and rest: "for_io (\<lambda>(i, s, d). dl i s d) ws st1 = (Inr (), st')"
    by (auto simp: w then_io_results)
  from dl_returns [OF this(1)] obtain ev where "events st1 = events st @ ev" "transaction request ack w ev"
    by (auto simp: transaction_def w)
  with Cons.IH [OF rest] show ?case
    by (metis append.assoc concat.simps(2) list_all2_Cons)
qed (auto simp: io_results intro!: exI [of _ "[]"])

lemma writes_raise:
  "for_io (\<lambda>(i, s, d). dl i s d) ws st = (Inl e, st') \<Longrightarrow>
     \<exists>k evs ev. k < length ws \<and> events st' = events st @ concat evs @ ev
       \<and> list_all2 (transaction request ack) (take k ws) evs \<and> given_up request (ws ! k) ev"
proof (induction ws arbitrary: st)
  case (Cons w ws)
  obtain i s d where w: "w = (i, s, d)" by (cases w) auto
  from Cons.prems consider "dl i s d st = (Inl e, st')"
    | st1 where "dl i s d st = (Inr (), st1)" "for_io (\<lambda>(i, s, d). dl i s d) ws st1 = (Inl e, st')"
    by (auto simp: w then_io_results)
  then show ?case
  proof cases
    case 1
    from dl_raises [OF this] obtain ev where "events st' = events st @ ev" "given_up request w ev"
      by (auto simp: given_up_def w)
    then show ?thesis by (intro exI [of _ 0] exI [of _ "[]"] exI [of _ ev]) simp
  next
    case 2
    from dl_returns [OF this(1)] obtain ev1 where "events st1 = events st @ ev1" "transaction request ack w ev1"
      by (auto simp: transaction_def w)
    moreover from Cons.IH [OF 2(2)] obtain k evs ev where "k < length ws"
      "events st' = events st1 @ concat evs @ ev" "list_all2 (transaction request ack) (take k ws) evs" "given_up request (ws ! k) ev"
      by blast
    ultimately show ?thesis by (intro exI [of _ "Suc k"] exI [of _ "ev1 # evs"] exI [of _ ev]) simp
  qed
qed (simp add: io_results)

end

lemma sdo_download_returns:
  assumes "sdo_download (log_client c) i s d st = (Inr (), st')"
  shows "\<exists>f rs a. download_request c i s d = Inr f \<and> positive_answer c i s a
        \<and> snd st' = snd st @ Sent f # map Received rs @ [Received a]"
proof -
  from assms obtain f st1 a where f: "download_request c i s d = Inr f"
    and st1: "snd st1 = snd st @ [Sent f]"
    and loop: "sdo_response_loop (log_client c) i s (nat (sc_max_frames c)) st1 = (Inr a, st')"
    and cmd: "uint (cf_data a ! 0) = 0x60"
    unfolding sdo_download_def io_results sdo_response_def log_client_simps log_send_results by auto
  from sdo_response_loop_log [OF loop] obtain rs where
    rs: "snd st' = snd st1 @ map Received rs" "rs \<noteq> []" "last rs = a" "sdo_answer c i s a" by auto
  then have "map Received rs = map Received (butlast rs) @ [Received a]"
    by (metis append_butlast_last_id list.map(1,2) map_append)
  with f st1 rs cmd show ?thesis by (auto simp: positive_answer_def)
qed

lemma sdo_download_raises:
  assumes "sdo_download (log_client c) i s d st = (Inl e, st')"
  shows "snd st' = snd st
    \<or> (\<exists>f rs. download_request c i s d = Inr f \<and> snd st' = snd st @ Sent f # map Received rs)"
proof (cases "download_request c i s d")
  case (Inl e')
  with assms show ?thesis by (simp add: sdo_download_def bind_io_def lift_io_def)
next
  case (Inr f)
  obtain r1 st1 where s1: "bus_send (log_bus (sc_bus c)) f st = (r1, st1)"
    by (rule prod.exhaust)
  then have l1: "snd st1 = snd st @ [Sent f]" by (auto simp: log_send_results)
  obtain r2 st2 where loop: "sdo_response_loop (log_client c) i s (nat (sc_max_frames c)) st1 = (r2, st2)"
    by (rule prod.exhaust)
  with sdo_response_loop_log [OF loop] obtain rs where "snd st2 = snd st1 @ map Received rs" by blast
  with Inr s1 l1 loop assms show ?thesis
    by (cases r1; cases r2)
      (auto simp: sdo_download_def bind_io_def then_io_apply lift_io_def sdo_response_def ensure_io_apply
        split: if_splits intro: exI [of _ "[]"])
qed

interpretation sdo_log: sdo_master "sdo_download (log_client c)" snd "download_request c" "positive_answer c" for c
  by unfold_locales (rule sdo_download_returns, assumption, rule sdo_download_raises)

section \<open>An object dictionary on the other side\<close>

text \<open>\<open>delivers b fs s s'\<close>: receiving from \<open>s\<close> gives the frames \<open>fs\<close> in order and leaves \<open>s'\<close>.\<close>

primrec delivers :: "'s can_bus \<Rightarrow> can_frame list \<Rightarrow> 's \<Rightarrow> 's \<Rightarrow> bool" where
  "delivers b [] s s' \<longleftrightarrow> s' = s"
| "delivers b (f # fs) s s' \<longleftrightarrow> (\<exists>s1. bus_recv b s = (Inr f, s1) \<and> delivers b fs s1 s')"

text \<open>Traffic the client steps over: another sender, or another object of the node.\<close>

definition foreign :: "'s sdo_client \<Rightarrow> int \<Rightarrow> int \<Rightarrow> can_frame \<Rightarrow> bool" where
  "foreign c i s f \<longleftrightarrow> \<not> sdo_answer c i s f \<and> (cf_can_id f = response_cob_id c \<longrightarrow> length (cf_data f) = 8)"

text \<open>Sending \<open>request\<close> leads to the answer \<open>d\<close>, after foreign traffic that fits the frame limit.\<close>

definition answers :: "'s sdo_client \<Rightarrow> can_frame \<Rightarrow> int \<Rightarrow> int \<Rightarrow> byte list \<Rightarrow> 's \<Rightarrow> 's \<Rightarrow> bool" where
  "answers c request i s d st st' \<longleftrightarrow>
     (\<exists>st1 noise. bus_send (sc_bus c) request st = (Inr (), st1)
       \<and> delivers (sc_bus c) (noise @ [\<lparr>cf_can_id = response_cob_id c, cf_data = d\<rparr>]) st1 st'
       \<and> int (length noise) < sc_max_frames c \<and> (\<forall>f \<in> set noise. foreign c i s f))"

definition multiplexor :: "int \<Rightarrow> int \<Rightarrow> byte list" where
  "multiplexor i s = [word_of_int (i AND 0xFF), word_of_int (drop_bit 8 i), word_of_int s]"

text \<open>
  A node that serves its object dictionary \<open>od\<close> by the expedited SDO protocol whenever it is
  \<open>quiet\<close> (no request of this client is outstanding).
\<close>

definition object_server ::
    "'s sdo_client \<Rightarrow> ('s \<Rightarrow> (int \<times> int) \<Rightarrow> byte list option) \<Rightarrow> ('s \<Rightarrow> bool) \<Rightarrow> bool" where
  "object_server c od quiet \<longleftrightarrow>
     (\<forall>st i s d request. quiet st \<longrightarrow>
        (download_request c i s d = Inr request \<longrightarrow>
           (\<exists>st'. answers c request i s (0x60 # multiplexor i s @ [0, 0, 0, 0]) st st'
              \<and> quiet st' \<and> od st' = (od st)((i, s) \<mapsto> d)))
        \<and> (upload_request c i s = Inr request \<and> od st (i, s) = Some d \<and> 1 \<le> length d \<and> length d \<le> 4 \<longrightarrow>
           (\<exists>st'. answers c request i s
                ((0x43 + word_of_nat (4 * (4 - length d))) # multiplexor i s @ ljust 4 d) st st'
              \<and> quiet st' \<and> od st' = od st)))"

lemma response_loop_delivers:
  assumes "delivers (sc_bus c) (noise @ [a]) st st'" "length noise < n" "\<forall>f \<in> set noise. foreign c i s f"
    and "sdo_answer c i s a" "uint (cf_data a ! 0) \<noteq> 0x80"
  shows "sdo_response_loop c i s n st = (Inr a, st')"
  using assms(1-3)
proof (induction noise arbitrary: n st)
  case Nil
  then obtain m where "n = Suc m" by (cases n) auto
  with Nil assms(4,5) show ?case
    by (auto simp: bind_io_def Let_def sdo_answer_def answer_index_def return_io_def)
next
  case (Cons f noise)
  then obtain m where "n = Suc m" by (cases n) auto
  with Cons show ?case
    by (auto simp: bind_io_def Let_def foreign_def sdo_answer_def answer_index_def)
qed

lemma answers_run:
  assumes "answers c request i s d st st'" "sdo_answer c i s \<lparr>cf_can_id = response_cob_id c, cf_data = d\<rparr>"
    and "uint (d ! 0) \<noteq> 0x80"
  shows "then_io (bus_send (sc_bus c) request) (sdo_response c i s) st
    = (Inr \<lparr>cf_can_id = response_cob_id c, cf_data = d\<rparr>, st')"
  using assms response_loop_delivers [of c _ "\<lparr>cf_can_id = response_cob_id c, cf_data = d\<rparr>" _ st'
      "nat (sc_max_frames c)" i s]
  by (auto simp: answers_def then_io_apply sdo_response_def nat_less_iff zless_nat_eq_int_zless)

lemma index_split:
  fixes i :: int
  assumes "0 \<le> i" "i \<le> 0xFFFF"
  shows "uint (word_of_int (i AND 0xFF) :: byte) OR push_bit 8 (uint (word_of_int (drop_bit 8 i) :: byte)) = i"
proof -
  have "drop_bit 8 i < 256" "0 \<le> drop_bit 8 i" using assms by (auto simp: drop_bit_eq_div)
  then have "uint (word_of_int (drop_bit 8 i) :: byte) = drop_bit 8 i"
    by (simp add: uint_byte_of_int)
  moreover have "uint (word_of_int (i AND 0xFF) :: byte) = take_bit 8 i"
    by (simp add: uint_byte_of_int and_u8 take_bit_eq_mod)
  moreover have "take_bit 8 i OR push_bit 8 (drop_bit 8 i) = i"
  proof (rule bit_eqI)
    fix n
    show "bit (take_bit 8 i OR push_bit 8 (drop_bit 8 i)) n \<longleftrightarrow> bit i n"
      by (cases "n < 8") (simp_all add: bit_simps)
  qed
  ultimately show ?thesis by simp
qed

lemma sdo_answer_multiplexor:
  assumes "0 \<le> i" "i \<le> 0xFFFF" "0 \<le> s" "s \<le> 0xFF" "length bs = 4"
  shows "sdo_answer c i s \<lparr>cf_can_id = response_cob_id c, cf_data = b # multiplexor i s @ bs\<rparr>"
  using assms index_split [of i] by (simp add: sdo_answer_def answer_index_def multiplexor_def uint_byte_of_int)

lemma request_bytes:
  assumes "0 \<le> i" "i \<le> 0xFFFF" "0 \<le> s" "s \<le> 0xFF" "0 \<le> cmd" "cmd < 256"
  shows "bytes_of_ints [cmd, i AND 0xFF, drop_bit 8 i, s] = Inr (word_of_int cmd # multiplexor i s)"
proof -
  have "drop_bit 8 i < 256" "0 \<le> drop_bit 8 i" using assms by (auto simp: drop_bit_eq_div)
  with assms show ?thesis by (simp add: multiplexor_def and_u8)
qed

definition client_ok :: "'s sdo_client \<Rightarrow> bool" where
  "client_ok c \<longleftrightarrow> 1 \<le> sc_node_id c \<and> sc_node_id c \<le> 127 \<and> 0 < sc_max_frames c"

lemma sdo_client_init_ok: "sdo_client_init b n m = Inr c \<Longrightarrow> client_ok c"
  by (auto simp: sdo_client_init_def client_ok_def split: if_splits)

lemma upload_request_ok:
  assumes "client_ok c" "0 \<le> i" "i \<le> 0xFFFF" "0 \<le> s" "s \<le> 0xFF"
  shows "\<exists>f. upload_request c i s = Inr f"
  using assms request_bytes [of i s "0x40"]
  by (simp add: upload_request_def mk_can_frame_def request_cob_id_def client_ok_def multiplexor_def)

lemma download_request_ok:
  assumes "client_ok c" "0 \<le> i" "i \<le> 0xFFFF" "0 \<le> s" "s \<le> 0xFF" "1 \<le> length d" "length d \<le> 4"
  shows "\<exists>f. download_request c i s d = Inr f"
proof -
  have "map_of download_commands (length d) \<noteq> None"
    using assms(6,7) by (auto simp: download_commands_def)
  then obtain cmd where cmd: "map_of download_commands (length d) = Some cmd" by blast
  then have "0 \<le> cmd" "cmd < 256" by (auto simp: download_commands_def split: if_splits)
  with assms cmd request_bytes [of i s cmd] show ?thesis
    by (simp add: download_request_def mk_can_frame_def request_cob_id_def client_ok_def multiplexor_def)
qed

lemma expedited_command:
  assumes "1 \<le> n" "n \<le> (4::nat)"
  shows "let command = uint (0x43 + word_of_nat (4 * (4 - n)) :: byte) in
    command \<noteq> 0x80 \<and> command AND 0xE0 = 0x40 \<and> command AND 0x02 \<noteq> 0 \<and> command AND 0x01 \<noteq> 0
    \<and> 4 - (drop_bit 2 command AND 0x03) = int n"
proof -
  from assms consider "n = 1" | "n = 2" | "n = 3" | "n = 4" by linarith
  then show ?thesis by cases simp_all
qed



text \<open>A node with its dictionary and the frames it has sent; it talks over a heartbeat each time.\<close>

type_synonym demo_node = "(int \<times> int \<Rightarrow> byte list option) \<times> can_frame list"

definition demo_reply :: "can_frame \<Rightarrow> demo_node \<Rightarrow> demo_node" where
  "demo_reply f n =
     (let d = cf_data f; key = (answer_index d, uint (d ! 3)); mux = slice 1 4 d;
          beat = \<lparr>cf_can_id = 0x705, cf_data = [5]\<rparr>
      in if d ! 0 = 0x40 then
           (case fst n key of
              None \<Rightarrow> (fst n, [beat, \<lparr>cf_can_id = 0x585, cf_data = 0x80 # mux @ [0, 0, 2, 6]\<rparr>])
            | Some v \<Rightarrow> (fst n, [beat, \<lparr>cf_can_id = 0x585,
                 cf_data = (0x43 + word_of_nat (4 * (4 - length v))) # mux @ ljust 4 v\<rparr>]))
         else
           ((fst n)(key \<mapsto> take (nat (4 - uint (drop_bit 2 (d ! 0) AND 3))) (slice 4 8 d)),
            [beat, \<lparr>cf_can_id = 0x585, cf_data = 0x60 # mux @ [0, 0, 0, 0]\<rparr>]))"

definition demo_bus :: "demo_node can_bus" where
  "demo_bus =
     \<lparr>bus_send = (\<lambda>f n. (Inr (), demo_reply f n)),
      bus_recv = (\<lambda>n. case snd n of [] \<Rightarrow> (Inl TimeoutError, n) | f # fs \<Rightarrow> (Inr f, (fst n, fs)))\<rparr>"

definition demo_client :: "demo_node sdo_client" where
  "demo_client = \<lparr>sc_bus = demo_bus, sc_node_id = 5, sc_max_frames = 32\<rparr>"

lemma multiplexor_index:
  "multiplexor i s = [a, b, e] \<Longrightarrow> 0 \<le> i \<Longrightarrow> i \<le> 0xFFFF \<Longrightarrow> uint a OR push_bit 8 (uint b) = i"
  using index_split [of i] by (auto simp: multiplexor_def)

lemma bytes_of_mux:
  assumes "bytes_of_ints [cmd, i AND 0xFF, drop_bit 8 i, s] = Inr p"
  shows "p = word_of_int cmd # multiplexor i s" "0 \<le> i" "i \<le> 0xFFFF" "0 \<le> s" "s \<le> 0xFF"
proof -
  from assms have d: "0 \<le> drop_bit 8 i" "drop_bit 8 i < 256" and s: "0 \<le> s" "s < 256"
    and p: "p = word_of_int cmd # multiplexor i s"
    by (auto simp: multiplexor_def split: if_splits)
  then show "p = word_of_int cmd # multiplexor i s" "0 \<le> s" "s \<le> 0xFF" by simp_all
  from d show "0 \<le> i" by simp
  from d show "i \<le> 0xFFFF" by (simp add: drop_bit_eq_div)
qed

lemma demo_serves: "object_server demo_client fst (\<lambda>n. snd n = [])"
proof -
  have beat: "foreign demo_client i s \<lparr>cf_can_id = 0x705, cf_data = [5]\<rparr>" for i s
    by (simp add: foreign_def sdo_answer_def response_cob_id_def demo_client_def)
  have serve: "answers demo_client f i s d st (fst (demo_reply f st), [])"
    if "snd (demo_reply f st) = [\<lparr>cf_can_id = 0x705, cf_data = [5]\<rparr>, \<lparr>cf_can_id = 0x585, cf_data = d\<rparr>]"
    for f i s d st
    using that beat
    by (auto simp: answers_def demo_client_def demo_bus_def response_cob_id_def
        intro!: exI [of _ "[\<lparr>cf_can_id = 0x705, cf_data = [5]\<rparr>]"])
  show ?thesis
    unfolding object_server_def
  proof (intro allI impI conjI)
    fix st i s d f assume "snd (st :: demo_node) = []" and f: "download_request demo_client i s d = Inr f"
    then obtain cmd p where cmd: "map_of download_commands (length d) = Some cmd"
      and p: "bytes_of_ints [cmd, i AND 0xFF, drop_bit 8 i, s] = Inr p"
      and fp: "cf_data f = p @ ljust 4 d"
      by (auto simp: download_request_def bind_exn_Inr mk_can_frame_Inr split: option.splits)
    note mux = bytes_of_mux [OF p]
    have i: "answer_index (cf_data f) = i" and s: "uint (cf_data f ! 3) = s"
      using mux index_split [of i] fp by (auto simp: answer_index_def multiplexor_def uint_byte_of_int)
    have m: "slice (Suc 0) 4 (cf_data f) = multiplexor i s" using mux fp by (simp add: slice_def multiplexor_def)
    have dat: "slice 4 8 (cf_data f) = take 4 (ljust 4 d)" using mux fp by (simp add: slice_def multiplexor_def)
    have c0: "cf_data f ! 0 = word_of_int cmd" using mux fp by simp
    from cmd have "length d \<le> 4 \<and> word_of_int cmd \<noteq> (0x40 :: byte)
        \<and> nat (4 - uint (drop_bit 2 (word_of_int cmd :: byte) AND 3)) = length d"
      by (auto simp: download_commands_def split: if_splits)
    then have "demo_reply f st = ((fst st)((i, s) \<mapsto> d),
        [\<lparr>cf_can_id = 0x705, cf_data = [5]\<rparr>, \<lparr>cf_can_id = 0x585, cf_data = 0x60 # multiplexor i s @ [0, 0, 0, 0]\<rparr>])"
      by (simp add: demo_reply_def Let_def i s m dat c0 ljust_def)
    with serve [of f st] show "\<exists>st'. answers demo_client f i s (0x60 # multiplexor i s @ [0, 0, 0, 0]) st st'
        \<and> snd st' = [] \<and> fst st' = (fst st)((i, s) \<mapsto> d)" by fastforce
  next
    fix st i s d f assume "snd (st :: demo_node) = []"
      and h: "upload_request demo_client i s = Inr f \<and> fst st (i, s) = Some d \<and> 1 \<le> length d \<and> length d \<le> 4"
    then obtain p where p: "bytes_of_ints [0x40, i AND 0xFF, drop_bit 8 i, s] = Inr p"
      and fp: "cf_data f = p @ [0, 0, 0, 0]"
      by (auto simp: upload_request_def bind_exn_Inr mk_can_frame_Inr)
    note mux = bytes_of_mux [OF p]
    have i: "answer_index (cf_data f) = i" and s: "uint (cf_data f ! 3) = s"
      using mux index_split [of i] fp by (auto simp: answer_index_def multiplexor_def uint_byte_of_int)
    have m: "slice (Suc 0) 4 (cf_data f) = multiplexor i s" using mux fp by (simp add: slice_def multiplexor_def)
    have c0: "cf_data f ! 0 = 0x40" using mux fp by simp
    have "demo_reply f st = (fst st,
        [\<lparr>cf_can_id = 0x705, cf_data = [5]\<rparr>, \<lparr>cf_can_id = 0x585,
          cf_data = (0x43 + word_of_nat (4 * (4 - length d))) # multiplexor i s @ ljust 4 d\<rparr>])"
      using h by (simp add: demo_reply_def Let_def i s m c0)
    with serve [of f st] show "\<exists>st'. answers demo_client f i s
          ((0x43 + word_of_nat (4 * (4 - length d))) # multiplexor i s @ ljust 4 d) st st'
        \<and> snd st' = [] \<and> fst st' = fst st" by fastforce
  qed
qed


text \<open>Waiting for a heartbeat looks only at the node asked for: a heartbeat that is returned was
  parsed from the last frame received, which carries the node's heartbeat identifier and one byte
  with a known state, after frames with other identifiers only, within the frame limit.\<close>
theorem heartbeat_of_node:
  assumes "wait_for_heartbeat (log_bus b) node_id max_frames (st, []) = (Inr h, (st', events))"
  shows "\<exists>rs f. events = map Received (rs @ [f]) \<and> int (length rs) < max_frames
    \<and> (\<forall>g \<in> set rs. cf_can_id g \<noteq> 0x700 + node_id)
    \<and> cf_can_id f = 0x700 + hb_node_id h \<and> hb_node_id h = node_id \<and> 1 \<le> node_id \<and> node_id \<le> 127
    \<and> map uint (cf_data f) = [nmt_state_value (hb_state h)]"
proof -
  have loop: "heartbeat_loop (log_bus b) node_id n s = (Inr h, s') \<Longrightarrow>
      \<exists>rs f. snd s' = snd s @ map Received (rs @ [f]) \<and> length rs < n
       \<and> (\<forall>g \<in> set rs. cf_can_id g \<noteq> 0x700 + node_id) \<and> cf_can_id f = 0x700 + node_id
       \<and> parse_heartbeat f = Inr h" for n s s'
  proof (induction n arbitrary: s)
    case (Suc n)
    from Suc.prems obtain f s1 where f: "bus_recv (log_bus b) s = (Inr f, s1)"
      and rest: "(if cf_can_id f = 0x700 + node_id then lift_io (parse_heartbeat f)
        else heartbeat_loop (log_bus b) node_id n) s1 = (Inr h, s')"
      by (auto simp: bind_io_results)
    have s1: "snd s1 = snd s @ [Received f]" using f by (auto simp: log_recv_results)
    show ?case
    proof (cases "cf_can_id f = 0x700 + node_id")
      case True
      with rest s1 show ?thesis by (intro exI [of _ "[]"] exI [of _ f]) (auto simp: lift_io_apply)
    next
      case False
      with rest Suc.IH [of s1] obtain rs g where "snd s' = snd s1 @ map Received (rs @ [g])" "length rs < n"
        "\<forall>g \<in> set rs. cf_can_id g \<noteq> 0x700 + node_id" "cf_can_id g = 0x700 + node_id" "parse_heartbeat g = Inr h"
        by auto
      with False s1 show ?thesis by (intro exI [of _ "f # rs"] exI [of _ g]) auto
    qed
  qed (simp add: raise_io_apply)
  from assms have range: "1 \<le> node_id" "node_id \<le> 127"
    and "heartbeat_loop (log_bus b) node_id (nat max_frames) (st, []) = (Inr h, (st', events))"
    by (auto simp: wait_for_heartbeat_def then_io_results ensure_io_results)
  from loop [OF this(3)] obtain rs f where rs: "events = map Received (rs @ [f])" "length rs < nat max_frames"
    "\<forall>g \<in> set rs. cf_can_id g \<noteq> 0x700 + node_id" "cf_can_id f = 0x700 + node_id" "parse_heartbeat f = Inr h"
    by auto
  have "hb_node_id h = node_id \<and> map uint (cf_data f) = [nmt_state_value (hb_state h)]"
    using rs(4,5) nmt_state_of_value_Some
    by (cases "cf_data f") (auto simp: parse_heartbeat_def Let_def split: if_splits option.splits)
  with rs range show ?thesis by (intro exI [of _ rs] exI [of _ f]) auto
qed

lemma heartbeat_of_node_witness:
  "\<exists>st' events. wait_for_heartbeat (log_bus demo_bus) 5 4
       ((\<lambda>_. None, [\<lparr>cf_can_id = 0x585, cf_data = []\<rparr>, \<lparr>cf_can_id = 0x705, cf_data = [127]\<rparr>]), [])
     = (Inr \<lparr>hb_node_id = 5, hb_state = PRE_OPERATIONAL\<rparr>, (st', events)) \<and> (\<exists>rs f. events = map Received (rs @ [f]) \<and> cf_can_id f = 0x705)"
proof -
  let ?st = "(\<lambda>_. None, [\<lparr>cf_can_id = 0x585, cf_data = []\<rparr>, \<lparr>cf_can_id = 0x705, cf_data = [127]\<rparr>]) :: demo_node"
  have step: "heartbeat_loop b n (numeral k) = bind_io (bus_recv b) (\<lambda>frame.
      if cf_can_id frame = 0x700 + n then lift_io (parse_heartbeat frame) else heartbeat_loop b n (pred_numeral k))"
    for b :: "'s can_bus" and n k by (simp add: numeral_eq_Suc)
  have run: "wait_for_heartbeat (log_bus demo_bus) 5 4 (?st, [])
     = (Inr \<lparr>hb_node_id = 5, hb_state = PRE_OPERATIONAL\<rparr>, ((\<lambda>_. None, []),
        [Received \<lparr>cf_can_id = 0x585, cf_data = []\<rparr>, Received \<lparr>cf_can_id = 0x705, cf_data = [127]\<rparr>]))"
    by (simp add: wait_for_heartbeat_def step then_io_apply ensure_io_apply bind_io_apply log_bus_def
        demo_bus_def lift_io_apply parse_heartbeat_def nmt_state_of_value_def)
  from heartbeat_of_node [OF run] have "\<exists>rs f. [Received \<lparr>cf_can_id = 0x585, cf_data = []\<rparr>,
      Received \<lparr>cf_can_id = 0x705, cf_data = [127]\<rparr>] = map Received (rs @ [f]) \<and> cf_can_id f = 0x705"
    by - (elim exE conjE, intro exI conjI, assumption, simp)
  then show ?thesis by - (rule exI, rule exI, rule conjI, rule run, assumption)
qed

end
