(* ===== verification/Canopen_Pdo.thy ===== *)
theory Canopen_Pdo
  imports Canopen
begin

text \<open>
  \<open>fieldbus/canopen/pdo.py\<close>: process data objects, their codec and the configuration sequence
  over an SDO client. The sequence is proved on the master interface of \<open>Canopen\<close>.
\<close>

section \<open>Mappings\<close>

record pdo_entry =
  pe_name :: string
  pe_index :: int
  pe_subindex :: int
  pe_bits :: int
  pe_signed :: bool

definition pdo_entry_init :: "string \<Rightarrow> int \<Rightarrow> int \<Rightarrow> int \<Rightarrow> bool \<Rightarrow> exn + pdo_entry" where
  "pdo_entry_init name index subindex bits sg =
     (if name = [] then Inl ValueError
      else if \<not> (0 \<le> index \<and> index \<le> 0xFFFF) then Inl ValueError
      else if \<not> (0 \<le> subindex \<and> subindex \<le> 0xFF) then Inl ValueError
      else if bits \<notin> {8, 16, 32} then Inl ValueError
      else Inr \<lparr>pe_name = name, pe_index = index, pe_subindex = subindex, pe_bits = bits, pe_signed = sg\<rparr>)"

definition mapping_value :: "pdo_entry \<Rightarrow> int" where
  "mapping_value e = (push_bit 16 (pe_index e) OR push_bit 8 (pe_subindex e)) OR pe_bits e"

record pdo_mapping =
  pm_cob_id :: int
  pm_entries :: "pdo_entry list"

definition pdo_mapping_init :: "int \<Rightarrow> pdo_entry list \<Rightarrow> exn + pdo_mapping" where
  "pdo_mapping_init cob_id entries =
     (if \<not> (0 \<le> cob_id \<and> cob_id \<le> 0x7FF) then Inl ValueError
      else if \<not> (1 \<le> length entries \<and> length entries \<le> 8) then Inl ValueError
      else if sum_list (map pe_bits entries) > 64 then Inl ValueError
      else Inr \<lparr>pm_cob_id = cob_id, pm_entries = entries\<rparr>)"

definition pdo_entry_ok :: "pdo_entry \<Rightarrow> bool" where
  "pdo_entry_ok e \<longleftrightarrow>
     pdo_entry_init (pe_name e) (pe_index e) (pe_subindex e) (pe_bits e) (pe_signed e) = Inr e"

definition pdo_mapping_ok :: "pdo_mapping \<Rightarrow> bool" where
  "pdo_mapping_ok m \<longleftrightarrow>
     pdo_mapping_init (pm_cob_id m) (pm_entries m) = Inr m \<and> (\<forall>e \<in> set (pm_entries m). pdo_entry_ok e)"

definition payload_bytes :: "pdo_mapping \<Rightarrow> int" where
  "payload_bytes m = sum_list (map pe_bits (pm_entries m)) div 8"

definition entry_width :: "pdo_entry \<Rightarrow> nat" where
  "entry_width e = nat (pe_bits e div 8)"

primrec pdo_encode_entries :: "pdo_entry list \<Rightarrow> (string \<rightharpoonup> int) \<Rightarrow> byte list \<Rightarrow> exn + byte list" where
  "pdo_encode_entries [] values payload = Inr payload"
| "pdo_encode_entries (e # es) values payload =
     (case values (pe_name e) of
        None \<Rightarrow> Inl KeyError
      | Some v \<Rightarrow> bind_exn (to_bytes (entry_width e) (pe_signed e) v) (\<lambda>bs.
                  pdo_encode_entries es values (payload @ bs)))"

definition pdo_encode :: "pdo_mapping \<Rightarrow> (string \<rightharpoonup> int) \<Rightarrow> exn + can_frame" where
  "pdo_encode m values =
     bind_exn (pdo_encode_entries (pm_entries m) values []) (mk_can_frame (pm_cob_id m))"

primrec pdo_decode_entries :: "pdo_entry list \<Rightarrow> byte list \<Rightarrow> nat \<Rightarrow> (string \<rightharpoonup> int) \<Rightarrow> (string \<rightharpoonup> int)" where
  "pdo_decode_entries [] data offset result = result"
| "pdo_decode_entries (e # es) data offset result =
     (let width = entry_width e in
      pdo_decode_entries es data (offset + width)
        (result(pe_name e \<mapsto> from_bytes (pe_signed e) (slice offset (offset + width) data))))"

definition pdo_decode :: "pdo_mapping \<Rightarrow> can_frame \<Rightarrow> exn + (string \<rightharpoonup> int)" where
  "pdo_decode m frame =
     (if cf_can_id frame \<noteq> pm_cob_id m then Inl ValueError
      else if int (length (cf_data frame)) \<noteq> payload_bytes m then Inl ValueError
      else Inr (pdo_decode_entries (pm_entries m) (cf_data frame) 0 Map.empty))"

definition with_node_id :: "pdo_mapping \<Rightarrow> int \<Rightarrow> exn + pdo_mapping" where
  "with_node_id m node_id =
     (if \<not> (1 \<le> node_id \<and> node_id \<le> 127) then Inl ValueError
      else pdo_mapping_init (pm_cob_id m + node_id) (pm_entries m))"

abbreviation (input) pdo_field :: "string \<Rightarrow> int \<Rightarrow> int \<Rightarrow> int \<Rightarrow> bool \<Rightarrow> pdo_entry" where
  "pdo_field n i s b sg \<equiv> \<lparr>pe_name = n, pe_index = i, pe_subindex = s, pe_bits = b, pe_signed = sg\<rparr>"

definition CIA402_RPDO_CSP :: pdo_mapping where
  "CIA402_RPDO_CSP = \<lparr>pm_cob_id = 0x200, pm_entries =
     [pdo_field ''controlword'' 0x6040 0 16 False, pdo_field ''mode'' 0x6060 0 8 True,
      pdo_field ''target_position'' 0x607A 0 32 True]\<rparr>"

definition CIA402_RPDO_CSV :: pdo_mapping where
  "CIA402_RPDO_CSV = \<lparr>pm_cob_id = 0x200, pm_entries =
     [pdo_field ''controlword'' 0x6040 0 16 False, pdo_field ''mode'' 0x6060 0 8 True,
      pdo_field ''target_velocity'' 0x60FF 0 32 True]\<rparr>"

definition CIA402_RPDO_CST :: pdo_mapping where
  "CIA402_RPDO_CST = \<lparr>pm_cob_id = 0x200, pm_entries =
     [pdo_field ''controlword'' 0x6040 0 16 False, pdo_field ''mode'' 0x6060 0 8 True,
      pdo_field ''target_torque'' 0x6071 0 16 True]\<rparr>"

definition CIA402_TPDO_CSP :: pdo_mapping where
  "CIA402_TPDO_CSP = \<lparr>pm_cob_id = 0x180, pm_entries =
     [pdo_field ''statusword'' 0x6041 0 16 False, pdo_field ''mode_display'' 0x6061 0 8 True,
      pdo_field ''position_actual'' 0x6064 0 32 True]\<rparr>"

definition CIA402_TPDO_CSV :: pdo_mapping where
  "CIA402_TPDO_CSV = \<lparr>pm_cob_id = 0x180, pm_entries =
     [pdo_field ''statusword'' 0x6041 0 16 False, pdo_field ''mode_display'' 0x6061 0 8 True,
      pdo_field ''velocity_actual'' 0x606C 0 32 True]\<rparr>"

definition CIA402_TPDO_CST :: pdo_mapping where
  "CIA402_TPDO_CST = \<lparr>pm_cob_id = 0x180, pm_entries =
     [pdo_field ''statusword'' 0x6041 0 16 False, pdo_field ''mode_display'' 0x6061 0 8 True,
      pdo_field ''torque_actual'' 0x6077 0 16 True]\<rparr>"

definition CIA402_RPDO :: pdo_mapping where "CIA402_RPDO = CIA402_RPDO_CST"

definition CIA402_TPDO :: pdo_mapping where "CIA402_TPDO = CIA402_TPDO_CST"

section \<open>Configuration\<close>

text \<open>\<open>for subindex, entry in enumerate(mapping.entries, start=1)\<close>\<close>

primrec write_entries :: "'s sdo_client \<Rightarrow> int \<Rightarrow> nat \<Rightarrow> pdo_entry list \<Rightarrow> ('s, unit) io" where
  "write_entries sdo mapping_index subindex [] = return_io ()"
| "write_entries sdo mapping_index subindex (e # es) =
     then_io (download_u32 sdo mapping_index (int subindex) (mapping_value e))
       (write_entries sdo mapping_index (Suc subindex) es)"

definition configure_pdo_mapping ::
    "'s sdo_client \<Rightarrow> int \<Rightarrow> int \<Rightarrow> pdo_mapping \<Rightarrow> int option \<Rightarrow> ('s, unit) io" where
  "configure_pdo_mapping sdo mapping_index communication_index mapping transmission_type =
     then_io (ensure_io (0x1400 \<le> communication_index \<and> communication_index \<le> 0x19FF) ValueError) (
     then_io (ensure_io (0x1600 \<le> mapping_index \<and> mapping_index \<le> 0x1BFF) ValueError) (
     then_io (ensure_io (case transmission_type of None \<Rightarrow> True | Some t \<Rightarrow> 0 \<le> t \<and> t \<le> 0xFF) ValueError) (
     let disabled_cob_id = pm_cob_id mapping OR 0x80000000 in
     then_io (download_u32 sdo communication_index 1 disabled_cob_id) (
     then_io (download_u8 sdo mapping_index 0 0) (
     then_io (write_entries sdo mapping_index 1 (pm_entries mapping)) (
     then_io (download_u8 sdo mapping_index 0 (int (length (pm_entries mapping)))) (
     then_io (case transmission_type of
                None \<Rightarrow> return_io ()
              | Some t \<Rightarrow> download_u8 sdo communication_index 2 t) (
     download_u32 sdo communication_index 1 (pm_cob_id mapping)))))))))"

section \<open>The codec\<close>

lemma pdo_entry_ok_facts:
  assumes "pdo_entry_ok e"
  shows "pe_bits e = 8 * int (entry_width e)" "entry_width e \<in> {1, 2, 4}"
    "0 \<le> pe_index e" "pe_index e \<le> 0xFFFF" "0 \<le> pe_subindex e" "pe_subindex e \<le> 0xFF"
  using assms by (auto simp: pdo_entry_ok_def pdo_entry_init_def entry_width_def split: if_splits)

lemma entries_bits:
  "\<forall>e \<in> set es. pdo_entry_ok e \<Longrightarrow> sum_list (map pe_bits es) = 8 * int (sum_list (map entry_width es))"
  by (induction es) (auto simp: pdo_entry_ok_facts(1))

lemma payload_bytes_widths:
  "pdo_mapping_ok m \<Longrightarrow> payload_bytes m = int (sum_list (map entry_width (pm_entries m)))"
  by (simp add: payload_bytes_def pdo_mapping_ok_def entries_bits)

lemma payload_bytes_max: "pdo_mapping_ok m \<Longrightarrow> payload_bytes m \<le> 8"
  by (auto simp: payload_bytes_def pdo_mapping_ok_def pdo_mapping_init_def split: if_splits)

lemma encode_entries:
  "pdo_encode_entries es vs p = Inr q \<Longrightarrow>
     \<exists>bs. q = p @ bs \<and> length bs = sum_list (map entry_width es)
       \<and> (\<forall>r. pdo_decode_entries es q (length p) r = r ++ (vs |` (pe_name ` set es)))"
proof (induction es arbitrary: p q)
  case (Cons e es)
  from Cons.prems obtain v bs where v: "vs (pe_name e) = Some v"
    and bs: "to_bytes (entry_width e) (pe_signed e) v = Inr bs"
    and rest: "pdo_encode_entries es vs (p @ bs) = Inr q"
    by (auto simp: bind_exn_Inr split: option.splits)
  have len: "length bs = entry_width e" using to_bytes_length [OF bs] .
  from Cons.IH [OF rest] obtain cs where q: "q = (p @ bs) @ cs"
    and lcs: "length cs = sum_list (map entry_width es)"
    and dec: "\<And>r. pdo_decode_entries es q (length (p @ bs)) r = r ++ (vs |` (pe_name ` set es))" by blast
  have sl: "slice (length p) (length p + entry_width e) q = bs"
    unfolding q using len by (simp add: slice_def)
  have "pdo_decode_entries (e # es) q (length p) r = r ++ (vs |` (pe_name ` set (e # es)))" for r
    using dec [of "r(pe_name e \<mapsto> v)"] v from_to_bytes [OF bs]
    by (auto simp: Let_def sl len map_add_def restrict_map_def fun_eq_iff split: option.splits)
  with q lcs len show ?case by auto
qed (simp add: map_add_def)

lemma decode_entries_other:
  "n \<notin> pe_name ` set es \<Longrightarrow> pdo_decode_entries es d off r n = r n"
  by (induction es arbitrary: off r) (auto simp: Let_def)

lemma decode_encode_entries:
  assumes "length d = length p + sum_list (map entry_width es)" "distinct (map pe_name es)"
    and "\<forall>n \<in> pe_name ` set es. vs n = pdo_decode_entries es d (length p) r n" "take (length p) d = p"
  shows "pdo_encode_entries es vs p = Inr d"
  using assms
proof (induction es arbitrary: p r)
  case Nil
  then show ?case by simp
next
  case (Cons e es)
  let ?w = "entry_width e"
  let ?bs = "slice (length p) (length p + ?w) d"
  let ?r' = "r(pe_name e \<mapsto> from_bytes (pe_signed e) ?bs)"
  have len: "length ?bs = ?w" using Cons.prems(1) by (simp add: length_slice)
  have "vs (pe_name e) = Some (from_bytes (pe_signed e) ?bs)"
    using Cons.prems(2,3) by (simp add: Let_def decode_entries_other)
  moreover have "to_bytes ?w (pe_signed e) (from_bytes (pe_signed e) ?bs) = Inr ?bs"
    by (rule to_from_bytes [OF len])
  moreover have "pdo_encode_entries es vs (p @ ?bs) = Inr d"
  proof (rule Cons.IH [where r = ?r'])
    show "take (length (p @ ?bs)) d = p @ ?bs"
      using Cons.prems(1,4) by (simp add: len take_add slice_def min_def)
    show "\<forall>n \<in> pe_name ` set es. vs n = pdo_decode_entries es d (length (p @ ?bs)) ?r' n"
      using Cons.prems(3) by (simp add: Let_def len)
  qed (use Cons.prems(1,2) len in auto)
  ultimately show ?case by simp
qed

lemma encode_entries_errors: "pdo_encode_entries es vs p = Inl e \<Longrightarrow> e \<in> {KeyError, OverflowError}"
  by (induction es arbitrary: p) (auto simp: bind_exn_Inl to_bytes_error split: option.splits)




section \<open>The configuration sequence\<close>

text \<open>The writes of the sequence, in order.\<close>

definition pdo_writes :: "int \<Rightarrow> int \<Rightarrow> pdo_mapping \<Rightarrow> int option \<Rightarrow> object_write list" where
  "pdo_writes mapping_index communication_index m tt =
     [(communication_index, 1, le_bytes 4 (pm_cob_id m OR 0x80000000)), (mapping_index, 0, [0])]
     @ map (\<lambda>(k, e). (mapping_index, int k, le_bytes 4 (mapping_value e)))
         (zip [1..<Suc (length (pm_entries m))] (pm_entries m))
     @ [(mapping_index, 0, le_bytes 1 (int (length (pm_entries m))))]
     @ (case tt of None \<Rightarrow> [] | Some t \<Rightarrow> [(communication_index, 2, le_bytes 1 t)])
     @ [(communication_index, 1, le_bytes 4 (pm_cob_id m))]"

lemma download_int_fits: "int_fits n sg v \<Longrightarrow> sdo_download_int c n sg i s v = sdo_download c i s (le_bytes n v)"
  by (simp add: sdo_download_int_def to_bytes_def fun_eq_iff bind_io_apply lift_io_apply)

lemma mapping_value_fits: "pdo_entry_ok e \<Longrightarrow> int_fits 4 False (mapping_value e)"
proof -
  assume ok: "pdo_entry_ok e"
  note fs = pdo_entry_ok_facts [OF ok]
  have b: "0 \<le> pe_bits e" "pe_bits e < 2 ^ 32" using fs(1,2) by auto
  have i: "0 \<le> push_bit 16 (pe_index e)" "push_bit 16 (pe_index e) < 2 ^ 32"
    using fs by (simp_all add: push_bit_eq_mult)
  have s: "0 \<le> push_bit 8 (pe_subindex e)" "push_bit 8 (pe_subindex e) < 2 ^ 32"
    using fs by (simp_all add: push_bit_eq_mult)
  have "mapping_value e < 2 ^ 32"
    unfolding mapping_value_def using b i s by (intro OR_upper or_nonnegative_int_iff [THEN iffD2] conjI)
  moreover have "0 \<le> mapping_value e"
    unfolding mapping_value_def using b i s by simp
  ultimately show ?thesis by (simp add: int_fits_def)
qed

lemma write_entries_writes:
  "\<forall>e \<in> set es. pdo_entry_ok e \<Longrightarrow> write_entries c mi k es =
     for_io (\<lambda>(i, s, d). sdo_download c i s d)
       (map (\<lambda>(k, e). (mi, int k, le_bytes 4 (mapping_value e))) (zip [k..<k + length es] es))"
proof (induction es arbitrary: k)
  case (Cons e es)
  then show ?case
    by (simp add: download_u32_def download_int_fits mapping_value_fits upt_conv_Cons del: upt_Suc)
qed simp

lemma configure_is_writes:
  assumes "pdo_mapping_ok m" "0x1400 \<le> ci" "ci \<le> 0x19FF" "0x1600 \<le> mi" "mi \<le> 0x1BFF"
    and "case tt of None \<Rightarrow> True | Some t \<Rightarrow> 0 \<le> t \<and> t \<le> 0xFF"
  shows "configure_pdo_mapping c mi ci m tt
    = for_io (\<lambda>(i, s, d). sdo_download c i s d) (pdo_writes mi ci m tt)"
proof -
  have cob: "0 \<le> pm_cob_id m" "pm_cob_id m \<le> 0x7FF" and n: "length (pm_entries m) \<le> 8"
    using assms(1) by (auto simp: pdo_mapping_ok_def pdo_mapping_init_def split: if_splits)
  have "0 \<le> pm_cob_id m OR 0x80000000" "pm_cob_id m OR 0x80000000 < 2 ^ 32"
    using cob by (simp, intro OR_upper) auto
  then have f1: "int_fits 4 False (pm_cob_id m OR 0x80000000)" "int_fits 4 False (pm_cob_id m)"
    "int_fits 1 False 0" "int_fits 1 False (int (length (pm_entries m)))"
    using cob n by (simp_all add: int_fits_def)
  have f2: "(case tt of None \<Rightarrow> return_io () | Some t \<Rightarrow> download_u8 c ci 2 t)
      = for_io (\<lambda>(i, s, d). sdo_download c i s d)
          (case tt of None \<Rightarrow> [] | Some t \<Rightarrow> [(ci, 2, le_bytes 1 t)])"
    using assms(6) by (auto simp: download_u8_def download_int_fits int_fits_def then_io_return
        split: option.splits)
  have g: "then_io (ensure_io True e) x = x" for e and x :: "('a, unit) io"
    by (simp add: fun_eq_iff then_io_apply ensure_io_apply)
  have w: "\<forall>e \<in> set (pm_entries m). pdo_entry_ok e" using assms(1) by (simp add: pdo_mapping_ok_def)
  show ?thesis
    using assms(2-6)
    by (simp add: configure_pdo_mapping_def g Let_def f2 pdo_writes_def write_entries_writes [OF w]
        download_u32_def download_u8_def download_int_fits f1 [unfolded One_nat_def] for_io_append then_io_return then_io_assoc
        del: upt_Suc)
qed

text \<open>C20: configuring a PDO over any bus follows the CANopen order: whatever the outcome, the frames
  seen are those of the writes "disable the PDO, clear the mapping count, write the entries, restore
  the count, set the transmission type, enable the PDO" taken one at a time, each request sent only
  after the node has positively answered the one before. The call returns exactly when the last
  write, which enables the PDO, was answered; when it raises, some write k was given up and none
  after it was sent, so a half-configured mapping is never enabled.\<close>
theorem pdo_configuration_ordered:
  assumes "pdo_mapping_ok m" "0x1400 \<le> ci" "ci \<le> 0x19FF" "0x1600 \<le> mi" "mi \<le> 0x1BFF"
    and "case tt of None \<Rightarrow> True | Some t \<Rightarrow> 0 \<le> t \<and> t \<le> 0xFF"
    and "configure_pdo_mapping (log_client c) mi ci m tt (st, []) = (r, (st', events))"
  shows "(case r of
       Inr u \<Rightarrow> \<exists>evs. events = concat evs
         \<and> list_all2 (transaction (download_request c) (positive_answer c)) (pdo_writes mi ci m tt) evs
     | Inl e \<Rightarrow> \<exists>k evs ev. k < length (pdo_writes mi ci m tt) \<and> events = concat evs @ ev
         \<and> list_all2 (transaction (download_request c) (positive_answer c)) (take k (pdo_writes mi ci m tt)) evs
         \<and> given_up (download_request c) (pdo_writes mi ci m tt ! k) ev)
    \<and> hd (pdo_writes mi ci m tt) = (ci, 1, le_bytes 4 (pm_cob_id m OR 0x80000000))
    \<and> last (pdo_writes mi ci m tt) = (ci, 1, le_bytes 4 (pm_cob_id m))"
proof -
  note run = assms(7) [unfolded configure_is_writes [OF assms(1-6)]]
  have "hd (pdo_writes mi ci m tt) = (ci, 1, le_bytes 4 (pm_cob_id m OR 0x80000000))"
    "last (pdo_writes mi ci m tt) = (ci, 1, le_bytes 4 (pm_cob_id m))"
    by (simp_all add: pdo_writes_def)
  then show ?thesis
    using sdo_log.writes_return [of c "pdo_writes mi ci m tt" "(st, [])"]
      sdo_log.writes_raise [of c "pdo_writes mi ci m tt" "(st, [])"] run
    by (cases r) fastforce+
qed

lemma pdo_configuration_ordered_witness:
  "\<exists>events st'. configure_pdo_mapping (log_client demo_client) 0x1600 0x1400 CIA402_RPDO_CST (Some 255)
      ((\<lambda>_. None, []), []) = (Inr (), (st', events))
    \<and> (\<exists>evs. events = concat evs \<and> length evs = 8)"
proof -
  let ?run = "configure_pdo_mapping (log_client demo_client) 0x1600 0x1400 CIA402_RPDO_CST (Some 255) ((\<lambda>_. None, []), [])"
  have ok: "pdo_mapping_ok CIA402_RPDO_CST"
    by (simp add: pdo_mapping_ok_def CIA402_RPDO_CST_def pdo_mapping_init_def pdo_entry_ok_def pdo_entry_init_def)
  have "\<not> isl (fst ?run)" by code_simp
  then obtain st' events where run: "?run = (Inr (), (st', events))"
    by (cases ?run; cases "fst ?run") auto
  have n: "length (pdo_writes 0x1600 0x1400 CIA402_RPDO_CST (Some 255)) = 8"
    by (simp add: pdo_writes_def CIA402_RPDO_CST_def)
  from pdo_configuration_ordered [OF ok _ _ _ _ _ run] obtain evs where "events = concat evs"
    and "list_all2 (transaction (download_request demo_client) (positive_answer demo_client))
      (pdo_writes 0x1600 0x1400 CIA402_RPDO_CST (Some 255)) evs" by auto
  then have "events = concat evs \<and> length evs = 8" using n by (auto dest: list_all2_lengthD)
  with run show ?thesis by blast
qed

end
