(* ===== verification/Cia402.thy ===== *)
theory Cia402
  imports Canopen
begin

text \<open>
  \<open>fieldbus/canopen/cia402.py\<close>: the drive state decoded from the statusword, the controlword
  that leads towards Operation Enabled, and the node object that runs the sequence over SDO.
\<close>

datatype cia402_state =
    NOT_READY
  | SWITCH_ON_DISABLED
  | READY_TO_SWITCH_ON
  | SWITCHED_ON
  | OPERATION_ENABLED
  | QUICK_STOP_ACTIVE
  | FAULT_REACTION_ACTIVE
  | FAULT
  | UNKNOWN

definition decode_state :: "int \<Rightarrow> cia402_state" where
  "decode_state statusword =
     (if statusword AND 0x004F = 0x0000 then NOT_READY
      else if statusword AND 0x004F = 0x0040 then SWITCH_ON_DISABLED
      else if statusword AND 0x006F = 0x0021 then READY_TO_SWITCH_ON
      else if statusword AND 0x006F = 0x0023 then SWITCHED_ON
      else if statusword AND 0x006F = 0x0027 then OPERATION_ENABLED
      else if statusword AND 0x006F = 0x0007 then QUICK_STOP_ACTIVE
      else if statusword AND 0x004F = 0x000F then FAULT_REACTION_ACTIVE
      else if statusword AND 0x004F = 0x0008 then FAULT
      else UNKNOWN)"

definition next_controlword :: "int \<Rightarrow> int" where
  "next_controlword statusword =
     (let state = decode_state statusword in
      if state = FAULT then 0x0080
      else if state = SWITCH_ON_DISABLED then 0x0006
      else if state = READY_TO_SWITCH_ON then 0x0007
      else if state \<in> {SWITCHED_ON, OPERATION_ENABLED} then 0x000F
      else if state = QUICK_STOP_ACTIVE then 0x000F
      else 0x0000)"

record 's cia402_node =
  cn_bus :: "'s can_bus"
  cn_node_id :: int
  cn_sdo :: "'s sdo_client"

text \<open>\<open>CanopenSdoClient(bus, node_id)\<close> has \<open>max_frames = 32\<close>.\<close>

definition cia402_node_create :: "'s can_bus \<Rightarrow> int \<Rightarrow> exn + 's cia402_node" where
  "cia402_node_create bus node_id =
     bind_exn (sdo_client_init bus node_id 32) (\<lambda>sdo.
     Inr \<lparr>cn_bus = bus, cn_node_id = node_id, cn_sdo = sdo\<rparr>)"

definition cn_set_mode :: "'s cia402_node \<Rightarrow> int \<Rightarrow> ('s, unit) io" where
  "cn_set_mode n mode =
     then_io (ensure_io (mode \<in> {1, 3, 4, 6, 8, 9, 10}) ValueError)
       (download_i8 (cn_sdo n) 0x6060 0 mode)"

definition cn_start_nmt :: "'s cia402_node \<Rightarrow> ('s, unit) io" where
  "cn_start_nmt n =
     bind_io (lift_io (build_nmt_frame START_REMOTE_NODE (cn_node_id n))) (bus_send (cn_bus n))"

definition cn_statusword :: "'s cia402_node \<Rightarrow> ('s, int) io" where
  "cn_statusword n = upload_u16 (cn_sdo n) 0x6041 0"

primrec enable_loop :: "'s cia402_node \<Rightarrow> nat \<Rightarrow> ('s, cia402_state) io" where
  "enable_loop n 0 = raise_io RuntimeError"
| "enable_loop n (Suc k) =
     bind_io (cn_statusword n) (\<lambda>sw.
     let state = decode_state sw in
     if state = OPERATION_ENABLED then return_io state
     else then_io (download_u16 (cn_sdo n) 0x6040 0 (next_controlword sw)) (enable_loop n k))"

definition enable_operation :: "'s cia402_node \<Rightarrow> int \<Rightarrow> int \<Rightarrow> ('s, cia402_state) io" where
  "enable_operation n mode max_steps =
     then_io (ensure_io (max_steps > 0) ValueError) (
     then_io (cn_set_mode n mode) (
     then_io (cn_start_nmt n) (
     enable_loop n (nat max_steps))))"

definition cn_quick_stop :: "'s cia402_node \<Rightarrow> ('s, unit) io" where
  "cn_quick_stop n = download_u16 (cn_sdo n) 0x6040 0 0x000B"

definition cn_disable_voltage :: "'s cia402_node \<Rightarrow> ('s, unit) io" where
  "cn_disable_voltage n = download_u16 (cn_sdo n) 0x6040 0 0x0000"

section \<open>A drive behind the node\<close>

text \<open>
  The drive as the node sees it: a state \<open>drive st\<close> whose statusword is \<open>sw\<close> and which a written
  controlword takes to \<open>react\<close>. While the link is \<open>up\<close>, the four accesses of the sequence succeed,
  and only writing the controlword changes the drive.
\<close>

definition drive_link ::
    "'s cia402_node \<Rightarrow> int \<Rightarrow> ('s \<Rightarrow> bool) \<Rightarrow> ('s \<Rightarrow> 'd) \<Rightarrow> ('d \<Rightarrow> int) \<Rightarrow> ('d \<Rightarrow> int \<Rightarrow> 'd) \<Rightarrow> bool" where
  "drive_link n mode up drive sw react \<longleftrightarrow>
     (\<forall>st. up st \<longrightarrow>
        (\<exists>st'. download_i8 (cn_sdo n) 0x6060 0 mode st = (Inr (), st') \<and> up st' \<and> drive st' = drive st)
        \<and> (\<exists>st'. cn_start_nmt n st = (Inr (), st') \<and> up st' \<and> drive st' = drive st)
        \<and> (\<exists>st'. cn_statusword n st = (Inr (sw (drive st)), st') \<and> up st' \<and> drive st' = drive st)
        \<and> (\<forall>cw \<in> {0x0000, 0x0006, 0x0007, 0x000F, 0x0080}.
             \<exists>st'. download_u16 (cn_sdo n) 0x6040 0 cw st = (Inr (), st') \<and> up st'
               \<and> drive st' = react (drive st) cw))"

text \<open>The transitions of CiA 402 that the sequence relies on.\<close>

definition follows_cia402 :: "('d \<Rightarrow> int) \<Rightarrow> ('d \<Rightarrow> int \<Rightarrow> 'd) \<Rightarrow> bool" where
  "follows_cia402 sw react \<longleftrightarrow>
     (\<forall>d. (decode_state (sw d) = FAULT \<longrightarrow> decode_state (sw (react d 0x0080)) = SWITCH_ON_DISABLED)
        \<and> (decode_state (sw d) = SWITCH_ON_DISABLED \<longrightarrow> decode_state (sw (react d 0x0006)) = READY_TO_SWITCH_ON)
        \<and> (decode_state (sw d) = READY_TO_SWITCH_ON \<longrightarrow> decode_state (sw (react d 0x0007)) = SWITCHED_ON)
        \<and> (decode_state (sw d) \<in> {SWITCHED_ON, QUICK_STOP_ACTIVE} \<longrightarrow>
             decode_state (sw (react d 0x000F)) = OPERATION_ENABLED))"

text \<open>The status reads that are needed from a state.\<close>

fun reads_needed :: "cia402_state \<Rightarrow> nat option" where
  "reads_needed OPERATION_ENABLED = Some 1"
| "reads_needed SWITCHED_ON = Some 2"
| "reads_needed QUICK_STOP_ACTIVE = Some 2"
| "reads_needed READY_TO_SWITCH_ON = Some 3"
| "reads_needed SWITCH_ON_DISABLED = Some 4"
| "reads_needed FAULT = Some 5"
| "reads_needed _ = None"

lemma next_controlword_table:
  "next_controlword w = (case decode_state w of
     FAULT \<Rightarrow> 0x0080 | SWITCH_ON_DISABLED \<Rightarrow> 0x0006 | READY_TO_SWITCH_ON \<Rightarrow> 0x0007
   | SWITCHED_ON \<Rightarrow> 0x000F | OPERATION_ENABLED \<Rightarrow> 0x000F | QUICK_STOP_ACTIVE \<Rightarrow> 0x000F | _ \<Rightarrow> 0x0000)"
  by (simp add: next_controlword_def Let_def split: cia402_state.splits)

lemma next_controlword_cases: "next_controlword w \<in> {0x0000, 0x0006, 0x0007, 0x000F, 0x0080}"
  by (simp add: next_controlword_table split: cia402_state.splits)

lemma follows_next:
  assumes "follows_cia402 sw react" "reads_needed (decode_state (sw d)) = Some k" "decode_state (sw d) \<noteq> OPERATION_ENABLED"
  shows "reads_needed (decode_state (sw (react d (next_controlword (sw d))))) = Some (k - 1) \<and> k \<ge> 2"
  using assms unfolding follows_cia402_def next_controlword_table
  by (cases "decode_state (sw d)") auto

lemma drive_link_step:
  assumes "drive_link n mode up drive sw react" "up st"
  obtains st1 where "cn_statusword n st = (Inr (sw (drive st)), st1)" "up st1" "drive st1 = drive st"
    and "decode_state (sw (drive st)) \<noteq> OPERATION_ENABLED \<Longrightarrow>
      \<exists>st2. enable_loop n (Suc k) st = enable_loop n k st2 \<and> up st2
        \<and> drive st2 = react (drive st) (next_controlword (sw (drive st)))"
proof -
  from assms obtain st1 where s1: "cn_statusword n st = (Inr (sw (drive st)), st1)" "up st1" "drive st1 = drive st"
    unfolding drive_link_def by blast
  from assms(1) s1(2) next_controlword_cases [of "sw (drive st)"] obtain st2 where
    s2: "download_u16 (cn_sdo n) 0x6040 0 (next_controlword (sw (drive st))) st1 = (Inr (), st2)" "up st2"
      "drive st2 = react (drive st1) (next_controlword (sw (drive st)))"
    unfolding drive_link_def by blast
  have "\<exists>st2. enable_loop n (Suc k) st = enable_loop n k st2 \<and> up st2
        \<and> drive st2 = react (drive st) (next_controlword (sw (drive st)))"
    if "decode_state (sw (drive st)) \<noteq> OPERATION_ENABLED"
    using that s1 s2 by (intro exI [of _ st2]) (simp add: bind_io_apply then_io_apply Let_def)
  with s1 that show thesis by blast
qed

lemma enable_loop_reaches:
  assumes link: "drive_link n mode up drive sw react" and f: "follows_cia402 sw react"
  shows "up st \<Longrightarrow> reads_needed (decode_state (sw (drive st))) = Some k \<Longrightarrow>
    \<exists>st'. enable_loop n m st = (if k \<le> m then Inr OPERATION_ENABLED else Inl RuntimeError, st')
      \<and> (k \<le> m \<longrightarrow> decode_state (sw (drive st')) = OPERATION_ENABLED)"
proof (induction m arbitrary: st k)
  case 0
  moreover have "k \<noteq> 0" using 0 by (cases "decode_state (sw (drive st))") auto
  ultimately show ?case by (simp add: raise_io_apply)
next
  case (Suc m)
  show ?case
  proof (cases "decode_state (sw (drive st)) = OPERATION_ENABLED")
    case True
    then have "k = 1" using Suc.prems by simp
    obtain st1 where "cn_statusword n st = (Inr (sw (drive st)), st1)" "drive st1 = drive st"
      using drive_link_step [OF link Suc.prems(1)] by blast
    with True \<open>k = 1\<close> show ?thesis by (simp add: bind_io_apply Let_def return_io_apply)
  next
    case False
    then obtain st2 where st2: "enable_loop n (Suc m) st = enable_loop n m st2" "up st2"
      "drive st2 = react (drive st) (next_controlword (sw (drive st)))"
      using drive_link_step [OF link Suc.prems(1)] by blast
    from follows_next [OF f Suc.prems(2) False] Suc.IH [OF st2(2), of "k - 1"] st2(1,3)
    show ?thesis by (auto simp del: enable_loop.simps)
  qed
qed


text \<open>C27: a fault reset is a rising edge of controlword bit 7, and the sequence never produces one
  after its first step: with a drive in Fault that stays there while the bit is rewritten, having seen it
  set in the last controlword, every call raises \<open>RuntimeError\<close> whatever \<open>max_steps\<close> is, and the
  drive is still in Fault with the bit set, so a later call fails the same way.\<close>
theorem fault_reset_without_edge:
  assumes "drive_link n mode up drive (\<lambda>d. fst d) react" "up st"
    and "mode \<in> {1, 3, 4, 6, 8, 9, 10}" "0 < max_steps"
    and "\<forall>w cw. decode_state w = FAULT \<and> cw AND 0x80 \<noteq> 0 \<longrightarrow> react (w, cw) 0x0080 = (w, 0x0080 :: int)"
    and "decode_state (fst (drive st)) = FAULT" "snd (drive st) AND 0x80 \<noteq> 0"
  shows "\<exists>st'. enable_operation n mode max_steps st = (Inl RuntimeError, st')
    \<and> up st' \<and> decode_state (fst (drive st')) = FAULT \<and> snd (drive st') AND 0x80 \<noteq> 0"
proof -
  have loop: "\<exists>st'. enable_loop n k s = (Inl RuntimeError, st') \<and> up st'
      \<and> decode_state (fst (drive st')) = FAULT \<and> snd (drive st') AND 0x80 \<noteq> 0"
    if "up s" "decode_state (fst (drive s)) = FAULT" "snd (drive s) AND 0x80 \<noteq> 0" for k s
    using that
  proof (induction k arbitrary: s)
    case (Suc k)
    have "decode_state (fst (drive s)) \<noteq> OPERATION_ENABLED" using Suc.prems(2) by simp
    then obtain s2 where s2: "enable_loop n (Suc k) s = enable_loop n k s2" "up s2"
      "drive s2 = react (drive s) (next_controlword (fst (drive s)))"
      using drive_link_step [OF assms(1) Suc.prems(1)] by blast
    have "drive s2 = (fst (drive s), 0x80)"
      using s2(3) Suc.prems assms(5) by (cases "drive s") (simp add: next_controlword_table)
    with Suc.IH [OF s2(2)] Suc.prems s2(1) show ?case by (simp del: enable_loop.simps)
  qed (simp add: raise_io_apply)
  from assms(1,2) obtain st1 where s1: "download_i8 (cn_sdo n) 0x6060 0 mode st = (Inr (), st1)" "up st1"
    "drive st1 = drive st" unfolding drive_link_def by blast
  with assms(1) obtain st2 where s2: "cn_start_nmt n st1 = (Inr (), st2)" "up st2" "drive st2 = drive st"
    unfolding drive_link_def by metis
  from loop [OF s2(2), of "nat max_steps"] s2(3) assms(6,7) s1(1) s2(1) assms(3,4) show ?thesis
    by (simp add: enable_operation_def cn_set_mode_def then_io_apply ensure_io_apply)
qed


section \<open>A drive to run the sequence on\<close>

text \<open>The statusword and the last controlword of the drive, and the frames it has sent.\<close>

type_synonym bench_drive = "(int \<times> int) \<times> can_frame list"

definition bench_react :: "bool \<Rightarrow> int \<times> int \<Rightarrow> int \<Rightarrow> int \<times> int" where
  "bench_react edge d cw =
     (let state = decode_state (fst d) in
      (if state = FAULT \<and> cw AND 0x80 \<noteq> 0 \<and> (edge \<longrightarrow> snd d AND 0x80 = 0) then 0x40
       else if state = SWITCH_ON_DISABLED \<and> cw = 6 then 0x21
       else if state = READY_TO_SWITCH_ON \<and> cw = 7 then 0x23
       else if state \<in> {SWITCHED_ON, QUICK_STOP_ACTIVE} \<and> cw = 0xF then 0x27
       else fst d, cw))"

definition bench_reply :: "bool \<Rightarrow> can_frame \<Rightarrow> bench_drive \<Rightarrow> bench_drive" where
  "bench_reply edge f n =
     (let d = cf_data f; mux = slice 1 4 d; answer = (\<lambda>b. [\<lparr>cf_can_id = 0x585, cf_data = b\<rparr>]) in
      if cf_can_id f \<noteq> 0x605 then n
      else if d ! 0 = 0x40 then (fst n, answer (0x4B # mux @ le_bytes 2 (fst (fst n)) @ [0, 0]))
      else (if answer_index d = 0x6040 then bench_react edge (fst n) (le_value (slice 4 6 d)) else fst n,
            answer (0x60 # mux @ [0, 0, 0, 0])))"

definition bench_bus :: "bool \<Rightarrow> bench_drive can_bus" where
  "bench_bus edge =
     \<lparr>bus_send = (\<lambda>f n. (Inr (), bench_reply edge f n)),
      bus_recv = (\<lambda>n. case snd n of [] \<Rightarrow> (Inl TimeoutError, n) | f # fs \<Rightarrow> (Inr f, (fst n, fs)))\<rparr>"

definition bench_node :: "bool \<Rightarrow> bench_drive cia402_node" where
  "bench_node edge = \<lparr>cn_bus = bench_bus edge, cn_node_id = 5,
     cn_sdo = \<lparr>sc_bus = bench_bus edge, sc_node_id = 5, sc_max_frames = 32\<rparr>\<rparr>"

definition bench_up :: "bench_drive \<Rightarrow> bool" where
  "bench_up n \<longleftrightarrow> snd n = [] \<and> fst (fst n) \<in> set [0x08, 0x40, 0x21, 0x23, 0x27]
     \<and> snd (fst n) \<in> set [0x00, 0x06, 0x07, 0x0F, 0x80]"

definition bench_ok :: "bool \<Rightarrow> bench_drive \<Rightarrow> bool" where
  "bench_ok edge n \<longleftrightarrow>
     download_i8 (cn_sdo (bench_node edge)) 0x6060 0 8 n = (Inr (), n)
     \<and> cn_start_nmt (bench_node edge) n = (Inr (), n)
     \<and> cn_statusword (bench_node edge) n = (Inr (fst (fst n)), n)
     \<and> list_all (\<lambda>cw. download_u16 (cn_sdo (bench_node edge)) 0x6040 0 cw n = (Inr (), (bench_react edge (fst n) cw, []))
          \<and> bench_up (bench_react edge (fst n) cw, [])) [0x00, 0x06, 0x07, 0x0F, 0x80]"

lemma bench_all_ok:
  "list_all (\<lambda>edge. list_all (\<lambda>sw. list_all (\<lambda>cw. bench_ok edge ((sw, cw), [])) [0x00, 0x06, 0x07, 0x0F, 0x80])
     [0x08, 0x40, 0x21, 0x23, 0x27]) [False, True]"
  by code_simp

lemma bench_ok_up: "bench_up n \<Longrightarrow> bench_ok edge n"
proof -
  assume "bench_up n"
  then obtain sw cw where "n = ((sw, cw), [])" "sw \<in> set [0x08, 0x40, 0x21, 0x23, 0x27]"
    "cw \<in> set [0x00, 0x06, 0x07, 0x0F, 0x80]" by (cases n) (auto simp: bench_up_def simp del: list.set)
  moreover have "edge \<in> set [False, True]" by simp
  ultimately show ?thesis using bench_all_ok unfolding list_all_iff by blast
qed

lemma bench_link: "drive_link (bench_node edge) 8 bench_up fst (\<lambda>d. fst d) (bench_react edge)"
  unfolding drive_link_def
proof (intro allI impI conjI)
  fix st assume up: "bench_up st"
  note ok = bench_ok_up [OF up, of edge, unfolded bench_ok_def]
  from ok up show "\<exists>st'. download_i8 (cn_sdo (bench_node edge)) 0x6060 0 8 st = (Inr (), st') \<and> bench_up st' \<and> fst st' = fst st"
    "\<exists>st'. cn_start_nmt (bench_node edge) st = (Inr (), st') \<and> bench_up st' \<and> fst st' = fst st"
    "\<exists>st'. cn_statusword (bench_node edge) st = (Inr (fst (fst st)), st') \<and> bench_up st' \<and> fst st' = fst st"
    by blast+
  from ok show "\<forall>cw \<in> {0x0000, 0x0006, 0x0007, 0x000F, 0x0080}.
      \<exists>st'. download_u16 (cn_sdo (bench_node edge)) 0x6040 0 cw st = (Inr (), st') \<and> bench_up st'
        \<and> fst st' = bench_react edge (fst st) cw"
    unfolding list_all_iff by (intro ballI) (rule exI, fastforce)
qed

lemma bench_follows: "follows_cia402 (\<lambda>d. fst d) (bench_react False)"
  by (simp add: follows_cia402_def bench_react_def Let_def) (simp add: decode_state_def)

lemma bench_fault: "bench_up ((0x08, 0x80), [])" "bench_up ((0x08, 0), [])" "decode_state 0x08 = FAULT"
  by (simp_all add: bench_up_def decode_state_def)


lemma fault_reset_without_edge_witness:
  "\<exists>st'. enable_operation (bench_node True) 8 16 ((0x08, 0x80), []) = (Inl RuntimeError, st')
     \<and> decode_state (fst (fst st')) = FAULT"
proof -
  have "\<forall>w cw. decode_state w = FAULT \<and> cw AND 0x80 \<noteq> 0 \<longrightarrow> bench_react True (w, cw) 0x0080 = (w, 0x0080)"
    by (simp add: bench_react_def Let_def)
  from fault_reset_without_edge [OF bench_link bench_fault(1) _ _ this, of 16] bench_fault(3)
  show ?thesis by simp blast
qed

end
