(* ===== verification/Fieldbus_Tools.thy ===== *)
theory Fieldbus_Tools
  imports Py_Bytes
begin

text \<open>
  The command-line tools the controller runs: \<open>fieldbus/core.py\<close>, the EtherCAT adapters of
  \<open>fieldbus/ethercat/igh\<close> and \<open>fieldbus/ethercat/soem\<close>. Running a process, the monotonic
  clock, the search of the executable and the JSON parser are parameters.
\<close>

section \<open>Running a command (\<open>fieldbus/core.py\<close>)\<close>

record command_evidence =
  ce_argv :: "string list"
  ce_returncode :: int
  ce_stdout :: string
  ce_stderr :: string
  ce_duration_ns :: int

definition evidence_ok :: "command_evidence \<Rightarrow> bool" where
  "evidence_ok e \<longleftrightarrow> ce_returncode e = 0"

type_synonym 's command_runner = "string list \<Rightarrow> rat \<Rightarrow> ('s, command_evidence) io"

definition run_command ::
    "('s, int) io \<Rightarrow> (string list \<Rightarrow> rat \<Rightarrow> ('s, int \<times> string \<times> string) io) \<Rightarrow> 's command_runner" where
  "run_command monotonic_ns subprocess_run argv timeout_s =
     then_io (ensure_io (\<not> timeout_s \<le> 0) ValueError) (
     bind_io monotonic_ns (\<lambda>started.
     bind_io (subprocess_run argv timeout_s) (\<lambda>(returncode, out, err).
     bind_io monotonic_ns (\<lambda>now.
     return_io \<lparr>ce_argv = argv, ce_returncode = returncode, ce_stdout = out, ce_stderr = err,
                ce_duration_ns = now - started\<rparr>))))"

definition require_success :: "command_evidence \<Rightarrow> exn + command_evidence" where
  "require_success e = (if \<not> evidence_ok e then Inl CommandFailed else Inr e)"

lemma require_success_Inr: "require_success e = Inr e' \<longleftrightarrow> e' = e \<and> evidence_ok e"
  by (auto simp: require_success_def)

section \<open>The adapters\<close>

text \<open>An adapter: its executable, its runner and the search of the executable on the path.\<close>

record 's tool =
  tl_executable :: string
  tl_runner :: "'s command_runner"
  tl_which :: "string \<Rightarrow> ('s, string option) io"

definition tool_init :: "string \<Rightarrow> string option \<Rightarrow> 's command_runner \<Rightarrow> (string \<Rightarrow> ('s, string option) io) \<Rightarrow> 's tool" where
  "tool_init dflt executable runner which =
     \<lparr>tl_executable = (case executable of None \<Rightarrow> dflt | Some e \<Rightarrow> e), tl_runner = runner, tl_which = which\<rparr>"

definition igh_ethercat_cli :: "string option \<Rightarrow> 's command_runner \<Rightarrow> (string \<Rightarrow> ('s, string option) io) \<Rightarrow> 's tool" where
  "igh_ethercat_cli = tool_init ''ethercat''"

definition soem_slave_info :: "string option \<Rightarrow> 's command_runner \<Rightarrow> (string \<Rightarrow> ('s, string option) io) \<Rightarrow> 's tool" where
  "soem_slave_info = tool_init ''slaveinfo''"

definition igh_cycle_qualifier :: "string option \<Rightarrow> 's command_runner \<Rightarrow> (string \<Rightarrow> ('s, string option) io) \<Rightarrow> 's tool" where
  "igh_cycle_qualifier = tool_init ''cia402_cycle''"

definition soem_cycle_qualifier :: "string option \<Rightarrow> 's command_runner \<Rightarrow> (string \<Rightarrow> ('s, string option) io) \<Rightarrow> 's tool" where
  "soem_cycle_qualifier = tool_init ''soem_cycle''"

definition tool_resolve :: "'s tool \<Rightarrow> ('s, string) io" where
  "tool_resolve t =
     bind_io (tl_which t (tl_executable t)) (\<lambda>path.
     case path of None \<Rightarrow> raise_io ToolUnavailable | Some p \<Rightarrow> return_io p)"

definition igh_available :: "'s tool \<Rightarrow> ('s, bool) io" where
  "igh_available t = bind_io (tl_which t (tl_executable t)) (\<lambda>path. return_io (path \<noteq> None))"

definition igh_master_status :: "'s tool \<Rightarrow> rat \<Rightarrow> ('s, command_evidence) io" where
  "igh_master_status t timeout_s =
     bind_io (tool_resolve t) (\<lambda>executable.
     bind_io (tl_runner t [executable, ''master''] timeout_s) (\<lambda>e. lift_io (require_success e)))"

definition igh_scan_slaves :: "'s tool \<Rightarrow> rat \<Rightarrow> ('s, command_evidence \<times> string list) io" where
  "igh_scan_slaves t timeout_s =
     bind_io (tool_resolve t) (\<lambda>executable.
     bind_io (tl_runner t [executable, ''slaves''] timeout_s) (\<lambda>e.
     bind_io (lift_io (require_success e)) (\<lambda>evidence.
     return_io (evidence, filter (\<lambda>l. l \<noteq> []) (map strip_blanks (splitlines (ce_stdout evidence)))))))"

definition soem_resolve :: "'s tool \<Rightarrow> ('s, string) io" where
  [simp]: "soem_resolve t = tool_resolve t"

definition soem_scan :: "'s tool \<Rightarrow> string \<Rightarrow> rat \<Rightarrow> ('s, command_evidence) io" where
  "soem_scan t interface timeout_s =
     then_io (ensure_io (interface \<noteq> []) ValueError) (
     bind_io (soem_resolve t) (\<lambda>executable.
     bind_io (tl_runner t [executable, interface] timeout_s) (\<lambda>e. lift_io (require_success e))))"

section \<open>Cycle qualification\<close>

text \<open>\<open>cls(**json.loads(text.strip().splitlines()[-1]))\<close>: the keys must be exactly the fields.\<close>

definition metrics_from_json ::
    "string list \<Rightarrow> (string \<Rightarrow> exn + pyval) \<Rightarrow> string \<Rightarrow> exn + (string \<times> pyval) list" where
  "metrics_from_json names json_loads text =
     (let lines = splitlines (strip_blanks text) in
      if lines = [] then Inl IndexError
      else bind_exn (json_loads (last lines)) (\<lambda>data.
        case data of
          PDict d \<Rightarrow> if set (map fst d) = set names then Inr (map (\<lambda>f. (f, the (map_of d f))) names)
                     else Inl TypeError
        | _ \<Rightarrow> Inl TypeError))"

definition igh_metric_fields :: "string list" where
  "igh_metric_fields =
     [''cycles'', ''cycle_ns'', ''last_wkc'', ''wc_complete_cycles'', ''bad_wkc'', ''max_abs_jitter_ns'',
      ''mean_abs_jitter_ns'', ''deadline_misses'', ''statusword'', ''operation_enabled_cycles'', ''enable_drive'']"

definition soem_metric_fields :: "string list" where
  "soem_metric_fields =
     [''cycles'', ''cycle_ns'', ''expected_wkc'', ''last_wkc'', ''bad_wkc'', ''max_abs_jitter_ns'',
      ''mean_abs_jitter_ns'', ''deadline_misses'', ''dc_time_ns'', ''slave_count'']"

text \<open>\<open>timeout_s or (seconds + 10.0)\<close>: both \<open>None\<close> and zero take the default.\<close>

definition timeout_or :: "rat option \<Rightarrow> int \<Rightarrow> rat" where
  "timeout_or timeout_s seconds =
     (case timeout_s of None \<Rightarrow> of_int seconds + 10 | Some t \<Rightarrow> if t = 0 then of_int seconds + 10 else t)"

record igh_cycle_args =
  ic_position :: int
  ic_vendor_id :: int
  ic_product_code :: int
  ic_cycle_us :: int
  ic_seconds :: int
  ic_mode :: int
  ic_assign_activate :: int
  ic_enable_drive :: bool
  ic_timeout_s :: "rat option"

definition igh_cycle_argv :: "string \<Rightarrow> igh_cycle_args \<Rightarrow> string list" where
  "igh_cycle_argv executable a =
     [executable, str_int (ic_position a), hex_int (ic_vendor_id a), hex_int (ic_product_code a),
      str_int (ic_cycle_us a), str_int (ic_seconds a), str_int (ic_mode a), hex_int (ic_assign_activate a),
      (if ic_enable_drive a then ''1'' else ''0'')]"

definition igh_cycle_resolve :: "'s tool \<Rightarrow> ('s, string) io" where
  [simp]: "igh_cycle_resolve t = tool_resolve t"

definition igh_cycle_run ::
    "(string \<Rightarrow> exn + pyval) \<Rightarrow> 's tool \<Rightarrow> igh_cycle_args
      \<Rightarrow> ('s, command_evidence \<times> (string \<times> pyval) list) io" where
  "igh_cycle_run json_loads t a =
     then_io (ensure_io (\<not> (ic_position a < 0 \<or> ic_cycle_us a \<le> 0 \<or> ic_seconds a \<le> 0)) ValueError) (
     then_io (ensure_io (ic_mode a \<in> {8, 9, 10}) ValueError) (
     bind_io (igh_cycle_resolve t) (\<lambda>executable.
     bind_io (tl_runner t (igh_cycle_argv executable a) (timeout_or (ic_timeout_s a) (ic_seconds a))) (\<lambda>e.
     bind_io (lift_io (require_success e)) (\<lambda>evidence.
     bind_io (lift_io (metrics_from_json igh_metric_fields json_loads (ce_stdout evidence))) (\<lambda>metrics.
     return_io (evidence, metrics)))))))"

definition soem_cycle_resolve :: "'s tool \<Rightarrow> ('s, string) io" where
  [simp]: "soem_cycle_resolve t = tool_resolve t"

definition soem_cycle_run ::
    "(string \<Rightarrow> exn + pyval) \<Rightarrow> 's tool \<Rightarrow> string \<Rightarrow> int \<Rightarrow> int \<Rightarrow> rat option
      \<Rightarrow> ('s, command_evidence \<times> (string \<times> pyval) list) io" where
  "soem_cycle_run json_loads t interface cycle_us seconds timeout_s =
     then_io (ensure_io (\<not> (interface = [] \<or> cycle_us \<le> 0 \<or> seconds \<le> 0)) ValueError) (
     bind_io (soem_cycle_resolve t) (\<lambda>executable.
     bind_io (tl_runner t [executable, interface, str_int cycle_us, str_int seconds]
                (timeout_or timeout_s seconds)) (\<lambda>e.
     bind_io (lift_io (require_success e)) (\<lambda>evidence.
     bind_io (lift_io (metrics_from_json soem_metric_fields json_loads (ce_stdout evidence))) (\<lambda>metrics.
     return_io (evidence, metrics))))))"

section \<open>Properties\<close>

text \<open>A cycle qualification that returns is backed by one run of the tool: the arguments were in
  range, the executable was found, the process was run once with exactly the documented argument
  vector and the default time limit of ten seconds more than the run when none was given, it
  returned zero, and the metrics are the fields of the JSON object on its last output line, no more
  and no fewer.\<close>
theorem igh_cycle_backed_by_run:
  assumes "igh_cycle_run json_loads t a s = (Inr (ev, m), s')"
  shows "0 \<le> ic_position a \<and> 0 < ic_cycle_us a \<and> 0 < ic_seconds a \<and> ic_mode a \<in> {8, 9, 10}
    \<and> evidence_ok ev \<and> map fst m = igh_metric_fields
    \<and> (\<exists>path s1 d. tl_which t (tl_executable t) s = (Inr (Some path), s1)
         \<and> tl_runner t (igh_cycle_argv path a)
             (if ic_timeout_s a \<in> {None, Some 0} then of_int (ic_seconds a) + 10 else the (ic_timeout_s a)) s1
           = (Inr ev, s')
         \<and> json_loads (last (splitlines (strip_blanks (ce_stdout ev)))) = Inr (PDict d)
         \<and> set (map fst d) = set igh_metric_fields \<and> (\<forall>(k, v) \<in> set m. map_of d k = Some v))"
proof -
  from assms obtain path s1 e where w: "tl_which t (tl_executable t) s = (Inr (Some path), s1)"
    and r: "tl_runner t (igh_cycle_argv path a) (timeout_or (ic_timeout_s a) (ic_seconds a)) s1 = (Inr e, s')"
    and ok: "require_success e = Inr ev"
    and m: "metrics_from_json igh_metric_fields json_loads (ce_stdout ev) = Inr m"
    and args: "0 \<le> ic_position a" "0 < ic_cycle_us a" "0 < ic_seconds a" "ic_mode a \<in> {8, 9, 10}"
    by (auto simp: igh_cycle_run_def io_results tool_resolve_def split: option.splits)
  from m obtain data where data: "json_loads (last (splitlines (strip_blanks (ce_stdout ev)))) = Inr data"
    "(case data of PDict d \<Rightarrow> if fst ` set d = set igh_metric_fields
        then Inr (map (\<lambda>f. (f, the (map_of d f))) igh_metric_fields) else Inl TypeError
      | _ \<Rightarrow> Inl TypeError) = Inr m"
    unfolding metrics_from_json_def Let_def by (auto simp: bind_exn_Inr split: if_split_asm)
  then obtain d where d: "json_loads (last (splitlines (strip_blanks (ce_stdout ev)))) = Inr (PDict d)"
    "set (map fst d) = set igh_metric_fields" "m = map (\<lambda>f. (f, the (map_of d f))) igh_metric_fields"
    by (cases data) (auto split: if_split_asm)
  have "\<forall>(k, v) \<in> set m. map_of d k = Some v"
  proof clarify
    fix k v assume "(k, v) \<in> set m"
    then have "k \<in> set (map fst d)" "v = the (map_of d k)" unfolding d(2,3) by auto
    then show "map_of d k = Some v" using map_of_eq_None_iff [of d k] by auto
  qed
  moreover have "map fst m = igh_metric_fields" unfolding d(3) by (simp add: comp_def)
  moreover have "timeout_or (ic_timeout_s a) (ic_seconds a)
      = (if ic_timeout_s a \<in> {None, Some 0} then of_int (ic_seconds a) + 10 else the (ic_timeout_s a))"
    by (auto simp: timeout_or_def split: option.splits)
  ultimately show ?thesis using w r ok args d(1,2) by (auto simp: require_success_Inr)
qed

definition demo_cycle_tool :: "unit tool" where
  "demo_cycle_tool =
     \<lparr>tl_executable = ''cia402_cycle'',
      tl_runner = (\<lambda>argv t. return_io \<lparr>ce_argv = argv, ce_returncode = 0, ce_stdout = ''ok'', ce_stderr = [],
                                         ce_duration_ns = 1\<rparr>),
      tl_which = (\<lambda>n. return_io (Some n))\<rparr>"

definition demo_cycle_args :: igh_cycle_args where
  "demo_cycle_args = \<lparr>ic_position = 0, ic_vendor_id = 0x1234, ic_product_code = 0x10, ic_cycle_us = 1000,
     ic_seconds = 10, ic_mode = 8, ic_assign_activate = 0x300, ic_enable_drive = False, ic_timeout_s = None\<rparr>"

lemma igh_cycle_backed_by_run_witness:
  "\<exists>ev m. igh_cycle_run (\<lambda>_. Inr (PDict (map (\<lambda>f. (f, PInt 0)) igh_metric_fields))) demo_cycle_tool demo_cycle_args ()
      = (Inr (ev, m), ()) \<and> evidence_ok ev \<and> length m = 11"
proof -
  let ?json = "\<lambda>_. Inr (PDict (map (\<lambda>f. (f, PInt 0)) igh_metric_fields))"
  have "splitlines (strip_blanks ''ok'') \<noteq> []" by code_simp
  then have "\<exists>ev m. igh_cycle_run ?json demo_cycle_tool demo_cycle_args () = (Inr (ev, m), ())"
    by (simp add: igh_cycle_run_def demo_cycle_tool_def demo_cycle_args_def tool_resolve_def require_success_def
        evidence_ok_def metrics_from_json_def then_io_apply ensure_io_apply bind_io_apply return_io_apply lift_io_apply
        comp_def image_image)
  then obtain ev m where run: "igh_cycle_run ?json demo_cycle_tool demo_cycle_args () = (Inr (ev, m), ())" by blast
  from igh_cycle_backed_by_run [OF run] have "evidence_ok ev" "length (map fst m) = length igh_metric_fields"
    by (blast, metis)
  with run show ?thesis by (auto simp: igh_metric_fields_def)
qed

end
