(* ===== verification/Lab_Session.thy ===== *)
theory Lab_Session
  imports Fieldbus_Tools
begin

text \<open>
  The bench session of \<open>lab/\<close>: the resource description and the local file lock
  (\<open>lab/resources/model.py\<close>), the labgrid place lease (\<open>lab/labgrid/client.py\<close>) and the session
  that takes both and forces the bench safe (\<open>lab/session.py\<close>). The lock and the lease are two
  providers of one interface; the session is proved against it.
\<close>

section \<open>Resources\<close>

record bench_resource =
  br_resource_id :: string
  br_controller :: string
  br_backend :: string
  br_dut :: string
  br_adapter_revision :: string
  br_fieldbus_interface :: "string option"

definition bench_resource_init :: "bench_resource \<Rightarrow> exn + bench_resource" where
  "bench_resource_init r =
     (if [] \<in> set [br_resource_id r, br_controller r, br_backend r, br_dut r, br_adapter_revision r]
      then Inl ValueError else Inr r)"

definition bench_resource_to_dict :: "bench_resource \<Rightarrow> (string \<times> pyval) list" where
  "bench_resource_to_dict r =
     [(''resource_id'', PStr (br_resource_id r)), (''controller'', PStr (br_controller r)),
      (''backend'', PStr (br_backend r)), (''dut'', PStr (br_dut r)),
      (''adapter_revision'', PStr (br_adapter_revision r)),
      (''fieldbus_interface'', case br_fieldbus_interface r of None \<Rightarrow> PNone | Some i \<Rightarrow> PStr i)]"

text \<open>
  The state of a session: the outside world, the open lock file of the \<open>ResourceLock\<close>
  (\<open>_file\<close>) and the flag of the \<open>LabgridPlaceLease\<close> (\<open>acquired\<close>).
\<close>

record 'w bench =
  bw_world :: 'w
  bw_lock_file :: "int option"
  bw_lease_acquired :: bool

definition with_world :: "('w, 'a) io \<Rightarrow> ('w bench, 'a) io" where
  "with_world m = (\<lambda>s. case m (bw_world s) of (r, w) \<Rightarrow> (r, s\<lparr>bw_world := w\<rparr>))"

lemma with_world_results:
  "with_world m s = (r, s') \<longleftrightarrow> (\<exists>w. m (bw_world s) = (r, w) \<and> s' = s\<lparr>bw_world := w\<rparr>)"
  by (auto simp: with_world_def split: prod.splits)

text \<open>The file and lock operations; \<open>fl_write_owner\<close> rewrites the file with the owner and flushes.\<close>

record 'w lock_api =
  fl_available :: bool
  fl_mkdir :: "('w, unit) io"
  fl_open :: "('w, int) io"
  fl_flock :: "bool \<Rightarrow> int \<Rightarrow> ('w, unit) io"
  fl_write_owner :: "int \<Rightarrow> string \<Rightarrow> ('w, unit) io"
  fl_unlock :: "int \<Rightarrow> ('w, unit) io"
  fl_close :: "int \<Rightarrow> ('w, unit) io"

definition lock_acquire :: "'w lock_api \<Rightarrow> string \<Rightarrow> bool \<Rightarrow> ('w bench, unit) io" where
  "lock_acquire api resource_id blocking =
     then_io (ensure_io (fl_available api) RuntimeError) (
     then_io (with_world (fl_mkdir api)) (
     bind_io (with_world (fl_open api)) (\<lambda>handle.
     then_io (catch_io (with_world (fl_flock api (\<not> blocking) handle))
                (\<lambda>e. if e = BlockingIOError
                     then then_io (with_world (fl_close api handle)) (raise_io ResourceBusy)
                     else raise_io e)) (
     then_io (with_world (fl_write_owner api handle resource_id)) (
     \<lambda>s. (Inr (), s\<lparr>bw_lock_file := Some handle\<rparr>))))))"

definition lock_release :: "'w lock_api \<Rightarrow> ('w bench, unit) io" where
  "lock_release api =
     (\<lambda>s. case bw_lock_file s of
            None \<Rightarrow> (Inr (), s)
          | Some handle \<Rightarrow>
              then_io (with_world (fl_unlock api handle)) (
              then_io (with_world (fl_close api handle)) (
              \<lambda>s. (Inr (), s\<lparr>bw_lock_file := None\<rparr>))) s)"

section \<open>The labgrid lease\<close>

record 'w labgrid_lease =
  lg_place :: string
  lg_tool :: "'w tool"

definition labgrid_init :: "string \<Rightarrow> 'w tool \<Rightarrow> exn + 'w labgrid_lease" where
  "labgrid_init place t = (if place = [] then Inl ValueError else Inr \<lparr>lg_place = place, lg_tool = t\<rparr>)"

definition labgrid_command :: "'w labgrid_lease \<Rightarrow> string \<Rightarrow> rat \<Rightarrow> ('w bench, command_evidence) io" where
  "labgrid_command l verb timeout_s =
     bind_io (with_world (tool_resolve (lg_tool l))) (\<lambda>executable.
     bind_io (with_world (tl_runner (lg_tool l) [executable, ''-p'', lg_place l, verb] timeout_s)) (\<lambda>e.
     lift_io (require_success e)))"

definition labgrid_acquire :: "'w labgrid_lease \<Rightarrow> rat \<Rightarrow> ('w bench, command_evidence) io" where
  "labgrid_acquire l timeout_s =
     bind_io (labgrid_command l ''acquire'' timeout_s) (\<lambda>evidence.
     \<lambda>s. (Inr evidence, s\<lparr>bw_lease_acquired := True\<rparr>))"

definition labgrid_show :: "'w labgrid_lease \<Rightarrow> rat \<Rightarrow> ('w bench, command_evidence) io" where
  "labgrid_show l timeout_s = labgrid_command l ''show'' timeout_s"

definition labgrid_release :: "'w labgrid_lease \<Rightarrow> rat \<Rightarrow> ('w bench, command_evidence option) io" where
  "labgrid_release l timeout_s =
     (\<lambda>s. if \<not> bw_lease_acquired s then (Inr None, s)
          else finally_io
                 (bind_io (labgrid_command l ''release'' timeout_s) (\<lambda>e. return_io (Some e)))
                 (\<lambda>s. (Inr (), s\<lparr>bw_lease_acquired := False\<rparr>)) s)"

section \<open>The session\<close>

text \<open>A lease as the session sees it: \<open>acquire()\<close> and \<open>release()\<close> with their results dropped.\<close>

definition discard :: "('s, 'a) io \<Rightarrow> ('s, unit) io" where
  "discard m = bind_io m (\<lambda>_. return_io ())"

lemma discard_results:
  "discard m s = (Inr u, s') \<longleftrightarrow> (\<exists>a. m s = (Inr a, s'))"
  "discard m s = (Inl e, s') \<longleftrightarrow> m s = (Inl e, s')"
  by (auto simp: discard_def bind_io_results return_io_results)

record 's lease =
  le_acquire :: "('s, unit) io"
  le_release :: "('s, unit) io"

definition session_enter :: "(bool \<Rightarrow> ('s, unit) io) \<Rightarrow> 's lease \<Rightarrow> 's lease option \<Rightarrow> ('s, unit) io" where
  "session_enter force_safe lock labgrid =
     then_io (le_acquire lock) (
     catch_io
       (then_io (case labgrid of None \<Rightarrow> return_io () | Some l \<Rightarrow> le_acquire l) (force_safe True))
       (\<lambda>e. then_io (case labgrid of None \<Rightarrow> return_io ()
                     | Some l \<Rightarrow> catch_io (le_release l) (\<lambda>_. return_io ())) (
            then_io (le_release lock) (raise_io e))))"

text \<open>\<open>__exit__\<close>; \<open>failed\<close> tells whether the body of the session raised.\<close>

definition session_exit ::
    "(bool \<Rightarrow> ('s, unit) io) \<Rightarrow> 's lease \<Rightarrow> 's lease option \<Rightarrow> bool \<Rightarrow> ('s, unit) io" where
  "session_exit force_safe lock labgrid failed =
     bind_io (finally_io
        (catch_io (then_io (force_safe True) (return_io None)) (\<lambda>e. return_io (Some e)))
        (case labgrid of
           None \<Rightarrow> le_release lock
         | Some l \<Rightarrow> finally_io (le_release l) (le_release lock))) (\<lambda>safety_error.
     case safety_error of
       Some e \<Rightarrow> if failed then return_io () else raise_io e
     | None \<Rightarrow> return_io ())"

section \<open>The interface of a resource\<close>

text \<open>
  What the session relies on: a failed acquisition changes nothing of what is held, and a release
  that returns has released.
\<close>

locale releasable =
  fixes acquire :: "('s, unit) io"
    and release :: "('s, unit) io"
    and held :: "'s \<Rightarrow> bool"
  assumes acquire_raises: "acquire s = (Inl e, s') \<Longrightarrow> held s' = held s"
    and release_returns: "release s = (Inr (), s') \<Longrightarrow> \<not> held s'"

locale resource = releasable +
  assumes acquire_returns: "acquire s = (Inr (), s') \<Longrightarrow> held s'"

text \<open>A resource that counts as released even when telling so failed.\<close>

locale strict_releasable = releasable +
  assumes release_raises: "release s = (Inl e, s') \<Longrightarrow> \<not> held s'"
begin

lemma released: "release s = (r, s') \<Longrightarrow> \<not> held s'"
  using release_returns release_raises by (cases r) auto

end

text \<open>A lock, a lease and a backend that do not interfere with each other's state.\<close>

locale bench_session =
  lock: resource la lr lheld + lease: strict_releasable ga gr gheld
  for la lr :: "('s, unit) io" and lheld and ga gr :: "('s, unit) io" and gheld +
  fixes fs :: "bool \<Rightarrow> ('s, unit) io"
  assumes la_frame: "la s = (r, s') \<Longrightarrow> gheld s' = gheld s"
    and lr_frame: "lr s = (r, s') \<Longrightarrow> gheld s' = gheld s"
    and ga_frame: "ga s = (r, s') \<Longrightarrow> lheld s' = lheld s"
    and gr_frame: "gr s = (r, s') \<Longrightarrow> lheld s' = lheld s"
    and fs_frame: "fs b s = (r, s') \<Longrightarrow> lheld s' = lheld s \<and> gheld s' = gheld s"
begin

abbreviation enter :: "('s, unit) io" where
  "enter \<equiv> session_enter fs \<lparr>le_acquire = la, le_release = lr\<rparr> (Some \<lparr>le_acquire = ga, le_release = gr\<rparr>)"

abbreviation exit :: "bool \<Rightarrow> ('s, unit) io" where
  "exit \<equiv> session_exit fs \<lparr>le_acquire = la, le_release = lr\<rparr> (Some \<lparr>le_acquire = ga, le_release = gr\<rparr>)"

lemma enter_returns:
  assumes "enter s = (Inr (), s')"
  shows "lheld s' \<and> (\<exists>s1 s2. ga s1 = (Inr (), s2) \<and> fs True s2 = (Inr (), s'))"
proof -
  from assms obtain s1 s2 where "la s = (Inr (), s1)" "ga s1 = (Inr (), s2)" "fs True s2 = (Inr (), s')"
    by (auto simp: session_enter_def io_results)
  moreover from this have "lheld s'"
    using lock.acquire_returns ga_frame fs_frame by metis
  ultimately show ?thesis by blast
qed

lemma enter_raises:
  assumes "enter s = (Inl e, s')" "\<not> lheld s" "\<not> gheld s"
  shows "\<not> gheld s' \<and> (lheld s' \<longrightarrow> (\<exists>s1. lr s1 = (Inl e, s')))"
proof -
  from assms(1) consider "la s = (Inl e, s')"
    | s1 s2 e1 s3 r where "la s = (Inr (), s1)" "then_io ga (fs True) s1 = (Inl e1, s2)" "gr s2 = (r, s3)"
        "then_io lr (raise_io e1 :: ('s, unit) io) s3 = (Inl e, s')"
    by (auto simp: session_enter_def io_results)
  then show ?thesis
  proof cases
    case 1
    then show ?thesis using assms(2,3) lock.acquire_raises la_frame by metis
  next
    case 2
    have g3: "\<not> gheld s3" using lease.released [OF 2(3)] .
    from 2(4) consider "lr s3 = (Inl e, s')" | "lr s3 = (Inr (), s')" by (auto simp: io_results)
    then show ?thesis using g3 lr_frame lock.release_returns by cases metis+
  qed
qed

lemma exit_releases:
  assumes "exit failed s = (r, s')"
  shows "\<not> gheld s' \<and> (lheld s' \<longrightarrow> (\<exists>s1 e. r = Inl e \<and> lr s1 = (Inl e, s')))
    \<and> (r = Inr () \<longrightarrow> failed \<or> (\<exists>s1. fs True s = (Inr (), s1)))"
proof -
  obtain r1 s1 where f: "fs True s = (r1, s1)" by (rule prod.exhaust)
  obtain r2 s2 where g: "gr s1 = (r2, s2)" by (rule prod.exhaust)
  obtain r3 s3 where l: "lr s2 = (r3, s3)" by (rule prod.exhaust)
  have "s' = s3 \<and> (\<forall>e. r3 = Inl e \<longrightarrow> r = Inl e) \<and> (r = Inr () \<longrightarrow> failed \<or> r1 = Inr ())"
    using assms f g l
    by (cases r1; cases r2; cases r3)
      (auto simp: session_exit_def bind_io_apply finally_io_apply catch_io_apply then_io_apply
        return_io_apply raise_io_apply split: if_splits)
  moreover have "\<not> gheld s3" using lease.released [OF g] lr_frame [OF l] by simp
  ultimately show ?thesis using l f lock.release_returns by (cases r3) auto
qed

end

section \<open>The providers\<close>

definition file_lock :: "'w lock_api \<Rightarrow> string \<Rightarrow> 'w bench lease" where
  "file_lock api resource_id =
     \<lparr>le_acquire = lock_acquire api resource_id False, le_release = lock_release api\<rparr>"

definition place_lease :: "'w labgrid_lease \<Rightarrow> 'w bench lease" where
  "place_lease l = \<lparr>le_acquire = discard (labgrid_acquire l 10), le_release = discard (labgrid_release l 10)\<rparr>"

definition no_lease :: "'s lease" where
  "no_lease = \<lparr>le_acquire = return_io (), le_release = return_io ()\<rparr>"

lemma session_no_lease:
  fixes lock :: "'s lease"
  shows "session_enter fs lock None = session_enter fs lock (Some no_lease)"
  "session_exit fs lock None failed = session_exit fs lock (Some no_lease) failed"
proof -
  have "catch_io (return_io ()) h = return_io ()" for h :: "exn \<Rightarrow> ('s, unit) io"
    by (simp add: fun_eq_iff catch_io_apply return_io_apply)
  then show "session_enter fs lock None = session_enter fs lock (Some no_lease)"
    by (simp add: session_enter_def no_lease_def)
  have "finally_io (return_io ()) m = m" for m :: "('s, unit) io"
    by (auto simp: fun_eq_iff finally_io_apply return_io_apply split: prod.splits sum.splits)
  then show "session_exit fs lock None failed = session_exit fs lock (Some no_lease) failed"
    by (simp add: session_exit_def no_lease_def)
qed

definition file_locked :: "'w bench \<Rightarrow> bool" where
  "file_locked s \<longleftrightarrow> bw_lock_file s \<noteq> None"

lemma file_held_world [simp]: "file_locked (s\<lparr>bw_world := w\<rparr>) = file_locked s"
  "bw_lease_acquired (s\<lparr>bw_world := w\<rparr>) = bw_lease_acquired s"
  by (simp_all add: file_locked_def)

lemma lock_acquire_outcome:
  "lock_acquire api rid b s = (r, s') \<Longrightarrow> bw_lease_acquired s' = bw_lease_acquired s
     \<and> (isl r \<longrightarrow> file_locked s' = file_locked s) \<and> (\<not> isl r \<longrightarrow> file_locked s')"
  by (cases r) (auto simp: file_locked_def lock_acquire_def io_results with_world_results split: if_splits)

lemma lock_release_outcome:
  "lock_release api s = (r, s') \<Longrightarrow> bw_lease_acquired s' = bw_lease_acquired s
     \<and> (r = Inr () \<longrightarrow> \<not> file_locked s')"
  by (cases r) (auto simp: file_locked_def lock_release_def io_results with_world_results split: option.splits)

lemma labgrid_command_frame:
  "labgrid_command l verb t s = (r, s') \<Longrightarrow> file_locked s' = file_locked s
     \<and> bw_lease_acquired s' = bw_lease_acquired s"
  by (cases r) (auto simp: labgrid_command_def io_results with_world_results)

lemma labgrid_acquire_outcome:
  "labgrid_acquire l t s = (r, s') \<Longrightarrow> file_locked s' = file_locked s
     \<and> (isl r \<longrightarrow> bw_lease_acquired s' = bw_lease_acquired s) \<and> (\<not> isl r \<longrightarrow> bw_lease_acquired s')"
  by (cases r) (auto simp: labgrid_acquire_def file_locked_def io_results dest: labgrid_command_frame)

lemma labgrid_release_outcome:
  "labgrid_release l t s = (r, s') \<Longrightarrow> file_locked s' = file_locked s \<and> \<not> bw_lease_acquired s'"
  by (cases r) (auto simp: labgrid_release_def file_locked_def io_results dest: labgrid_command_frame split: if_splits)

interpretation bench_lock: resource "lock_acquire api rid False" "lock_release api" file_locked
  for api :: "'w lock_api" and rid
  by unfold_locales (auto dest!: lock_acquire_outcome lock_release_outcome)

interpretation place: strict_releasable "discard (labgrid_acquire l 10)" "discard (labgrid_release l 10)" bw_lease_acquired
  for l :: "'w labgrid_lease"
  by unfold_locales (auto simp: discard_results dest!: labgrid_acquire_outcome labgrid_release_outcome)

interpretation leased: bench_session "lock_acquire api rid False" "lock_release api" file_locked
  "discard (labgrid_acquire l 10)" "discard (labgrid_release l 10)" bw_lease_acquired "\<lambda>b. with_world (fs b)"
  for api :: "'w lock_api" and rid and l :: "'w labgrid_lease" and fs
proof unfold_locales
  show "discard (labgrid_acquire l 10) s = (r, s') \<Longrightarrow> file_locked s' = file_locked s" for s r s'
    by (cases r) (auto simp: discard_results dest!: labgrid_acquire_outcome)
  show "discard (labgrid_release l 10) s = (r, s') \<Longrightarrow> file_locked s' = file_locked s" for s r s'
    by (cases r) (auto simp: discard_results dest!: labgrid_release_outcome)
qed (auto dest!: lock_acquire_outcome lock_release_outcome simp: with_world_results)

interpretation unleased: bench_session "lock_acquire api rid False" "lock_release api" file_locked
  "return_io ()" "return_io ()" "\<lambda>s. False" "\<lambda>b. with_world (fs b)"
  for api :: "'w lock_api" and rid and fs
  by unfold_locales (auto simp: return_io_def with_world_results)

section \<open>Properties\<close>



text \<open>C36: the lock's \<open>acquire\<close> has no clean-up after the lock is taken: if writing the owner record
  raises (a full disk), the exception propagates with the file locked and its handle forgotten, and the
  session's own clean-up, \<open>release()\<close>, finds nothing to release and leaves the world as it is.\<close>
theorem owner_record_failure_strands_lock:
  assumes "fl_available api" "fl_mkdir api w = (Inr (), w1)" "fl_open api w1 = (Inr h, w2)"
    and "fl_flock api (\<not> blocking) h w2 = (Inr (), w3)" "fl_write_owner api h rid w3 = (Inl e, w4)"
    and "\<not> file_locked s" "bw_world s = w"
  shows "lock_acquire api rid blocking s = (Inl e, s\<lparr>bw_world := w4\<rparr>)
    \<and> lock_release api (s\<lparr>bw_world := w4\<rparr>) = (Inr (), s\<lparr>bw_world := w4\<rparr>)"
  using assms
  by (auto simp: lock_acquire_def lock_release_def then_io_apply bind_io_apply ensure_io_apply catch_io_apply
      with_world_def file_locked_def)

section \<open>A bench to run a session on\<close>

text \<open>The world: whether the file is locked, and whether the backend is safe.\<close>

definition demo_lock_api :: "bool \<Rightarrow> (bool \<times> bool) lock_api" where
  "demo_lock_api disk_full =
     \<lparr>fl_available = True, fl_mkdir = return_io (), fl_open = return_io 3,
      fl_flock = (\<lambda>nb h w. if fst w then (Inl BlockingIOError, w) else (Inr (), (True, snd w))),
      fl_write_owner = (\<lambda>h r w. if disk_full then (Inl OSError, w) else (Inr (), w)),
      fl_unlock = (\<lambda>h w. (Inr (), (False, snd w))), fl_close = (\<lambda>h. return_io ())\<rparr>"

definition demo_tool :: "(bool \<times> bool) tool" where
  "demo_tool =
     \<lparr>tl_executable = ''labgrid-client'',
      tl_runner = (\<lambda>argv t. return_io \<lparr>ce_argv = argv, ce_returncode = 0, ce_stdout = [], ce_stderr = [],
                                         ce_duration_ns = 1\<rparr>),
      tl_which = (\<lambda>n. return_io (Some (''/usr/bin/'' @ n)))\<rparr>"

definition demo_bench :: "(bool \<times> bool) bench" where
  "demo_bench = \<lparr>bw_world = (False, False), bw_lock_file = None, bw_lease_acquired = False\<rparr>"

lemmas demo_bench_defs = demo_bench_def demo_tool_def demo_lock_api_def



lemma owner_record_failure_strands_lock_witness:
  "lock_acquire (demo_lock_api True) ''r1'' False demo_bench = (Inl OSError, demo_bench\<lparr>bw_world := (True, False)\<rparr>)"
  using owner_record_failure_strands_lock [of "demo_lock_api True" "(False, False)" "(False, False)" 3
      "(False, False)" False "(True, False)" "''r1''" OSError "(True, False)" demo_bench]
  by (simp add: demo_lock_api_def demo_bench_def return_io_apply file_locked_def)

end
