(* ===== verification/Scenario.thy ===== *)
theory Scenario
  imports Hil_Core
begin

text \<open>
  \<open>host/hil/scenario.py\<close>: scenario documents, as parsed JSON values, and their validation.
\<close>

abbreviation (input) SCENARIO_VERSION :: int where "SCENARIO_VERSION \<equiv> 1"

record scenario_step =
  ss_at_ticks :: int
  ss_action :: string
  ss_args :: "(string \<times> pyval) list"

definition mk_scenario_step :: "int \<Rightarrow> string \<Rightarrow> (string \<times> pyval) list \<Rightarrow> exn + scenario_step" where
  "mk_scenario_step at_ticks action args =
     (if at_ticks < 0 then Inl ValueError
      else if action = [] then Inl ValueError
      else Inr \<lparr>ss_at_ticks = at_ticks, ss_action = action, ss_args = args\<rparr>)"

record scenario =
  sn_name :: string
  sn_required_capabilities :: "capability set"
  sn_steps :: "scenario_step list"
  sn_version :: pyval

definition validate_against :: "scenario \<Rightarrow> backend_identity \<Rightarrow> exn + unit" where
  "validate_against s ident =
     (if sn_required_capabilities s - capabilities ident \<noteq> {} then Inl InvalidConfiguration else Inr ())"

text \<open>\<open>version != SCENARIO_VERSION\<close>: Python's \<open>True\<close> and \<open>1.0\<close> equal \<open>1\<close>.\<close>

fun version_is_supported :: "pyval \<Rightarrow> bool" where
  "version_is_supported (PInt i) = (i = SCENARIO_VERSION)"
| "version_is_supported (PBool b) = b"
| "version_is_supported (PFloat x) = (x = 1)"
| "version_is_supported _ = False"

definition capability_of :: "string \<Rightarrow> exn + capability" where
  "capability_of v = (case cap_of_value v of None \<Rightarrow> Inl ValueError | Some c \<Rightarrow> Inr c)"

fun as_str :: "pyval \<Rightarrow> string" where
  "as_str (PStr s) = s"
| "as_str _ = []"

text \<open>The value of a Python int, which a bool is too.\<close>

fun int_value :: "pyval \<Rightarrow> int" where
  "int_value (PInt i) = i"
| "int_value (PBool b) = (if b then 1 else 0)"
| "int_value _ = 0"

primrec scenario_steps :: "int \<Rightarrow> pyval list \<Rightarrow> exn + scenario_step list" where
  "scenario_steps previous [] = Inr []"
| "scenario_steps previous (raw # raws) =
     (case raw of
        PDict d \<Rightarrow>
          let at_ticks = dict_get d ''at_ticks'' PNone; action = dict_get d ''action'' PNone;
              args = dict_get d ''args'' (PDict [])
          in if \<not> is_int at_ticks then Inl ValueError
             else if \<not> is_str action \<or> as_str action = [] then Inl ValueError
             else (case args of
                 PDict a \<Rightarrow>
                   if int_value at_ticks < previous then Inl ValueError
                   else bind_exn (mk_scenario_step (int_value at_ticks) (as_str action) a) (\<lambda>step.
                        bind_exn (scenario_steps (int_value at_ticks) raws) (\<lambda>steps.
                        Inr (step # steps)))
               | _ \<Rightarrow> Inl ValueError)
      | _ \<Rightarrow> Inl ValueError)"

definition scenario_from_dict :: "(string \<times> pyval) list \<Rightarrow> exn + scenario" where
  "scenario_from_dict document =
     (let version = dict_get document ''version'' PNone; name = dict_get document ''name'' PNone in
      if \<not> version_is_supported version then Inl ValueError
      else if \<not> is_str name \<or> as_str name = [] then Inl ValueError
      else case dict_get document ''required_capabilities'' (PList []) of
        PList raw_caps \<Rightarrow>
          if \<not> list_all is_str raw_caps then Inl ValueError
          else bind_exn (map_exn (\<lambda>v. capability_of (as_str v)) raw_caps) (\<lambda>caps.
            case dict_get document ''steps'' PNone of
              PList raw_steps \<Rightarrow>
                if raw_steps = [] then Inl ValueError
                else bind_exn (scenario_steps (- 1) raw_steps) (\<lambda>steps.
                  Inr \<lparr>sn_name = as_str name, sn_required_capabilities = set caps, sn_steps = steps,
                       sn_version = version\<rparr>)
            | _ \<Rightarrow> Inl ValueError)
      | _ \<Rightarrow> Inl ValueError)"

text \<open>\<open>load_scenario\<close> on the value \<open>json.load\<close> gave.\<close>

definition load_scenario :: "exn + pyval \<Rightarrow> exn + scenario" where
  "load_scenario json =
     bind_exn json (\<lambda>document. case document of PDict d \<Rightarrow> scenario_from_dict d | _ \<Rightarrow> Inl ValueError)"

section \<open>Properties\<close>

text \<open>What a scenario that was accepted satisfies.\<close>

definition scenario_ok :: "scenario \<Rightarrow> bool" where
  "scenario_ok s \<longleftrightarrow>
     sn_name s \<noteq> [] \<and> sn_steps s \<noteq> []
     \<and> sorted (map ss_at_ticks (sn_steps s))
     \<and> list_all (\<lambda>t. 0 \<le> ss_at_ticks t \<and> ss_action t \<noteq> []) (sn_steps s)"

lemma scenario_steps_ok:
  "scenario_steps p raws = Inr steps \<Longrightarrow>
     length steps = length raws \<and> sorted (map ss_at_ticks steps)
     \<and> list_all (\<lambda>t. 0 \<le> ss_at_ticks t \<and> p \<le> ss_at_ticks t \<and> ss_action t \<noteq> []) steps"
proof (induction raws arbitrary: p steps)
  case (Cons raw raws)
  then obtain d a step rest where raw: "raw = PDict d"
    and step: "mk_scenario_step (int_value (dict_get d ''at_ticks'' PNone)) (as_str (dict_get d ''action'' PNone)) a = Inr step"
    and le: "p \<le> int_value (dict_get d ''at_ticks'' PNone)"
    and rest: "scenario_steps (int_value (dict_get d ''at_ticks'' PNone)) raws = Inr rest"
    and steps: "steps = step # rest"
    by (auto simp: Let_def bind_exn_Inr split: pyval.split_asm if_split_asm)
  from step have s: "ss_at_ticks step = int_value (dict_get d ''at_ticks'' PNone)" "0 \<le> ss_at_ticks step"
    "ss_action step \<noteq> []"
    by (auto simp: mk_scenario_step_def split: if_splits)
  from Cons.IH [OF rest] s le show ?case
    unfolding steps by (auto simp: list_all_iff)
qed simp

lemma scenario_steps_error: "scenario_steps p raws = Inl e \<Longrightarrow> e = ValueError"
  by (induction raws arbitrary: p)
    (auto simp: Let_def bind_exn_Inl mk_scenario_step_def split: pyval.split_asm if_split_asm)

lemma capability_of_Inr: "capability_of v = Inr c \<longleftrightarrow> cap_value c = v"
  by (cases "cap_of_value v") (auto simp: capability_of_def simp flip: cap_of_value_Some)

lemma map_capabilities_error: "map_exn (\<lambda>v. capability_of (as_str v)) vs = Inl e \<Longrightarrow> e = ValueError"
  by (induction vs) (auto simp: bind_exn_Inl capability_of_def split: option.splits)

text \<open>C30: a document that loads is a well-formed scenario, and only a \<open>ValueError\<close> is raised for one that
  does not: the name is non-empty, the capabilities are exactly those whose wire names are listed, there is a step
  for each listed step, with non-negative ticks that never decrease and a non-empty action; running
  it on a backend is then refused exactly when the backend lacks one of the capabilities.\<close>
theorem scenario_loaded:
  "case scenario_from_dict document of
     Inr s \<Rightarrow> scenario_ok s
       \<and> (\<exists>caps steps. dict_get document ''required_capabilities'' (PList []) = PList (map PStr caps)
            \<and> sn_required_capabilities s = {c. cap_value c \<in> set caps}
            \<and> set caps \<subseteq> range cap_value
            \<and> dict_get document ''steps'' PNone = PList steps \<and> length (sn_steps s) = length steps)
       \<and> (validate_against s ident = (if sn_required_capabilities s \<subseteq> capabilities ident then Inr ()
            else Inl InvalidConfiguration))
   | Inl e \<Rightarrow> e = ValueError"
proof (cases "scenario_from_dict document")
  case (Inl e)
  then have "e = ValueError"
    by (cases "dict_get document ''steps'' PNone"; cases "dict_get document ''required_capabilities'' (PList [])")
      (auto simp: scenario_from_dict_def Let_def bind_exn_Inl dest: scenario_steps_error map_capabilities_error
        split: pyval.split_asm if_split_asm)
  with Inl show ?thesis by simp
next
  case (Inr s)
  then obtain raw_caps caps steps raw_steps name where
    rc: "dict_get document ''required_capabilities'' (PList []) = PList raw_caps" "list_all is_str raw_caps"
    and caps: "map_exn (\<lambda>v. capability_of (as_str v)) raw_caps = Inr caps"
    and st: "dict_get document ''steps'' PNone = PList raw_steps" "raw_steps \<noteq> []"
    and steps: "scenario_steps (- 1) raw_steps = Inr steps"
    and s: "sn_name s = name" "name \<noteq> []" "sn_required_capabilities s = set caps" "sn_steps s = steps"
    by (cases "dict_get document ''steps'' PNone"; cases "dict_get document ''required_capabilities'' (PList [])")
      (auto simp: scenario_from_dict_def Let_def bind_exn_Inr split: if_split_asm)
  have strs: "raw_caps = map PStr (map as_str raw_caps)"
    using rc(2) by (induction raw_caps) (auto elim: is_str.elims)
  from caps have all: "list_all2 (\<lambda>v c. cap_value c = as_str v) raw_caps caps"
    by (simp add: map_exn_Inr capability_of_Inr)
  have names: "map cap_value caps = map as_str raw_caps"
    using all by (induction rule: list_all2_induct) auto
  have "set caps = {c. cap_value c \<in> set (map as_str raw_caps)}"
    unfolding names [symmetric] using cap_value_inj by auto
  moreover have "set (map as_str raw_caps) \<subseteq> range cap_value"
    unfolding names [symmetric] by auto
  moreover have ok: "scenario_ok s"
    using scenario_steps_ok [OF steps] st(2) s by (auto simp: scenario_ok_def list_all_iff)
  moreover have "length (sn_steps s) = length raw_steps" using scenario_steps_ok [OF steps] s by simp
  moreover have "dict_get document ''required_capabilities'' (PList []) = PList (map PStr (map as_str raw_caps))"
    using rc(1) arg_cong [OF strs, of PList] by (rule trans)
  ultimately have "\<exists>caps steps. dict_get document ''required_capabilities'' (PList []) = PList (map PStr caps)
      \<and> sn_required_capabilities s = {c. cap_value c \<in> set caps} \<and> set caps \<subseteq> range cap_value
      \<and> dict_get document ''steps'' PNone = PList steps \<and> length (sn_steps s) = length steps"
    using st(1) s(3) by (intro exI [of _ "map as_str raw_caps"] exI [of _ raw_steps] conjI; simp only:)
  with Inr ok show ?thesis by (auto simp: validate_against_def)
qed

end
