(* ===== verification/Encoders.thy ===== *)
theory Encoders
  imports Py_Float Py_Bytes
begin

text \<open>
  The encoder helpers of the BeagleBone host: the ABZ timing and configuration flags
  (\<open>hil_abz.py\<close>) and the BiSS frames with their CRC-6 (\<open>hil_sensor.py\<close>).
\<close>

section \<open>ABZ\<close>

definition transition_ticks_from_rpm :: "rounding \<Rightarrow> rat \<Rightarrow> int \<Rightarrow> int \<Rightarrow> exn + int" where
  "transition_ticks_from_rpm fl rpm ppr tick_hz =
     (if rpm \<le> 0 then Inl ValueError
      else if ppr \<le> 0 then Inl ValueError
      else if tick_hz \<le> 0 then Inl ValueError
      else
        let transitions_per_second = fl (fl (fl (rpm / 60) * fl (of_int ppr)) * 4)
        in bind_exn (fdiv fl (fl (of_int tick_hz)) transitions_per_second) (\<lambda>t. Inr (py_round t)))"

definition transition_ticks_from_hz :: "rounding \<Rightarrow> rat \<Rightarrow> int \<Rightarrow> exn + int" where
  "transition_ticks_from_hz fl transition_hz tick_hz =
     (if transition_hz \<le> 0 then Inl ValueError
      else if tick_hz \<le> 0 then Inl ValueError
      else bind_exn (fdiv fl (fl (of_int tick_hz)) transition_hz) (\<lambda>t. Inr (py_round t)))"

text \<open>The quotient of two ints is rounded once.\<close>

definition rpm_from_transition_ticks :: "rounding \<Rightarrow> int \<Rightarrow> int \<Rightarrow> int \<Rightarrow> exn + rat" where
  "rpm_from_transition_ticks fl transition_ticks ppr tick_hz =
     (if transition_ticks \<le> 0 then Inl ValueError
      else if ppr \<le> 0 then Inl ValueError
      else if tick_hz \<le> 0 then Inl ValueError
      else
        let transition_hz = fl (of_int tick_hz / of_int transition_ticks)
        in fdiv fl (fl (transition_hz * 60)) (fl (fl (of_int ppr) * 4)))"

definition encode_config_flags :: "string \<Rightarrow> int \<Rightarrow> exn + int" where
  "encode_config_flags direction initial_phase =
     (if direction \<notin> {''forward'', ''reverse''} then Inl ValueError
      else if initial_phase \<notin> {0, 1, 2, 3} then Inl ValueError
      else
        let direction_bit = (if direction = ''forward'' then 0 else 1)
        in Inr (direction_bit OR push_bit 8 initial_phase))"

definition decode_config_flags :: "int \<Rightarrow> string \<times> int" where
  "decode_config_flags flags =
     (if flags AND 1 \<noteq> 0 then ''reverse'' else ''forward'', drop_bit 8 flags AND 3)"

section \<open>BiSS\<close>

abbreviation (input) SERIAL_MODE_SSI :: int where "SERIAL_MODE_SSI \<equiv> 1"
abbreviation (input) SERIAL_MODE_BISS :: int where "SERIAL_MODE_BISS \<equiv> 2"
abbreviation (input) SERIAL_MODE_SPI :: int where "SERIAL_MODE_SPI \<equiv> 3"
abbreviation (input) SERIAL_FLAG_FAULT_ENABLE :: int where "SERIAL_FLAG_FAULT_ENABLE \<equiv> 1"
abbreviation (input) SERIAL_FLAG_BISS_ERROR_OK :: int where "SERIAL_FLAG_BISS_ERROR_OK \<equiv> 2"
abbreviation (input) SERIAL_FLAG_BISS_WARNING_OK :: int where "SERIAL_FLAG_BISS_WARNING_OK \<equiv> 4"

definition crc6_step :: "int \<Rightarrow> int \<Rightarrow> int" where
  "crc6_step b crc =
     (let feedback = (drop_bit 5 crc AND 1) XOR b;
          crc = push_bit 1 crc AND 0x3F
      in if feedback \<noteq> 0 then crc XOR 0x03 else crc)"

definition position_mask :: "nat \<Rightarrow> int" where
  "position_mask n = (if n < 32 then push_bit n 1 - 1 else 0xFFFFFFFF)"

text \<open>The bits of a value at the given indices, fed to the register.\<close>

definition crc6_feed :: "int \<Rightarrow> nat list \<Rightarrow> int \<Rightarrow> int" where
  "crc6_feed v idxs crc = fold (\<lambda>i. crc6_step (drop_bit i v AND 1)) idxs crc"

definition crc6_biss :: "int \<Rightarrow> int \<Rightarrow> int \<Rightarrow> int \<Rightarrow> exn + int" where
  "crc6_biss position position_bits error_ok warning_ok =
     (if \<not> (1 \<le> position_bits \<and> position_bits \<le> 32) then Inl ValueError
      else
        let n = nat position_bits;
            position = position AND position_mask n;
            crc = crc6_feed position (rev [0..<n]) 0;
            status = push_bit 1 (error_ok AND 1) OR (warning_ok AND 1);
            crc = crc6_feed status [1, 0] crc
        in Inr (NOT crc AND 0x3F))"

definition build_biss_frame :: "int \<Rightarrow> int \<Rightarrow> int \<Rightarrow> int \<Rightarrow> exn + int \<times> int" where
  "build_biss_frame position position_bits error_ok warning_ok =
     (if \<not> (1 \<le> position_bits \<and> position_bits \<le> 32) then Inl ValueError
      else
        let n = nat position_bits;
            position = position AND position_mask n
        in bind_exn (crc6_biss position position_bits error_ok warning_ok) (\<lambda>crc.
        let frame = push_bit 1 0 OR 0;
            frame = push_bit 1 frame OR 1;
            frame = push_bit 1 frame OR 0;
            frame = push_bit n frame OR position;
            frame = push_bit 1 frame OR (error_ok AND 1);
            frame = push_bit 1 frame OR (warning_ok AND 1);
            frame = push_bit 6 frame OR crc
        in Inr (frame, position_bits + 11)))"

definition mode_name :: "int \<Rightarrow> string" where
  "mode_name mode =
     (case map_of [(SERIAL_MODE_SSI, ''ssi''), (SERIAL_MODE_BISS, ''biss''), (SERIAL_MODE_SPI, ''spi'')] mode of
        Some n \<Rightarrow> n
      | None \<Rightarrow> ''unknown-'' @ str_int mode)"

section \<open>Properties\<close>

text \<open>The ABZ configuration word is exact: encoding succeeds precisely for the two directions and the
  phases 0 to 3, the word decodes to what was encoded, and the phase decoded from any word is
  between 0 and 3.\<close>
theorem config_flags_exact:
  "((\<exists>w. encode_config_flags d p = Inr w) \<longleftrightarrow> d \<in> {''forward'', ''reverse''} \<and> 0 \<le> p \<and> p \<le> 3)
   \<and> (case encode_config_flags d p of Inr w \<Rightarrow> decode_config_flags w = (d, p) | Inl e \<Rightarrow> e = ValueError)
   \<and> snd (decode_config_flags v) \<in> {0..3} \<and> fst (decode_config_flags v) \<in> {''forward'', ''reverse''}"
proof -
  have p: "p \<in> {0, 1, 2, 3} \<longleftrightarrow> 0 \<le> p \<and> p \<le> 3" by auto
  have "decode_config_flags w = (d, p)" if "encode_config_flags d p = Inr w" for w
    using that by (auto simp: encode_config_flags_def decode_config_flags_def Let_def split: if_splits)
  moreover have "drop_bit 8 v AND 3 \<in> {0..3}" by (simp add: and_3)
  ultimately show ?thesis
    unfolding encode_config_flags_def p by (auto simp: decode_config_flags_def Let_def)
qed

text \<open>The CRC register as a linear map.\<close>

lemma bit_crc6_step:
  "bit (crc6_step (of_bool p) c) n \<longleftrightarrow>
    n < 6 \<and> ((1 \<le> n \<and> bit c (n - 1)) \<noteq> (n < 2 \<and> (bit c 5 \<noteq> p)))"
proof -
  have m: "bit (0x3F :: int) n \<longleftrightarrow> n < 6" "bit (0x03 :: int) n \<longleftrightarrow> n < 2"
    using bit_mask_iff [of 6 n, where 'a = int] bit_mask_iff [of 2 n, where 'a = int]
    by (simp_all add: mask_eq_exp_minus_1)
  have pb: "bit (push_bit 1 c) n \<longleftrightarrow> 1 \<le> n \<and> bit c (n - 1)"
    by (simp only: bit_push_bit_iff possible_bit_int simp_thms)
  have f: "(drop_bit 5 c AND 1) XOR of_bool p \<noteq> 0 \<longleftrightarrow> bit c 5 \<noteq> p"
    by (cases p) (auto simp: and_one_eq bit_iff_odd_drop_bit mod_2_eq_odd)
  have "crc6_step (of_bool p) c = (push_bit 1 c AND 0x3F) XOR (if bit c 5 \<noteq> p then 0x03 else 0)"
    unfolding crc6_step_def Let_def f by simp
  moreover have "bit (if bit c 5 \<noteq> p then 0x03 else 0 :: int) n \<longleftrightarrow> n < 2 \<and> bit c 5 \<noteq> p"
    using m(2) by simp
  ultimately show ?thesis
    by (simp only: bit_xor_iff bit_and_iff pb m) auto
qed

lemma feed_bit: "drop_bit i v AND 1 = of_bool (bit v i)" for v :: int
  by (auto simp: and_one_eq bit_iff_odd_drop_bit mod_2_eq_odd)

lemma crc6_feed_bits: "crc6_feed v is c = fold (\<lambda>i. crc6_step (of_bool (bit v i))) is c"
  by (simp add: crc6_feed_def feed_bit)

lemma crc6_step_linear:
  "crc6_step (of_bool (p \<noteq> q)) (c XOR d) = crc6_step (of_bool p) c XOR crc6_step (of_bool q) d"
  by (rule bit_eqI) (simp only: bit_crc6_step bit_xor_iff, blast)

lemma crc6_feed_linear: "crc6_feed (v XOR w) is (c XOR d) = crc6_feed v is c XOR crc6_feed w is d"
  unfolding crc6_feed_bits bit_xor_iff
  by (induction "is" arbitrary: c d) (simp_all only: fold_simps crc6_step_linear)

lemma crc6_feed_append: "crc6_feed v (xs @ ys) c = crc6_feed v ys (crc6_feed v xs c)"
  by (simp add: crc6_feed_def)

lemma crc6_feed_cong: "(\<And>i. i \<in> set is \<Longrightarrow> bit v i = bit w i) \<Longrightarrow> crc6_feed v is c = crc6_feed w is c"
  unfolding crc6_feed_bits by (induction "is" arbitrary: c) simp_all

lemma crc6_step_range: "0 \<le> crc6_step (of_bool p) c \<and> crc6_step (of_bool p) c < 64"
proof -
  have a: "x AND 0x3F = x mod 64" for x :: int
  proof -
    have "x AND mask 6 = take_bit 6 x" by (simp add: take_bit_eq_mask)
    then show ?thesis by (simp add: mask_eq_exp_minus_1 take_bit_eq_mod)
  qed
  have "(x :: int) XOR 3 < 64" "0 \<le> x XOR 3" if "0 \<le> x" "x < 64" for x
    using XOR_upper [of x 6 3] that by simp_all
  then show ?thesis by (simp add: crc6_step_def Let_def a)
qed

text \<open>A burst of at most six bits at index \<open>k\<close>, seen by the register started at zero.\<close>

lemma crc6_zeros_keep: "c \<noteq> 0 \<Longrightarrow> 0 \<le> c \<Longrightarrow> c < 64 \<Longrightarrow>
    crc6_feed 0 is c \<noteq> 0 \<and> 0 \<le> crc6_feed 0 is c \<and> crc6_feed 0 is c < 64"
proof (induction "is" arbitrary: c)
  case (Cons i "is")
  have all: "list_all (\<lambda>c. crc6_step 0 c \<noteq> 0) [1..63]" by code_simp
  have "crc6_step 0 c \<noteq> 0" using all Cons.prems by (simp add: list_all_iff)
  with Cons.IH [of "crc6_step 0 c"] crc6_step_range [of False c] show ?case
    by (simp add: crc6_feed_def)
qed (simp add: crc6_feed_def)

lemma crc6_zero_start: "crc6_feed 0 is 0 = 0"
proof -
  have "crc6_step 0 0 = 0" by code_simp
  then show ?thesis by (induction "is") (simp_all add: crc6_feed_def)
qed

lemma upt_split: "i \<le> j \<Longrightarrow> j \<le> k \<Longrightarrow> [i..<k] = [i..<j] @ [j..<k]"
  using upt_add_eq_append [of i j "k - j"] by simp

lemma crc6_burst:
  assumes "0 < e" "e < 64" "push_bit k e < 2 ^ n"
  shows "crc6_feed (push_bit k e) (rev [0..<n]) 0 \<noteq> 0"
proof -
  let ?v = "push_bit k e"
  let ?m = "max n (k + 6)"
  have hi: "\<not> bit ?v i" if "n \<le> i" for i
  proof -
    have "take_bit n ?v = ?v" using assms by (intro take_bit_int_eq_self) simp_all
    with that show ?thesis by (metis bit_take_bit_iff linorder_not_less)
  qed
  have "rev [0..<?m] = rev [n..<?m] @ rev [0..<n]"
    using upt_split [of 0 n ?m] by simp
  then have "crc6_feed ?v (rev [0..<?m]) 0 = crc6_feed ?v (rev [0..<n]) (crc6_feed ?v (rev [n..<?m]) 0)"
    by (simp add: crc6_feed_append)
  also have "crc6_feed ?v (rev [n..<?m]) 0 = 0"
    using crc6_feed_cong [of "rev [n..<?m]" ?v 0 0] hi crc6_zero_start by auto
  finally have up: "crc6_feed ?v (rev [0..<n]) 0 = crc6_feed ?v (rev [0..<?m]) 0" by simp
  have "[0..<?m] = [0..<k] @ [k..<k + 6] @ [k + 6..<?m]"
    using upt_split [of 0 k ?m] upt_split [of k "k + 6" ?m] by simp
  then have "crc6_feed ?v (rev [0..<?m]) 0
      = crc6_feed ?v (rev [0..<k]) (crc6_feed ?v (rev [k..<k + 6]) (crc6_feed ?v (rev [k + 6..<?m]) 0))"
    by (simp add: crc6_feed_append)
  also have "crc6_feed ?v (rev [k + 6..<?m]) 0 = 0"
  proof -
    have "\<not> bit ?v i" if "k + 6 \<le> i" for i
    proof -
      have "take_bit 6 e = e" using assms by (intro take_bit_int_eq_self) simp_all
      then have "bit e (i - k) = bit (take_bit 6 e) (i - k)" by simp
      moreover have "\<not> i - k < 6" using that by linarith
      ultimately have "\<not> bit e (i - k)" by (metis bit_take_bit_iff)
      then show ?thesis by (simp add: bit_push_bit_iff)
    qed
    then show ?thesis using crc6_feed_cong [of "rev [k + 6..<?m]" ?v 0 0] crc6_zero_start by auto
  qed
  also have "crc6_feed ?v (rev [k..<k + 6]) 0 = crc6_feed e (rev [0..<6]) 0"
  proof -
    have "[k..<k + 6] = map (\<lambda>i. k + i) [0..<6]"
      by (rule nth_equalityI) simp_all
    then have "rev [k..<k + 6] = map (\<lambda>i. k + i) (rev [0..<6])"
      by (simp only: rev_map)
    moreover have "bit ?v (k + i) = bit e i" for i by (simp add: bit_push_bit_iff)
    ultimately show ?thesis by (simp only: crc6_feed_bits fold_map comp_def)
  qed
  finally have all: "crc6_feed ?v (rev [0..<n]) 0 = crc6_feed ?v (rev [0..<k]) (crc6_feed e (rev [0..<6]) 0)"
    unfolding up .
  have "list_all (\<lambda>e. crc6_feed e (rev [0..<6]) 0 \<noteq> 0 \<and> 0 \<le> crc6_feed e (rev [0..<6]) 0
      \<and> crc6_feed e (rev [0..<6]) 0 < 64) [1..63]" by code_simp
  then have w: "crc6_feed e (rev [0..<6]) 0 \<noteq> 0" "0 \<le> crc6_feed e (rev [0..<6]) 0"
    "crc6_feed e (rev [0..<6]) 0 < 64" using assms(1,2) by (auto simp: list_all_iff)
  have "crc6_feed ?v (rev [0..<k]) c = crc6_feed 0 (rev [0..<k]) c" for c
    by (rule crc6_feed_cong) (simp add: bit_push_bit_iff)
  with crc6_zeros_keep [OF w] all show ?thesis by simp
qed

text \<open>C32: the BiSS check sum detects every error burst of at most six bits in the position: two
  positions of the same width that differ, and differ only inside six neighbouring bits, never have the
  same CRC for the same status bits.\<close>
theorem crc6_detects_bursts:
  assumes "1 \<le> n" "n \<le> 32" "0 \<le> p" "p < 2 ^ nat n" "0 \<le> q" "q < 2 ^ nat n"
    and "p XOR q = push_bit k e" "0 < e" "e < 64"
  shows "crc6_biss p n err warn \<noteq> crc6_biss q n err warn"
proof
  assume eq: "crc6_biss p n err warn = crc6_biss q n err warn"
  have mask: "position_mask (nat n) = mask (nat n)"
    using assms(1,2) by (cases "n = 32") (simp_all add: position_mask_def mask_eq_exp_minus_1 push_bit_eq_mult)
  have pq: "p AND position_mask (nat n) = p" "q AND position_mask (nat n) = q"
    using assms(3-6) by (simp_all add: mask take_bit_eq_mask [symmetric] take_bit_int_eq_self)
  define st where "st = push_bit 1 (err AND 1) OR (warn AND 1)"
  define cp where "cp = crc6_feed p (rev [0..<nat n]) 0"
  define cq where "cq = crc6_feed q (rev [0..<nat n]) 0"
  have diff: "cp XOR cq = crc6_feed (push_bit k e) (rev [0..<nat n]) 0"
    using crc6_feed_linear [of p q "rev [0..<nat n]" 0 0] by (simp add: cp_def cq_def assms(7))
  have "push_bit k e < 2 ^ nat n" using assms(3-6) XOR_upper [of p "nat n" q] assms(7) by simp
  from crc6_burst [OF assms(8,9) this] have ne: "cp XOR cq \<noteq> 0" by (simp add: diff)
  have range: "0 \<le> crc6_feed v is 0 \<and> crc6_feed v is 0 < 64" for v "is"
    by (induction "is" rule: rev_induct) (simp_all add: crc6_feed_bits crc6_step_range)
  have "0 \<le> cp XOR cq" "cp XOR cq < 64" unfolding diff using range by simp_all
  from crc6_zeros_keep [OF ne this, of "[1, 0]"]
  have "crc6_feed st [1, 0] cp XOR crc6_feed st [1, 0] cq \<noteq> 0"
    using crc6_feed_linear [of st st "[1, 0]" cp cq] by simp
  moreover have "NOT (crc6_feed st [1, 0] cp) AND 0x3F = NOT (crc6_feed st [1, 0] cq) AND 0x3F"
    using eq assms(1,2) by (simp add: crc6_biss_def Let_def pq cp_def cq_def st_def)
  moreover have "a = b" if "NOT a AND 0x3F = NOT b AND (0x3F :: int)" "0 \<le> a" "a < 64" "0 \<le> b" "b < 64" for a b
  proof -
    have m: "bit (0x3F :: int) i \<longleftrightarrow> i < 6" for i
      using bit_mask_iff [of 6 i, where 'a = int] by (simp add: mask_eq_exp_minus_1)
    have "bit a i = bit b i" for i
    proof (cases "i < 6")
      case True
      with arg_cong [OF that(1), of "\<lambda>x. bit x i"] show ?thesis by (simp add: bit_and_iff bit_not_iff m)
    next
      case False
      have "take_bit 6 a = a" "take_bit 6 b = b" using that(2-5) by (simp_all add: take_bit_int_eq_self)
      with False show ?thesis by (metis bit_take_bit_iff)
    qed
    then show ?thesis by (rule bit_eqI)
  qed
  moreover have "0 \<le> crc6_feed st [1, 0] c \<and> crc6_feed st [1, 0] c < 64" for c
    by (simp add: crc6_feed_bits crc6_step_range)
  ultimately show False by (metis xor_self_eq)
qed

lemma crc6_detects_bursts_witness: "crc6_biss 0x12345 19 1 1 \<noteq> crc6_biss 0x12344 19 1 1"
  by (rule crc6_detects_bursts [of _ _ _ 0 1]) simp_all

end
