(* ===== verification/Plant_Params.thy ===== *)
theory Plant_Params
  imports Py_Float
begin

text \<open>
  \<open>host/hil/plant_params.py\<close>: the physical parameters of the PMSM plant and their fixed-point
  coefficients. Floats are rationals over a rounding \<open>fl\<close>.
\<close>

abbreviation (input) Q16 :: int where "Q16 \<equiv> 65536"
abbreviation (input) Q32 :: int where "Q32 \<equiv> 4294967296"

definition q16 :: "rounding \<Rightarrow> rat \<Rightarrow> exn + int" where
  "q16 fl value =
     (let scaled = py_round (fl (value * of_int Q16)) in
      if \<not> (- (2 ^ 31) \<le> scaled \<and> scaled \<le> 2 ^ 31 - 1) then Inl ValueError else Inr scaled)"

definition q32_positive :: "rounding \<Rightarrow> rat \<Rightarrow> exn + int" where
  "q32_positive fl value =
     (let scaled = py_round (fl (value * of_int Q32)) in
      if \<not> (0 \<le> scaled \<and> scaled \<le> 2 ^ 31 - 1) then Inl ValueError else Inr scaled)"

record pmsm_physical_parameters =
  rs_ohm :: rat
  ld_h :: rat
  lq_h :: rat
  flux_wb :: rat
  pole_pairs :: int
  inertia_kg_m2 :: rat
  viscous_nm_per_rad_s :: rat
  sample_time_s :: rat

definition pmsm_parameters_init :: "pmsm_physical_parameters \<Rightarrow> exn + pmsm_physical_parameters" where
  "pmsm_parameters_init p =
     (if rs_ohm p < 0 then Inl ValueError
      else if ld_h p \<le> 0 \<or> lq_h p \<le> 0 then Inl ValueError
      else if flux_wb p < 0 then Inl ValueError
      else if pole_pairs p \<le> 0 then Inl ValueError
      else if inertia_kg_m2 p \<le> 0 then Inl ValueError
      else if viscous_nm_per_rad_s p < 0 then Inl ValueError
      else if sample_time_s p \<le> 0 then Inl ValueError
      else Inr p)"

record pmsm_q16_coefficients =
  k_vd_q16 :: int
  k_vq_q16 :: int
  k_r_d_q16 :: int
  k_r_q_q16 :: int
  k_cross_d_q16 :: int
  k_cross_q_q16 :: int
  k_flux_q16 :: int
  k_torque_q16 :: int
  k_accel_q16 :: int
  k_damp_q16 :: int
  k_theta_q16 :: int
  k_rad_to_turn_q32 :: int

text \<open>\<open>math.pi\<close>, the double next to pi.\<close>

definition math_pi :: rat where
  "math_pi = 884279719003555 / 281474976710656"

text \<open>\<open>a * b / c\<close> and \<open>a / c\<close>, rounded after each operation, then quantised.\<close>

definition q16_quotient :: "rounding \<Rightarrow> rat \<Rightarrow> rat \<Rightarrow> exn + int" where
  "q16_quotient fl x y = bind_exn (fdiv fl x y) (q16 fl)"

definition derive_q16_coefficients ::
    "rounding \<Rightarrow> pmsm_physical_parameters \<Rightarrow> exn + pmsm_q16_coefficients" where
  "derive_q16_coefficients fl p =
     (let ts = sample_time_s p in
      bind_exn (fdiv fl ts (fl (2 * math_pi))) (\<lambda>k_theta.
      bind_exn (q16_quotient fl ts (ld_h p)) (\<lambda>vd.
      bind_exn (q16_quotient fl ts (lq_h p)) (\<lambda>vq.
      bind_exn (q16_quotient fl (fl (ts * rs_ohm p)) (ld_h p)) (\<lambda>rd.
      bind_exn (q16_quotient fl (fl (ts * rs_ohm p)) (lq_h p)) (\<lambda>rq.
      bind_exn (q16_quotient fl (fl (ts * lq_h p)) (ld_h p)) (\<lambda>cd.
      bind_exn (q16_quotient fl (fl (ts * ld_h p)) (lq_h p)) (\<lambda>cq.
      bind_exn (q16_quotient fl (fl (ts * flux_wb p)) (lq_h p)) (\<lambda>flux.
      bind_exn (q16 fl (fl (fl (3 / 2 * fl (of_int (pole_pairs p))) * flux_wb p))) (\<lambda>torque.
      bind_exn (q16_quotient fl ts (inertia_kg_m2 p)) (\<lambda>accel.
      bind_exn (q16_quotient fl (fl (ts * viscous_nm_per_rad_s p)) (inertia_kg_m2 p)) (\<lambda>damp.
      bind_exn (q16 fl k_theta) (\<lambda>theta.
      bind_exn (q32_positive fl k_theta) (\<lambda>turn.
      Inr \<lparr>k_vd_q16 = vd, k_vq_q16 = vq, k_r_d_q16 = rd, k_r_q_q16 = rq, k_cross_d_q16 = cd,
           k_cross_q_q16 = cq, k_flux_q16 = flux, k_torque_q16 = torque, k_accel_q16 = accel,
           k_damp_q16 = damp, k_theta_q16 = theta, k_rad_to_turn_q32 = turn\<rparr>))))))))))))))"

section \<open>Properties\<close>

definition int32 :: "int \<Rightarrow> bool" where
  "int32 i \<longleftrightarrow> - (2 ^ 31) \<le> i \<and> i < 2 ^ 31"

text \<open>\<open>k\<close> is the coefficient \<open>x\<close> to within half a unit of \<open>1 / scale\<close>.\<close>

definition quantised :: "int \<Rightarrow> rat \<Rightarrow> int \<Rightarrow> bool" where
  "quantised scale x k \<longleftrightarrow> int32 k \<and> \<bar>of_int k - x * of_int scale\<bar> \<le> 1 / 2"

text \<open>Scaling by a power of two is exact in floating point.\<close>

definition exact_scaling :: "rounding \<Rightarrow> bool" where
  "exact_scaling fl \<longleftrightarrow> (\<forall>x. fl (fl x * of_int Q16) = fl x * of_int Q16 \<and> fl (fl x * of_int Q32) = fl x * of_int Q32)"

lemma q16_quantised:
  assumes "exact_scaling fl" "q16 fl (fl x) = Inr k"
  shows "quantised Q16 (fl x) k"
  using assms py_round_bounds [of "fl x * of_int Q16"]
  by (auto simp: q16_def exact_scaling_def Let_def quantised_def int32_def abs_minus_commute split: if_splits)

lemma q16_quotient_quantised:
  assumes "exact_scaling fl" "q16_quotient fl x y = Inr k"
  shows "quantised Q16 (fl (x / y)) k"
  using assms by (auto simp: q16_quotient_def fdiv_def bind_exn_Inr q16_quantised split: if_splits)

lemma q32_quantised:
  assumes "exact_scaling fl" "q32_positive fl (fl x) = Inr k"
  shows "quantised Q32 (fl x) k \<and> 0 \<le> k"
  using assms py_round_bounds [of "fl x * of_int Q32"]
  by (auto simp: q32_positive_def exact_scaling_def Let_def quantised_def int32_def abs_minus_commute split: if_splits)

text \<open>C34: every fixed-point coefficient that is derived fits a signed 32-bit register and is the double
  computed from the physical parameters to within half a unit in its last place (2^-17 for the Q16.16
  coefficients, 2^-33 for the turn constant, which is not negative); a coefficient out of range is never wrapped.\<close>
theorem coefficients_quantised:
  assumes "derive_q16_coefficients fl p = Inr c" "exact_scaling fl"
  shows "quantised Q16 (fl (sample_time_s p / ld_h p)) (k_vd_q16 c)
    \<and> quantised Q16 (fl (sample_time_s p / lq_h p)) (k_vq_q16 c)
    \<and> quantised Q16 (fl (fl (sample_time_s p * rs_ohm p) / ld_h p)) (k_r_d_q16 c)
    \<and> quantised Q16 (fl (fl (sample_time_s p * rs_ohm p) / lq_h p)) (k_r_q_q16 c)
    \<and> quantised Q16 (fl (fl (sample_time_s p * lq_h p) / ld_h p)) (k_cross_d_q16 c)
    \<and> quantised Q16 (fl (fl (sample_time_s p * ld_h p) / lq_h p)) (k_cross_q_q16 c)
    \<and> quantised Q16 (fl (fl (sample_time_s p * flux_wb p) / lq_h p)) (k_flux_q16 c)
    \<and> quantised Q16 (fl (fl (3 / 2 * fl (of_int (pole_pairs p))) * flux_wb p)) (k_torque_q16 c)
    \<and> quantised Q16 (fl (sample_time_s p / inertia_kg_m2 p)) (k_accel_q16 c)
    \<and> quantised Q16 (fl (fl (sample_time_s p * viscous_nm_per_rad_s p) / inertia_kg_m2 p)) (k_damp_q16 c)
    \<and> quantised Q16 (fl (sample_time_s p / fl (2 * math_pi))) (k_theta_q16 c)
    \<and> quantised Q32 (fl (sample_time_s p / fl (2 * math_pi))) (k_rad_to_turn_q32 c)
    \<and> 0 \<le> k_rad_to_turn_q32 c"
  using assms(1) unfolding derive_q16_coefficients_def Let_def bind_exn_Inr
  by (clarsimp simp: fdiv_def q16_quotient_quantised [OF assms(2)] q16_quantised [OF assms(2)]
      q32_quantised [OF assms(2)] split: if_split_asm)

lemma coefficients_quantised_witness:
  "\<exists>c. derive_q16_coefficients (\<lambda>x. x)
      \<lparr>rs_ohm = 1 / 2, ld_h = 1 / 1000, lq_h = 1 / 1000, flux_wb = 1 / 100, pole_pairs = 4,
       inertia_kg_m2 = 1 / 10000, viscous_nm_per_rad_s = 1 / 10000, sample_time_s = 1 / 20000\<rparr> = Inr c
    \<and> int32 (k_vd_q16 c)"
proof -
  let ?p = "\<lparr>rs_ohm = 1 / 2, ld_h = 1 / 1000, lq_h = 1 / 1000, flux_wb = 1 / 100, pole_pairs = 4,
       inertia_kg_m2 = 1 / 10000, viscous_nm_per_rad_s = 1 / 10000, sample_time_s = 1 / 20000\<rparr>
       :: pmsm_physical_parameters"
  have "\<not> isl (derive_q16_coefficients (\<lambda>x. x) ?p)" by code_simp
  then obtain c where c: "derive_q16_coefficients (\<lambda>x. x) ?p = Inr c"
    by (cases "derive_q16_coefficients (\<lambda>x. x) ?p") auto
  have "exact_scaling (\<lambda>x. x)" by (simp add: exact_scaling_def)
  from coefficients_quantised [OF c this] have "int32 (k_vd_q16 c)" unfolding quantised_def by blast
  with c show ?thesis by blast
qed

end
