(* ===== verification/Pru_Cli.thy ===== *)
theory Pru_Cli
  imports Pru_Protocol Py_Float
begin

text \<open>
  The command line of PRU0, \<open>boards/beaglebone_black/host/hil_pru_cli.py\<close>, above the client of
  \<open>Pru_Protocol\<close>: the float conversions of the protocol module, the loopback measurement, its
  benchmark and the dispatch of the parsed command. A request function and the performance clock are
  parameters; a printed JSON object is the list of its members.
\<close>

section \<open>Tick conversions (\<open>hil_pru_protocol.py\<close>)\<close>

definition us_to_ticks :: "rounding \<Rightarrow> rat \<Rightarrow> int \<Rightarrow> exn + int" where
  "us_to_ticks fl us hz =
     (if us < 0 then Inl ValueError
      else Inr (py_round (fl (fl (us * fl (of_int hz)) / 1000000))))"

definition proto_ticks_to_us :: "rounding \<Rightarrow> int \<Rightarrow> int \<Rightarrow> exn + rat" where
  "proto_ticks_to_us fl ticks hz =
     (if hz \<le> 0 then Inl ValueError else scale_ticks fl ticks 1000000 hz)"

definition ns_to_ticks :: "rounding \<Rightarrow> rat \<Rightarrow> int \<Rightarrow> exn + int" where
  "ns_to_ticks fl ns hz =
     (if ns < 0 then Inl ValueError
      else Inr (py_round (fl (fl (ns * fl (of_int hz)) / 1000000000))))"

section \<open>Statistics\<close>

definition pru_percentile :: "rounding \<Rightarrow> rat list \<Rightarrow> rat \<Rightarrow> exn + rat" where
  "pru_percentile fl values p =
     (let ordered = sort values in
      if ordered = [] then Inl ValueError
      else if \<not> (0 \<le> p \<and> p \<le> 100) then Inl ValueError
      else if length ordered = 1 then Inr (ordered ! 0)
      else
        let rank = fl (fl (of_nat (length ordered - 1)) * fl (p / 100));
            low = nat (py_trunc rank);
            high = min (low + 1) (length ordered - 1);
            fraction = fl (rank - fl (of_nat low))
        in Inr (fl (ordered ! low + fl (fl (ordered ! high - ordered ! low) * fraction))))"

record pru_summary =
  ps_count :: nat
  ps_stats :: "(string \<times> rat) list"

text \<open>
  \<open>statistics.fmean\<close> divides the correctly rounded sum by the count; \<open>statistics.pstdev\<close> is the
  correctly rounded root of the exact variance, the function \<open>fl_sqrt\<close>.
\<close>

definition variance_of :: "rat list \<Rightarrow> rat" where
  "variance_of vs =
     (let n = of_nat (length vs); mean = sum_list vs / n
      in sum_list (map (\<lambda>v. (v - mean) * (v - mean)) vs) / n)"

definition pru_summarize :: "rounding \<Rightarrow> rounding \<Rightarrow> rat list \<Rightarrow> exn + pru_summary" where
  "pru_summarize fl fl_sqrt values =
     (if values = [] then Inr \<lparr>ps_count = 0, ps_stats = []\<rparr>
      else
        bind_exn (pru_percentile fl values 50) (\<lambda>p50.
        bind_exn (pru_percentile fl values 95) (\<lambda>p95.
        bind_exn (pru_percentile fl values 99) (\<lambda>p99.
        Inr \<lparr>ps_count = length values,
             ps_stats = [(''min'', Min (set values)),
                         (''mean'', fl (fl (sum_list values) / fl (of_nat (length values)))),
                         (''p50'', p50), (''p95'', p95), (''p99'', p99), (''max'', Max (set values)),
                         (''stdev'', fl_sqrt (variance_of values))]\<rparr>))))"

section \<open>Loopback\<close>

record loopback_sample =
  ls_status :: int
  ls_requested_start_ticks :: int
  ls_observed_rise_ticks :: int
  ls_observed_fall_ticks :: int
  ls_response_ticks :: int
  ls_rise_latency_us :: "rat option"
  ls_observed_high_us :: "rat option"
  ls_command_rtt_us :: rat
  ls_non_programmed_rtt_us :: rat
  ls_tick_hz :: int

record loopback_times =
  lt_delay_us :: rat
  lt_width_us :: rat
  lt_timeout_us :: rat

definition NO_EDGE :: int where "NO_EDGE = 0xFFFFFFFF"

definition rise_latency_ticks :: "message \<Rightarrow> int option" where
  "rise_latency_ticks r =
     (if m_arg1 r = NO_EDGE then None else Some ((m_arg1 r - m_arg0 r) AND 0xFFFFFFFF))"

definition observed_high_ticks :: "message \<Rightarrow> int option" where
  "observed_high_ticks r =
     (if m_arg1 r \<noteq> NO_EDGE \<and> m_arg2 r \<noteq> NO_EDGE
      then Some ((m_arg2 r - m_arg1 r) AND 0xFFFFFFFF) else None)"

definition opt_ticks_to_us :: "rounding \<Rightarrow> int option \<Rightarrow> int \<Rightarrow> exn + rat option" where
  "opt_ticks_to_us fl t hz =
     (case t of None \<Rightarrow> Inr None
      | Some v \<Rightarrow> bind_exn (proto_ticks_to_us fl v hz) (\<lambda>us. Inr (Some us)))"

definition loopback_once ::
    "rounding \<Rightarrow> ('s, int) io \<Rightarrow> 's rpc \<Rightarrow> int \<Rightarrow> loopback_times \<Rightarrow> ('s, loopback_sample) io" where
  "loopback_once fl clock_ns request hz t =
     bind_io clock_ns (\<lambda>host_start_ns.
     bind_io (lift_io (us_to_ticks fl (lt_delay_us t) hz)) (\<lambda>a0.
     bind_io (lift_io (us_to_ticks fl (lt_width_us t) hz)) (\<lambda>a1.
     bind_io (lift_io (us_to_ticks fl (lt_timeout_us t) hz)) (\<lambda>a2.
     bind_io (request MSG_GPIO_LOOPBACK a0 a1 a2 0) (\<lambda>response.
     bind_io clock_ns (\<lambda>host_end_ns.
     let command_rtt_us = fl (fl (of_int (host_end_ns - host_start_ns)) / 1000);
         programmed_us = fl (lt_delay_us t + lt_width_us t) in
     bind_io (lift_io (opt_ticks_to_us fl (rise_latency_ticks response) hz)) (\<lambda>rise.
     bind_io (lift_io (opt_ticks_to_us fl (observed_high_ticks response) hz)) (\<lambda>high.
     return_io
       \<lparr>ls_status = m_flags response, ls_requested_start_ticks = m_arg0 response,
        ls_observed_rise_ticks = m_arg1 response, ls_observed_fall_ticks = m_arg2 response,
        ls_response_ticks = m_arg3 response, ls_rise_latency_us = rise, ls_observed_high_us = high,
        ls_command_rtt_us = command_rtt_us,
        ls_non_programmed_rtt_us = fl (command_rtt_us - programmed_us), ls_tick_hz = hz\<rparr>))))))))"

section \<open>The benchmark\<close>

datatype bench_failure =
    Call_Failed nat exn
  | Bad_Status nat int
  | Missing_Edge nat

record bench_acc =
  ba_rise :: "rat list"
  ba_high :: "rat list"
  ba_high_error :: "rat list"
  ba_rtt :: "rat list"
  ba_non_programmed_rtt :: "rat list"
  ba_failures :: "bench_failure list"

definition bench_init :: bench_acc where
  "bench_init = \<lparr>ba_rise = [], ba_high = [], ba_high_error = [], ba_rtt = [], ba_non_programmed_rtt = [],
                 ba_failures = []\<rparr>"

text \<open>One turn of the measuring loop on the outcome of its call.\<close>

definition bench_record :: "rounding \<Rightarrow> rat \<Rightarrow> nat \<Rightarrow> exn + loopback_sample \<Rightarrow> bench_acc \<Rightarrow> bench_acc" where
  "bench_record fl width_us index outcome a =
     (case outcome of
        Inl e \<Rightarrow> a\<lparr>ba_failures := ba_failures a @ [Call_Failed index e]\<rparr>
      | Inr sample \<Rightarrow>
          if ls_status sample \<noteq> 0 then a\<lparr>ba_failures := ba_failures a @ [Bad_Status index (ls_status sample)]\<rparr>
          else (case (ls_rise_latency_us sample, ls_observed_high_us sample) of
              (Some rise, Some high) \<Rightarrow>
                a\<lparr>ba_rise := ba_rise a @ [rise], ba_high := ba_high a @ [high],
                  ba_high_error := ba_high_error a @ [fl (high - width_us)],
                  ba_rtt := ba_rtt a @ [ls_command_rtt_us sample],
                  ba_non_programmed_rtt := ba_non_programmed_rtt a @ [ls_non_programmed_rtt_us sample]\<rparr>
            | _ \<Rightarrow> a\<lparr>ba_failures := ba_failures a @ [Missing_Edge index]\<rparr>))"

primrec bench_loop ::
    "(nat \<Rightarrow> exn + loopback_sample \<Rightarrow> bench_acc \<Rightarrow> bench_acc) \<Rightarrow> ('s, loopback_sample) io
      \<Rightarrow> nat list \<Rightarrow> bench_acc \<Rightarrow> ('s, bench_acc) io" where
  "bench_loop rec once [] a = return_io a"
| "bench_loop rec once (i # is) a =
     (\<lambda>s. case once s of (outcome, s') \<Rightarrow> bench_loop rec once is (rec i outcome a) s')"

record bench_report =
  bn_count_requested :: int
  bn_samples_ok :: nat
  bn_failures :: nat
  bn_failure_rate :: rat
  bn_failure_examples :: "bench_failure list"
  bn_total_elapsed_s :: rat
  bn_attempt_rate_hz :: rat
  bn_success_rate_hz :: rat
  bn_tick_hz :: int
  bn_rise_latency_us :: pru_summary
  bn_observed_high_us :: pru_summary
  bn_high_width_error_us :: pru_summary
  bn_command_rtt_us :: pru_summary
  bn_non_programmed_rtt_us :: pru_summary

definition rate_hz :: "rounding \<Rightarrow> int \<Rightarrow> rat \<Rightarrow> exn + rat" where
  "rate_hz fl n elapsed = (if elapsed > 0 then fdiv fl (fl (of_int n)) elapsed else Inr 0)"

text \<open>The report on the accumulated lists (the end of \<open>run_loopback_benchmark\<close>).\<close>

definition bench_report_of ::
    "rounding \<Rightarrow> rounding \<Rightarrow> int \<Rightarrow> int \<Rightarrow> rat \<Rightarrow> bench_acc \<Rightarrow> exn + bench_report" where
  "bench_report_of fl fl_sqrt cnt hz total_elapsed_s a =
     bind_exn (rate_hz fl cnt total_elapsed_s) (\<lambda>attempted_hz.
     bind_exn (rate_hz fl (int (length (ba_rise a))) total_elapsed_s) (\<lambda>success_hz.
     bind_exn (pru_summarize fl fl_sqrt (ba_rise a)) (\<lambda>rise.
     bind_exn (pru_summarize fl fl_sqrt (ba_high a)) (\<lambda>high.
     bind_exn (pru_summarize fl fl_sqrt (ba_high_error a)) (\<lambda>high_error.
     bind_exn (pru_summarize fl fl_sqrt (ba_rtt a)) (\<lambda>rtt.
     bind_exn (pru_summarize fl fl_sqrt (ba_non_programmed_rtt a)) (\<lambda>non_programmed_rtt.
     Inr
       \<lparr>bn_count_requested = cnt, bn_samples_ok = length (ba_rise a), bn_failures = length (ba_failures a),
        bn_failure_rate = fl (of_nat (length (ba_failures a)) / of_int cnt),
        bn_failure_examples = take 10 (ba_failures a), bn_total_elapsed_s = total_elapsed_s,
        bn_attempt_rate_hz = attempted_hz, bn_success_rate_hz = success_hz, bn_tick_hz = hz,
        bn_rise_latency_us = rise, bn_observed_high_us = high, bn_high_width_error_us = high_error,
        bn_command_rtt_us = rtt, bn_non_programmed_rtt_us = non_programmed_rtt\<rparr>)))))))"

definition run_loopback_benchmark ::
    "rounding \<Rightarrow> rounding \<Rightarrow> ('s, int) io \<Rightarrow> 's rpc \<Rightarrow> int \<Rightarrow> int \<Rightarrow> loopback_times \<Rightarrow> ('s, bench_report) io" where
  "run_loopback_benchmark fl fl_sqrt clock_ns request cnt warmup t =
     then_io (ensure_io (\<not> cnt \<le> 0) ValueError) (
     then_io (ensure_io (\<not> warmup < 0) ValueError) (
     bind_io (hello request) (\<lambda>info.
     then_io (ensure_io (hr_status info = 0) RuntimeError) (
     let hz = hr_tick_hz info; once = loopback_once fl clock_ns request hz t in
     then_io (for_io (\<lambda>_. bind_io once (\<lambda>sample. ensure_io (ls_status sample = 0) RuntimeError)) [0..<nat warmup]) (
     bind_io clock_ns (\<lambda>start_ns.
     bind_io (bench_loop (bench_record fl (lt_width_us t)) once [0..<nat cnt] bench_init) (\<lambda>a.
     bind_io clock_ns (\<lambda>end_ns.
     lift_io (bench_report_of fl fl_sqrt cnt hz (fl (fl (of_int (end_ns - start_ns)) / 1000000000)) a)))))))))"

section \<open>The command\<close>

datatype pru_command =
    Pru_Hello
  | Pru_Time
  | Pru_Ping
  | Pru_Safe
  | Pru_Loopback loopback_times
  | Pru_Bench int int loopback_times

datatype pru_result =
    R_Hello hello_report
  | R_Fields "(string \<times> pyval) list"
  | R_Loopback loopback_sample
  | R_Bench bench_report

definition pru_command_run ::
    "rounding \<Rightarrow> rounding \<Rightarrow> ('s, int) io \<Rightarrow> 's rpc \<Rightarrow> pru_command \<Rightarrow> ('s, pru_result) io" where
  "pru_command_run fl fl_sqrt clock_ns request cmd =
     (case cmd of
        Pru_Hello \<Rightarrow> bind_io (hello request) (\<lambda>h. return_io (R_Hello h))
      | Pru_Time \<Rightarrow> bind_io (request MSG_TIME 0 0 0 0) (\<lambda>r. return_io (R_Fields
          [(''status'', PInt (m_flags r)), (''ticks'', PInt (m_arg0 r)), (''tick_hz'', PInt (m_arg1 r)),
           (''counter_bits'', PInt (m_arg2 r))]))
      | Pru_Ping \<Rightarrow> bind_io (request MSG_PING 0 0 0 0) (\<lambda>r. return_io (R_Fields
          [(''status'', PInt (m_flags r)), (''ticks'', PInt (m_arg0 r))]))
      | Pru_Safe \<Rightarrow> bind_io (request MSG_FORCE_SAFE 0 0 0 0) (\<lambda>r. return_io (R_Fields
          [(''status'', PInt (m_flags r)), (''ticks'', PInt (m_arg0 r))]))
      | Pru_Loopback t \<Rightarrow> bind_io (hello request) (\<lambda>info.
          bind_io (loopback_once fl clock_ns request (hr_tick_hz info) t) (\<lambda>s. return_io (R_Loopback s)))
      | Pru_Bench cnt warmup t \<Rightarrow>
          bind_io (run_loopback_benchmark fl fl_sqrt clock_ns request cnt warmup t) (\<lambda>b. return_io (R_Bench b)))"

text \<open>\<open>0 if int(result.get("status", 0)) == 0 else 2\<close>, and the benchmark's failures.\<close>

definition fields_status :: "(string \<times> pyval) list \<Rightarrow> exn + int" where
  "fields_status r =
     bind_exn (py_int (dict_get r ''status'' (PInt 0))) (\<lambda>i. Inr (if i = 0 then 0 else 2))"

fun pru_exit_code :: "pru_result \<Rightarrow> exn + int" where
  "pru_exit_code (R_Hello h) = Inr (if hr_status h = 0 then 0 else 2)"
| "pru_exit_code (R_Fields r) = fields_status r"
| "pru_exit_code (R_Loopback s) = Inr (if ls_status s = 0 then 0 else 2)"
| "pru_exit_code (R_Bench b) = Inr (if bn_failures b = 0 then 0 else 2)"

text \<open>The dictionary of \<open>hello\<close>, as the other command lines print it.\<close>

definition hello_fields :: "hello_report \<Rightarrow> (string \<times> pyval) list" where
  "hello_fields h =
     [(''status'', PInt (hr_status h)), (''capabilities_raw'', PInt (hr_capabilities_raw h)),
      (''capabilities'', PList (map PStr (hr_capabilities h))), (''tick_hz'', PInt (hr_tick_hz h)),
      (''counter_bits'', PInt (hr_counter_bits h)), (''firmware_version'', PStr (hr_firmware_version h))]"

definition hello_result :: "'s rpc \<Rightarrow> ('s, (string \<times> pyval) list) io" where
  "hello_result request = bind_io (hello request) (\<lambda>h. return_io (hello_fields h))"

text \<open>A result is returned with the exit code of its status.\<close>

definition with_exit_code :: "('s, (string \<times> pyval) list) io \<Rightarrow> ('s, (string \<times> pyval) list \<times> int) io" where
  "with_exit_code m =
     bind_io m (\<lambda>result. bind_io (lift_io (fields_status result)) (\<lambda>code. return_io (result, code)))"

text \<open>\<open>x if t else None\<close> and an optional float as a value of the printed object.\<close>

definition opt_float :: "rat option \<Rightarrow> pyval" where
  "opt_float x = (case x of None \<Rightarrow> PNone | Some r \<Rightarrow> PFloat r)"

text \<open>\<open>client = HilPru(device, timeout); try: ... finally: client.close()\<close>\<close>

definition with_client ::
    "'w rpmsg_os \<Rightarrow> string \<Rightarrow> int \<Rightarrow> ('w \<times> hil_pru, 'a) io \<Rightarrow> ('w, 'a) io" where
  "with_client D device timeout_ms body =
     bind_io (hil_pru_init D device timeout_ms) (\<lambda>c. \<lambda>w.
       case finally_io body (hp_close D) (w, c) of (r, (w', c')) \<Rightarrow> (r, w'))"

definition pru_main ::
    "rounding \<Rightarrow> rounding \<Rightarrow> ('w, int) io \<Rightarrow> 'w rpmsg_os \<Rightarrow> (string \<Rightarrow> bool) \<Rightarrow> string list
      \<Rightarrow> string option \<Rightarrow> int \<Rightarrow> pru_command \<Rightarrow> ('w, pru_result \<times> int) io" where
  "pru_main fl fl_sqrt clock_ns D path_exists globbed device timeout_ms cmd =
     bind_io (lift_io (discover_device path_exists globbed device)) (\<lambda>dev.
     with_client D dev timeout_ms (
       bind_io (pru_command_run fl fl_sqrt (on_world clock_ns) (hp_request D) cmd) (\<lambda>result.
       bind_io (lift_io (pru_exit_code result)) (\<lambda>code. return_io (result, code)))))"

text \<open>The exit status of the process: an exception is printed and gives 1.\<close>

definition process_status :: "exn + 'a \<times> int \<Rightarrow> int" where
  "process_status r = (case r of Inl _ \<Rightarrow> 1 | Inr (_, code) \<Rightarrow> code)"

section \<open>Lemmas\<close>

definition bench_total :: "bench_acc \<Rightarrow> nat" where
  "bench_total a = length (ba_rise a) + length (ba_failures a)"

definition bench_aligned :: "bench_acc \<Rightarrow> bool" where
  "bench_aligned a \<longleftrightarrow>
     length (ba_high a) = length (ba_rise a) \<and> length (ba_high_error a) = length (ba_rise a)
     \<and> length (ba_rtt a) = length (ba_rise a) \<and> length (ba_non_programmed_rtt a) = length (ba_rise a)"

lemma bench_record_total: "bench_total (bench_record fl w i r a) = Suc (bench_total a)"
  by (auto simp: bench_record_def bench_total_def split: sum.splits option.splits prod.splits)

lemma bench_record_aligned: "bench_aligned a \<Longrightarrow> bench_aligned (bench_record fl w i r a)"
  by (auto simp: bench_record_def bench_aligned_def split: sum.splits option.splits prod.splits)

lemma bench_loop_result:
  assumes "\<And>i r a. bench_total (step i r a) = Suc (bench_total a)"
    and "\<And>i r a. bench_aligned a \<Longrightarrow> bench_aligned (step i r a)"
  shows "bench_loop step once is a s = (r, s') \<Longrightarrow> bench_aligned a \<Longrightarrow>
    \<exists>a'. r = Inr a' \<and> bench_total a' = length is + bench_total a \<and> bench_aligned a'"
proof (induction "is" arbitrary: a s)
  case Nil
  then show ?case by (auto simp: return_io_def)
next
  case (Cons i "is")
  obtain x s1 where "once s = (x, s1)" by (rule prod.exhaust)
  with Cons.prems Cons.IH [of "step i x a" s1] assms show ?case by simp
qed

lemma summary_count: "pru_summarize fl fl_sqrt vs = Inr p \<Longrightarrow> ps_count p = length vs"
  by (auto simp: pru_summarize_def bind_exn_def split: if_splits sum.splits)

lemma bench_report_of_Inr:
  assumes "bench_report_of fl fl_sqrt cnt hz el a = Inr b" "bench_aligned a"
  shows "bn_count_requested b = cnt \<and> bn_samples_ok b = length (ba_rise a)
    \<and> bn_failures b = length (ba_failures a)
    \<and> (\<forall>p \<in> {bn_rise_latency_us b, bn_observed_high_us b, bn_high_width_error_us b,
             bn_command_rtt_us b, bn_non_programmed_rtt_us b}. ps_count p = bn_samples_ok b)"
  using assms
  by (auto simp: bench_report_of_def bind_exn_def bench_aligned_def split: sum.splits
      dest!: summary_count)

lemma bench_init_facts: "bench_total bench_init = 0" "bench_aligned bench_init"
  by (simp_all add: bench_init_def bench_total_def bench_aligned_def)

section \<open>Properties\<close>


text \<open>A device that answers every request with the same edges, and a clock that ticks once a call.\<close>

definition edge_device :: "nat rpc" where
  "edge_device t a0 a1 a2 a3 =
     return_io \<lparr>m_type = t OR 0x8000, m_seq = 1, m_flags = 0, m_arg0 = 100, m_arg1 = 200, m_arg2 = 400,
                m_arg3 = 500, m_magic = PRU_MAGIC, m_version = PROTOCOL_VERSION\<rparr>"

definition counting_clock :: "(nat, int) io" where
  "counting_clock n = (Inr (int n), Suc n)"


end
