(* ===== verification/Stim_Cli.thy ===== *)
theory Stim_Cli
  imports Pru_Cli Encoders
begin

text \<open>
  The command lines of PRU1: the ABZ and Hall stimulus client
  (\<open>boards/beaglebone_black/host/hil_stim_cli.py\<close>) and the serial sensor client
  (\<open>hil_sensor_cli.py\<close>), one definition per command, over any request function. What argparse
  delivers is the argument of the command. The safety property: whatever the arguments and the
  answers of the device, no request leaves that is outside the device's contract.
\<close>

section \<open>Arguments of the stimulus commands\<close>

definition ABZ_MIN_TRANSITION_TICKS :: int where "ABZ_MIN_TRANSITION_TICKS = 100"
definition ABZ_SCHED_TRANSITION_VALID :: int where "ABZ_SCHED_TRANSITION_VALID = push_bit 0 1"
definition ABZ_SCHED_DIRECTION_VALID :: int where "ABZ_SCHED_DIRECTION_VALID = push_bit 1 1"

definition STIM_STATE_NAMES :: "(int \<times> string) list" where
  "STIM_STATE_NAMES = [(0, ''idle''), (1, ''running''), (2, ''armed'')]"

definition STIM_MODE_NAMES :: "(int \<times> string) list" where
  "STIM_MODE_NAMES = [(0, ''none''), (1, ''abz''), (2, ''hall'')]"

record rate_args =
  ra_transition_ticks :: "int option"
  ra_transition_hz :: "rat option"
  ra_rpm :: "rat option"
  ra_ppr :: "int option"

definition rate_selected :: "rate_args \<Rightarrow> nat" where
  "rate_selected a =
     length (filter id [ra_transition_ticks a \<noteq> None, ra_transition_hz a \<noteq> None, ra_rpm a \<noteq> None])"

definition resolve_future_ticks ::
    "rounding \<Rightarrow> 's rpc \<Rightarrow> int \<Rightarrow> int option \<Rightarrow> rat option \<Rightarrow> ('s, int) io" where
  "resolve_future_ticks fl request hz apply_ticks after_us =
     then_io (ensure_io ((apply_ticks = None) \<noteq> (after_us = None)) ValueError) (
     case apply_ticks of
       Some t \<Rightarrow> then_io (ensure_io (0 \<le> t \<and> t \<le> 0xFFFFFFFF) ValueError) (return_io t)
     | None \<Rightarrow>
         (case after_us of
            None \<Rightarrow> raise_io ValueError
          | Some us \<Rightarrow>
              then_io (ensure_io (\<not> us \<le> 0) ValueError) (
              bind_io (request MSG_TIME 0 0 0 0) (\<lambda>now.
              bind_io (lift_io (us_to_ticks fl us hz)) (\<lambda>ticks.
              return_io ((m_arg0 now + ticks) AND 0xFFFFFFFF))))))"

text \<open>\<open>can_open\<close> tells whether \<open>open(candidate, "rb")\<close> succeeds; the glob result is the file system's.\<close>

definition discover_stim_device :: "(string \<Rightarrow> bool) \<Rightarrow> string list \<Rightarrow> string option \<Rightarrow> exn + string" where
  "discover_stim_device can_open globbed explicit =
     (if explicit \<noteq> None \<and> explicit \<noteq> Some [] then Inr (the explicit)
      else case find_device [''/dev/rpmsg_pru31'', ''/dev/rpmsg-pru31''] can_open globbed of
             Some c \<Rightarrow> Inr c | None \<Rightarrow> Inl FileNotFoundError)"

text \<open>\<open>if args.ppr:\<close>\<close>

definition ppr_given :: "rate_args \<Rightarrow> bool" where
  "ppr_given a \<longleftrightarrow> ra_ppr a \<noteq> None \<and> ra_ppr a \<noteq> Some 0"

definition derived_rpm :: "rounding \<Rightarrow> rate_args \<Rightarrow> int \<Rightarrow> int \<Rightarrow> exn + rat option" where
  "derived_rpm fl a hz ticks =
     (if ppr_given a
      then bind_exn (rpm_from_transition_ticks fl ticks (the (ra_ppr a)) hz) (\<lambda>r. Inr (Some r))
      else Inr None)"

definition resolve_transition_ticks :: "rounding \<Rightarrow> rate_args \<Rightarrow> int \<Rightarrow> exn + int \<times> rat option" where
  "resolve_transition_ticks fl a hz =
     (if rate_selected a \<noteq> 1 then Inl ValueError
      else
        bind_exn
          (case (ra_transition_ticks a, ra_transition_hz a, ra_rpm a) of
             (Some ticks, _, _) \<Rightarrow> bind_exn (derived_rpm fl a hz ticks) (\<lambda>rpm. Inr (ticks, rpm))
           | (None, Some thz, _) \<Rightarrow>
               bind_exn (transition_ticks_from_hz fl thz hz) (\<lambda>ticks.
               bind_exn (derived_rpm fl a hz ticks) (\<lambda>rpm. Inr (ticks, rpm)))
           | (None, None, rpm) \<Rightarrow>
               if \<not> ppr_given a then Inl ValueError
               else bind_exn (transition_ticks_from_rpm fl (the rpm) (the (ra_ppr a)) hz) (\<lambda>ticks.
                 Inr (ticks, rpm)))
          (\<lambda>(ticks, rpm).
             if ticks < ABZ_MIN_TRANSITION_TICKS then Inl ValueError else Inr (ticks, rpm)))"

section \<open>ABZ commands\<close>

definition ppr_value :: "rate_args \<Rightarrow> pyval" where
  "ppr_value a = (case ra_ppr a of None \<Rightarrow> PNone | Some n \<Rightarrow> PInt n)"

text \<open>The index pulse: its period, by default one revolution, and its width.\<close>

definition index_counts :: "rate_args \<Rightarrow> int option \<Rightarrow> int \<Rightarrow> exn + int \<times> int" where
  "index_counts a period width =
     (let index_period = (case period of
            None \<Rightarrow> (if ppr_given a then the (ra_ppr a) * 4 else 0)
          | Some p \<Rightarrow> p);
          index_width = (if index_period \<noteq> 0 then width else 0)
      in if index_period < 0 \<or> index_width < 0 then Inl ValueError
         else if index_period \<noteq> 0 \<and> index_width > index_period then Inl ValueError
         else Inr (index_period, index_width))"

definition abz_config ::
    "rounding \<Rightarrow> 's rpc \<Rightarrow> rate_args \<Rightarrow> string \<Rightarrow> int \<Rightarrow> int option \<Rightarrow> int \<Rightarrow> ('s, (string \<times> pyval) list) io" where
  "abz_config fl request a direction initial_phase period width =
     bind_io (hello request) (\<lambda>info.
     let hz = hr_tick_hz info in
     bind_io (lift_io (resolve_transition_ticks fl a hz)) (\<lambda>(ticks, rpm).
     bind_io (lift_io (index_counts a period width)) (\<lambda>(index_period, index_width).
     bind_io (lift_io (encode_config_flags direction initial_phase)) (\<lambda>flags.
     bind_io (request MSG_ABZ_CONFIG ticks index_period index_width flags) (\<lambda>r.
     return_io
       [(''status'', PInt (m_flags r)), (''tick_hz'', PInt hz), (''transition_ticks'', PInt (m_arg0 r)),
        (''transition_hz'', PFloat (fl (of_int hz / of_int ticks))), (''ppr'', ppr_value a),
        (''equivalent_rpm'', opt_float rpm), (''direction'', PStr direction),
        (''initial_phase'', PInt initial_phase), (''index_period_transitions'', PInt (m_arg1 r)),
        (''index_width_transitions'', PInt (m_arg2 r))])))))"

definition direction_name :: "int \<Rightarrow> pyval" where
  "direction_name v = PStr (if v \<noteq> 0 then ''reverse'' else ''forward'')"

definition stim_name :: "(int \<times> string) list \<Rightarrow> int \<Rightarrow> pyval" where
  "stim_name names v = PStr (case map_of names v of Some n \<Rightarrow> n | None \<Rightarrow> ''unknown-'' @ str_int v)"

definition arm_semantics :: pyval where
  "arm_semantics = PStr ''ACK sent before the PRU establishes the fresh run timestamp''"

definition abz_start :: "'s rpc \<Rightarrow> ('s, (string \<times> pyval) list) io" where
  "abz_start request =
     bind_io (request MSG_ABZ_START 0 0 0 0) (\<lambda>r.
     return_io
       [(''status'', PInt (m_flags r)), (''arm_request_ticks'', PInt (m_arg0 r)),
        (''initial_abz_bits'', PInt (m_arg1 r)), (''transition_ticks'', PInt (m_arg2 r)),
        (''direction'', direction_name (m_arg3 r)), (''semantics'', arm_semantics)])"

definition abz_stop :: "'s rpc \<Rightarrow> ('s, (string \<times> pyval) list) io" where
  "abz_stop request =
     bind_io (request MSG_ABZ_STOP 0 0 0 0) (\<lambda>r.
     return_io
       [(''status'', PInt (m_flags r)), (''actual_stop_ticks'', PInt (m_arg0 r)),
        (''transition_count'', PInt (m_arg1 r)), (''late_transition_count'', PInt (m_arg2 r)),
        (''schedule_late_count'', PInt (m_arg3 r))])"

definition abz_status :: "'s rpc \<Rightarrow> ('s, (string \<times> pyval) list) io" where
  "abz_status request =
     bind_io (request MSG_ABZ_STATUS 0 0 0 0) (\<lambda>r.
     return_io
       [(''status'', PInt (m_flags r)), (''state'', stim_name STIM_STATE_NAMES (m_arg0 r)),
        (''running'', PBool (m_arg0 r = 1)), (''transition_ticks'', PInt (m_arg1 r)),
        (''transition_count'', PInt (m_arg2 r)), (''late_transition_count'', PInt (m_arg3 r))])"

text \<open>\<open>0 if direction == "forward" else 1\<close>\<close>

definition direction_bit :: "string \<Rightarrow> int" where
  "direction_bit d = (if d = ''forward'' then 0 else 1)"

definition abz_direction :: "'s rpc \<Rightarrow> string \<Rightarrow> ('s, (string \<times> pyval) list) io" where
  "abz_direction request v =
     bind_io (request MSG_ABZ_DIRECTION (direction_bit v) 0 0 0) (\<lambda>r.
     return_io
       [(''status'', PInt (m_flags r)), (''actual_apply_ticks'', PInt (m_arg0 r)),
        (''direction'', direction_name (m_arg1 r)), (''transition_count'', PInt (m_arg2 r))])"

definition abz_arm :: "rounding \<Rightarrow> 's rpc \<Rightarrow> int option \<Rightarrow> rat option \<Rightarrow> ('s, (string \<times> pyval) list) io" where
  "abz_arm fl request apply_ticks after_us =
     bind_io (hello request) (\<lambda>info.
     bind_io (resolve_future_ticks fl request (hr_tick_hz info) apply_ticks after_us) (\<lambda>at_ticks.
     bind_io (request MSG_ABZ_ARM at_ticks 0 0 0) (\<lambda>r.
     return_io
       [(''status'', PInt (m_flags r)), (''arm_request_ticks'', PInt (m_arg0 r)),
        (''requested_apply_ticks'', PInt (m_arg1 r)), (''transition_ticks'', PInt (m_arg2 r)),
        (''direction'', direction_name (m_arg3 r))])))"

text \<open>The speed and the direction of a scheduled update, with the bits of what is given.\<close>

definition schedule_update :: "rounding \<Rightarrow> rate_args \<Rightarrow> string option \<Rightarrow> int \<Rightarrow> exn + int \<times> int \<times> int" where
  "schedule_update fl a direction hz =
     bind_exn
       (if rate_selected a \<noteq> 0
        then if rate_selected a \<noteq> 1 then Inl ValueError
             else bind_exn (resolve_transition_ticks fl a hz) (\<lambda>(ticks, _).
                    Inr (ticks, 0 OR ABZ_SCHED_TRANSITION_VALID))
        else Inr (0, 0))
       (\<lambda>(ticks, flags).
          let (direction_value, flags) =
                (case direction of None \<Rightarrow> (0, flags)
                 | Some d \<Rightarrow> (direction_bit d, flags OR ABZ_SCHED_DIRECTION_VALID))
          in if flags = 0 then Inl ValueError else Inr (ticks, direction_value, flags))"

definition abz_schedule ::
    "rounding \<Rightarrow> 's rpc \<Rightarrow> int option \<Rightarrow> rat option \<Rightarrow> rate_args \<Rightarrow> string option
      \<Rightarrow> ('s, (string \<times> pyval) list) io" where
  "abz_schedule fl request apply_ticks after_us a direction =
     bind_io (hello request) (\<lambda>info.
     bind_io (resolve_future_ticks fl request (hr_tick_hz info) apply_ticks after_us) (\<lambda>at_ticks.
     bind_io (lift_io (schedule_update fl a direction (hr_tick_hz info))) (\<lambda>(ticks, direction_value, flags).
     bind_io (request MSG_ABZ_SCHEDULE at_ticks ticks direction_value flags) (\<lambda>r.
     return_io
       [(''status'', PInt (m_flags r)), (''queue_request_ticks'', PInt (m_arg0 r)),
        (''requested_apply_ticks'', PInt (m_arg1 r)), (''transition_ticks'', PInt (m_arg2 r)),
        (''flags'', PInt (m_arg3 r))]))))"

definition scheduler_status :: "'s rpc \<Rightarrow> ('s, (string \<times> pyval) list) io" where
  "scheduler_status request =
     bind_io (request MSG_STIM_STATUS 0 0 0 0) (\<lambda>r.
     return_io
       [(''status'', PInt (m_flags r)), (''state'', stim_name STIM_STATE_NAMES (m_arg0 r)),
        (''mode'', stim_name STIM_MODE_NAMES (m_arg1 r)), (''last_apply_ticks'', PInt (m_arg2 r)),
        (''schedule_late_count'', PInt (m_arg3 r))])"

section \<open>Hall commands\<close>

definition hall_config ::
    "rounding \<Rightarrow> 's rpc \<Rightarrow> rate_args \<Rightarrow> string \<Rightarrow> int \<Rightarrow> ('s, (string \<times> pyval) list) io" where
  "hall_config fl request a direction initial_step =
     bind_io (hello request) (\<lambda>info.
     let hz = hr_tick_hz info in
     bind_io (lift_io (resolve_transition_ticks fl a hz)) (\<lambda>(ticks, rpm).
     then_io (ensure_io (0 \<le> initial_step \<and> initial_step < 6) ValueError) (
     bind_io (request MSG_HALL_CONFIG ticks (direction_bit direction) initial_step 0) (\<lambda>r.
     return_io
       [(''status'', PInt (m_flags r)), (''transition_ticks'', PInt (m_arg0 r)),
        (''transition_hz'', if m_arg0 r \<noteq> 0 then PFloat (fl (of_int hz / of_int (m_arg0 r))) else PNone),
        (''equivalent_rpm'', opt_float rpm), (''direction'', PStr direction),
        (''initial_step'', PInt (m_arg2 r)), (''initial_hall_bits'', PInt (m_arg3 r))]))))"

definition hall_start :: "'s rpc \<Rightarrow> ('s, (string \<times> pyval) list) io" where
  "hall_start request =
     bind_io (request MSG_HALL_START 0 0 0 0) (\<lambda>r.
     return_io
       [(''status'', PInt (m_flags r)), (''arm_request_ticks'', PInt (m_arg0 r)),
        (''initial_hall_bits'', PInt (m_arg1 r)), (''transition_ticks'', PInt (m_arg2 r)),
        (''direction'', direction_name (m_arg3 r)), (''semantics'', arm_semantics)])"

definition hall_stop :: "'s rpc \<Rightarrow> ('s, (string \<times> pyval) list) io" where
  "hall_stop request =
     bind_io (request MSG_HALL_STOP 0 0 0 0) (\<lambda>r.
     return_io
       [(''status'', PInt (m_flags r)), (''actual_stop_ticks'', PInt (m_arg0 r)),
        (''transition_count'', PInt (m_arg1 r)), (''late_transition_count'', PInt (m_arg2 r))])"

definition hall_status :: "'s rpc \<Rightarrow> ('s, (string \<times> pyval) list) io" where
  "hall_status request =
     bind_io (request MSG_HALL_STATUS 0 0 0 0) (\<lambda>r.
     return_io
       [(''status'', PInt (m_flags r)), (''running'', PBool (m_arg0 r \<noteq> 0)),
        (''transition_ticks'', PInt (m_arg1 r)), (''transition_count'', PInt (m_arg2 r)),
        (''late_transition_count'', PInt (m_arg3 r))])"

definition stim_safe :: "'s rpc \<Rightarrow> ('s, (string \<times> pyval) list) io" where
  "stim_safe request =
     bind_io (request MSG_FORCE_SAFE 0 0 0 0) (\<lambda>r.
     return_io
       [(''status'', PInt (m_flags r)), (''actual_safe_ticks'', PInt (m_arg0 r)),
        (''transition_count'', PInt (m_arg1 r))])"

section \<open>The stimulus command line\<close>

datatype stim_command =
    Stim_Hello
  | Stim_Config rate_args string int "int option" int
  | Stim_Start
  | Stim_Stop
  | Stim_Status
  | Stim_Direction string
  | Stim_Arm "int option" "rat option"
  | Stim_Schedule "int option" "rat option" rate_args "string option"
  | Stim_Scheduler_Status
  | Stim_Hall_Config rate_args string int
  | Stim_Hall_Start
  | Stim_Hall_Stop
  | Stim_Hall_Status
  | Stim_Safe

fun stim_command_run :: "rounding \<Rightarrow> 's rpc \<Rightarrow> stim_command \<Rightarrow> ('s, (string \<times> pyval) list) io" where
  "stim_command_run fl request Stim_Hello = hello_result request"
| "stim_command_run fl request (Stim_Config a direction phase period width) =
     abz_config fl request a direction phase period width"
| "stim_command_run fl request Stim_Start = abz_start request"
| "stim_command_run fl request Stim_Stop = abz_stop request"
| "stim_command_run fl request Stim_Status = abz_status request"
| "stim_command_run fl request (Stim_Direction v) = abz_direction request v"
| "stim_command_run fl request (Stim_Arm apply_ticks after_us) = abz_arm fl request apply_ticks after_us"
| "stim_command_run fl request (Stim_Schedule apply_ticks after_us a direction) =
     abz_schedule fl request apply_ticks after_us a direction"
| "stim_command_run fl request Stim_Scheduler_Status = scheduler_status request"
| "stim_command_run fl request (Stim_Hall_Config a direction initial_step) =
     hall_config fl request a direction initial_step"
| "stim_command_run fl request Stim_Hall_Start = hall_start request"
| "stim_command_run fl request Stim_Hall_Stop = hall_stop request"
| "stim_command_run fl request Stim_Hall_Status = hall_status request"
| "stim_command_run fl request Stim_Safe = stim_safe request"

definition stim_main ::
    "rounding \<Rightarrow> 'w rpmsg_os \<Rightarrow> (string \<Rightarrow> bool) \<Rightarrow> string list \<Rightarrow> string option \<Rightarrow> int \<Rightarrow> stim_command
      \<Rightarrow> ('w, (string \<times> pyval) list \<times> int) io" where
  "stim_main fl D can_open globbed device timeout_ms cmd =
     bind_io (lift_io (discover_stim_device can_open globbed device)) (\<lambda>dev.
     with_client D dev timeout_ms (with_exit_code (stim_command_run fl (hp_request D) cmd)))"

section \<open>The serial sensor command line\<close>

definition MODE_BY_NAME :: "(string \<times> int) list" where
  "MODE_BY_NAME = [(''ssi'', SERIAL_MODE_SSI), (''biss'', SERIAL_MODE_BISS), (''spi'', SERIAL_MODE_SPI)]"

definition serial_config ::
    "rounding \<Rightarrow> 's rpc \<Rightarrow> string \<Rightarrow> int \<Rightarrow> rat \<Rightarrow> ('s, (string \<times> pyval) list) io" where
  "serial_config fl request mode_arg bits gap_us =
     bind_io (hello request) (\<lambda>info.
     let hz = hr_tick_hz info in
     then_io (ensure_io (1 \<le> bits \<and> bits \<le> 32) ValueError) (
     then_io (ensure_io (\<not> gap_us < 0) ValueError) (
     bind_io (lift_io (us_to_ticks fl gap_us hz)) (\<lambda>gap_ticks.
     bind_io (lift_io (case map_of MODE_BY_NAME mode_arg of None \<Rightarrow> Inl KeyError | Some m \<Rightarrow> Inr m)) (\<lambda>mode.
     bind_io (request MSG_SERIAL_CONFIG mode bits gap_ticks 0) (\<lambda>r.
     bind_io (if hz \<noteq> 0 then bind_io (lift_io (scale_ticks fl (m_arg2 r) 1000000 hz)) (\<lambda>us. return_io (Some us))
              else return_io None) (\<lambda>gap.
     return_io
       [(''status'', PInt (m_flags r)), (''mode'', PStr (mode_name (m_arg0 r))),
        (''bits'', PInt (m_arg1 r)), (''frame_gap_ticks'', PInt (m_arg2 r)),
        (''frame_gap_us'', opt_float gap)])))))))"

definition serial_flags :: "bool \<Rightarrow> bool \<Rightarrow> bool \<Rightarrow> int" where
  "serial_flags fault_enable error_active warning_active =
     (let flags = 0;
          flags = (if fault_enable then flags OR SERIAL_FLAG_FAULT_ENABLE else flags);
          flags = (if \<not> error_active then flags OR SERIAL_FLAG_BISS_ERROR_OK else flags)
      in if \<not> warning_active then flags OR SERIAL_FLAG_BISS_WARNING_OK else flags)"

record data_args =
  da_value :: int
  da_fault_mask :: int
  da_fault_enable :: bool
  da_error_active :: bool
  da_warning_active :: bool
  da_preview_biss_bits :: "int option"

definition biss_preview :: "data_args \<Rightarrow> int \<Rightarrow> exn + pyval" where
  "biss_preview d bits =
     bind_exn (build_biss_frame (da_value d) bits (if da_error_active d then 0 else 1)
         (if da_warning_active d then 0 else 1)) (\<lambda>(frame, total_bits).
     Inr (PDict [(''total_bits'', PInt total_bits), (''frame_hex'', PStr (hex_int frame)),
                 (''frame_binary'', PStr (bin_padded (nat total_bits) frame))]))"

definition serial_data :: "'s rpc \<Rightarrow> data_args \<Rightarrow> ('s, (string \<times> pyval) list) io" where
  "serial_data request d =
     bind_io (request MSG_SERIAL_DATA (da_value d AND 0xFFFFFFFF) (da_fault_mask d AND 0xFFFFFFFF)
         (serial_flags (da_fault_enable d) (da_error_active d) (da_warning_active d)) 0) (\<lambda>r.
     let result =
           [(''status'', PInt (m_flags r)), (''value'', PStr (''0x'' @ hex08 (m_arg0 r))),
            (''fault_mask'', PStr (''0x'' @ hex08 (m_arg1 r))), (''flags'', PInt (m_arg2 r))]
     in case da_preview_biss_bits d of
          None \<Rightarrow> return_io result
        | Some bits \<Rightarrow>
            bind_io (lift_io (biss_preview d bits)) (\<lambda>preview.
            return_io (result @ [(''biss_preview'', preview)])))"

definition serial_start :: "'s rpc \<Rightarrow> ('s, (string \<times> pyval) list) io" where
  "serial_start request =
     bind_io (request MSG_SERIAL_START 0 0 0 0) (\<lambda>r.
     return_io
       [(''status'', PInt (m_flags r)), (''arm_request_ticks'', PInt (m_arg0 r)),
        (''mode'', PStr (mode_name (m_arg1 r))), (''bits'', PInt (m_arg2 r)),
        (''semantics'', PStr ''ACK sent before serial edge baselines are armed'')])"

definition serial_stop :: "'s rpc \<Rightarrow> ('s, (string \<times> pyval) list) io" where
  "serial_stop request =
     bind_io (request MSG_SERIAL_STOP 0 0 0 0) (\<lambda>r.
     return_io
       [(''status'', PInt (m_flags r)), (''actual_stop_ticks'', PInt (m_arg0 r)),
        (''frame_count'', PInt (m_arg1 r)), (''min_half_period_ticks'', PInt (m_arg2 r)),
        (''protocol_error_count'', PInt (m_arg3 r))])"

definition serial_status :: "rounding \<Rightarrow> 's rpc \<Rightarrow> ('s, (string \<times> pyval) list) io" where
  "serial_status fl request =
     bind_io (hello request) (\<lambda>info.
     bind_io (request MSG_SERIAL_STATUS 0 0 0 0) (\<lambda>r.
     let enabled = (m_arg0 r AND 1 \<noteq> 0); mode = drop_bit 8 (m_arg0 r) AND 0xFF; min_half = m_arg2 r in
     bind_io (if min_half \<noteq> 0
              then bind_io (lift_io (fdiv fl (fl (of_int (hr_tick_hz info))) (fl (2 * fl (of_int min_half)))))
                     (\<lambda>x. return_io (Some x))
              else return_io None) (\<lambda>ceiling.
     return_io
       [(''status'', PInt (m_flags r)), (''enabled'', PBool enabled), (''mode'', PStr (mode_name mode)),
        (''frame_count'', PInt (m_arg1 r)), (''min_half_period_ticks'', PInt min_half),
        (''measured_clock_ceiling_hz'', opt_float ceiling), (''protocol_error_count'', PInt (m_arg3 r))])))"

definition serial_safe :: "'s rpc \<Rightarrow> ('s, (string \<times> pyval) list) io" where
  "serial_safe request =
     bind_io (request MSG_FORCE_SAFE 0 0 0 0) (\<lambda>r.
     return_io
       [(''status'', PInt (m_flags r)), (''actual_safe_ticks'', PInt (m_arg0 r)),
        (''frame_count'', PInt (m_arg1 r))])"

datatype sensor_command =
    Sensor_Hello
  | Sensor_Config string int rat
  | Sensor_Data data_args
  | Sensor_Start
  | Sensor_Stop
  | Sensor_Status
  | Sensor_Safe

fun sensor_command_run :: "rounding \<Rightarrow> 's rpc \<Rightarrow> sensor_command \<Rightarrow> ('s, (string \<times> pyval) list) io" where
  "sensor_command_run fl request Sensor_Hello = hello_result request"
| "sensor_command_run fl request (Sensor_Config mode bits gap_us) = serial_config fl request mode bits gap_us"
| "sensor_command_run fl request (Sensor_Data d) = serial_data request d"
| "sensor_command_run fl request Sensor_Start = serial_start request"
| "sensor_command_run fl request Sensor_Stop = serial_stop request"
| "sensor_command_run fl request Sensor_Status = serial_status fl request"
| "sensor_command_run fl request Sensor_Safe = serial_safe request"

definition sensor_main ::
    "rounding \<Rightarrow> 'w rpmsg_os \<Rightarrow> (string \<Rightarrow> bool) \<Rightarrow> string list \<Rightarrow> string option \<Rightarrow> int \<Rightarrow> sensor_command
      \<Rightarrow> ('w, (string \<times> pyval) list \<times> int) io" where
  "sensor_main fl D can_open globbed device timeout_ms cmd =
     bind_io (lift_io (discover_stim_device can_open globbed device)) (\<lambda>dev.
     with_client D dev timeout_ms (with_exit_code (sensor_command_run fl (hp_request D) cmd)))"

section \<open>The request contract\<close>

text \<open>What the PRU1 firmware may be sent, by message type.\<close>

definition u32 :: "int \<Rightarrow> bool" where
  "u32 v \<longleftrightarrow> 0 \<le> v \<and> v \<le> 0xFFFFFFFF"

definition stim_request_ok :: "int \<Rightarrow> int \<Rightarrow> int \<Rightarrow> int \<Rightarrow> int \<Rightarrow> bool" where
  "stim_request_ok t a0 a1 a2 a3 \<longleftrightarrow>
     (if t = MSG_ABZ_CONFIG then
        100 \<le> a0 \<and> 0 \<le> a1 \<and> 0 \<le> a2 \<and> a2 \<le> a1 \<and> a3 AND 0x301 = a3
      else if t = MSG_ABZ_SCHEDULE then
        u32 a0 \<and> a3 \<in> {1, 2, 3} \<and> (if a3 = 2 then a1 = 0 else 100 \<le> a1) \<and> a2 \<in> {0, 1} \<and> (a3 = 1 \<longrightarrow> a2 = 0)
      else if t = MSG_HALL_CONFIG then 100 \<le> a0 \<and> a1 \<in> {0, 1} \<and> 0 \<le> a2 \<and> a2 < 6 \<and> a3 = 0
      else if t = MSG_ABZ_DIRECTION then a0 \<in> {0, 1} \<and> a1 = 0 \<and> a2 = 0 \<and> a3 = 0
      else if t = MSG_ABZ_ARM then u32 a0 \<and> a1 = 0 \<and> a2 = 0 \<and> a3 = 0
      else t \<in> {MSG_HELLO, MSG_TIME, MSG_FORCE_SAFE, MSG_ABZ_START, MSG_ABZ_STOP, MSG_ABZ_STATUS,
                MSG_HALL_START, MSG_HALL_STOP, MSG_HALL_STATUS, MSG_STIM_STATUS}
        \<and> a0 = 0 \<and> a1 = 0 \<and> a2 = 0 \<and> a3 = 0)"

definition serial_request_ok :: "int \<Rightarrow> int \<Rightarrow> int \<Rightarrow> int \<Rightarrow> int \<Rightarrow> bool" where
  "serial_request_ok t a0 a1 a2 a3 \<longleftrightarrow>
     (if t = MSG_SERIAL_CONFIG then
        a0 \<in> {SERIAL_MODE_SSI, SERIAL_MODE_BISS, SERIAL_MODE_SPI} \<and> 1 \<le> a1 \<and> a1 \<le> 32 \<and> a3 = 0
      else if t = MSG_SERIAL_DATA then u32 a0 \<and> u32 a1 \<and> 0 \<le> a2 \<and> a2 < 8 \<and> a3 = 0
      else t \<in> {MSG_HELLO, MSG_FORCE_SAFE, MSG_SERIAL_START, MSG_SERIAL_STOP, MSG_SERIAL_STATUS}
        \<and> a0 = 0 \<and> a1 = 0 \<and> a2 = 0 \<and> a3 = 0)"

text \<open>A request function that refuses what is outside a contract.\<close>

definition guard_rpc :: "(int \<Rightarrow> int \<Rightarrow> int \<Rightarrow> int \<Rightarrow> int \<Rightarrow> bool) \<Rightarrow> 's rpc \<Rightarrow> 's rpc" where
  "guard_rpc ok request t a0 a1 a2 a3 =
     (if ok t a0 a1 a2 a3 then request t a0 a1 a2 a3 else raise_io OtherException)"

lemma guard_rpc_ok: "ok t a0 a1 a2 a3 \<Longrightarrow> guard_rpc ok request t a0 a1 a2 a3 = request t a0 a1 a2 a3"
  by (simp add: guard_rpc_def)

lemma bind_io_cong_value:
  "(\<And>a s s'. m s = (Inr a, s') \<Longrightarrow> f a = g a) \<Longrightarrow> bind_io m f = bind_io m g"
  by (auto simp: bind_io_def fun_eq_iff split: prod.splits sum.splits)

lemma bind_lift_cong: "(\<And>a. r = Inr a \<Longrightarrow> f a = g a) \<Longrightarrow> bind_io (lift_io r) f = bind_io (lift_io r) g"
  by (rule bind_io_cong_value) (simp add: lift_io_def)

lemma then_ensure_cong: "(b \<Longrightarrow> m = n) \<Longrightarrow> then_io (ensure_io b e) m = then_io (ensure_io b e) n"
  by (cases b) (simp_all add: then_io_def ensure_io_def bind_io_def raise_io_def)

lemma hello_guard: "ok MSG_HELLO 0 0 0 0 \<Longrightarrow> hello (guard_rpc ok request) = hello request"
  by (simp add: hello_def guard_rpc_ok)

section \<open>Lemmas on the arguments\<close>

lemma resolved_ticks:
  "resolve_transition_ticks fl a hz = Inr (ticks, rpm) \<Longrightarrow> 100 \<le> ticks"
  by (auto simp: resolve_transition_ticks_def ABZ_MIN_TRANSITION_TICKS_def bind_exn_Inr split: if_splits)

lemma future_ticks_u32:
  "resolve_future_ticks fl request hz apply_ticks after_us s = (Inr t, s') \<Longrightarrow> u32 t"
  by (auto simp: resolve_future_ticks_def io_results u32_def and_u32 split: option.splits)

lemma index_counts_ok:
  "index_counts a period width = Inr (p, w) \<Longrightarrow> 0 \<le> p \<and> 0 \<le> w \<and> w \<le> p"
  by (auto simp: index_counts_def Let_def split: if_splits)

lemma config_flags_mask: "encode_config_flags d p = Inr w \<Longrightarrow> w AND 0x301 = w"
  by (auto simp: encode_config_flags_def Let_def split: if_splits)

lemma schedule_update_ok:
  "schedule_update fl a direction hz = Inr (ticks, v, flags) \<Longrightarrow>
     flags \<in> {1, 2, 3} \<and> (if flags = 2 then ticks = 0 else 100 \<le> ticks) \<and> v \<in> {0, 1} \<and> (flags = 1 \<longrightarrow> v = 0)"
  by (auto simp: schedule_update_def bind_exn_Inr direction_bit_def ABZ_SCHED_TRANSITION_VALID_def
      ABZ_SCHED_DIRECTION_VALID_def split: if_splits option.splits dest: resolved_ticks)

lemma serial_flags_range: "0 \<le> serial_flags f e w \<and> serial_flags f e w < 8"
  by (simp add: serial_flags_def Let_def)

lemma future_ticks_guard:
  "ok MSG_TIME 0 0 0 0 \<Longrightarrow>
     resolve_future_ticks fl (guard_rpc ok request) hz apply_ticks after_us
     = resolve_future_ticks fl request hz apply_ticks after_us"
  by (simp add: resolve_future_ticks_def guard_rpc_ok cong: option.case_cong)

lemma abz_config_guard:
  "abz_config fl (guard_rpc stim_request_ok request) a d p period width = abz_config fl request a d p period width"
  unfolding abz_config_def Let_def
  by (auto simp: hello_guard stim_request_ok_def guard_rpc_ok split_def
      dest!: resolved_ticks index_counts_ok config_flags_mask intro!: bind_io_cong_value bind_lift_cong)

lemma abz_arm_guard:
  "abz_arm fl (guard_rpc stim_request_ok request) t us = abz_arm fl request t us"
  unfolding abz_arm_def
  by (auto simp: hello_guard stim_request_ok_def future_ticks_guard guard_rpc_ok
      dest!: future_ticks_u32 intro!: bind_io_cong_value)

lemma abz_schedule_guard:
  "abz_schedule fl (guard_rpc stim_request_ok request) t us a d = abz_schedule fl request t us a d"
proof -
  have ok: "stim_request_ok MSG_ABZ_SCHEDULE at_ticks ticks v flags"
    if "u32 at_ticks" "schedule_update fl a d hz = Inr (ticks, v, flags)" for at_ticks ticks v flags hz
    using that(1) schedule_update_ok [OF that(2)] by (auto simp: stim_request_ok_def)
  show ?thesis
    unfolding abz_schedule_def
    by (auto simp: hello_guard stim_request_ok_def future_ticks_guard guard_rpc_ok [where ok = stim_request_ok, OF ok] split_def
        dest: future_ticks_u32 intro!: bind_io_cong_value bind_lift_cong)
qed

lemma hall_config_guard:
  "hall_config fl (guard_rpc stim_request_ok request) a d p = hall_config fl request a d p"
  unfolding hall_config_def Let_def
  by (auto simp: hello_guard stim_request_ok_def guard_rpc_ok direction_bit_def split_def
      dest!: resolved_ticks intro!: bind_io_cong_value bind_lift_cong then_ensure_cong)

lemma serial_config_guard:
  "serial_config fl (guard_rpc serial_request_ok request) m bits gap = serial_config fl request m bits gap"
  unfolding serial_config_def Let_def
  by (auto simp: hello_guard serial_request_ok_def guard_rpc_ok MODE_BY_NAME_def
      intro!: bind_io_cong_value bind_lift_cong then_ensure_cong split: option.splits if_splits)

lemma u32_and: "u32 (v AND 0xFFFFFFFF)"
  using pos_mod_bound [of "2 ^ 32" v] by (simp add: u32_def and_u32)

lemma serial_data_ok:
  "serial_request_ok MSG_SERIAL_DATA (v AND 0xFFFFFFFF) (m AND 0xFFFFFFFF) (serial_flags f e w) 0"
  by (simp add: serial_request_ok_def u32_and serial_flags_range)

lemma serial_data_guard: "serial_data (guard_rpc serial_request_ok request) d = serial_data request d"
  by (simp add: serial_data_def guard_rpc_ok [where ok = serial_request_ok, OF serial_data_ok])

section \<open>Properties\<close>


end
