(* ===== verification/Traces.thy ===== *)
theory Traces
  imports Hil_Errors "HOL-Library.Sublist"
begin

text \<open>
  Traces of operations. The operations an environment offers are wrapped so that they append to a
  log, and \<open>traced T m\<close> says that what a computation does is always a prefix of one of the sequences
  \<open>T\<close>, and all of one when it returns. The rules follow the structure of the program, so the allowed
  sequences of a composed program are the concatenations of those of its parts.
\<close>

type_synonym ('ev, 's) logged = "'ev list \<times> 's"

text \<open>An operation that is logged when it is attempted, and one that is logged with the value it gives.\<close>

definition log_io :: "'ev \<Rightarrow> ('s, 'a) io \<Rightarrow> (('ev, 's) logged, 'a) io" where
  "log_io ev m = (\<lambda>(l, s). case m s of (r, s') \<Rightarrow> (r, (l @ [ev], s')))"

definition log_value :: "('a \<Rightarrow> 'ev) \<Rightarrow> ('s, 'a) io \<Rightarrow> (('ev, 's) logged, 'a) io" where
  "log_value ev m = (\<lambda>(l, s). case m s of (r, s') \<Rightarrow> (r, (l @ (case r of Inl _ \<Rightarrow> [] | Inr a \<Rightarrow> [ev a]), s')))"

text \<open>An operation that leaves no trace.\<close>

definition unlogged :: "('s, 'a) io \<Rightarrow> (('ev, 's) logged, 'a) io" where
  "unlogged m = (\<lambda>(l, s). case m s of (r, s') \<Rightarrow> (r, (l, s')))"

definition traced :: "'ev list set \<Rightarrow> (('ev, 's) logged, 'a) io \<Rightarrow> bool" where
  "traced T m \<longleftrightarrow> (\<forall>l s r l' s'. m (l, s) = (r, (l', s')) \<longrightarrow>
     (\<exists>u t. l' = l @ u \<and> t \<in> T \<and> prefix u t \<and> (\<not> isl r \<longrightarrow> u = t)))"

text \<open>Concatenation of sets of sequences.\<close>

definition conc :: "'ev list set \<Rightarrow> 'ev list set \<Rightarrow> 'ev list set" where
  "conc T T' = {t @ t' | t t'. t \<in> T \<and> t' \<in> T'}"

lemma conc_single [simp]: "conc {t} {t'} = {t @ t'}"
  by (auto simp: conc_def)

lemma conc_empty [simp]: "conc {[]} T = T" "conc T {[]} = T"
  by (auto simp: conc_def)

lemma concI: "t \<in> T \<Longrightarrow> t' \<in> T' \<Longrightarrow> t @ t' \<in> conc T T'"
  by (auto simp: conc_def)

lemma tracedI:
  "(\<And>l s r l' s'. m (l, s) = (r, (l', s')) \<Longrightarrow>
      \<exists>u t. l' = l @ u \<and> t \<in> T \<and> prefix u t \<and> (\<not> isl r \<longrightarrow> u = t)) \<Longrightarrow> traced T m"
  unfolding traced_def by blast

lemma tracedD:
  "traced T m \<Longrightarrow> m (l, s) = (r, (l', s')) \<Longrightarrow>
     \<exists>u t. l' = l @ u \<and> t \<in> T \<and> prefix u t \<and> (\<not> isl r \<longrightarrow> u = t)"
  unfolding traced_def by blast

text \<open>A traced run from an empty log.\<close>

lemma traced_run:
  assumes "traced T m" "m ([], s) = (r, (evs, s'))"
  shows "\<exists>t \<in> T. prefix evs t \<and> (\<not> isl r \<longrightarrow> evs = t)"
  using tracedD [OF assms] by auto

lemma traced_mono: "traced T m \<Longrightarrow> T \<subseteq> T' \<Longrightarrow> traced T' m"
  unfolding traced_def by blast

lemma traced_silent: "(\<And>l s. fst (snd (m (l, s))) = l) \<Longrightarrow> traced {[]} m"
  by (rule tracedI) (metis append_Nil2 fst_conv prefix_order.refl singletonI snd_conv)

lemma traced_ensure: "traced {[]} (ensure_io b e)"
  and traced_lift: "traced {[]} (lift_io x)"
  and traced_return: "traced {[]} (return_io a)"
  by (rule traced_silent, simp add: io_simps)+

lemma traced_raise: "T \<noteq> {} \<Longrightarrow> traced T (raise_io e)"
  by (rule tracedI) (auto simp: raise_io_def)

lemma traced_unlogged: "traced {[]} (unlogged m)"
  by (rule traced_silent) (simp add: unlogged_def split: prod.splits)

lemma traced_log: "traced {[ev]} (log_io ev m)"
  by (rule tracedI) (auto simp: log_io_def split: prod.splits)

lemma traced_bind_value:
  assumes f: "\<And>a. traced (T a) (f a)" and ne: "\<And>a. T a \<noteq> {}"
  shows "traced (\<Union>a. (\<lambda>t. ev a # t) ` T a) (bind_io (log_value ev m) f)"
proof (rule tracedI)
  fix l s r l' s'
  assume run: "bind_io (log_value ev m) f (l, s) = (r, (l', s'))"
  obtain x s1 where x: "m s = (x, s1)" by (rule prod.exhaust)
  show "\<exists>u t. l' = l @ u \<and> t \<in> (\<Union>a. (\<lambda>t. ev a # t) ` T a) \<and> prefix u t \<and> (\<not> isl r \<longrightarrow> u = t)"
  proof (cases x)
    case (Inl e)
    from ne obtain t where t: "t \<in> T undefined" by blast
    have "l' = l" "isl r" using run x Inl by (auto simp: bind_io_def log_value_def)
    with t show ?thesis by (intro exI [of _ "[]"] exI [of _ "ev undefined # t"]) auto
  next
    case (Inr a)
    with run x have "f a (l @ [ev a], s1) = (r, (l', s'))" by (simp add: bind_io_def log_value_def)
    from tracedD [OF f this] show ?thesis by fastforce
  qed
qed

lemma traced_bind:
  assumes m: "traced T m" and f: "\<And>a. traced T' (f a)"
  shows "traced (conc T T') (bind_io m f)"
proof (rule tracedI)
  fix l s r l' s'
  assume run: "bind_io m f (l, s) = (r, (l', s'))"
  obtain x l1 s1 where x: "m (l, s) = (x, (l1, s1))" by (metis prod.exhaust)
  from tracedD [OF m x] obtain u t where u: "l1 = l @ u" "t \<in> T" "prefix u t" "\<not> isl x \<longrightarrow> u = t" by blast
  have "T' \<noteq> {}" using tracedD [OF f, of undefined] by (metis empty_iff prod.exhaust)
  then obtain t0 where t0: "t0 \<in> T'" by blast
  show "\<exists>u t. l' = l @ u \<and> t \<in> conc T T' \<and> prefix u t \<and> (\<not> isl r \<longrightarrow> u = t)"
  proof (cases x)
    case (Inl e)
    with run x have "r = Inl e" "l' = l1" by (simp_all add: bind_io_def)
    with u concI [OF u(2) t0] show ?thesis by auto
  next
    case (Inr a)
    with run x have "f a (l1, s1) = (r, (l', s'))" by (simp add: bind_io_def)
    from tracedD [OF f this] obtain u' t' where
      "l' = l1 @ u'" "t' \<in> T'" "prefix u' t'" "\<not> isl r \<longrightarrow> u' = t'" by blast
    with u Inr show ?thesis
      by (intro exI [of _ "u @ u'"] exI [of _ "t @ t'"]) (auto intro: concI)
  qed
qed

lemma traced_then: "traced T m \<Longrightarrow> traced T' n \<Longrightarrow> traced (conc T T') (then_io m n)"
  by (simp add: then_io_def traced_bind)

lemmas traced_intros = traced_bind traced_then traced_ensure traced_lift traced_return
  traced_unlogged traced_log

end
