(* ===== verification/Capture_Cli.thy ===== *)
theory Capture_Cli
  imports Pru_Cli Raw_Capture Pwm_Shared Traces
begin

text \<open>
  The two capture command lines of PRU0: raw edges (\<open>boards/beaglebone_black/host/hil_raw_cli.py\<close>)
  and PWM summaries (\<open>hil_pwm_cli.py\<close>), with the printed form of a PWM snapshot. A command runs over
  any request function, clock and reader; the main functions plug in the client of \<open>Pru_Protocol\<close> and
  the readers of \<open>Raw_Capture\<close> and \<open>Pwm_Shared\<close>. The property of the bounded capture: it leaves the
  device alone between arming it and the end of the settle time.
\<close>

text \<open>A computation on the second component of a state.\<close>

definition on_snd :: "('c, 'a) io \<Rightarrow> ('s \<times> 'c, 'a) io" where
  "on_snd m = (\<lambda>(s, c). case m c of (r, c') \<Rightarrow> (r, (s, c')))"

section \<open>Raw edges\<close>

definition status_dict :: "message \<Rightarrow> (string \<times> pyval) list" where
  "status_dict r =
     [(''status'', PInt (m_flags r)), (''running'', PBool (m_arg0 r \<noteq> 0)),
      (''event_count'', PInt (m_arg1 r)), (''event_limit'', PInt (m_arg2 r)),
      (''stop_reason'', PInt (m_arg3 r))]"

definition record_fields :: "raw_record \<Rightarrow> pyval" where
  "record_fields r =
     PDict [(''index'', PInt (int (rr_index r))), (''timestamp_ticks'', PInt (rr_timestamp_ticks r)),
            (''raw_inputs'', PInt (rr_raw_inputs r)), (''logical_inputs'', PInt (rr_logical_inputs r)),
            (''changed_inputs'', PInt (rr_changed_inputs r))]"

definition raw_dump :: "('s, raw_shared) io \<Rightarrow> int \<Rightarrow> ('s, (string \<times> pyval) list) io" where
  "raw_dump read_frozen limit_arg =
     bind_io read_frozen (\<lambda>shared.
     bind_io (lift_io (raw_records shared)) (\<lambda>records.
     let limit = nat (max 0 (min limit_arg (int (length records)))) in
     return_io
       [(''running'', PBool (rs_running shared \<noteq> 0)), (''event_count'', PInt (rs_event_count shared)),
        (''event_limit'', PInt (rs_configured_event_limit shared)),
        (''stop_reason'', PInt (rs_stop_reason shared)), (''tick_hz'', PInt (rs_tick_hz shared)),
        (''records'', PList (map record_fields
            (if limit \<noteq> 0 then drop (length records - limit) records else [])))]))"

definition raw_analyze :: "rounding \<Rightarrow> ('s, raw_shared) io \<Rightarrow> rat \<Rightarrow> ('s, raw_report) io" where
  "raw_analyze fl read_frozen min_ns =
     bind_io read_frozen (\<lambda>shared. lift_io (analyze_raw_capture fl min_ns shared))"

definition raw_config :: "'s rpc \<Rightarrow> int \<Rightarrow> ('s, (string \<times> pyval) list) io" where
  "raw_config request event_limit =
     then_io (ensure_io (1 \<le> event_limit \<and> event_limit \<le> int RAW_CAPACITY) ValueError) (
     bind_io (request MSG_RAW_CONFIG event_limit 0 0 0) (\<lambda>r.
     return_io
       [(''status'', PInt (m_flags r)), (''event_limit'', PInt (m_arg0 r)), (''capacity'', PInt (m_arg1 r))]))"

definition raw_clear :: "'s rpc \<Rightarrow> ('s, (string \<times> pyval) list) io" where
  "raw_clear request =
     bind_io (request MSG_RAW_CLEAR 0 0 0 0) (\<lambda>r.
     return_io [(''status'', PInt (m_flags r)), (''generation'', PInt (m_arg0 r))])"

definition raw_start :: "'s rpc \<Rightarrow> ('s, (string \<times> pyval) list) io" where
  "raw_start request =
     bind_io (request MSG_RAW_START 0 0 0 0) (\<lambda>r.
     return_io
       [(''status'', PInt (m_flags r)), (''arm_request_ticks'', PInt (m_arg0 r)),
        (''prearm_raw_inputs'', PInt (m_arg1 r)), (''event_limit'', PInt (m_arg2 r))])"

definition raw_stop :: "'s rpc \<Rightarrow> ('s, (string \<times> pyval) list) io" where
  "raw_stop request =
     bind_io (request MSG_RAW_STOP 0 0 0 0) (\<lambda>r.
     return_io
       [(''status'', PInt (m_flags r)), (''stop_ticks'', PInt (m_arg0 r)),
        (''event_count'', PInt (m_arg1 r)), (''stop_reason'', PInt (m_arg2 r))])"

definition raw_status :: "'s rpc \<Rightarrow> ('s, (string \<times> pyval) list) io" where
  "raw_status request = bind_io (request MSG_RAW_STATUS 0 0 0 0) (\<lambda>r. return_io (status_dict r))"

text \<open>The bounded capture: configure, clear, start, sleep, ask once, read.\<close>

definition raw_capture ::
    "rounding \<Rightarrow> 's rpc \<Rightarrow> (rat \<Rightarrow> ('s, unit) io) \<Rightarrow> ('s, raw_shared) io \<Rightarrow> int \<Rightarrow> rat \<Rightarrow> rat
      \<Rightarrow> ('s, (string \<times> pyval) list \<times> raw_report) io" where
  "raw_capture fl request sleep read_frozen event_limit settle_ms min_ns =
     then_io (ensure_io (1 \<le> event_limit \<and> event_limit \<le> int RAW_CAPACITY) ValueError) (
     then_io (ensure_io (\<not> settle_ms < 0) ValueError) (
     bind_io (request MSG_RAW_CONFIG event_limit 0 0 0) (\<lambda>cfg.
     then_io (ensure_io (m_flags cfg = 0) RuntimeError) (
     bind_io (request MSG_RAW_CLEAR 0 0 0 0) (\<lambda>cleared.
     then_io (ensure_io (m_flags cleared = 0) RuntimeError) (
     bind_io (request MSG_RAW_START 0 0 0 0) (\<lambda>started.
     then_io (ensure_io (m_flags started = 0) RuntimeError) (
     then_io (sleep (fl (settle_ms / 1000))) (
     bind_io (request MSG_RAW_STATUS 0 0 0 0) (\<lambda>status.
     then_io (ensure_io (m_flags status = 0) RuntimeError) (
     then_io (ensure_io (\<not> m_arg0 status \<noteq> 0) RuntimeError) (
     bind_io read_frozen (\<lambda>shared.
     bind_io (lift_io (analyze_raw_capture fl min_ns shared)) (\<lambda>analysis.
     return_io
       ([(''arm_request_ticks'', PInt (m_arg0 started)), (''prearm_raw_inputs'', PInt (m_arg1 started))]
          @ status_dict status, analysis)))))))))))))))"

datatype raw_command =
    Raw_Hello
  | Raw_Config int
  | Raw_Clear
  | Raw_Start
  | Raw_Stop
  | Raw_Status
  | Raw_Dump int
  | Raw_Analyze rat
  | Raw_Bounded int rat rat

datatype raw_result =
    RR_Fields "(string \<times> pyval) list"
  | RR_Report raw_report
  | RR_Capture "(string \<times> pyval) list" raw_report

text \<open>The commands that talk to the device; the other two only read the shared RAM.\<close>

definition raw_device_command ::
    "rounding \<Rightarrow> 's rpc \<Rightarrow> (rat \<Rightarrow> ('s, unit) io) \<Rightarrow> ('s, raw_shared) io \<Rightarrow> raw_command
      \<Rightarrow> ('s, raw_result \<times> int) io" where
  "raw_device_command fl request sleep read_frozen cmd =
     (let fields = (\<lambda>m. bind_io (with_exit_code m) (\<lambda>(result, code). return_io (RR_Fields result, code)))
      in case cmd of
           Raw_Hello \<Rightarrow> fields (hello_result request)
         | Raw_Config event_limit \<Rightarrow> fields (raw_config request event_limit)
         | Raw_Clear \<Rightarrow> fields (raw_clear request)
         | Raw_Start \<Rightarrow> fields (raw_start request)
         | Raw_Stop \<Rightarrow> fields (raw_stop request)
         | Raw_Status \<Rightarrow> fields (raw_status request)
         | Raw_Bounded event_limit settle_ms min_ns \<Rightarrow>
             bind_io (raw_capture fl request sleep read_frozen event_limit settle_ms min_ns)
               (\<lambda>(control, analysis). return_io (RR_Capture control analysis, 0))
         | _ \<Rightarrow> raise_io OtherException)"

text \<open>The state: the world of the device, and the descriptors and mappings of the reader.\<close>

definition raw_main ::
    "rounding \<Rightarrow> ('w \<times> (int list \<times> nat)) rpmsg_os \<Rightarrow> (rat \<Rightarrow> ('w \<times> (int list \<times> nat), unit) io)
      \<Rightarrow> (int list \<times> nat, raw_shared) io \<Rightarrow> (string \<Rightarrow> bool) \<Rightarrow> string list \<Rightarrow> string option \<Rightarrow> int
      \<Rightarrow> raw_command \<Rightarrow> ('w \<times> (int list \<times> nat), raw_result \<times> int) io" where
  "raw_main fl D sleep read_frozen path_exists globbed device timeout_ms cmd =
     (case cmd of
        Raw_Dump limit \<Rightarrow>
          bind_io (raw_dump (on_snd read_frozen) limit) (\<lambda>result. return_io (RR_Fields result, 0))
      | Raw_Analyze min_ns \<Rightarrow>
          bind_io (raw_analyze fl (on_snd read_frozen) min_ns) (\<lambda>report. return_io (RR_Report report, 0))
      | _ \<Rightarrow>
          bind_io (lift_io (discover_device path_exists globbed device)) (\<lambda>dev.
          with_client D dev timeout_ms
            (raw_device_command fl (hp_request D) (\<lambda>x. on_world (sleep x)) (on_world (on_snd read_frozen)) cmd)))"

section \<open>PWM snapshots\<close>

text \<open>The float conversions of \<open>snapshot_to_dict\<close>, guarded by the clock.\<close>

definition pwm_us :: "rounding \<Rightarrow> int \<Rightarrow> int \<Rightarrow> exn + pyval" where
  "pwm_us fl hz ticks =
     (if hz \<noteq> 0 then bind_exn (scale_ticks fl ticks 1000000 hz) (\<lambda>x. Inr (PFloat x)) else Inr PNone)"

definition pwm_ticks_to_ns :: "rounding \<Rightarrow> int \<Rightarrow> int \<Rightarrow> exn + rat" where
  "pwm_ticks_to_ns fl ticks hz = scale_ticks fl ticks 1000000000 hz"

definition pwm_ns :: "rounding \<Rightarrow> int \<Rightarrow> int \<Rightarrow> exn + pyval" where
  "pwm_ns fl hz ticks =
     (if hz \<noteq> 0 then bind_exn (pwm_ticks_to_ns fl ticks hz) (\<lambda>x. Inr (PFloat x)) else Inr PNone)"

definition channel_fields :: "rounding \<Rightarrow> int \<Rightarrow> channel_snapshot \<Rightarrow> exn + (string \<times> pyval) list" where
  "channel_fields fl hz ch =
     bind_exn (pwm_us fl hz (ch_period_ticks ch)) (\<lambda>period.
     bind_exn (pwm_us fl hz (ch_high_ticks ch)) (\<lambda>high.
     bind_exn (pwm_us fl hz (ch_low_ticks ch)) (\<lambda>low.
     Inr
       [(''period_ticks'', PInt (ch_period_ticks ch)), (''period_us'', period),
        (''high_ticks'', PInt (ch_high_ticks ch)), (''high_us'', high),
        (''low_ticks'', PInt (ch_low_ticks ch)), (''low_us'', low),
        (''last_rise_ticks'', PInt (ch_last_rise_ticks ch)), (''last_fall_ticks'', PInt (ch_last_fall_ticks ch)),
        (''rise_count'', PInt (ch_rise_count ch)), (''fall_count'', PInt (ch_fall_count ch)),
        (''flags'', PInt (ch_flags ch))])))"

definition pair_fields :: "rounding \<Rightarrow> int \<Rightarrow> pair_snapshot \<Rightarrow> exn + (string \<times> pyval) list" where
  "pair_fields fl hz p =
     bind_exn (pwm_ns fl hz (pr_deadtime_high_to_low_ticks p)) (\<lambda>hl.
     bind_exn (pwm_ns fl hz (pr_deadtime_low_to_high_ticks p)) (\<lambda>lh.
     Inr
       [(''deadtime_high_to_low_ticks'', PInt (pr_deadtime_high_to_low_ticks p)),
        (''deadtime_high_to_low_ns'', hl),
        (''deadtime_low_to_high_ticks'', PInt (pr_deadtime_low_to_high_ticks p)),
        (''deadtime_low_to_high_ns'', lh),
        (''deadtime_high_to_low_count'', PInt (pr_deadtime_high_to_low_count p)),
        (''deadtime_low_to_high_count'', PInt (pr_deadtime_low_to_high_count p)),
        (''overlap_count'', PInt (pr_overlap_count p)), (''violation_count'', PInt (pr_violation_count p)),
        (''flags'', PInt (pr_flags p))]))"

definition edge_fields :: "edge_record \<Rightarrow> pyval" where
  "edge_fields r =
     PDict [(''timestamp_ticks'', PInt (er_timestamp_ticks r)), (''logical_inputs'', PInt (er_logical_inputs r)),
            (''changed_inputs'', PInt (er_changed_inputs r)), (''fault_flags'', PInt (er_fault_flags r))]"

text \<open>\<open>{name: f(x) for name, x in zip(names, xs)}\<close>; the names are distinct.\<close>

definition named_fields ::
    "string list \<Rightarrow> ('x \<Rightarrow> exn + (string \<times> pyval) list) \<Rightarrow> 'x list \<Rightarrow> exn + pyval" where
  "named_fields names f xs =
     bind_exn (map_exn (\<lambda>(name, x). bind_exn (f x) (\<lambda>d. Inr (name, PDict d))) (zip names xs))
       (\<lambda>items. Inr (PDict items))"

definition snapshot_to_dict :: "rounding \<Rightarrow> pwm_shared \<Rightarrow> int \<Rightarrow> exn + (string \<times> pyval) list" where
  "snapshot_to_dict fl s ring_limit =
     (let hz = ps_tick_hz s in
      bind_exn (named_fields CHANNEL_NAMES (channel_fields fl hz) (ps_channel s)) (\<lambda>channels.
      bind_exn (named_fields PAIR_NAMES (pair_fields fl hz) (ps_pair s)) (\<lambda>pairs.
      let ring_count = min (ps_ring_count s) (int RING_CAPACITY);
          records = recent_edges s ring_limit in
      bind_exn (pwm_ns fl hz (ps_min_deadtime_ticks s)) (\<lambda>min_ns.
      Inr
        [(''magic'', PStr (''0x'' @ hex08 (ps_magic s))), (''version'', PInt (ps_version s)),
         (''total_size'', PInt (ps_total_size s)), (''summary_size'', PInt (int PWM_SUMMARY_SIZE)),
         (''seq_lock'', PInt (ps_seq_lock s)), (''tick_hz'', PInt hz), (''running'', PBool (ps_running s \<noteq> 0)),
         (''min_deadtime_ticks'', PInt (ps_min_deadtime_ticks s)), (''min_deadtime_ns'', min_ns),
         (''input_bits'', PInt (ps_input_bits s)), (''changed_bits'', PInt (ps_changed_bits s)),
         (''last_timestamp_ticks'', PInt (ps_last_timestamp_ticks s)), (''event_seq'', PInt (ps_event_seq s)),
         (''ring_head'', PInt (ps_ring_head s)), (''ring_count'', PInt ring_count),
         (''fault_flags'', PInt (ps_fault_flags s)), (''channels'', channels), (''pairs'', pairs),
         (''recent_edges'', PList (map edge_fields records))]))))"

section \<open>The PWM command line\<close>

definition pwm_snapshot ::
    "rounding \<Rightarrow> (int \<Rightarrow> ('s, pwm_shared) io) \<Rightarrow> int \<Rightarrow> ('s, (string \<times> pyval) list) io" where
  "pwm_snapshot fl read_snapshot ring_limit =
     bind_io (read_snapshot ring_limit) (\<lambda>snapshot. lift_io (snapshot_to_dict fl snapshot ring_limit))"

text \<open>
  The watch loop on fuel: \<open>None\<close> when the turns given are used up. A count of 0 runs until an
  exception; any other count needs at most that many turns.
\<close>

fun watch_loop ::
    "nat \<Rightarrow> ('s, (string \<times> pyval) list) io \<Rightarrow> ((string \<times> pyval) list \<Rightarrow> ('s, unit) io) \<Rightarrow> ('s, unit) io
      \<Rightarrow> int \<Rightarrow> int \<Rightarrow> ('s, int option) io" where
  "watch_loop fuel snapshot print sleep cnt emitted =
     (if \<not> (cnt = 0 \<or> emitted < cnt) then return_io (Some 0)
      else case fuel of
          0 \<Rightarrow> return_io None
        | Suc fuel' \<Rightarrow>
            bind_io snapshot (\<lambda>result.
            then_io (print result) (
            then_io sleep (
            watch_loop fuel' snapshot print sleep cnt (emitted + 1)))))"

declare watch_loop.simps [simp del]

definition pwm_watch ::
    "nat \<Rightarrow> rounding \<Rightarrow> (int \<Rightarrow> ('s, pwm_shared) io) \<Rightarrow> ((string \<times> pyval) list \<Rightarrow> ('s, unit) io)
      \<Rightarrow> (rat \<Rightarrow> ('s, unit) io) \<Rightarrow> rat \<Rightarrow> int \<Rightarrow> int \<Rightarrow> ('s, int option) io" where
  "pwm_watch fuel fl read_snapshot print sleep interval_ms ring_limit cnt =
     watch_loop fuel (pwm_snapshot fl read_snapshot ring_limit) print (sleep (fl (interval_ms / 1000))) cnt 0"

datatype pwm_command =
    Pwm_Config rat
  | Pwm_Start
  | Pwm_Stop
  | Pwm_Clear
  | Pwm_Status

text \<open>The commands to the device; every one begins with a greeting for the clock.\<close>

definition pwm_device_command ::
    "rounding \<Rightarrow> 's rpc \<Rightarrow> pwm_command \<Rightarrow> ('s, (string \<times> pyval) list) io" where
  "pwm_device_command fl request cmd =
     bind_io (hello request) (\<lambda>info.
     let hz = hr_tick_hz info in
     case cmd of
       Pwm_Config min_deadtime_ns \<Rightarrow>
         bind_io (lift_io (ns_to_ticks fl min_deadtime_ns hz)) (\<lambda>min_ticks.
         bind_io (request MSG_CAPTURE_CONFIG min_ticks 0 0 0) (\<lambda>r.
         bind_io (lift_io (scale_ticks fl (m_arg0 r) 1000000000 hz)) (\<lambda>ns.
         return_io
           [(''status'', PInt (m_flags r)), (''min_deadtime_ticks'', PInt (m_arg0 r)),
            (''min_deadtime_ns'', PFloat ns)])))
     | Pwm_Start \<Rightarrow>
         bind_io (request MSG_CAPTURE_START 0 0 0 0) (\<lambda>r.
         return_io
           [(''status'', PInt (m_flags r)), (''start_ticks'', PInt (m_arg0 r)),
            (''initial_input_bits'', PInt (m_arg1 r))])
     | Pwm_Stop \<Rightarrow>
         bind_io (request MSG_CAPTURE_STOP 0 0 0 0) (\<lambda>r.
         return_io [(''status'', PInt (m_flags r)), (''stop_ticks'', PInt (m_arg0 r))])
     | Pwm_Clear \<Rightarrow>
         bind_io (request MSG_CAPTURE_CLEAR 0 0 0 0) (\<lambda>r.
         return_io [(''status'', PInt (m_flags r)), (''event_seq'', PInt (m_arg0 r))])
     | Pwm_Status \<Rightarrow>
         bind_io (request MSG_CAPTURE_STATUS 0 0 0 0) (\<lambda>r.
         bind_io (lift_io (scale_ticks fl (m_arg1 r) 1000000000 hz)) (\<lambda>ns.
         return_io
           [(''status'', PInt (m_flags r)), (''running'', PBool (m_arg0 r \<noteq> 0)),
            (''min_deadtime_ticks'', PInt (m_arg1 r)), (''min_deadtime_ns'', PFloat ns),
            (''fault_flags'', PInt (m_arg2 r)), (''event_seq'', PInt (m_arg3 r))])))"

definition pwm_device_main ::
    "rounding \<Rightarrow> 'w rpmsg_os \<Rightarrow> (string \<Rightarrow> bool) \<Rightarrow> string list \<Rightarrow> string option \<Rightarrow> int \<Rightarrow> pwm_command
      \<Rightarrow> ('w, (string \<times> pyval) list \<times> int) io" where
  "pwm_device_main fl D path_exists globbed device timeout_ms cmd =
     bind_io (lift_io (discover_device path_exists globbed device)) (\<lambda>dev.
     with_client D dev timeout_ms (with_exit_code (pwm_device_command fl (hp_request D) cmd)))"

section \<open>Lemmas\<close>

text \<open>A positive count needs no more turns than the count.\<close>

lemma watch_loop_enough:
  "cnt \<noteq> 0 \<Longrightarrow> cnt - emitted \<le> int fuel \<Longrightarrow>
     fst (watch_loop fuel snapshot print sleep cnt emitted s) \<noteq> Inr None"
proof (induction fuel arbitrary: emitted s)
  case 0
  then show ?case by (subst watch_loop.simps) (simp add: return_io_def)
next
  case (Suc fuel)
  then show ?case
    by (subst watch_loop.simps)
      (auto simp: return_io_def bind_io_apply then_io_apply split: prod.splits sum.splits)
qed

section \<open>What the device and the host see of a bounded capture\<close>

datatype raw_event =
    Ev_Request int int
  | Ev_Sleep rat
  | Ev_Read

text \<open>The request function and the sleep with a log of what is attempted.\<close>

definition log_rpc :: "'s rpc \<Rightarrow> (raw_event, 's) logged rpc" where
  "log_rpc request t a0 a1 a2 a3 = log_io (Ev_Request t a0) (request t a0 a1 a2 a3)"

definition log_sleep :: "(rat \<Rightarrow> ('s, unit) io) \<Rightarrow> rat \<Rightarrow> ((raw_event, 's) logged, unit) io" where
  "log_sleep sleep x = log_io (Ev_Sleep x) (sleep x)"

definition bounded_trace :: "int \<Rightarrow> rat \<Rightarrow> raw_event list" where
  "bounded_trace event_limit seconds =
     [Ev_Request MSG_RAW_CONFIG event_limit, Ev_Request MSG_RAW_CLEAR 0, Ev_Request MSG_RAW_START 0,
      Ev_Sleep seconds, Ev_Request MSG_RAW_STATUS 0, Ev_Read]"

lemma traced_rpc: "traced {[Ev_Request t a0]} (log_rpc request t a0 a1 a2 a3)"
  and traced_sleep: "traced {[Ev_Sleep x]} (log_sleep sleep x)"
  by (simp_all add: log_rpc_def log_sleep_def traced_log)

lemma raw_capture_traced:
  "traced {bounded_trace limit (fl (ms / 1000))}
     (raw_capture fl (log_rpc request) (log_sleep sleep) (log_io Ev_Read read_frozen) limit ms min_ns)"
proof (rule traced_mono)
  show "traced (conc {[]} (conc {[]} (conc {[Ev_Request MSG_RAW_CONFIG limit]} (conc {[]}
      (conc {[Ev_Request MSG_RAW_CLEAR 0]} (conc {[]} (conc {[Ev_Request MSG_RAW_START 0]} (conc {[]}
      (conc {[Ev_Sleep (fl (ms / 1000))]} (conc {[Ev_Request MSG_RAW_STATUS 0]} (conc {[]} (conc {[]}
      (conc {[Ev_Read]} (conc {[]} {[]}))))))))))))))
     (raw_capture fl (log_rpc request) (log_sleep sleep) (log_io Ev_Read read_frozen) limit ms min_ns)"
    unfolding raw_capture_def by (intro traced_intros traced_rpc traced_sleep)
qed (simp add: bounded_trace_def)

section \<open>Properties\<close>

text \<open>C18: The bounded capture keeps the precise window quiet. Whatever the device, the clock and the shared
  RAM do, what the command does is a prefix of configure, clear, start, sleep, one status request, one
  read of the shared RAM: no message is sent between arming the capture and the end of the sleep, and
  the memory is not read before. A command that returns did all of it, for an event limit within the
  capacity, and the device said it was no longer running.\<close>

theorem capture_window_quiet:
  "case raw_capture fl (log_rpc request) (log_sleep sleep) (log_io Ev_Read read_frozen) limit ms min_ns ([], s) of
     (r, (evs, s')) \<Rightarrow>
       prefix evs (bounded_trace limit (fl (ms / 1000)))
       \<and> (case r of Inl _ \<Rightarrow> True
          | Inr (control, report) \<Rightarrow> evs = bounded_trace limit (fl (ms / 1000))
              \<and> 1 \<le> limit \<and> limit \<le> 1024 \<and> 0 \<le> ms \<and> map_of control ''running'' = Some (PBool False))"
proof -
  obtain r evs s' where run: "raw_capture fl (log_rpc request) (log_sleep sleep)
      (log_io Ev_Read read_frozen) limit ms min_ns ([], s) = (r, (evs, s'))" by (metis prod.exhaust)
  from traced_run [OF raw_capture_traced run]
  have trace: "prefix evs (bounded_trace limit (fl (ms / 1000)))"
    "\<not> isl r \<longrightarrow> evs = bounded_trace limit (fl (ms / 1000))" by auto
  have "1 \<le> limit \<and> limit \<le> 1024 \<and> 0 \<le> ms \<and> map_of (fst v) ''running'' = Some (PBool False)"
    if "r = Inr v" for v
    using run unfolding that raw_capture_def io_results
    by (elim exE conjE) (auto simp: status_dict_def)
  with run trace show ?thesis by (cases r) auto
qed

end
