(* ===== verification/Remoteproc.thy ===== *)
theory Remoteproc
  imports Py_Float Py_Bytes Traces
begin

text \<open>
  The scripts that manage the two PRU cores through the remoteproc files of the kernel,
  \<open>boards/beaglebone_black/scripts/pru0_ctl.py\<close> and \<open>pru1_ctl.py\<close>. They differ in a few names only, which
  are the fields of \<open>pru_profile\<close>. File system, user id, clock and sleep are parameters; paths are strings
  in the normal form of \<open>pathlib\<close>. Shown: the order in which a deployment touches the core, that the core
  found is the only one that matches, and that waiting for the device ends.
\<close>

section \<open>Environment\<close>

record 'w fs_api =
  fs_exists :: "string \<Rightarrow> ('w, bool) io"
  fs_is_file :: "string \<Rightarrow> ('w, bool) io"
  fs_read_text :: "string \<Rightarrow> ('w, string) io"
  fs_write_text :: "string \<Rightarrow> string \<Rightarrow> ('w, unit) io"
  fs_copy2 :: "string \<Rightarrow> string \<Rightarrow> ('w, unit) io"
  fs_glob :: "string \<Rightarrow> ('w, string list) io"
  fs_geteuid :: "('w, int) io"
  fs_monotonic :: "('w, rat) io"
  fs_sleep :: "rat \<Rightarrow> ('w, unit) io"

record pru_profile =
  pp_names :: "string list"
  pp_parts :: "string list"
  pp_patterns :: "string list"

definition PRU0_NAMES :: "string list" where
  "PRU0_NAMES = [''4a334000.pru'', ''4a334000.pru0'', ''pruss-core0'']"

definition PRU1_NAMES :: "string list" where
  "PRU1_NAMES = [''4a338000.pru'', ''4a338000.pru1'', ''pruss-core1'']"

definition pru0_profile :: pru_profile where
  "pru0_profile = \<lparr>pp_names = PRU0_NAMES, pp_parts = [''4a334000.pru'', ''pruss-core0''],
     pp_patterns = [''/dev/rpmsg_pru30'', ''/dev/rpmsg-pru30'', ''/dev/rpmsg*30*'']\<rparr>"

definition pru1_profile :: pru_profile where
  "pru1_profile = \<lparr>pp_names = PRU1_NAMES, pp_parts = [''4a338000.pru'', ''pruss-core1''],
     pp_patterns = [''/dev/rpmsg_pru31'', ''/dev/rpmsg-pru31'', ''/dev/rpmsg*31*'']\<rparr>"

text \<open>\<open>Path(s)\<close> as text: no empty or \<open>.\<close> components, two leading slashes stay two, nothing is the current directory.\<close>

primrec path_parts :: "string \<Rightarrow> string \<Rightarrow> string list" where
  "path_parts part [] = (if part \<in> {[], ''.''} then [] else [part])"
| "path_parts part (c # cs) =
     (if c = CHR ''/'' then (if part \<in> {[], ''.''} then [] else [part]) @ path_parts [] cs
      else path_parts (part @ [c]) cs)"

fun with_slashes :: "string list \<Rightarrow> string" where
  "with_slashes [] = []"
| "with_slashes [p] = p"
| "with_slashes (p # ps) = p @ ''/'' @ with_slashes ps"

definition path_root :: "string \<Rightarrow> string" where
  "path_root s = (case length (takeWhile (\<lambda>c. c = CHR ''/'') s) of 0 \<Rightarrow> [] | Suc (Suc 0) \<Rightarrow> ''//'' | _ \<Rightarrow> ''/'')"

definition pathlib :: "string \<Rightarrow> string" where
  "pathlib s = (case path_root s @ with_slashes (path_parts [] s) of [] \<Rightarrow> ''.'' | t \<Rightarrow> t)"

text \<open>\<open>path / name\<close>; an absolute name replaces the path, an empty one adds nothing.\<close>

definition path_join :: "string \<Rightarrow> string \<Rightarrow> string" where
  "path_join p name = (if name = [] then p else if hd name = CHR ''/'' then name else p @ ''/'' @ name)"

lemma path_join_inject [simp]: "hd n \<noteq> CHR ''/'' \<Longrightarrow> path_join p n = path_join q n \<longleftrightarrow> p = q"
  by (simp add: path_join_def)

section \<open>Finding the core\<close>

definition read_text :: "'w fs_api \<Rightarrow> string \<Rightarrow> ('w, string) io" where
  "read_text F path = bind_io (fs_read_text F path) (\<lambda>t. return_io (strip_blanks t))"

definition is_core_name :: "pru_profile \<Rightarrow> string \<Rightarrow> bool" where
  "is_core_name P name \<longleftrightarrow>
     name \<in> set (pp_names P) \<or> list_ex (\<lambda>part. contains_text part (ascii_lower name)) (pp_parts P)"

text \<open>The name of an entry, or nothing when reading it raises an \<open>OSError\<close>.\<close>

definition entry_name :: "'w fs_api \<Rightarrow> string \<Rightarrow> ('w, string option) io" where
  "entry_name F path =
     catch_io (bind_io (read_text F (path_join path ''name'')) (\<lambda>n. return_io (Some n)))
       (\<lambda>e. if is_os_error e then return_io None else raise_io e)"

primrec matching_cores :: "pru_profile \<Rightarrow> 'w fs_api \<Rightarrow> string list \<Rightarrow> ('w, string list) io" where
  "matching_cores P F [] = return_io []"
| "matching_cores P F (path # paths) =
     bind_io (entry_name F path) (\<lambda>name.
     bind_io (matching_cores P F paths) (\<lambda>rest.
     return_io (case name of
         None \<Rightarrow> rest
       | Some n \<Rightarrow> if is_core_name P n then path # rest else rest)))"

definition REMOTEPROC_GLOB :: string where
  "REMOTEPROC_GLOB = ''/sys/class/remoteproc/remoteproc*''"

definition path_given :: "string option \<Rightarrow> bool" where
  "path_given explicit \<longleftrightarrow> explicit \<noteq> None \<and> explicit \<noteq> Some []"

text \<open>When the core is not unique the names are read once more, for the message.\<close>

definition find_remoteproc :: "pru_profile \<Rightarrow> 'w fs_api \<Rightarrow> string option \<Rightarrow> ('w, string) io" where
  "find_remoteproc P F explicit =
     (if path_given explicit then
        bind_io (fs_exists F (pathlib (the explicit))) (\<lambda>b.
        then_io (ensure_io b FileNotFoundError) (return_io (pathlib (the explicit))))
      else
        bind_io (fs_glob F REMOTEPROC_GLOB) (\<lambda>raws.
        bind_io (matching_cores P F (sort raws)) (\<lambda>matches.
        if length matches \<noteq> 1 then
          bind_io (fs_glob F REMOTEPROC_GLOB) (\<lambda>raws.
          then_io (for_io (\<lambda>path. then_io (entry_name F path) (return_io ())) (sort raws))
            (raise_io RuntimeError))
        else return_io (matches ! 0))))"

definition find_pru0_remoteproc :: "'w fs_api \<Rightarrow> string option \<Rightarrow> ('w, string) io" where
  "find_pru0_remoteproc = find_remoteproc pru0_profile"

definition find_pru1_remoteproc :: "'w fs_api \<Rightarrow> string option \<Rightarrow> ('w, string) io" where
  "find_pru1_remoteproc = find_remoteproc pru1_profile"

section \<open>Start, stop, deploy\<close>

definition write_control :: "'w fs_api \<Rightarrow> string \<Rightarrow> string \<Rightarrow> ('w, unit) io" where
  "write_control F path value = fs_write_text F path (value @ [char_of (10 :: nat)])"

definition core_state :: "'w fs_api \<Rightarrow> string \<Rightarrow> ('w, string) io" where
  "core_state F rp = read_text F (path_join rp ''state'')"

definition core_stop :: "'w fs_api \<Rightarrow> string \<Rightarrow> ('w, unit) io" where
  "core_stop F rp =
     bind_io (core_state F rp) (\<lambda>st.
     if st = ''running'' then write_control F (path_join rp ''state'') ''stop'' else return_io ())"

definition core_start :: "'w fs_api \<Rightarrow> string \<Rightarrow> ('w, unit) io" where
  "core_start F rp =
     bind_io (core_state F rp) (\<lambda>st.
     if st \<noteq> ''running'' then write_control F (path_join rp ''state'') ''start'' else return_io ())"

definition install_and_start :: "'w fs_api \<Rightarrow> string \<Rightarrow> string \<Rightarrow> string \<Rightarrow> ('w, unit) io" where
  "install_and_start F rp source firmware_name =
     bind_io (fs_geteuid F) (\<lambda>euid.
     then_io (ensure_io (euid = 0) PermissionError) (
     bind_io (fs_is_file F source) (\<lambda>is_file.
     then_io (ensure_io is_file FileNotFoundError) (
     then_io (core_stop F rp) (
     then_io (fs_copy2 F source (path_join ''/lib/firmware'' firmware_name)) (
     then_io (write_control F (path_join rp ''firmware'') firmware_name) (
     core_start F rp)))))))"

section \<open>Waiting for the device\<close>

primrec first_existing :: "'w fs_api \<Rightarrow> string list \<Rightarrow> ('w, string option) io" where
  "first_existing F [] = return_io None"
| "first_existing F (c # cs) =
     bind_io (fs_exists F c) (\<lambda>b. if b then return_io (Some c) else first_existing F cs)"

primrec scan_patterns :: "'w fs_api \<Rightarrow> string list \<Rightarrow> ('w, string option) io" where
  "scan_patterns F [] = return_io None"
| "scan_patterns F (p # ps) =
     bind_io (fs_glob F p) (\<lambda>cs.
     bind_io (first_existing F cs) (\<lambda>found.
     case found of Some c \<Rightarrow> return_io (Some c) | None \<Rightarrow> scan_patterns F ps))"

text \<open>The polling loop on fuel; \<open>None\<close> when the turns given are used up.\<close>

primrec poll_loop :: "'w fs_api \<Rightarrow> string list \<Rightarrow> rat \<Rightarrow> nat \<Rightarrow> ('w, string option) io" where
  "poll_loop F patterns deadline 0 = return_io None"
| "poll_loop F patterns deadline (Suc fuel) =
     bind_io (fs_monotonic F) (\<lambda>now.
     if \<not> now < deadline then raise_io TimeoutError
     else
       bind_io (scan_patterns F patterns) (\<lambda>found.
       case found of
         Some c \<Rightarrow> return_io (Some c)
       | None \<Rightarrow> then_io (fs_sleep F (5 / 100)) (poll_loop F patterns deadline fuel)))"

definition wait_for_rpmsg ::
    "rounding \<Rightarrow> pru_profile \<Rightarrow> 'w fs_api \<Rightarrow> rat \<Rightarrow> nat \<Rightarrow> ('w, string option) io" where
  "wait_for_rpmsg fl P F timeout_s fuel =
     bind_io (fs_monotonic F) (\<lambda>now. poll_loop F (pp_patterns P) (fl (now + timeout_s)) fuel)"

definition wait_for_pru0_rpmsg :: "rounding \<Rightarrow> 'w fs_api \<Rightarrow> rat \<Rightarrow> nat \<Rightarrow> ('w, string option) io" where
  "wait_for_pru0_rpmsg fl = wait_for_rpmsg fl pru0_profile"

definition wait_for_pru1_rpmsg :: "rounding \<Rightarrow> 'w fs_api \<Rightarrow> rat \<Rightarrow> nat \<Rightarrow> ('w, string option) io" where
  "wait_for_pru1_rpmsg fl = wait_for_rpmsg fl pru1_profile"

section \<open>The command\<close>

datatype ctl_command =
    Ctl_Status
  | Ctl_Start
  | Ctl_Stop
  | Ctl_Deploy string string rat

text \<open>The lines the script prints; a deployment that runs out of fuel prints nothing (\<open>None\<close>).\<close>

definition ctl_command_run ::
    "rounding \<Rightarrow> pru_profile \<Rightarrow> 'w fs_api \<Rightarrow> string \<Rightarrow> ctl_command \<Rightarrow> nat \<Rightarrow> ('w, string list option) io" where
  "ctl_command_run fl P F rp cmd fuel =
     (case cmd of
        Ctl_Status \<Rightarrow>
          bind_io (read_text F (path_join rp ''name'')) (\<lambda>name.
          bind_io (core_state F rp) (\<lambda>st.
          bind_io (read_text F (path_join rp ''firmware'')) (\<lambda>fw.
          return_io (Some [''remoteproc='' @ rp, ''name='' @ name, ''state='' @ st, ''firmware='' @ fw]))))
      | Ctl_Start \<Rightarrow>
          then_io (core_start F rp) (bind_io (core_state F rp) (\<lambda>st. return_io (Some [st])))
      | Ctl_Stop \<Rightarrow>
          then_io (core_stop F rp) (bind_io (core_state F rp) (\<lambda>st. return_io (Some [st])))
      | Ctl_Deploy firmware firmware_name timeout_s \<Rightarrow>
          then_io (install_and_start F rp firmware firmware_name) (
          bind_io (wait_for_rpmsg fl P F timeout_s fuel) (\<lambda>device.
          return_io (map_option (\<lambda>d. [''remoteproc='' @ rp, ''rpmsg='' @ d]) device))))"

definition ctl_main ::
    "rounding \<Rightarrow> pru_profile \<Rightarrow> 'w fs_api \<Rightarrow> string option \<Rightarrow> ctl_command \<Rightarrow> nat
      \<Rightarrow> ('w, string list option) io" where
  "ctl_main fl P F explicit cmd fuel =
     bind_io (find_remoteproc P F explicit) (\<lambda>rp. ctl_command_run fl P F rp cmd fuel)"

definition pru0_ctl_main ::
    "rounding \<Rightarrow> 'w fs_api \<Rightarrow> string option \<Rightarrow> ctl_command \<Rightarrow> nat \<Rightarrow> ('w, string list option) io" where
  "pru0_ctl_main fl = ctl_main fl pru0_profile"

definition pru1_ctl_main ::
    "rounding \<Rightarrow> 'w fs_api \<Rightarrow> string option \<Rightarrow> ctl_command \<Rightarrow> nat \<Rightarrow> ('w, string list option) io" where
  "pru1_ctl_main fl = ctl_main fl pru1_profile"

section \<open>The order of a deployment\<close>

datatype fs_event =
    Saw string string
  | Wrote string string
  | Copied string string

text \<open>The environment with a log of what is read, written and copied.\<close>

definition log_fs :: "'w fs_api \<Rightarrow> (fs_event, 'w) logged fs_api" where
  "log_fs F =
     \<lparr>fs_exists = \<lambda>p. unlogged (fs_exists F p), fs_is_file = \<lambda>p. unlogged (fs_is_file F p),
      fs_read_text = \<lambda>p. log_value (Saw p) (fs_read_text F p),
      fs_write_text = \<lambda>p v. log_io (Wrote p v) (fs_write_text F p v),
      fs_copy2 = \<lambda>a b. log_io (Copied a b) (fs_copy2 F a b),
      fs_glob = \<lambda>p. unlogged (fs_glob F p), fs_geteuid = unlogged (fs_geteuid F),
      fs_monotonic = unlogged (fs_monotonic F), fs_sleep = \<lambda>x. unlogged (fs_sleep F x)\<rparr>"

text \<open>What stopping and starting may do, by the state that was read.\<close>

definition stop_traces :: "string \<Rightarrow> fs_event list set" where
  "stop_traces rp =
     {Saw (path_join rp ''state'') t # (if strip_blanks t = ''running''
        then [Wrote (path_join rp ''state'') (''stop'' @ [char_of (10 :: nat)])] else []) | t. True}"

definition start_traces :: "string \<Rightarrow> fs_event list set" where
  "start_traces rp =
     {Saw (path_join rp ''state'') t # (if strip_blanks t = ''running''
        then [] else [Wrote (path_join rp ''state'') (''start'' @ [char_of (10 :: nat)])]) | t. True}"

definition deploy_traces :: "string \<Rightarrow> string \<Rightarrow> string \<Rightarrow> fs_event list set" where
  "deploy_traces rp source fw =
     conc (stop_traces rp) (conc
       {[Copied source (path_join ''/lib/firmware'' fw), Wrote (path_join rp ''firmware'') (fw @ [char_of (10 :: nat)])]}
       (start_traces rp))"

lemma core_state_bind:
  "bind_io (core_state F rp) f = bind_io (fs_read_text F (path_join rp ''state'')) (\<lambda>t. f (strip_blanks t))"
  by (simp add: core_state_def read_text_def bind_io_assoc bind_io_return)

lemma log_fs_fields:
  "fs_read_text (log_fs F) = (\<lambda>p. log_value (Saw p) (fs_read_text F p))"
  "fs_write_text (log_fs F) = (\<lambda>p v. log_io (Wrote p v) (fs_write_text F p v))"
  "fs_copy2 (log_fs F) = (\<lambda>a b. log_io (Copied a b) (fs_copy2 F a b))"
  "fs_geteuid (log_fs F) = unlogged (fs_geteuid F)"
  "fs_is_file (log_fs F) = (\<lambda>p. unlogged (fs_is_file F p))"
  by (simp_all add: log_fs_def)

lemma core_stop_traced: "traced (stop_traces rp) (core_stop (log_fs F) rp)"
proof -
  have "traced (\<Union>t. (\<lambda>u. Saw (path_join rp ''state'') t # u) `
        {if strip_blanks t = ''running''
         then [Wrote (path_join rp ''state'') (''stop'' @ [char_of (10 :: nat)])] else []})
      (core_stop (log_fs F) rp)"
    unfolding core_stop_def core_state_bind write_control_def log_fs_fields
    by (rule traced_bind_value) (auto intro: traced_return traced_log)
  then show ?thesis by (rule traced_mono) (auto simp: stop_traces_def)
qed

lemma core_start_traced: "traced (start_traces rp) (core_start (log_fs F) rp)"
proof -
  have "traced (\<Union>t. (\<lambda>u. Saw (path_join rp ''state'') t # u) `
        {if strip_blanks t = ''running''
         then [] else [Wrote (path_join rp ''state'') (''start'' @ [char_of (10 :: nat)])]})
      (core_start (log_fs F) rp)"
    unfolding core_start_def core_state_bind write_control_def log_fs_fields
    by (rule traced_bind_value) (auto intro: traced_return traced_log)
  then show ?thesis by (rule traced_mono) (auto simp: start_traces_def)
qed

lemma install_traced: "traced (deploy_traces rp source fw) (install_and_start (log_fs F) rp source fw)"
proof (rule traced_mono)
  show "traced (conc {[]} (conc {[]} (conc {[]} (conc {[]} (conc (stop_traces rp)
      (conc {[Copied source (path_join ''/lib/firmware'' fw)]}
      (conc {[Wrote (path_join rp ''firmware'') (fw @ [char_of (10 :: nat)])]} (start_traces rp))))))))
     (install_and_start (log_fs F) rp source fw)"
    unfolding install_and_start_def write_control_def log_fs_fields
    by (intro traced_intros core_stop_traced core_start_traced)
qed (auto simp: deploy_traces_def conc_def)

section \<open>Waiting ends\<close>

text \<open>\<open>steady F now\<close>: \<open>now\<close> is the clock of \<open>F\<close>; it never runs backwards and a sleep takes its time.\<close>

definition steady :: "'w fs_api \<Rightarrow> ('w \<Rightarrow> rat) \<Rightarrow> bool" where
  "steady F now \<longleftrightarrow> (\<forall>w. fs_monotonic F w = (Inr (now w), w))
     \<and> (\<forall>p w. now w \<le> now (snd (fs_glob F p w))) \<and> (\<forall>p w. now w \<le> now (snd (fs_exists F p w)))
     \<and> (\<forall>x w. now w + x \<le> now (snd (fs_sleep F x w)))"

lemma first_existing_clock:
  "steady F now \<Longrightarrow> now w \<le> now (snd (first_existing F cs w))"
proof (induction cs arbitrary: w)
  case (Cons c cs)
  obtain r w1 where e: "fs_exists F c w = (r, w1)" by (rule prod.exhaust)
  with Cons.prems have "now w \<le> now w1" unfolding steady_def by (metis snd_conv)
  with Cons.IH [OF Cons.prems, of w1] e show ?case
    by (auto simp: bind_io_apply return_io_def split: sum.splits)
qed (simp add: return_io_def)

lemma scan_patterns_clock:
  "steady F now \<Longrightarrow> now w \<le> now (snd (scan_patterns F ps w))"
proof (induction ps arbitrary: w)
  case (Cons p ps)
  obtain r w1 where g: "fs_glob F p w = (r, w1)" by (rule prod.exhaust)
  with Cons.prems have le: "now w \<le> now w1" unfolding steady_def by (metis snd_conv)
  show ?case
  proof (cases r)
    case (Inl e)
    with g le show ?thesis by (simp add: bind_io_apply)
  next
    case (Inr cs)
    obtain r2 w2 where e: "first_existing F cs w1 = (r2, w2)" by (rule prod.exhaust)
    with first_existing_clock [OF Cons.prems, of w1 cs] have "now w1 \<le> now w2" by simp
    with Cons.IH [OF Cons.prems, of w2] g le e Inr show ?thesis
      by (auto simp: bind_io_apply return_io_def split: sum.splits option.splits)
  qed
qed (simp add: return_io_def)

lemma poll_loop_ends:
  assumes "steady F now"
  shows "deadline - now w \<le> of_nat n * (5 / 100) \<Longrightarrow> fst (poll_loop F ps deadline (Suc n) w) \<noteq> Inr None"
proof (induction n arbitrary: w)
  case 0
  then show ?case using assms by (simp add: steady_def io_simps)
next
  case (Suc n)
  have clock: "fs_monotonic F w = (Inr (now w), w)" using assms by (simp add: steady_def)
  obtain r w1 where sc: "scan_patterns F ps w = (r, w1)" by (rule prod.exhaust)
  with scan_patterns_clock [OF assms, of w ps] have le: "now w \<le> now w1" by simp
  obtain r2 w2 where sl: "fs_sleep F (5 / 100) w1 = (r2, w2)" by (rule prod.exhaust)
  have "now w1 + 5 / 100 \<le> now (snd (fs_sleep F (5 / 100) w1))" using assms unfolding steady_def by blast
  with sl have "now w1 + 5 / 100 \<le> now w2" by simp
  with Suc.prems le have "deadline - now w2 \<le> of_nat n * (5 / 100)" by (simp add: algebra_simps)
  from Suc.IH [OF this] show ?case
    unfolding poll_loop.simps(2) [of F ps deadline "Suc n"]
    using clock sc sl
    by (auto simp: bind_io_apply then_io_apply return_io_def raise_io_def simp del: poll_loop.simps
        split: sum.splits option.splits)
qed

lemma first_existing_exists:
  "first_existing F cs w = (Inr (Some c), w') \<Longrightarrow> \<exists>u. fst (fs_exists F c u) = Inr True"
proof (induction cs arbitrary: w)
  case (Cons d ds)
  obtain r w1 where "fs_exists F d w = (r, w1)" by (rule prod.exhaust)
  with Cons show ?case
    by (auto simp: io_results split: if_splits) (metis fst_conv)
qed (simp add: return_io_def)

lemma scan_patterns_exists:
  "scan_patterns F ps w = (Inr (Some c), w') \<Longrightarrow> \<exists>u. fst (fs_exists F c u) = Inr True"
  by (induction ps arbitrary: w)
    (auto simp: io_results split: option.splits dest: first_existing_exists)

lemma poll_loop_exists:
  "poll_loop F ps deadline n w = (Inr (Some c), w') \<Longrightarrow> \<exists>u. fst (fs_exists F c u) = Inr True"
  by (induction n arbitrary: w)
    (auto simp: io_results split: if_splits option.splits dest: scan_patterns_exists)

section \<open>Finding, on files that stand still\<close>

text \<open>The entries of the remoteproc directory, each with its name or the \<open>OSError\<close> of reading it.\<close>

definition still_files :: "'w fs_api \<Rightarrow> 'w \<Rightarrow> string list \<Rightarrow> (string \<Rightarrow> string option) \<Rightarrow> bool" where
  "still_files F w raws content \<longleftrightarrow>
     fs_glob F REMOTEPROC_GLOB w = (Inr raws, w)
     \<and> (\<forall>p. fs_read_text F (path_join p ''name'') w =
          ((case content p of None \<Rightarrow> Inl OSError | Some t \<Rightarrow> Inr t), w))"

definition cores_in :: "pru_profile \<Rightarrow> (string \<Rightarrow> string option) \<Rightarrow> string list \<Rightarrow> string list" where
  "cores_in P content raws =
     filter (\<lambda>p. case content p of None \<Rightarrow> False | Some t \<Rightarrow> is_core_name P (strip_blanks t)) raws"

lemma entry_name_still:
  "still_files F w raws content \<Longrightarrow> entry_name F p w = (Inr (map_option strip_blanks (content p)), w)"
  by (simp add: entry_name_def read_text_def still_files_def io_simps split: option.splits)

lemma matching_cores_still:
  "still_files F w raws content \<Longrightarrow> matching_cores P F ps w = (Inr (cores_in P content ps), w)"
  by (induction ps) (auto simp: io_simps entry_name_still cores_in_def split: option.splits)

lemma read_names_still:
  "still_files F w raws content \<Longrightarrow> for_io (\<lambda>p. then_io (entry_name F p) (return_io ())) ps w = (Inr (), w)"
  by (induction ps) (auto simp: io_simps entry_name_still)

section \<open>Properties\<close>

text \<open>C17: Whatever the files and the driver do, a deployment touches the core in one order only: it reads the
  state; it tells a running core to stop; it copies the firmware, names it to the driver, reads the
  state again and tells a core that is not running to start. What was done is always a prefix of such a
  sequence, and all of one when the call returns: firmware is never installed under a core that was
  last seen running and not told to stop.\<close>

theorem deploy_ordered:
  "case install_and_start (log_fs F) rp source fw ([], w) of
     (r, (evs, w')) \<Rightarrow> \<exists>t \<in> deploy_traces rp source fw. prefix evs t \<and> (isl r \<or> evs = t)"
proof -
  obtain r evs w' where run: "install_and_start (log_fs F) rp source fw ([], w) = (r, (evs, w'))"
    by (metis prod.exhaust)
  from traced_run [OF install_traced run] run show ?thesis by auto
qed

text \<open>C31: Waiting for the RPMsg device ends. On a clock that does not run backwards, with sleeps that take their
  time, the polling loop is over after at most one turn more than the sleeps that fit into the timeout:
  it has raised, or it returns a device file, and that file existed when it was looked at.\<close>

theorem wait_for_rpmsg_ends:
  assumes "steady F now" and "fl (now w + timeout_s) - now w \<le> of_nat n * (5 / 100)"
  shows "case wait_for_rpmsg fl P F timeout_s (Suc n) w of
     (Inl e, w') \<Rightarrow> True
   | (Inr None, w') \<Rightarrow> False
   | (Inr (Some c), w') \<Rightarrow> \<exists>u. fst (fs_exists F c u) = Inr True"
proof -
  have "fs_monotonic F w = (Inr (now w), w)" using assms(1) by (simp add: steady_def)
  then have run: "wait_for_rpmsg fl P F timeout_s (Suc n) w
      = poll_loop F (pp_patterns P) (fl (now w + timeout_s)) (Suc n) w"
    by (simp add: wait_for_rpmsg_def bind_io_apply)
  obtain r w' where p: "poll_loop F (pp_patterns P) (fl (now w + timeout_s)) (Suc n) w = (r, w')"
    by (rule prod.exhaust)
  have some: "r \<noteq> Inr None" using poll_loop_ends [OF assms] p by (metis fst_conv)
  have "\<exists>u. fst (fs_exists F c u) = Inr True" if "r = Inr (Some c)" for c
    by (rule poll_loop_exists [OF p [unfolded that]])
  with some show ?thesis unfolding run p by (auto split: sum.splits option.splits)
qed

text \<open>On files that stand still, the core is found without an explicit path exactly when one single entry
  of the remoteproc directory has a readable name that is one of the core's names or contains one of
  its parts; with none or several, the search raises RuntimeError and never picks one of them.\<close>

theorem core_found_unique:
  assumes "still_files F w raws content"
  shows "find_remoteproc P F None w =
    ((case cores_in P content (sort raws) of [p] \<Rightarrow> Inr p | _ \<Rightarrow> Inl RuntimeError), w)"
proof -
  have g: "fs_glob F REMOTEPROC_GLOB w = (Inr raws, w)" using assms by (simp add: still_files_def)
  show ?thesis
    by (cases "cores_in P content (sort raws)" rule: list.exhaust [case_product list.exhaust])
      (auto simp: find_remoteproc_def path_given_def bind_io_apply then_io_apply g
        matching_cores_still [OF assms] read_names_still [OF assms] return_io_apply raise_io_apply
        split: list.splits)
qed

text \<open>A board with both cores, no device file, and a clock that only sleeping moves.\<close>

definition board_names :: "string \<Rightarrow> string option" where
  "board_names p =
     (if p = ''/sys/class/remoteproc/remoteproc1'' then Some ''4a334000.pru ''
      else if p = ''/sys/class/remoteproc/remoteproc2'' then Some ''4A338000.PRU''
      else None)"

definition board_raws :: "string list" where
  "board_raws = [''/sys/class/remoteproc/remoteproc2'', ''/sys/class/remoteproc/remoteproc0'',
     ''/sys/class/remoteproc/remoteproc1'']"

definition board_fs :: "rat fs_api" where
  "board_fs =
     \<lparr>fs_exists = \<lambda>_. return_io False, fs_is_file = \<lambda>_. return_io True,
      fs_read_text = \<lambda>p. case map_of (map (\<lambda>r. (path_join r ''name'', r)) board_raws) p of
         None \<Rightarrow> raise_io OSError
       | Some r \<Rightarrow> (case board_names r of None \<Rightarrow> raise_io OSError | Some t \<Rightarrow> return_io t),
      fs_write_text = \<lambda>_ _. return_io (), fs_copy2 = \<lambda>_ _. return_io (),
      fs_glob = \<lambda>p. return_io (if p = REMOTEPROC_GLOB then board_raws else []),
      fs_geteuid = return_io 0, fs_monotonic = \<lambda>w. (Inr w, w), fs_sleep = \<lambda>x w. (Inr (), w + x)\<rparr>"

lemma core_found_unique_witness:
  "find_remoteproc pru1_profile board_fs None 0 = (Inr ''/sys/class/remoteproc/remoteproc2'', 0)"
proof -
  have "still_files board_fs 0 board_raws board_names"
    unfolding still_files_def board_fs_def
    by (auto simp: return_io_def raise_io_def board_names_def board_raws_def)
  from core_found_unique [OF this, of pru1_profile] show ?thesis
    by (simp add: cores_in_def) code_simp
qed

lemma wait_for_rpmsg_ends_witness:
  "\<exists>e w'. wait_for_rpmsg (\<lambda>x. x) pru1_profile board_fs 2 41 0 = (Inl e, w')"
proof -
  have st: "steady board_fs (\<lambda>w. w)" by (simp add: steady_def board_fs_def return_io_def)
  have "fst (fs_exists board_fs c u) = Inr False" for c u by (simp add: board_fs_def return_io_def)
  with wait_for_rpmsg_ends [OF st, of "\<lambda>x. x" 0 2 40 pru1_profile] show ?thesis
    by (cases "wait_for_rpmsg (\<lambda>x. x) pru1_profile board_fs 2 (Suc 40) 0")
      (auto split: sum.splits option.splits)
qed

end
