(* ===== verification/Py_Regex.thy ===== *)
theory Py_Regex
  imports Py_Bytes
begin

text \<open>
  The part of Python's \<open>re\<close> that the repository uses: a parser of patterns, a backtracking matcher in the order
  of Python (leftmost, greedy or lazy), groups, \<open>search\<close>, \<open>finditer\<close> and the removal of all matches by
  \<open>sub\<close>. The meaning of an expression is a relation between positions of the text, and the matcher is
  shown to find a match exactly where the relation has one. Patterns are written with \<open>%\<close> where Python
  has the backslash, which has no place in a string literal here; no pattern of the repository contains \<open>%\<close>.
  Texts are ASCII.
\<close>

section \<open>Expressions\<close>

datatype chars =
    One char
  | One_Ci char
  | Dot
  | Every
  | Blank
  | Not_Blank
  | Digit
  | Word

datatype re =
    Eps
  | Chars bool "chars list"
  | Bol
  | Bound
  | Seq re re
  | Alt re re
  | Rep bool "nat option" re
  | Grp nat re

definition newline :: char where
  "newline = char_of (10 :: nat)"

definition is_word :: "char \<Rightarrow> bool" where
  "is_word c \<longleftrightarrow> (let n = of_char c :: nat in
     48 \<le> n \<and> n \<le> 57 \<or> 65 \<le> n \<and> n \<le> 90 \<or> 97 \<le> n \<and> n \<le> 122 \<or> n = 95)"

definition lower_char :: "char \<Rightarrow> char" where
  "lower_char c = (let n = of_char c :: nat in if 65 \<le> n \<and> n \<le> 90 then char_of (n + 32) else c)"

primrec in_chars :: "char \<Rightarrow> chars \<Rightarrow> bool" where
  "in_chars x (One c) = (x = c)"
| "in_chars x (One_Ci c) = (lower_char x = lower_char c)"
| "in_chars x Dot = (x \<noteq> newline)"
| "in_chars x Every = True"
| "in_chars x Blank = is_blank x"
| "in_chars x Not_Blank = (\<not> is_blank x)"
| "in_chars x Digit = (digit_value x \<noteq> None)"
| "in_chars x Word = is_word x"

section \<open>Meaning\<close>

text \<open>A position: the character before it, if any, and the rest of the text.\<close>

type_synonym pos = "char option \<times> string"

definition at_line_start :: "pos \<Rightarrow> bool" where
  "at_line_start s \<longleftrightarrow> fst s = None \<or> fst s = Some newline"

definition at_bound :: "pos \<Rightarrow> bool" where
  "at_bound s \<longleftrightarrow>
     (case fst s of None \<Rightarrow> False | Some c \<Rightarrow> is_word c) \<noteq> (case snd s of [] \<Rightarrow> False | c # _ \<Rightarrow> is_word c)"

definition matches_char :: "bool \<Rightarrow> chars list \<Rightarrow> char \<Rightarrow> bool" where
  "matches_char neg cs x \<longleftrightarrow> list_ex (in_chars x) cs \<noteq> neg"

definition allows :: "nat option \<Rightarrow> nat \<Rightarrow> bool" where
  "allows most n \<longleftrightarrow> (case most of None \<Rightarrow> True | Some m \<Rightarrow> n \<le> m)"

primrec lang :: "re \<Rightarrow> (pos \<times> pos) set" where
  "lang Eps = Id"
| "lang (Chars neg cs) = {((p, x # t), (Some x, t)) | p x t. matches_char neg cs x}"
| "lang Bol = {(s, s) | s. at_line_start s}"
| "lang Bound = {(s, s) | s. at_bound s}"
| "lang (Seq a b) = lang a O lang b"
| "lang (Alt a b) = lang a \<union> lang b"
| "lang (Rep greedy most r) = (\<Union>n \<in> {n. allows most n}. lang r ^^ n)"
| "lang (Grp n r) = lang r"

section \<open>The matcher\<close>

text \<open>Captured groups, the latest first, and what is to be matched after an expression.\<close>

type_synonym caps = "(nat \<times> string) list"
type_synonym 'a cont = "pos \<Rightarrow> caps \<Rightarrow> 'a option"

definition or_else :: "'a option \<Rightarrow> 'a option \<Rightarrow> 'a option" where
  "or_else a b = (case a of Some x \<Rightarrow> Some x | None \<Rightarrow> b)"

text \<open>At most so many turns of a loop; a turn that consumes nothing is not repeated.\<close>

primrec reps :: "bool \<Rightarrow> (pos \<Rightarrow> caps \<Rightarrow> 'a cont \<Rightarrow> 'a option) \<Rightarrow> nat \<Rightarrow> pos \<Rightarrow> caps \<Rightarrow> 'a cont \<Rightarrow> 'a option" where
  "reps greedy f 0 s c k = k s c"
| "reps greedy f (Suc n) s c k =
     (if greedy then
        (case f s c (\<lambda>s' c'. if length (snd s') < length (snd s) then reps greedy f n s' c' k else None) of
           Some x \<Rightarrow> Some x
         | None \<Rightarrow> k s c)
      else
        (case k s c of
           Some x \<Rightarrow> Some x
         | None \<Rightarrow> f s c (\<lambda>s' c'. if length (snd s') < length (snd s) then reps greedy f n s' c' k else None)))"

definition turns :: "nat option \<Rightarrow> pos \<Rightarrow> nat" where
  "turns most s = (case most of None \<Rightarrow> length (snd s) | Some m \<Rightarrow> min m (length (snd s)))"

definition consumed :: "pos \<Rightarrow> pos \<Rightarrow> string" where
  "consumed s s' = take (length (snd s) - length (snd s')) (snd s)"

primrec exec :: "re \<Rightarrow> pos \<Rightarrow> caps \<Rightarrow> 'a cont \<Rightarrow> 'a option" where
  "exec Eps s c k = k s c"
| "exec (Chars neg cs) s c k =
     (case snd s of [] \<Rightarrow> None | x # t \<Rightarrow> if matches_char neg cs x then k (Some x, t) c else None)"
| "exec Bol s c k = (if at_line_start s then k s c else None)"
| "exec Bound s c k = (if at_bound s then k s c else None)"
| "exec (Seq a b) s c k = exec a s c (\<lambda>s' c'. exec b s' c' k)"
| "exec (Alt a b) s c k = (case exec a s c k of Some x \<Rightarrow> Some x | None \<Rightarrow> exec b s c k)"
| "exec (Rep greedy most r) s c k = reps greedy (exec r) (turns most s) s c k"
| "exec (Grp n r) s c k = exec r s c (\<lambda>s' c'. k s' ((n, consumed s s') # c'))"

text \<open>A match: where it begins, where it ends, and its groups.\<close>

record re_match =
  rm_start :: pos
  rm_end :: pos
  rm_groups :: caps

definition match_at :: "re \<Rightarrow> pos \<Rightarrow> re_match option" where
  "match_at r s = exec r s [] (\<lambda>s' c. Some \<lparr>rm_start = s, rm_end = s', rm_groups = c\<rparr>)"

fun search_from :: "re \<Rightarrow> pos \<Rightarrow> re_match option" where
  "search_from r (p, w) =
     (case match_at r (p, w) of
        Some m \<Rightarrow> Some m
      | None \<Rightarrow> (case w of [] \<Rightarrow> None | x # t \<Rightarrow> search_from r (Some x, t)))"

definition group_of :: "re_match \<Rightarrow> nat \<Rightarrow> string option" where
  "group_of m n = (if n = 0 then Some (consumed (rm_start m) (rm_end m)) else map_of (rm_groups m) n)"

declare search_from.simps [simp del]

section \<open>The matcher finds what the meaning has\<close>

lemma lang_consumes:
  "(s, s') \<in> lang r \<Longrightarrow> s' = s \<or> length (snd s') < length (snd s)"
proof (induction r arbitrary: s s')
  case (Rep greedy most r)
  then obtain n where "(s, s') \<in> lang r ^^ n" by auto
  then show ?case
  proof (induction n arbitrary: s')
    case (Suc n)
    then obtain m where "(s, m) \<in> lang r ^^ n" "(m, s') \<in> lang r" by auto
    with Suc.IH [OF this(1)] Rep.IH [OF this(2)] show ?case by auto
  qed simp
qed fastforce+

text \<open>A matcher that stays inside a relation, and one that misses nothing of it: whatever groups come with
  it, a continuation that succeeds at the end of a match is reached.\<close>

definition stays_in :: "(pos \<Rightarrow> caps \<Rightarrow> 'a cont \<Rightarrow> 'a option) \<Rightarrow> (pos \<times> pos) set \<Rightarrow> bool" where
  "stays_in f R \<longleftrightarrow> (\<forall>s c k x. f s c k = Some x \<longrightarrow> (\<exists>s' c'. (s, s') \<in> R \<and> k s' c' = Some x))"

definition reaches :: "(pos \<Rightarrow> caps \<Rightarrow> 'a cont \<Rightarrow> 'a option) \<Rightarrow> (pos \<times> pos) set \<Rightarrow> bool" where
  "reaches f R \<longleftrightarrow> (\<forall>s s' c k. (s, s') \<in> R \<longrightarrow> (\<forall>c'. k s' c' \<noteq> None) \<longrightarrow> f s c k \<noteq> None)"

lemma stays_inI: "(\<And>s c k x. f s c k = Some x \<Longrightarrow> \<exists>s' c'. (s, s') \<in> R \<and> k s' c' = Some x) \<Longrightarrow> stays_in f R"
  unfolding stays_in_def by blast

lemma stays_inE:
  assumes "stays_in f R" "f s c k = Some x"
  obtains s' c' where "(s, s') \<in> R" "k s' c' = Some x"
  using assms unfolding stays_in_def by blast

lemma reachesI:
  "(\<And>s s' c k. (s, s') \<in> R \<Longrightarrow> (\<And>c'. k s' c' \<noteq> None) \<Longrightarrow> f s c k \<noteq> None) \<Longrightarrow> reaches f R"
  unfolding reaches_def by blast

lemma reachesD: "reaches f R \<Longrightarrow> (s, s') \<in> R \<Longrightarrow> (\<And>c'. k s' c' \<noteq> None) \<Longrightarrow> f s c k \<noteq> None"
  unfolding reaches_def by (elim allE [of _ s] allE [of _ s'] allE [of _ c] allE [of _ k]) blast

lemma reps_stays_in:
  assumes f: "stays_in f R"
  shows "reps greedy f n s c k = Some x \<Longrightarrow> \<exists>i s' c'. i \<le> n \<and> (s, s') \<in> R ^^ i \<and> k s' c' = Some x"
proof (induction n arbitrary: s c x)
  case 0
  then show ?case by (intro exI [of _ 0]) auto
next
  case (Suc n)
  let ?again = "\<lambda>s' c'. if length (snd s') < length (snd s) then reps greedy f n s' c' k else None"
  have "f s c ?again = Some x \<or> k s c = Some x"
    using Suc.prems by (auto split: if_splits option.splits)
  then show ?case
  proof
    assume "f s c ?again = Some x"
    with f obtain t d where t: "(s, t) \<in> R" "?again t d = Some x" by (rule stays_inE)
    then have "reps greedy f n t d k = Some x" by (simp split: if_splits)
    from Suc.IH [OF this] obtain i s' c' where "i \<le> n" "(t, s') \<in> R ^^ i" "k s' c' = Some x" by blast
    with relpow_Suc_I2 [OF t(1) this(2)] show ?thesis by (meson Suc_le_mono)
  next
    assume "k s c = Some x"
    then show ?thesis by (intro exI [of _ 0]) auto
  qed
qed

lemma allows_turns: "i \<le> turns most s \<Longrightarrow> allows most i"
  by (auto simp: allows_def turns_def split: option.splits)

lemma exec_stays_in: "stays_in (exec r) (lang r)"
proof (induction r)
  case (Rep greedy most r)
  show ?case
  proof (rule stays_inI)
    fix s c and k :: "'a cont" and x assume "exec (Rep greedy most r) s c k = Some x"
    then have "reps greedy (exec r) (turns most s) s c k = Some x" by simp
    from reps_stays_in [OF Rep.IH this] obtain i s' c'
      where "allows most i" "(s, s') \<in> lang r ^^ i" "k s' c' = Some x"
      by (blast intro: allows_turns)
    moreover from this(1,2) have "(s, s') \<in> lang (Rep greedy most r)" by auto
    ultimately show "\<exists>s' c'. (s, s') \<in> lang (Rep greedy most r) \<and> k s' c' = Some x" by blast
  qed
next
  case (Seq a b)
  show ?case
  proof (rule stays_inI)
    fix s c and k :: "'a cont" and x assume "exec (Seq a b) s c k = Some x"
    then have "exec a s c (\<lambda>s' c'. exec b s' c' k) = Some x" by simp
    with Seq.IH(1) obtain t d where "(s, t) \<in> lang a" and t: "exec b t d k = Some x" by (rule stays_inE)
    moreover from Seq.IH(2) t obtain s' c' where "(t, s') \<in> lang b" "k s' c' = Some x" by (rule stays_inE)
    ultimately show "\<exists>s' c'. (s, s') \<in> lang (Seq a b) \<and> k s' c' = Some x"
      unfolding lang.simps by (meson relcomp.relcompI)
  qed
next
  case (Grp n r)
  show ?case
  proof (rule stays_inI)
    fix s c and k :: "'a cont" and x assume "exec (Grp n r) s c k = Some x"
    then have "exec r s c (\<lambda>s' c'. k s' ((n, consumed s s') # c')) = Some x" by simp
    with Grp.IH show "\<exists>s' c'. (s, s') \<in> lang (Grp n r) \<and> k s' c' = Some x"
      by (rule stays_inE) auto
  qed
next
  case (Alt a b)
  show ?case
  proof (rule stays_inI)
    fix s c and k :: "'a cont" and x assume "exec (Alt a b) s c k = Some x"
    then have "exec a s c k = Some x \<or> exec b s c k = Some x" by (auto split: option.splits)
    then show "\<exists>s' c'. (s, s') \<in> lang (Alt a b) \<and> k s' c' = Some x"
      unfolding lang.simps by (blast elim: stays_inE [OF Alt.IH(1)] stays_inE [OF Alt.IH(2)])
  qed
qed (auto intro!: stays_inI split: if_splits list.splits)

lemma reps_reaches:
  assumes f: "reaches f R" and R: "\<And>s s'. (s, s') \<in> R \<Longrightarrow> s' = s \<or> length (snd s') < length (snd s)"
  shows "(s, s') \<in> R ^^ n \<Longrightarrow> (\<And>c'. k s' c' \<noteq> None) \<Longrightarrow> min n (length (snd s)) \<le> m
    \<Longrightarrow> reps greedy f m s c k \<noteq> None"
proof (induction n arbitrary: s c m)
  case 0
  then show ?case by (cases m) (auto split: option.splits)
next
  case (Suc n)
  from Suc.prems(1) obtain t where t: "(s, t) \<in> R" "(t, s') \<in> R ^^ n" by (rule relpow_Suc_E2)
  show ?case
  proof (cases "t = s")
    case True
    then show ?thesis using Suc.IH [of s m c] t(2) Suc.prems(2,3) by (simp add: min_def split: if_splits)
  next
    case False
    with R t(1) have less: "length (snd t) < length (snd s)" by blast
    with Suc.prems(3) obtain m' where m: "m = Suc m'" "min n (length (snd t)) \<le> m'"
      by (cases m) (auto simp: min_def split: if_splits)
    let ?again = "\<lambda>s' c'. if length (snd s') < length (snd s) then reps greedy f m' s' c' k else None"
    have "f s c ?again \<noteq> None"
    proof (rule reachesD [OF f t(1)])
      fix c' show "?again t c' \<noteq> None" using Suc.IH [OF t(2) Suc.prems(2) m(2)] less by simp
    qed
    then show ?thesis unfolding m by (auto split: option.splits)
  qed
qed

lemma turns_enough: "allows most n \<Longrightarrow> min n (length (snd s)) \<le> turns most s"
  by (auto simp: allows_def turns_def split: option.splits)

lemma exec_reaches: "reaches (exec r) (lang r)"
proof (induction r)
  case (Rep greedy most r)
  show ?case
  proof (rule reachesI)
    fix s s' c and k :: "'a cont" assume "(s, s') \<in> lang (Rep greedy most r)" and k: "\<And>c'. k s' c' \<noteq> None"
    then obtain n where n: "allows most n" "(s, s') \<in> lang r ^^ n" by auto
    have "reps greedy (exec r) (turns most s) s c k \<noteq> None"
      by (rule reps_reaches [OF Rep.IH _ n(2)]) (use lang_consumes k turns_enough n(1) in blast)+
    then show "exec (Rep greedy most r) s c k \<noteq> None" by simp
  qed
next
  case (Seq a b)
  show ?case
  proof (rule reachesI)
    fix s s' c and k :: "'a cont" assume "(s, s') \<in> lang (Seq a b)" and k: "\<And>c'. k s' c' \<noteq> None"
    then obtain t where t: "(s, t) \<in> lang a" "(t, s') \<in> lang b" by auto
    have "exec a s c (\<lambda>s' c'. exec b s' c' k) \<noteq> None"
      by (rule reachesD [OF Seq.IH(1) t(1)], rule reachesD [OF Seq.IH(2) t(2)], rule k)
    then show "exec (Seq a b) s c k \<noteq> None" by simp
  qed
next
  case (Alt a b)
  show ?case
  proof (rule reachesI)
    fix s s' c and k :: "'a cont" assume "(s, s') \<in> lang (Alt a b)" and k: "\<And>c'. k s' c' \<noteq> None"
    then have "exec a s c k \<noteq> None \<or> exec b s c k \<noteq> None"
      using reachesD [OF Alt.IH(1), of s s' k c] reachesD [OF Alt.IH(2), of s s' k c] by auto
    then show "exec (Alt a b) s c k \<noteq> None" by (auto split: option.splits)
  qed
next
  case (Grp n r)
  show ?case
  proof (rule reachesI)
    fix s s' c and k :: "'a cont" assume s: "(s, s') \<in> lang (Grp n r)" and k: "\<And>c'. k s' c' \<noteq> None"
    from reachesD [OF Grp.IH, of s s' "\<lambda>s' c'. k s' ((n, consumed s s') # c')" c] s k
    show "exec (Grp n r) s c k \<noteq> None" by simp
  qed
qed (auto intro!: reachesI)

lemma match_at_iff: "match_at r s \<noteq> None \<longleftrightarrow> (\<exists>s'. (s, s') \<in> lang r)"
proof
  assume "match_at r s \<noteq> None"
  then obtain m where "exec r s [] (\<lambda>s' c. Some \<lparr>rm_start = s, rm_end = s', rm_groups = c\<rparr>) = Some m"
    unfolding match_at_def by blast
  from stays_inE [OF exec_stays_in this] show "\<exists>s'. (s, s') \<in> lang r" by blast
next
  assume "\<exists>s'. (s, s') \<in> lang r"
  then obtain s' where "(s, s') \<in> lang r" ..
  then show "match_at r s \<noteq> None" unfolding match_at_def by (rule reachesD [OF exec_reaches]) simp
qed

text \<open>The positions at and after a position, in order.\<close>

inductive later :: "pos \<Rightarrow> pos \<Rightarrow> bool" where
  here: "later s s"
| next_char: "later (Some x, t) s \<Longrightarrow> later (p, x # t) s"

inductive_simps later_end: "later (p, []) s"
inductive_simps later_step: "later (p, x # t) s"

theorem search_from_iff: "search_from r s \<noteq> None \<longleftrightarrow> (\<exists>t t'. later s t \<and> (t, t') \<in> lang r)"
proof (induction r s rule: search_from.induct)
  case (1 r p w)
  show ?case
  proof (cases "match_at r (p, w)")
    case (Some m)
    then have "\<exists>t'. ((p, w), t') \<in> lang r" using match_at_iff [of r "(p, w)"] by simp
    then show ?thesis using Some by (auto simp: search_from.simps intro: later.here)
  next
    case None
    then have no: "((p, w), t') \<notin> lang r" for t' using match_at_iff [of r "(p, w)"] by blast
    show ?thesis
    proof (cases w)
      case Nil
      then show ?thesis using None no by (auto simp: search_from.simps later_end)
    next
      case (Cons x t)
      have "search_from r (p, w) = search_from r (Some x, t)" using None Cons by (simp add: search_from.simps)
      also have "\<dots> \<noteq> None \<longleftrightarrow> (\<exists>u t'. later (Some x, t) u \<and> (u, t') \<in> lang r)" using 1 [OF None Cons] .
      finally show ?thesis using no unfolding Cons later_step by blast
    qed
  qed
qed

section \<open>Patterns\<close>

text \<open>The flags a pattern is compiled with; \<open>MULTILINE\<close> is always on, which makes no difference to the patterns
  that do not ask for it.\<close>

record re_flags =
  ignore_case :: bool
  dot_all :: bool

definition NO_FLAGS :: re_flags where
  "NO_FLAGS = \<lparr>ignore_case = False, dot_all = False\<rparr>"

definition lit :: "re_flags \<Rightarrow> char \<Rightarrow> chars" where
  "lit f c = (if ignore_case f then One_Ci c else One c)"

text \<open>What stands behind the escape character.\<close>

definition escaped :: "char \<Rightarrow> chars option" where
  "escaped c =
     (if c = CHR ''s'' then Some Blank else if c = CHR ''S'' then Some Not_Blank
      else if c = CHR ''d'' then Some Digit else if c = CHR ''w'' then Some Word
      else if c = CHR ''n'' then Some (One newline)
      else if c = CHR ''%'' then Some (One (char_of (92 :: nat)))
      else if is_word c then None else Some (One c))"

text \<open>The open groups, innermost first: the number of the group, the alternatives that are complete, and the
  factors of the current one, the latest first.\<close>

record frame =
  fr_group :: "nat option"
  fr_alts :: "re list"
  fr_seq :: "re list"

definition open_frame :: "nat option \<Rightarrow> frame" where
  "open_frame g = \<lparr>fr_group = g, fr_alts = [], fr_seq = []\<rparr>"

definition seq_of :: "re list \<Rightarrow> re" where
  "seq_of rs = foldl (\<lambda>acc r. Seq r acc) Eps rs"

definition close_frame :: "frame \<Rightarrow> re" where
  "close_frame fr =
     (let r = foldl (\<lambda>acc a. Alt a acc) (seq_of (fr_seq fr)) (fr_alts fr)
      in case fr_group fr of None \<Rightarrow> r | Some n \<Rightarrow> Grp n r)"

fun push :: "re \<Rightarrow> frame list \<Rightarrow> frame list" where
  "push r (fr # frs) = fr\<lparr>fr_seq := r # fr_seq fr\<rparr> # frs"
| "push r [] = []"

text \<open>A quantifier applies to the latest factor; without one the pattern is refused.\<close>

fun quantify :: "(re \<Rightarrow> re) \<Rightarrow> frame list \<Rightarrow> frame list option" where
  "quantify q (fr # frs) =
     (case fr_seq fr of [] \<Rightarrow> None | r # rs \<Rightarrow> Some (fr\<lparr>fr_seq := q r # rs\<rparr> # frs))"
| "quantify q [] = None"

fun close_group :: "frame list \<Rightarrow> frame list option" where
  "close_group (fr # fr' # frs) = Some (push (close_frame fr) (fr' # frs))"
| "close_group _ = None"

fun next_alternative :: "frame list \<Rightarrow> frame list option" where
  "next_alternative (fr # frs) = Some (fr\<lparr>fr_alts := seq_of (fr_seq fr) # fr_alts fr, fr_seq := []\<rparr> # frs)"
| "next_alternative [] = None"

definition quantifier :: "char \<Rightarrow> bool \<Rightarrow> re \<Rightarrow> re" where
  "quantifier c greedy r =
     (if c = CHR ''*'' then Rep greedy None r
      else if c = CHR ''?'' then Rep greedy (Some 1) r
      else Seq r (Rep greedy None r))"

text \<open>Counted repetitions are those of the form \<open>{0,m}\<close>, the only ones in use.\<close>

definition counted :: "string \<Rightarrow> (re \<Rightarrow> re) option" where
  "counted digits =
     (if starts_with ''0,'' digits
      then map_option (\<lambda>m. Rep True (Some (nat m))) (parse_unsigned (drop 2 digits)) else None)"

datatype scan_mode =
    Plain
  | Escape
  | In_Name
  | In_Set bool "chars list"
  | In_Set_Escape bool "chars list"
  | In_Count string

definition plain_char :: "re_flags \<Rightarrow> char \<Rightarrow> re" where
  "plain_char f c =
     (if c = CHR ''.'' then Chars False [if dot_all f then Every else Dot]
      else if c = CHR ''^'' then Bol
      else Chars False [lit f c])"

text \<open>One pass over the pattern; \<open>n\<close> is the number of the next group.\<close>

fun scan_re :: "re_flags \<Rightarrow> scan_mode \<Rightarrow> nat \<Rightarrow> frame list \<Rightarrow> string \<Rightarrow> re option" where
  "scan_re f m n frs [] =
     (if m = Plain \<and> length frs = 1 then Some (close_frame (hd frs)) else None)"
| "scan_re f Plain n frs (c # cs) =
     (if c = CHR ''%'' then scan_re f Escape n frs cs
      else if c = CHR ''('' then
        (if starts_with ''?:'' cs then scan_re f Plain n (open_frame None # frs) (drop 2 cs)
         else if starts_with ''?P<'' cs then scan_re f In_Name (n + 1) (open_frame (Some n) # frs) (drop 3 cs)
         else scan_re f Plain (n + 1) (open_frame (Some n) # frs) cs)
      else if c = CHR '')'' then
        (case close_group frs of None \<Rightarrow> None | Some frs' \<Rightarrow> scan_re f Plain n frs' cs)
      else if c = CHR ''|'' then
        (case next_alternative frs of None \<Rightarrow> None | Some frs' \<Rightarrow> scan_re f Plain n frs' cs)
      else if c = CHR ''['' then
        (if starts_with ''^'' cs then scan_re f (In_Set True []) n frs (drop 1 cs)
         else scan_re f (In_Set False []) n frs cs)
      else if c = CHR ''{'' then scan_re f (In_Count []) n frs cs
      else if c = CHR ''*'' \<or> c = CHR ''+'' \<or> c = CHR ''?'' then
        (if starts_with ''?'' cs then
           (case quantify (quantifier c False) frs of None \<Rightarrow> None | Some frs' \<Rightarrow> scan_re f Plain n frs' (drop 1 cs))
         else
           (case quantify (quantifier c True) frs of None \<Rightarrow> None | Some frs' \<Rightarrow> scan_re f Plain n frs' cs))
      else scan_re f Plain n (push (plain_char f c) frs) cs)"
| "scan_re f Escape n frs (c # cs) =
     (if c = CHR ''b'' then scan_re f Plain n (push Bound frs) cs
      else case escaped c of None \<Rightarrow> None | Some a \<Rightarrow> scan_re f Plain n (push (Chars False [a]) frs) cs)"
| "scan_re f In_Name n frs (c # cs) =
     (if c = CHR ''>'' then scan_re f Plain n frs cs else scan_re f In_Name n frs cs)"
| "scan_re f (In_Set neg items) n frs (c # cs) =
     (if c = CHR '']'' then (if items = [] then None else scan_re f Plain n (push (Chars neg items) frs) cs)
      else if c = CHR ''%'' then scan_re f (In_Set_Escape neg items) n frs cs
      else scan_re f (In_Set neg (items @ [lit f c])) n frs cs)"
| "scan_re f (In_Set_Escape neg items) n frs (c # cs) =
     (case escaped c of None \<Rightarrow> None | Some a \<Rightarrow> scan_re f (In_Set neg (items @ [a])) n frs cs)"
| "scan_re f (In_Count digits) n frs (c # cs) =
     (if c = CHR ''}'' then
        (case counted digits of None \<Rightarrow> None | Some q \<Rightarrow>
           (case quantify q frs of None \<Rightarrow> None | Some frs' \<Rightarrow> scan_re f Plain n frs' cs))
      else scan_re f (In_Count (digits @ [c])) n frs cs)"

definition compile_re :: "re_flags \<Rightarrow> string \<Rightarrow> re option" where
  "compile_re f pattern = scan_re f Plain 1 [open_frame None] pattern"

text \<open>\<open>re.search\<close> and \<open>re.match\<close>; a pattern that does not compile raises.\<close>

definition with_re :: "re_flags \<Rightarrow> string \<Rightarrow> (re \<Rightarrow> 'a) \<Rightarrow> exn + 'a" where
  "with_re f pattern g = (case compile_re f pattern of None \<Rightarrow> Inl OtherException | Some r \<Rightarrow> Inr (g r))"

definition re_search :: "string \<Rightarrow> string \<Rightarrow> exn + re_match option" where
  "re_search pattern text = with_re NO_FLAGS pattern (\<lambda>r. search_from r (None, text))"

definition re_match_text :: "string \<Rightarrow> string \<Rightarrow> exn + re_match option" where
  "re_match_text pattern text = with_re NO_FLAGS pattern (\<lambda>r. match_at r (None, text))"

section \<open>All matches\<close>

lemma lang_rest: "(s, s') \<in> lang r \<Longrightarrow> length (snd s') \<le> length (snd s)"
  using lang_consumes by fastforce

lemma match_at_span: "match_at r s = Some m \<Longrightarrow> rm_start m = s \<and> (s, rm_end m) \<in> lang r"
  unfolding match_at_def by (erule stays_inE [OF exec_stays_in]) auto

lemma search_span: "search_from r s = Some m \<Longrightarrow>
    length (snd (rm_start m)) \<le> length (snd s) \<and> (rm_start m, rm_end m) \<in> lang r"
proof (induction r s rule: search_from.induct)
  case (1 r p w)
  show ?case
  proof (cases "match_at r (p, w)")
    case (Some m')
    then show ?thesis using "1.prems" match_at_span [OF Some] by (simp add: search_from.simps)
  next
    case None
    with "1.prems" obtain x t where "w = x # t" "search_from r (Some x, t) = Some m"
      by (auto simp: search_from.simps split: list.splits)
    with "1.IH" [OF None this(1)] show ?thesis by simp
  qed
qed

text \<open>\<open>re.finditer\<close>: from the end of each match, one character further when it was empty.\<close>

function all_matches :: "re \<Rightarrow> pos \<Rightarrow> re_match list" where
  "all_matches r s =
     (case search_from r s of
        None \<Rightarrow> []
      | Some m \<Rightarrow> m #
          (if length (snd (rm_end m)) < length (snd s) then all_matches r (rm_end m)
           else case snd s of [] \<Rightarrow> [] | x # t \<Rightarrow> all_matches r (Some x, t)))"
  by pat_completeness auto
termination by (relation "measure (\<lambda>(r, s). length (snd s))") auto

declare all_matches.simps [simp del]

text \<open>\<open>re.sub(pattern, "", text)\<close> for patterns that never match nothing: what lies between the matches.\<close>

function remove_matches :: "re \<Rightarrow> pos \<Rightarrow> string" where
  "remove_matches r s =
     (case search_from r s of
        None \<Rightarrow> snd s
      | Some m \<Rightarrow> consumed s (rm_start m) @
          (if length (snd (rm_end m)) < length (snd s) then remove_matches r (rm_end m) else snd s))"
  by pat_completeness auto
termination by (relation "measure (\<lambda>(r, s). length (snd s))") auto

declare remove_matches.simps [simp del]

definition re_findall :: "re_flags \<Rightarrow> string \<Rightarrow> string \<Rightarrow> exn + re_match list" where
  "re_findall f pattern text = with_re f pattern (\<lambda>r. all_matches r (None, text))"

definition re_remove :: "re_flags \<Rightarrow> string \<Rightarrow> string \<Rightarrow> exn + string" where
  "re_remove f pattern text = with_re f pattern (\<lambda>r. remove_matches r (None, text))"

text \<open>\<open>re.escape\<close>, with the backslash written as in patterns.\<close>

definition escaped_chars :: string where
  "escaped_chars = ''()[]{}?*+-|^$.&~# '' @ map char_of [9, 10, 11, 12, 13, 92 :: nat]"

definition re_escape :: "string \<Rightarrow> string" where
  "re_escape s =
     concat (map (\<lambda>c. if c = char_of (92 :: nat) then ''%%'' else if c \<in> set escaped_chars then [CHR ''%'', c] else [c]) s)"

text \<open>Searching a text for a pattern, in terms of what the pattern means.\<close>

definition occurs :: "string \<Rightarrow> string \<Rightarrow> bool" where
  "occurs pattern text \<longleftrightarrow>
     (\<exists>r s s'. compile_re NO_FLAGS pattern = Some r \<and> later (None, text) s \<and> (s, s') \<in> lang r)"

definition compiles :: "string \<Rightarrow> bool" where
  "compiles pattern \<longleftrightarrow> compile_re NO_FLAGS pattern \<noteq> None"

lemma re_search_outcome:
  "(\<exists>m. re_search pattern text = Inr (Some m)) \<longleftrightarrow> occurs pattern text"
  "re_search pattern text = Inr None \<longleftrightarrow> compiles pattern \<and> \<not> occurs pattern text"
proof -
  show "(\<exists>m. re_search pattern text = Inr (Some m)) \<longleftrightarrow> occurs pattern text"
  proof (cases "compile_re NO_FLAGS pattern")
    case None
    then show ?thesis by (simp add: re_search_def with_re_def occurs_def)
  next
    case (Some r)
    then show ?thesis
      using search_from_iff [of r "(None, text)"] by (simp add: re_search_def with_re_def occurs_def)
  qed
  show "re_search pattern text = Inr None \<longleftrightarrow> compiles pattern \<and> \<not> occurs pattern text"
  proof (cases "compile_re NO_FLAGS pattern")
    case None
    then show ?thesis by (simp add: re_search_def with_re_def compiles_def)
  next
    case (Some r)
    have "search_from r (None, text) = None \<longleftrightarrow> \<not> (\<exists>s s'. later (None, text) s \<and> (s, s') \<in> lang r)"
      using search_from_iff [of r "(None, text)"] by blast
    with Some show ?thesis
      by (simp add: re_search_def with_re_def occurs_def compiles_def del: split_paired_Ex split_paired_All)
  qed
qed

end
