(* ===== verification/Controller.thy ===== *)
theory Controller
  imports Fieldbus_Tools Py_Float Py_Regex
begin

text \<open>
  The controller of the bench, \<open>boards/raspberry_pi/\<close>: what the probe of its environment reports
  (\<open>controller.py\<close>) and the qualification of its real-time kernel by cyclictest (\<open>qualification.py\<close>).
  The system calls and the search of executables are parameters.
\<close>

section \<open>Environment (\<open>controller.py\<close>)\<close>

definition DEFAULT_TOOLS :: "string list" where
  "DEFAULT_TOOLS = [''cyclictest'', ''ethercat'', ''slaveinfo'', ''ip'', ''cansend'', ''candump'']"

record tool_probe =
  tp_name :: string
  tp_path :: "string option"

definition tool_available :: "tool_probe \<Rightarrow> bool" where
  "tool_available t \<longleftrightarrow> tp_path t \<noteq> None"

record controller_environment =
  env_system :: string
  env_machine :: string
  env_release :: string
  env_kernel_version :: string
  env_preempt_rt_hint :: bool
  env_network_interfaces :: "string list"
  env_tools :: "tool_probe list"

definition env_tool :: "controller_environment \<Rightarrow> string \<Rightarrow> exn + tool_probe" where
  "env_tool e name =
     (case List.find (\<lambda>t. tp_name t = name) (env_tools e) of Some t \<Rightarrow> Inr t | None \<Rightarrow> Inl KeyError)"

record uname_result =
  un_system :: string
  un_machine :: string
  un_release :: string
  un_version :: string

text \<open>\<open>text.upper()\<close> on ASCII.\<close>

definition ascii_upper :: "string \<Rightarrow> string" where
  "ascii_upper = map (\<lambda>c. let n = of_char c :: nat in if 97 \<le> n \<and> n \<le> 122 then char_of (n - 32) else c)"

text \<open>\<open>interfaces\<close> is what \<open>iterdir\<close> of the directory lists, \<open>None\<close> when there is no such directory.\<close>

definition probe_controller_environment ::
    "uname_result \<Rightarrow> string list option \<Rightarrow> (string \<Rightarrow> string option) \<Rightarrow> string list \<Rightarrow> controller_environment" where
  "probe_controller_environment uname interfaces which tools =
     (let version_text = ascii_upper (un_version uname @ '' '' @ un_release uname)
      in \<lparr>env_system = un_system uname, env_machine = un_machine uname, env_release = un_release uname,
          env_kernel_version = un_version uname,
          env_preempt_rt_hint =
            (contains_text ''PREEMPT_RT'' version_text \<or> contains_text ''PREEMPT RT'' version_text),
          env_network_interfaces =
            (case interfaces of None \<Rightarrow> [] | Some names \<Rightarrow> sort (filter (\<lambda>n. n \<noteq> []) names)),
          env_tools = map (\<lambda>name. \<lparr>tp_name = name, tp_path = which name\<rparr>) tools\<rparr>)"

section \<open>Qualification (\<open>qualification.py\<close>)\<close>

record cyclictest_metrics =
  cy_min_us :: int
  cy_avg_us :: int
  cy_max_us :: int

definition CYCLIC_RE :: string where
  "CYCLIC_RE = ''Min:%s*(?P<min>-?%d+).*?Avg:%s*(?P<avg>-?%d+).*?Max:%s*(?P<max>-?%d+)''"

text \<open>The groups \<open>min\<close>, \<open>avg\<close> and \<open>max\<close> of each match.\<close>

definition cyclic_matches :: "string \<Rightarrow> exn + (string \<times> string \<times> string) list" where
  "cyclic_matches text =
     bind_exn (re_findall (NO_FLAGS\<lparr>ignore_case := True\<rparr>) CYCLIC_RE text) (\<lambda>ms.
     Inr (map (\<lambda>m. (the (group_of m 1), the (group_of m 2), the (group_of m 3))) ms))"

text \<open>\<open>int(group)\<close> of matched text.\<close>

definition int_group :: "string \<Rightarrow> exn + int" where
  "int_group s = (case int_of_string s of None \<Rightarrow> Inl ValueError | Some i \<Rightarrow> Inr i)"

definition parse_cyclictest_metrics :: "rounding \<Rightarrow> string \<Rightarrow> exn + cyclictest_metrics" where
  "parse_cyclictest_metrics fl text =
     bind_exn (cyclic_matches (map (\<lambda>c. if c = char_of (10 :: nat) then CHR '' '' else c) text)) (\<lambda>matches.
      if matches = [] then Inl ValueError
      else
        bind_exn (map_exn (\<lambda>(a, _, _). int_group a) matches) (\<lambda>mins.
        bind_exn (map_exn (\<lambda>(_, b, _). int_group b) matches) (\<lambda>avgs.
        bind_exn (map_exn (\<lambda>(_, _, c). int_group c) matches) (\<lambda>maxs.
        Inr \<lparr>cy_min_us = Min (set mins),
             cy_avg_us = py_round (fl (of_int (sum_list avgs) / of_nat (length avgs))),
             cy_max_us = Max (set maxs)\<rparr>))))"

definition cyclictest_run ::
    "rounding \<Rightarrow> 's tool \<Rightarrow> int \<Rightarrow> int \<Rightarrow> int \<Rightarrow> rat option
      \<Rightarrow> ('s, command_evidence \<times> cyclictest_metrics) io" where
  "cyclictest_run fl t seconds interval_us priority timeout_s =
     then_io (ensure_io (\<not> (seconds \<le> 0 \<or> interval_us \<le> 0 \<or> \<not> (1 \<le> priority \<and> priority \<le> 99))) ValueError) (
     bind_io (tool_resolve t) (\<lambda>path.
     bind_io (tl_runner t
         [path, ''-m'', ''-S'', ''-p'', str_int priority, ''-i'', str_int interval_us, ''-D'',
          str_int seconds @ ''s''] (timeout_or timeout_s seconds)) (\<lambda>e.
     bind_io (lift_io (require_success e)) (\<lambda>evidence.
     bind_io (lift_io (parse_cyclictest_metrics fl (ce_stdout evidence))) (\<lambda>metrics.
     return_io (evidence, metrics))))))"

section \<open>Lemmas\<close>

lemma int_groups: "map_exn f ms = Inr vs \<Longrightarrow> ms \<noteq> [] \<Longrightarrow> vs \<noteq> [] \<and> length vs = length ms"
  using map_exn_length by fastforce

lemma average_bounds:
  assumes "vs \<noteq> []"
  shows "of_int (Min (set vs)) \<le> of_int (sum_list vs) / (of_nat (length vs) :: rat)"
    and "of_int (sum_list vs) / (of_nat (length vs) :: rat) \<le> of_int (Max (set vs))"
proof -
  have len: "0 < (of_nat (length vs) :: rat)" using assms by simp
  have "sum_list (map (\<lambda>_. Min (set vs)) vs) \<le> sum_list vs"
    using sum_list_mono [of vs "\<lambda>_. Min (set vs)" "\<lambda>v. v"] by simp
  then have "of_nat (length vs) * Min (set vs) \<le> sum_list vs" by (simp add: sum_list_triv)
  then have "(of_int (of_nat (length vs) * Min (set vs)) :: rat) \<le> of_int (sum_list vs)" by (simp only: of_int_le_iff)
  with len show "of_int (Min (set vs)) \<le> of_int (sum_list vs) / (of_nat (length vs) :: rat)"
    by (simp add: field_simps)
  have "sum_list vs \<le> sum_list (map (\<lambda>_. Max (set vs)) vs)"
    using sum_list_mono [of vs "\<lambda>v. v" "\<lambda>_. Max (set vs)"] by simp
  then have "sum_list vs \<le> of_nat (length vs) * Max (set vs)" by (simp add: sum_list_triv)
  then have "of_int (sum_list vs) \<le> (of_int (of_nat (length vs) * Max (set vs)) :: rat)" by (simp only: of_int_le_iff)
  with len show "of_int (sum_list vs) / (of_nat (length vs) :: rat) \<le> of_int (Max (set vs))"
    by (simp add: field_simps)
qed

text \<open>Rounding to floats that keeps the order and the integers of this size.\<close>

definition keeps_integers :: "rounding \<Rightarrow> bool" where
  "keeps_integers fl \<longleftrightarrow> (\<forall>x y. x \<le> y \<longrightarrow> fl x \<le> fl y) \<and> (\<forall>i. \<bar>i\<bar> < 2 ^ 53 \<longrightarrow> fl (of_int i) = of_int i)"

lemma rounded_average_bounds:
  assumes fl: "keeps_integers fl" and vs: "vs \<noteq> []" and small: "\<forall>v \<in> set vs. \<bar>v\<bar> < 2 ^ 53"
  shows "Min (set vs) \<le> py_round (fl (of_int (sum_list vs) / of_nat (length vs)))
    \<and> py_round (fl (of_int (sum_list vs) / of_nat (length vs))) \<le> Max (set vs)"
proof -
  have "Min (set vs) \<in> set vs" "Max (set vs) \<in> set vs" using vs by simp_all
  with small have exact: "fl (of_int (Min (set vs))) = of_int (Min (set vs))"
    "fl (of_int (Max (set vs))) = of_int (Max (set vs))"
    using fl by (simp_all add: keeps_integers_def)
  have "fl (of_int (Min (set vs))) \<le> fl (of_int (sum_list vs) / of_nat (length vs))"
    "fl (of_int (sum_list vs) / of_nat (length vs)) \<le> fl (of_int (Max (set vs)))"
    using fl average_bounds [OF vs] by (simp_all add: keeps_integers_def)
  with exact have "of_int (Min (set vs)) \<le> fl (of_int (sum_list vs) / of_nat (length vs))"
    "fl (of_int (sum_list vs) / of_nat (length vs)) \<le> of_int (Max (set vs))" by simp_all
  from this [THEN py_round_mono] show ?thesis by simp
qed

lemma map_exn_set: "map_exn f ms = Inr vs \<Longrightarrow> (\<forall>m \<in> set ms. \<exists>v \<in> set vs. f m = Inr v) \<and> (\<forall>v \<in> set vs. \<exists>m \<in> set ms. f m = Inr v)"
  unfolding map_exn_Inr list_all2_conv_all_nth by (force simp: in_set_conv_nth)

lemma map_exn_origin: "map_exn f ms = Inr vs \<Longrightarrow> v \<in> set vs \<Longrightarrow> \<exists>m \<in> set ms. f m = Inr v"
  using map_exn_set by blast

section \<open>Properties\<close>


text \<open>A summary of two threads, with floats that keep every value.\<close>

definition demo_summary :: string where
  "demo_summary = ''Min: 2 Avg: 4 Max: 40 Min: 1 Avg: 6 Max: 30''"

definition demo_cyclictest :: "unit tool" where
  "demo_cyclictest =
     \<lparr>tl_executable = ''cyclictest'',
      tl_runner = (\<lambda>argv t. return_io \<lparr>ce_argv = argv, ce_returncode = 0, ce_stdout = demo_summary, ce_stderr = [],
                                         ce_duration_ns = 1\<rparr>),
      tl_which = (\<lambda>n. return_io (Some n))\<rparr>"

lemma demo_rows: "cyclic_matches demo_summary = Inr [(''2'', ''4'', ''40''), (''1'', ''6'', ''30'')]"
  by code_simp


end
