(* ===== verification/Deadtime.thy ===== *)
theory Deadtime
  imports Hil_Errors
begin

text \<open>
  The dead-time codes of the motor-control timers that the stimulus boards are checked against:
  \<open>tools/stm32f429i_pwm_static_check.py\<close> and \<open>tools/hpm_gd32_pwm_static_check.py\<close>, with their parser of
  compiler definitions. The pattern searches and the XML of the rest of these tools are not modelled.
\<close>

section \<open>The dead-time generator code\<close>

text \<open>Requested nanoseconds to timer ticks, to the nearest tick.\<close>

definition deadtime_ticks :: "int \<Rightarrow> int \<Rightarrow> int" where
  "deadtime_ticks deadtime_ns timer_hz = (deadtime_ns * timer_hz + 500000000) div 1000000000"

definition dtg_of_ticks :: "int \<Rightarrow> int" where
  "dtg_of_ticks ticks =
     (if ticks \<le> 127 then ticks
      else if ticks \<le> 254 then
        let scaled = max 64 (min 127 ((ticks + 1) div 2)) in 0x80 OR (scaled - 64)
      else if ticks \<le> 504 then
        let scaled = max 32 (min 63 ((ticks + 4) div 8)) in 0xC0 OR (scaled - 32)
      else
        let scaled = max 32 (min 63 ((ticks + 8) div 16)) in 0xE0 OR (scaled - 32))"

definition deadtime_ns_to_dtg :: "int \<Rightarrow> int \<Rightarrow> int" where
  "deadtime_ns_to_dtg deadtime_ns timer_hz = dtg_of_ticks (deadtime_ticks deadtime_ns timer_hz)"

text \<open>The copy of the GD32 tool.\<close>

definition dtg_encode :: "int \<Rightarrow> int \<Rightarrow> int" where
  "dtg_encode deadtime_ns timer_hz =
     (let ticks = (deadtime_ns * timer_hz + 500000000) div 1000000000 in
      if ticks \<le> 127 then ticks
      else if ticks \<le> 254 then
        let scaled = max 64 (min 127 ((ticks + 1) div 2)) in 0x80 OR (scaled - 64)
      else if ticks \<le> 504 then
        let scaled = max 32 (min 63 ((ticks + 4) div 8)) in 0xC0 OR (scaled - 32)
      else
        let scaled = max 32 (min 63 ((ticks + 8) div 16)) in 0xE0 OR (scaled - 32))"

definition dtg_to_ticks :: "int \<Rightarrow> int" where
  "dtg_to_ticks dtg =
     (if dtg AND 0x80 = 0 then dtg
      else if dtg AND 0xC0 = 0x80 then (64 + (dtg AND 0x3F)) * 2
      else if dtg AND 0xE0 = 0xC0 then (32 + (dtg AND 0x1F)) * 8
      else (32 + (dtg AND 0x1F)) * 16)"

section \<open>Compiler definitions\<close>

text \<open>\<open>raw.split(c)\<close> and \<open>item.split(c, 1)\<close>.\<close>

fun split_char :: "char \<Rightarrow> string \<Rightarrow> string list" where
  "split_char c [] = [[]]"
| "split_char c (x # xs) =
     (if x = c then [] # split_char c xs
      else case split_char c xs of [] \<Rightarrow> [[x]] | w # ws \<Rightarrow> (x # w) # ws)"

definition split_once :: "char \<Rightarrow> string \<Rightarrow> string \<times> string" where
  "split_once c s = (takeWhile (\<lambda>x. x \<noteq> c) s, drop 1 (dropWhile (\<lambda>x. x \<noteq> c) s))"

text \<open>A dictionary as the map it is; the last definition of a key wins.\<close>

definition define_of :: "string \<Rightarrow> string \<times> string" where
  "define_of item = (case split_once (CHR ''='') item of (k, v) \<Rightarrow> (strip_blanks k, strip_blanks v))"

definition parse_defines :: "string \<Rightarrow> (string \<rightharpoonup> string)" where
  "parse_defines raw =
     fold (\<lambda>item m. if CHR ''='' \<notin> set item then m else m(fst (define_of item) \<mapsto> snd (define_of item)))
       (split_char (CHR '','') raw) Map.empty"

definition gd32_parse_defines :: "string \<Rightarrow> (string \<rightharpoonup> string)" where
  "gd32_parse_defines raw =
     fold (\<lambda>item m. if CHR ''='' \<in> set item then m(fst (define_of item) \<mapsto> snd (define_of item))
                    else if strip_blanks item \<noteq> [] then m(strip_blanks item \<mapsto> []) else m)
       (split_char (CHR '','') raw) Map.empty"

section \<open>Lemmas\<close>

text \<open>Joining a tag with a field below it, and reading both back.\<close>

lemma or_low:
  assumes "0 \<le> (v :: int)" "v < 2 ^ n"
  shows "push_bit n k OR v = push_bit n k + v"
proof (rule disjunctive_add [symmetric])
  fix i
  from assms have "take_bit n v = v" by (simp add: take_bit_int_eq_self_iff)
  then have "bit v i \<Longrightarrow> i < n" by (metis bit_take_bit_iff)
  then show "\<not> bit (push_bit n k) i \<or> \<not> bit v i" by (auto simp: bit_push_bit_iff)
qed

lemma tag_joins:
  "0 \<le> v \<Longrightarrow> v < 64 \<Longrightarrow> 0x80 OR v = 0x80 + (v :: int)"
  "0 \<le> v \<Longrightarrow> v < 32 \<Longrightarrow> 0xC0 OR v = 0xC0 + (v :: int)"
  "0 \<le> v \<Longrightarrow> v < 32 \<Longrightarrow> 0xE0 OR v = 0xE0 + (v :: int)"
  using or_low [of v 6 2] or_low [of v 5 6] or_low [of v 5 7] by (simp_all add: push_bit_eq_mult)

lemma byte_cases: "0 \<le> (c :: int) \<Longrightarrow> c < 256 \<Longrightarrow> (\<And>n. n < 256 \<Longrightarrow> P (int n)) \<Longrightarrow> P c"
  by (metis int_nat_eq nat_less_iff of_nat_numeral)

text \<open>All 256 codes, decoded and encoded again.\<close>

lemma dtg_all_codes: "list_all (\<lambda>n. dtg_of_ticks (dtg_to_ticks (int n)) = int n) [0..<256]"
  by code_simp

text \<open>The decoder on the four kinds of codes.\<close>

definition dtg_value :: "int \<Rightarrow> int" where
  "dtg_value c =
     (if c < 128 then c else if c < 192 then (c - 64) * 2 else if c < 224 then (c - 160) * 8 else (c - 192) * 16)"

lemma dtg_all_values: "list_all (\<lambda>n. dtg_to_ticks (int n) = dtg_value (int n)) [0..<256]"
  by code_simp

lemma dtg_to_ticks_value: "0 \<le> c \<Longrightarrow> c < 256 \<Longrightarrow> dtg_to_ticks c = dtg_value c"
  by (erule (1) byte_cases) (use dtg_all_values in \<open>simp add: list_all_iff del: upt_rec_numeral\<close>)

text \<open>The encoder without its saturating bounds.\<close>

lemma dtg_of_ticks_ranges:
  "t \<le> 127 \<Longrightarrow> dtg_of_ticks t = t"
  "127 < t \<Longrightarrow> t \<le> 254 \<Longrightarrow> dtg_of_ticks t = 64 + (t + 1) div 2"
  "254 < t \<Longrightarrow> t \<le> 504 \<Longrightarrow> dtg_of_ticks t = 160 + (t + 4) div 8"
  "504 < t \<Longrightarrow> t \<le> 1015 \<Longrightarrow> dtg_of_ticks t = 192 + (t + 8) div 16"
  "1015 < t \<Longrightarrow> dtg_of_ticks t = 255"
proof -
  show "t \<le> 127 \<Longrightarrow> dtg_of_ticks t = t" by (simp add: dtg_of_ticks_def)
next
  assume t: "127 < t" "t \<le> 254"
  then have "64 \<le> (t + 1) div 2" "(t + 1) div 2 \<le> 127" by linarith+
  with t show "dtg_of_ticks t = 64 + (t + 1) div 2"
    by (simp add: dtg_of_ticks_def Let_def tag_joins)
next
  assume t: "254 < t" "t \<le> 504"
  then have "32 \<le> (t + 4) div 8" "(t + 4) div 8 \<le> 63" by linarith+
  with t show "dtg_of_ticks t = 160 + (t + 4) div 8"
    by (simp add: dtg_of_ticks_def Let_def tag_joins)
next
  assume t: "504 < t" "t \<le> 1015"
  then have "32 \<le> (t + 8) div 16" "(t + 8) div 16 \<le> 63" by linarith+
  with t show "dtg_of_ticks t = 192 + (t + 8) div 16"
    by (simp add: dtg_of_ticks_def Let_def tag_joins)
next
  assume t: "1015 < t"
  then have "63 \<le> (t + 8) div 16" by linarith
  with t show "dtg_of_ticks t = 255" by (simp add: dtg_of_ticks_def Let_def)
qed

lemma dtg_error:
  assumes "0 \<le> t"
  shows "0 \<le> dtg_of_ticks t \<and> dtg_of_ticks t \<le> 255
    \<and> (if t \<le> 127 then dtg_value (dtg_of_ticks t) = t
       else if t \<le> 254 then t \<le> dtg_value (dtg_of_ticks t) \<and> dtg_value (dtg_of_ticks t) \<le> t + 1
       else if t \<le> 504 then \<bar>dtg_value (dtg_of_ticks t) - t\<bar> \<le> 4
       else if t \<le> 1015 then \<bar>dtg_value (dtg_of_ticks t) - t\<bar> \<le> 8
       else dtg_value (dtg_of_ticks t) = 1008)"
proof -
  consider "t \<le> 127" | "127 < t" "t \<le> 254" | "254 < t" "t \<le> 504" | "504 < t" "t \<le> 1015" | "1015 < t"
    by linarith
  then show ?thesis
  proof cases
    case 1
    with assms show ?thesis by (simp add: dtg_of_ticks_ranges dtg_value_def)
  next
    case 2
    then have "64 \<le> (t + 1) div 2" "(t + 1) div 2 \<le> 127" "t \<le> (t + 1) div 2 * 2" "(t + 1) div 2 * 2 \<le> t + 1"
      by linarith+
    with 2 show ?thesis by (simp add: dtg_of_ticks_ranges dtg_value_def)
  next
    case 3
    then have "32 \<le> (t + 4) div 8" "(t + 4) div 8 \<le> 63" "\<bar>(t + 4) div 8 * 8 - t\<bar> \<le> 4"
      by linarith+
    with 3 show ?thesis by (simp add: dtg_of_ticks_ranges dtg_value_def)
  next
    case 4
    then have "32 \<le> (t + 8) div 16" "(t + 8) div 16 \<le> 63" "\<bar>(t + 8) div 16 * 16 - t\<bar> \<le> 8"
      by linarith+
    with 4 show ?thesis by (simp add: dtg_of_ticks_ranges dtg_value_def)
  next
    case 5
    then show ?thesis by (simp add: dtg_of_ticks_ranges dtg_value_def)
  qed
qed

lemma dtg_roundtrip: "0 \<le> c \<Longrightarrow> c < 256 \<Longrightarrow> dtg_of_ticks (dtg_to_ticks c) = c"
  by (erule (1) byte_cases) (use dtg_all_codes in \<open>simp add: list_all_iff del: upt_rec_numeral\<close>)

section \<open>Properties\<close>

text \<open>C37: The dead-time code of a timer is a byte that decodes to the requested ticks as closely as its four
  ranges allow: exactly up to 127 ticks, never short and at most one tick long up to 254, within 4 ticks
  up to 504 and within 8 up to 1015; anything longer saturates at 1008 ticks without an error. Both tools
  compute the same code, and every one of the 256 codes is the code of the ticks it stands for.\<close>

theorem deadtime_code_exact:
  assumes "0 \<le> deadtime_ns" "0 \<le> timer_hz" and "0 \<le> c" "c < 256"
  shows "(let t = deadtime_ticks deadtime_ns timer_hz;
             code = deadtime_ns_to_dtg deadtime_ns timer_hz;
             d = dtg_to_ticks code
         in 0 \<le> code \<and> code \<le> 255 \<and> dtg_encode deadtime_ns timer_hz = code
            \<and> (if t \<le> 127 then d = t
               else if t \<le> 254 then t \<le> d \<and> d \<le> t + 1
               else if t \<le> 504 then \<bar>d - t\<bar> \<le> 4
               else if t \<le> 1015 then \<bar>d - t\<bar> \<le> 8
               else d = 1008))
     \<and> deadtime_ns_to_dtg (dtg_to_ticks c) 1000000000 = c"
proof -
  have "0 \<le> deadtime_ticks deadtime_ns timer_hz" 
    using mult_nonneg_nonneg [OF assms(1,2)] by (simp add: deadtime_ticks_def pos_imp_zdiv_nonneg_iff)
  from dtg_error [OF this]
  have "0 \<le> deadtime_ns_to_dtg deadtime_ns timer_hz" "deadtime_ns_to_dtg deadtime_ns timer_hz < 256"
    by (simp_all add: deadtime_ns_to_dtg_def)
  moreover have "deadtime_ns_to_dtg (dtg_to_ticks c) 1000000000 = c"
    using dtg_roundtrip [OF assms(3,4)] by (simp add: deadtime_ns_to_dtg_def deadtime_ticks_def)
  moreover have "dtg_encode deadtime_ns timer_hz = deadtime_ns_to_dtg deadtime_ns timer_hz"
    by (simp add: dtg_encode_def deadtime_ns_to_dtg_def dtg_of_ticks_def deadtime_ticks_def Let_def)
  ultimately show ?thesis
    using dtg_error [OF \<open>0 \<le> deadtime_ticks deadtime_ns timer_hz\<close>]
    by (simp add: Let_def dtg_to_ticks_value deadtime_ns_to_dtg_def)
qed

text \<open>The codes the tools expect at their two clocks.\<close>

lemma deadtime_code_exact_witness:
  "dtg_to_ticks (deadtime_ns_to_dtg 700 180000000) = 126 \<and> dtg_encode 800 300000000 = 0xB8
     \<and> \<bar>dtg_to_ticks (deadtime_ns_to_dtg 3000 100000000) - 300\<bar> \<le> 4"
  using deadtime_code_exact [of 700 180000000 0] deadtime_code_exact [of 800 300000000 0]
    deadtime_code_exact [of 3000 100000000 0]
  by (simp add: deadtime_ticks_def Let_def) (simp add: deadtime_ns_to_dtg_def deadtime_ticks_def dtg_of_ticks_def)

end
