(* ===== verification/Repo_Checks.thy ===== *)
theory Repo_Checks
  imports Py_Regex
begin

text \<open>
  The consistency checks of \<open>tools/\<close> that are plain data logic: the manifest of the architecture against
  the capabilities of the host interface (\<open>architecture_check.py\<close>), the pin map of the AXU2CGB board
  (\<open>axu2cgb_constraints_check.py\<close>) and the token searches of \<open>industrial_hil_static_check.py\<close>,
  \<open>zynq7010_static_check.py\<close> and \<open>zynq_axi_static_check.py\<close>. Whether a path exists, the text of a
  file and the JSON parser are parameters; a check gives the list of its errors and passes when there is
  none.
\<close>

section \<open>The architecture manifest\<close>

datatype arch_error =
    Bad_Schema
  | Required_Not_List
  | Required_Not_String
  | Required_Missing string
  | Forbidden_Not_List
  | Forbidden_Not_String
  | Forbidden_Exists string
  | Roles_Not_Dict
  | Role_Missing string
  | Capabilities_Not_Strings
  | Capabilities_Duplicated
  | Missing_In_Manifest "string list"
  | Missing_In_Code "string list"
  | No_Services

text \<open>\<open>value != 2\<close>: a float that is 2 compares equal.\<close>

fun equals_two :: "pyval \<Rightarrow> bool" where
  "equals_two (PInt i) = (i = 2)"
| "equals_two (PFloat x) = (x = 2)"
| "equals_two _ = False"

fun list_items :: "pyval \<Rightarrow> pyval list option" where
  "list_items (PList xs) = Some xs"
| "list_items _ = None"

fun text_of :: "pyval \<Rightarrow> string option" where
  "text_of (PStr s) = Some s"
| "text_of _ = None"

definition check_required :: "(string \<Rightarrow> bool) \<Rightarrow> pyval \<Rightarrow> arch_error list" where
  "check_required path_exists v =
     (case list_items v of
        None \<Rightarrow> [Required_Not_List]
      | Some xs \<Rightarrow> concat (map (\<lambda>x. case text_of x of
          None \<Rightarrow> [Required_Not_String]
        | Some p \<Rightarrow> if \<not> path_exists p then [Required_Missing p] else []) xs))"

definition check_forbidden :: "(string \<Rightarrow> bool) \<Rightarrow> pyval \<Rightarrow> arch_error list" where
  "check_forbidden path_exists v =
     (case list_items v of
        None \<Rightarrow> [Forbidden_Not_List]
      | Some xs \<Rightarrow> concat (map (\<lambda>x. case text_of x of
          None \<Rightarrow> [Forbidden_Not_String]
        | Some p \<Rightarrow> if path_exists p then [Forbidden_Exists p] else []) xs))"

definition check_roles :: "(string \<Rightarrow> bool) \<Rightarrow> pyval \<Rightarrow> arch_error list" where
  "check_roles path_exists v =
     (case v of
        PDict d \<Rightarrow> concat (map (\<lambda>(p, role). if \<not> path_exists p then [Role_Missing p] else []) d)
      | _ \<Rightarrow> [Roles_Not_Dict])"

text \<open>The declared capabilities: their set, and the errors of the list itself.\<close>

definition declared_capabilities :: "pyval \<Rightarrow> string set \<times> arch_error list" where
  "declared_capabilities v =
     (case list_items v of
        None \<Rightarrow> ({}, [Capabilities_Not_Strings])
      | Some xs \<Rightarrow>
          if \<not> list_all is_str xs then ({}, [Capabilities_Not_Strings])
          else
            let declared = map (\<lambda>x. the (text_of x)) xs
            in (set declared,
                if card (set declared) \<noteq> length declared then [Capabilities_Duplicated] else []))"

definition check_capabilities :: "pyval \<Rightarrow> arch_error list" where
  "check_capabilities v =
     (case declared_capabilities v of (declared_set, errs) \<Rightarrow>
        let code_set = set (map cap_value all_capabilities);
            missing_in_manifest = sorted_list_of_set (code_set - declared_set);
            missing_in_code = sorted_list_of_set (declared_set - code_set)
        in errs @ (if missing_in_manifest \<noteq> [] then [Missing_In_Manifest missing_in_manifest] else [])
                @ (if missing_in_code \<noteq> [] then [Missing_In_Code missing_in_code] else []))"

definition check_services :: "pyval \<Rightarrow> arch_error list" where
  "check_services v =
     (case list_items v of None \<Rightarrow> [No_Services] | Some xs \<Rightarrow> if xs = [] then [No_Services] else [])"

text \<open>\<open>main\<close> on the parsed manifest; a manifest that cannot be read gives 1, one that is no object raises.\<close>

definition architecture_errors :: "(string \<Rightarrow> bool) \<Rightarrow> (string \<times> pyval) list \<Rightarrow> arch_error list" where
  "architecture_errors path_exists manifest =
     (if \<not> equals_two (dict_get manifest ''schema_version'' PNone) then [Bad_Schema] else [])
     @ check_required path_exists (dict_get manifest ''required_paths'' PNone)
     @ check_forbidden path_exists (dict_get manifest ''forbidden_paths'' (PList []))
     @ check_roles path_exists (dict_get manifest ''board_roles'' (PDict []))
     @ check_capabilities (dict_get manifest ''backend_capabilities'' PNone)
     @ check_services (dict_get manifest ''controller_services'' PNone)"

definition architecture_check :: "(string \<Rightarrow> bool) \<Rightarrow> exn + pyval \<Rightarrow> exn + int" where
  "architecture_check path_exists document =
     (case document of
        Inl e \<Rightarrow> if is_os_error e \<or> e = JSONDecodeError then Inr 1 else Inl e
      | Inr (PDict d) \<Rightarrow> Inr (if architecture_errors path_exists d \<noteq> [] then 1 else 0)
      | Inr _ \<Rightarrow> Inl AttributeError)"

section \<open>The pin map of the AXU2CGB board\<close>

definition EXPECTED :: "(string \<times> string) list" where
  "EXPECTED =
     [(''pl_ref_clk'', ''AB11''), (''pwm_high_in[0]'', ''F7''), (''pwm_low_in[0]'', ''G8''),
      (''pwm_high_in[1]'', ''F6''), (''pwm_low_in[1]'', ''G6''), (''pwm_high_in[2]'', ''D9''),
      (''pwm_low_in[2]'', ''E9''), (''spi_sclk_in'', ''F5''), (''spi_cs_n_in'', ''G5''),
      (''spi_mosi_in'', ''E8''), (''ext_reset_n'', ''F8''), (''hil_enable_in'', ''D5''),
      (''encoder_direction_in'', ''E5''), (''clear_faults_in'', ''C4''), (''force_safe_in'', ''D4''),
      (''test_pattern_enable_in'', ''E3''), (''dac_pattern_select_in[0]'', ''E4''), (''dac_pattern_select_in[1]'', ''F1''),
      (''enc_a_out'', ''A11''), (''enc_b_out'', ''A12''), (''enc_z_out'', ''A13''),
      (''spi_miso_out'', ''B13''), (''dio_out[0]'', ''A14''), (''dio_out[1]'', ''B14''),
      (''dio_out[2]'', ''E13''), (''dio_out[3]'', ''E14''), (''dio_out[4]'', ''A15''),
      (''dio_out[5]'', ''B15''), (''dio_out[6]'', ''C13''), (''dio_out[7]'', ''C14''),
      (''dio_out[8]'', ''B10''), (''dio_out[9]'', ''C11''), (''dio_out[10]'', ''D14''),
      (''dio_out[11]'', ''D15''), (''dio_out[12]'', ''F11''), (''dio_out[13]'', ''F12''),
      (''dio_out[14]'', ''H13''), (''dio_out[15]'', ''H14''), (''status_out[0]'', ''G14''),
      (''status_out[1]'', ''G15''), (''status_out[2]'', ''F10''), (''status_out[3]'', ''G11''),
      (''dac_sclk_out'', ''H12''), (''dac_cs_n_out'', ''J12''), (''dac_mosi_a_out'', ''J14''),
      (''dac_mosi_b_out'', ''K14''), (''dac_reset_n_out'', ''K12''), (''dac_ldac_n_out'', ''K13''),
      (''dac_output_enable_out'', ''L13''), (''dac_initialized_out'', ''L14''), (''dac_stream_active_out'', ''G10''),
      (''led_n[0]'', ''W13''), (''led_n[1]'', ''Y12''), (''led_n[2]'', ''AA12''),
      (''led_n[3]'', ''AB13'')]"

datatype pin_error =
    Duplicate_Port nat string
  | Pin_Reused nat string string
  | Wrong_Pin string string "string option"
  | Unexpected_Ports "string list"
  | Clock_Not_25MHz
  | Clock_Standard
  | Missing_Rule string

record pin_scan =
  pn_found :: "string \<rightharpoonup> string"
  pn_pins :: "string \<rightharpoonup> string"
  pn_errors :: "pin_error list"

text \<open>The groups of a matching line: the pin, and the port in braces or plain.\<close>

type_synonym pin_match = "string \<times> string option \<times> string option"

definition PIN_RE :: string where
  "PIN_RE = ''^%s*set_property%s+PACKAGE_PIN%s+(%S+)%s+%[get_ports%s+(?:%{([^}]+)%}|([^%]]+))%]''"

definition pin_re :: "string \<Rightarrow> pin_match option" where
  "pin_re line =
     (case re_match_text PIN_RE line of
        Inr (Some m) \<Rightarrow> Some (the (group_of m 1), group_of m 2, group_of m 3)
      | _ \<Rightarrow> None)"

definition clock_constrained :: "string \<Rightarrow> bool" where
  "clock_constrained text =
     (case re_search ''create_clock%s+-period%s+40%.000%b'' text of Inr (Some m) \<Rightarrow> True | _ \<Rightarrow> False)"

definition port_of :: "pin_match \<Rightarrow> string" where
  "port_of m =
     (case m of (pin, braced, plain) \<Rightarrow>
        strip_blanks (case braced of Some b \<Rightarrow> if b \<noteq> [] then b else the plain | None \<Rightarrow> the plain))"

definition pin_line :: "nat \<times> string \<Rightarrow> pin_scan \<Rightarrow> pin_scan" where
  "pin_line nl s =
     (case nl of (line_number, line) \<Rightarrow>
        case pin_re line of
          None \<Rightarrow> s
        | Some m \<Rightarrow>
            let pin = fst m; port = port_of m;
                errs = pn_errors s;
                errs = (if pn_found s port \<noteq> None then errs @ [Duplicate_Port line_number port] else errs);
                errs = (case pn_pins s pin of None \<Rightarrow> errs | Some p \<Rightarrow> errs @ [Pin_Reused line_number pin p])
            in \<lparr>pn_found = (pn_found s)(port \<mapsto> pin), pn_pins = (pn_pins s)(pin \<mapsto> port), pn_errors = errs\<rparr>)"

definition scan_pins :: "string list \<Rightarrow> pin_scan" where
  "scan_pins ls =
     fold pin_line (zip [1..<length ls + 1] ls)
       \<lparr>pn_found = Map.empty, pn_pins = Map.empty, pn_errors = []\<rparr>"

definition safe_rules :: "string list" where
  "safe_rules =
     [''set_property PULLDOWN true [get_ports hil_enable_in]'',
      ''set_property PULLUP   true [get_ports force_safe_in]'',
      ''set_property PULLUP   true [get_ports spi_cs_n_in]'',
      ''set_property PULLDOWN true [get_ports {dac_pattern_select_in[*]}]'']"

text \<open>The names found are those of a finite scan; \<open>ports\<close> lists them for the check of unexpected ones.\<close>

definition constraint_errors :: "string \<Rightarrow> pin_error list" where
  "constraint_errors text =
     (let s = scan_pins (splitlines text);
          ports = map port_of (List.map_filter pin_re (splitlines text));
          unexpected = sorted_list_of_set (set ports - set (map fst EXPECTED))
      in pn_errors s
         @ concat (map (\<lambda>(port, expected).
             if pn_found s port \<noteq> Some expected then [Wrong_Pin port expected (pn_found s port)] else []) EXPECTED)
         @ (if unexpected \<noteq> [] then [Unexpected_Ports unexpected] else [])
         @ (if \<not> clock_constrained text then [Clock_Not_25MHz] else [])
         @ (if \<not> contains_text ''set_property IOSTANDARD LVCMOS33 [get_ports pl_ref_clk]'' text
            then [Clock_Standard] else [])
         @ concat (map (\<lambda>rule. if \<not> contains_text rule text then [Missing_Rule rule] else []) safe_rules))"

definition constraint_check :: "string \<Rightarrow> int" where
  "constraint_check text = (if constraint_errors text \<noteq> [] then 1 else 0)"

section \<open>Token searches\<close>

datatype token_error =
    Missing_File string
  | Missing_Token string string

text \<open>The files of a tool with the tokens each must contain; \<open>read\<close> is \<open>None\<close> for a missing file.\<close>

definition token_errors :: "(string \<Rightarrow> string option) \<Rightarrow> (string \<times> string list) list \<Rightarrow> token_error list" where
  "token_errors read checks =
     concat (map (\<lambda>(rel, tokens).
       case read rel of
         None \<Rightarrow> [Missing_File rel]
       | Some text \<Rightarrow> concat (map (\<lambda>token.
           if \<not> contains_text token text then [Missing_Token rel token] else []) tokens)) checks)"

definition INDUSTRIAL_CHECKS :: "(string \<times> string list) list" where
  "INDUSTRIAL_CHECKS =
     [(''fieldbus/ethercat/igh/cia402_cycle.c'',
        [''ecrt_master_application_time'', ''ecrt_domain_state'', ''ecrt_master_sync_reference_clock'', ''ecrt_master_sync_slave_clocks'', ''EC_WC_COMPLETE'', ''enable_drive'']),
      (''fieldbus/ethercat/soem/soem_cycle.c'',
        [''ec_configdc'', ''ec_send_processdata'', ''ec_receive_processdata'', ''expected_wkc'', ''ec_DCtime'']),
      (''fieldbus/canopen/sdo.py'',
        [''0x2F'', ''0x2B'', ''0x23'', ''SdoAbort'']),
      (''fieldbus/canopen/cia402.py'',
        [''0x6040'', ''0x6041'', ''OPERATION_ENABLED'']),
      (''fieldbus/canopen/pdo.py'',
        [''mapping_value'', ''0x80000000'', ''configure_pdo_mapping'']),
      (''lab/labgrid/client.py'',
        [''acquire'', ''release'', ''labgrid-client'']),
      (''lab/session.py'',
        [''force_safe(True)''])]"

definition industrial_check :: "(string \<Rightarrow> string option) \<Rightarrow> int" where
  "industrial_check read = (if token_errors read INDUSTRIAL_CHECKS \<noteq> [] then 1 else 0)"

definition AXI_FILES :: "(string \<times> string) list" where
  "AXI_FILES =
     [(''rtl'', ''rtl/control/hil_axi_control_plane.v''),
      (''fifo'', ''rtl/control/hil_axi_event_fifo.v''),
      (''py'', ''host/hil/transports/register_map.py''),
      (''ax_dts'', ''boards/zynq7010/linux/hil-uio.dtsi''),
      (''zu_dts'', ''boards/zu2cg/linux/hil-uio.dtsi'')]"

definition AXI_TOKENS :: "(string \<times> string list) list" where
  "AXI_TOKENS =
     [(''rtl'', [(''32'' @ [CHR 0x27] @ ''h48494C32''), (''12'' @ [CHR 0x27] @ ''h114''), (''12'' @ [CHR 0x27] @ ''h118'')]),
      (''fifo'', [''ram_style'', ''DEPTH = 64'']),
      (''py'', [''MAGIC = 0x48494C32'', ''REG_EVT_PUSH = 0x114'', ''REG_EVT_STATUS = 0x118'']),
      (''ax_dts'', [''0x43c00000'', ''0x1000'', ''generic-uio'']),
      (''zu_dts'', [''0xa0000000'', ''0x1000'', ''generic-uio''])]"

definition axi_check :: "(string \<Rightarrow> string option) \<Rightarrow> int" where
  "axi_check read =
     (if token_errors read (map (\<lambda>(name, path). (path, the (map_of AXI_TOKENS name))) AXI_FILES) \<noteq> []
      then 1 else 0)"

definition REQUIRED_XDC :: "string list" where
  "REQUIRED_XDC =
     [''PACKAGE_PIN U18 [get_ports pl_clk_50m]'', ''PACKAGE_PIN W19 [get_ports {dut_pwm_high_in[0]}]'',
      ''PACKAGE_PIN Y16 [get_ports {dut_pwm_low_in[2]}]'', ''PACKAGE_PIN W15 [get_ports dut_enc_a_in]'',
      ''PACKAGE_PIN P18 [get_ports dut_ssi_clk_in]'', ''PACKAGE_PIN U15 [get_ports ext_reset_n]'',
      ''PACKAGE_PIN P16 [get_ports force_safe_in]'', ''PACKAGE_PIN F17 [get_ports {stim_pwm_high_out[0]}]'',
      ''PACKAGE_PIN G19 [get_ports {stim_pwm_low_out[2]}]'', ''PACKAGE_PIN H18 [get_ports stim_enc_a_out]'',
      ''PACKAGE_PIN L19 [get_ports stim_ssi_clk_out]'', ''PACKAGE_PIN M20 [get_ports stim_ssi_data_out]'',
      ''PULLUP   true [get_ports force_safe_in]'']"

definition REQUIRED_TOP :: "string list" where
  "REQUIRED_TOP =
     [''module ax7010_fpga_lite_top'', ''pwm_complementary_generator'', ''pwm_capture'',
      ''pwm_complementary_monitor'', ''abz_encoder_emulator'', ''abz_encoder_capture'',
      ''ssi_encoder_emulator'', ''ssi_encoder_master_capture'']"

definition REQUIRED_README :: "string list" where
  "REQUIRED_README = [''AX7010'', ''J10'', ''J11'', ''3.3 V'', ''33 ohm'', ''Zybo'', ''5 V logic directly'']"

text \<open>A missing file ends this tool before any token is looked for.\<close>

definition zynq7010_check :: "(string \<Rightarrow> string option) \<Rightarrow> int" where
  "zynq7010_check read =
     (let xdc = ''boards/zynq7010/constraints/ax7010_fpga_lite.xdc'';
          top = ''boards/zynq7010/rtl/ax7010_fpga_lite_top.v'';
          readme = ''boards/zynq7010/README.md''
      in if list_ex (\<lambda>p. read p = None) [xdc, top, readme] then 1
         else if token_errors read [(xdc, REQUIRED_XDC), (top, REQUIRED_TOP), (readme, REQUIRED_README)] \<noteq> []
         then 1 else 0)"

section \<open>Lemmas\<close>

text \<open>The pins of the matching lines, in order.\<close>

definition constrained_pins :: "string list \<Rightarrow> (string \<times> string) list" where
  "constrained_pins ls = map (\<lambda>m. (port_of m, fst m)) (List.map_filter pin_re ls)"

lemma constrained_pins_simps [simp]:
  "constrained_pins [] = []"
  "constrained_pins (l # ls) =
     (case pin_re l of None \<Rightarrow> constrained_pins ls
      | Some m \<Rightarrow> (port_of m, fst m) # constrained_pins ls)"
  by (simp_all add: constrained_pins_def List.map_filter_simps split: option.splits)

lemma pin_line_errors:
  "pn_errors (pin_line nl s) = [] \<longleftrightarrow> pn_errors s = [] \<and>
     (case pin_re (snd nl) of None \<Rightarrow> True
      | Some m \<Rightarrow> pn_found s (port_of m) = None \<and> pn_pins s (fst m) = None)"
  by (auto simp: pin_line_def Let_def split: prod.splits option.splits)

text \<open>A scan is free of errors when the pins are new and no port or pin comes twice.\<close>

definition scan_clean :: "pin_scan \<Rightarrow> (string \<times> string) list \<Rightarrow> bool" where
  "scan_clean s m \<longleftrightarrow> pn_errors s = [] \<and> distinct (map fst m) \<and> distinct (map snd m)
     \<and> (\<forall>p \<in> set (map fst m). pn_found s p = None) \<and> (\<forall>p \<in> set (map snd m). pn_pins s p = None)"

lemma pin_line_fields:
  "pin_re l = Some m \<Longrightarrow> pn_found (pin_line (n, l) s) = (pn_found s)(port_of m \<mapsto> fst m)
     \<and> pn_pins (pin_line (n, l) s) = (pn_pins s)(fst m \<mapsto> port_of m)"
  by (simp add: pin_line_def Let_def)

lemma fresh_update: "(\<forall>p \<in> A. (f(q \<mapsto> v)) p = None) \<longleftrightarrow> q \<notin> A \<and> (\<forall>p \<in> A. f p = None)"
  by auto

lemma scan_clean_Cons:
  "scan_clean s (constrained_pins (l # ls)) \<longleftrightarrow> scan_clean (pin_line (n, l) s) (constrained_pins ls)"
proof (cases "pin_re l")
  case None
  then show ?thesis by (simp add: pin_line_def)
next
  case (Some m)
  have errs: "pn_errors (pin_line (n, l) s) = []
      \<longleftrightarrow> pn_errors s = [] \<and> pn_found s (port_of m) = None \<and> pn_pins s (fst m) = None"
    using pin_line_errors [of "(n, l)" s] Some by simp
  have fields: "pn_found (pin_line (n, l) s) = (pn_found s)(port_of m \<mapsto> fst m)"
    "pn_pins (pin_line (n, l) s) = (pn_pins s)(fst m \<mapsto> port_of m)"
    using pin_line_fields [OF Some, of n s] by simp_all
  have pins: "constrained_pins (l # ls) = (port_of m, fst m) # constrained_pins ls" using Some by simp
  show ?thesis
    unfolding scan_clean_def errs fields fresh_update pins list.map fst_conv snd_conv distinct.simps set_simps ball_simps
    by blast
qed

lemma scan_errors_iff:
  "length ns = length ls \<Longrightarrow>
     pn_errors (fold pin_line (zip ns ls) s) = [] \<longleftrightarrow> scan_clean s (constrained_pins ls)"
proof (induction ls arbitrary: ns s)
  case (Cons l ls)
  then obtain n ns' where "ns = n # ns'" "length ns' = length ls" by (cases ns) auto
  with Cons.IH [of ns' "pin_line (n, l) s"] scan_clean_Cons [of s l ls n] show ?case by simp
qed (simp add: scan_clean_def)

lemma scan_found:
  "length ns = length ls \<Longrightarrow> distinct (map fst (constrained_pins ls)) \<Longrightarrow>
     pn_found (fold pin_line (zip ns ls) s) = pn_found s ++ map_of (constrained_pins ls)"
proof (induction ls arbitrary: ns s)
  case (Cons l ls)
  then obtain n ns' where ns: "ns = n # ns'" "length ns' = length ls" by (cases ns) auto
  show ?case
  proof (cases "pin_re l")
    case None
    then show ?thesis using Cons.IH [OF ns(2)] Cons.prems(2) by (simp add: ns(1) pin_line_def)
  next
    case (Some m)
    with Cons.prems(2) have "map_of (constrained_pins ls) (port_of m) = None"
      by (simp add: map_of_eq_None_iff)
    then show ?thesis
      using Cons.IH [OF ns(2), of "pin_line (n, l) s"] Cons.prems(2) pin_line_fields [OF Some, of n s] Some
      by (auto simp: ns(1) fun_eq_iff map_add_def split: option.splits)
  qed
qed simp

lemma scan_pins_clean:
  "pn_errors (scan_pins ls) = []
     \<longleftrightarrow> distinct (map fst (constrained_pins ls)) \<and> distinct (map snd (constrained_pins ls))"
  "distinct (map fst (constrained_pins ls)) \<Longrightarrow> pn_found (scan_pins ls) = map_of (constrained_pins ls)"
proof -
  have len: "length [1..<length ls + 1] = length ls" by (simp only: length_upt diff_add_inverse2)
  show "pn_errors (scan_pins ls) = []
     \<longleftrightarrow> distinct (map fst (constrained_pins ls)) \<and> distinct (map snd (constrained_pins ls))"
    unfolding scan_pins_def scan_errors_iff [OF len] by (simp add: scan_clean_def)
  show "pn_found (scan_pins ls) = map_of (constrained_pins ls)" if "distinct (map fst (constrained_pins ls))"
    using scan_found [OF len that, of "\<lparr>pn_found = Map.empty, pn_pins = Map.empty, pn_errors = []\<rparr>"]
    by (simp add: scan_pins_def del: upt_Suc)
qed

text \<open>Two lists of pairs with distinct keys have the same elements when one is looked up in the other and has
  no further keys.\<close>

lemma map_of_covers:
  assumes "distinct (map fst m)" "distinct (map fst e)"
  shows "(\<forall>(k, v) \<in> set e. map_of m k = Some v) \<and> fst ` set m \<subseteq> fst ` set e \<longleftrightarrow> set m = set e"
proof
  assume "set m = set e"
  with assms show "(\<forall>(k, v) \<in> set e. map_of m k = Some v) \<and> fst ` set m \<subseteq> fst ` set e" by auto
next
  assume l: "(\<forall>(k, v) \<in> set e. map_of m k = Some v) \<and> fst ` set m \<subseteq> fst ` set e"
  then have "set e \<subseteq> set m" by (auto dest: map_of_SomeD)
  moreover have "set m \<subseteq> set e"
  proof
    fix x assume x: "x \<in> set m"
    with l obtain v where v: "(fst x, v) \<in> set e" by force
    with l have "map_of m (fst x) = Some v" by auto
    moreover have "map_of m (fst x) = Some (snd x)" using assms(1) x by simp
    ultimately show "x \<in> set e" using v by (metis option.inject prod.collapse)
  qed
  ultimately show "set m = set e" by blast
qed

lemma EXPECTED_distinct: "distinct (map fst EXPECTED)" "distinct (map snd EXPECTED)"
  by (simp_all add: EXPECTED_def)

lemma text_list:
  assumes "\<forall>x \<in> set xs. text_of x \<noteq> None"
  shows "xs = map PStr (map (\<lambda>x. the (text_of x)) xs)"
proof -
  have "PStr (the (text_of x)) = x" if "text_of x \<noteq> None" for x using that by (cases x) auto
  with assms show ?thesis by (simp add: map_idI)
qed

lemma list_items_Some: "list_items v = Some xs \<longleftrightarrow> v = PList xs"
  by (cases v) auto

lemma is_str_text: "is_str x \<longleftrightarrow> text_of x \<noteq> None"
  by (cases x) auto

lemma required_accepted:
  assumes "check_required path_exists v = []"
  shows "\<exists>ps. v = PList (map PStr ps) \<and> list_all path_exists ps"
proof -
  from assms obtain xs where v: "v = PList xs" and xs: "\<forall>x \<in> set xs. \<exists>p. text_of x = Some p \<and> path_exists p"
    by (fastforce simp: check_required_def list_items_Some split: option.splits if_splits)
  then show ?thesis
    using text_list [of xs] by (intro exI [of _ "map (\<lambda>x. the (text_of x)) xs"]) (auto simp: list_all_iff)
qed

lemma forbidden_accepted:
  assumes "check_forbidden path_exists v = []"
  shows "\<exists>ps. v = PList (map PStr ps) \<and> \<not> list_ex path_exists ps"
proof -
  from assms obtain xs where v: "v = PList xs" and xs: "\<forall>x \<in> set xs. \<exists>p. text_of x = Some p \<and> \<not> path_exists p"
    by (fastforce simp: check_forbidden_def list_items_Some split: option.splits if_splits)
  then show ?thesis
    using text_list [of xs] by (intro exI [of _ "map (\<lambda>x. the (text_of x)) xs"]) (auto simp: list_ex_iff)
qed

lemma roles_accepted:
  "check_roles path_exists v = [] \<Longrightarrow>
     \<exists>roles. v = PDict roles \<and> list_all (\<lambda>(p, _). path_exists p) roles"
  by (cases v) (auto simp: check_roles_def list_all_iff split: if_splits)

lemma capabilities_accepted:
  assumes "check_capabilities v = []"
  shows "\<exists>names. v = PList (map PStr names) \<and> distinct names \<and> set names = range cap_value"
proof -
  obtain D errs where D: "declared_capabilities v = (D, errs)" by (rule prod.exhaust)
  have code: "set (map cap_value all_capabilities) = range cap_value"
    by (simp add: all_capabilities_complete)
  with assms D have errs: "errs = []"
    and "sorted_list_of_set (range cap_value - D) = []" "sorted_list_of_set (D - range cap_value) = []"
    unfolding check_capabilities_def by (auto simp: Let_def split: if_splits)
  moreover from D errs obtain xs where xs: "v = PList xs" "\<forall>x \<in> set xs. text_of x \<noteq> None"
    and names: "D = set (map (\<lambda>x. the (text_of x)) xs)"
      "card D = length (map (\<lambda>x. the (text_of x)) xs)"
    by (auto simp: declared_capabilities_def Let_def list_items_Some list_all_iff is_str_text
        split: option.splits if_splits)
  ultimately have "range cap_value - D = {}" "D - range cap_value = {}" by simp_all
  then show ?thesis
    using xs text_list [of xs] names
    by (intro exI [of _ "map (\<lambda>x. the (text_of x)) xs"]) (auto simp: card_distinct)
qed

section \<open>Properties\<close>

text \<open>C38: The check accepts a constraint file exactly when it is the expected pin map and nothing else: its pin
  lines name every port once, use every package pin once, and are as a set the expected pairs; the reference
  clock is constrained to 25 MHz with its electrical standard, and every fail-safe rule is in the text.\<close>

theorem accepted_pin_map_exact:
  "constraint_check text = 0 \<longleftrightarrow>
     distinct (map fst (constrained_pins (splitlines text)))
   \<and> distinct (map snd (constrained_pins (splitlines text)))
   \<and> set (constrained_pins (splitlines text)) = set EXPECTED
   \<and> clock_constrained text
   \<and> contains_text ''set_property IOSTANDARD LVCMOS33 [get_ports pl_ref_clk]'' text
   \<and> list_all (\<lambda>rule. contains_text rule text) safe_rules"
proof -
  let ?ls = "splitlines text"
  let ?m = "constrained_pins ?ls"
  have unexpected: "set (map port_of (List.map_filter pin_re ?ls)) - set (map fst EXPECTED) = {}
      \<longleftrightarrow> fst ` set ?m \<subseteq> fst ` set EXPECTED"
    by (force simp: constrained_pins_def)
  have rules: "concat (map (\<lambda>rule. if \<not> contains_text rule text then [Missing_Rule rule] else []) safe_rules) = []
      \<longleftrightarrow> list_all (\<lambda>rule. contains_text rule text) safe_rules"
    by (auto simp: list_all_iff)
  have pins: "concat (map (\<lambda>(port, expected).
        if pn_found (scan_pins ?ls) port \<noteq> Some expected
        then [Wrong_Pin port expected (pn_found (scan_pins ?ls) port)] else []) EXPECTED) = []
      \<longleftrightarrow> (\<forall>(port, expected) \<in> set EXPECTED. pn_found (scan_pins ?ls) port = Some expected)"
    by (force split: if_splits)
  have "constraint_check text = 0 \<longleftrightarrow> pn_errors (scan_pins ?ls) = []
      \<and> (\<forall>(port, expected) \<in> set EXPECTED. pn_found (scan_pins ?ls) port = Some expected)
      \<and> fst ` set ?m \<subseteq> fst ` set EXPECTED \<and> clock_constrained text
      \<and> contains_text ''set_property IOSTANDARD LVCMOS33 [get_ports pl_ref_clk]'' text
      \<and> list_all (\<lambda>rule. contains_text rule text) safe_rules"
    unfolding constraint_check_def constraint_errors_def Let_def append_is_Nil_conv pins rules
    using unexpected by (simp add: sorted_list_of_set_eq_Nil_iff split del: if_split) auto
  then show ?thesis
    using scan_pins_clean [of ?ls] map_of_covers [OF _ EXPECTED_distinct(1), of ?m] by auto
qed

text \<open>A manifest that the architecture check accepts declares exactly the capabilities of the host interface,
  each once; all paths it requires exist, none it forbids does, and its board roles point to
  existing paths.\<close>

theorem manifest_declares_host_api:
  assumes "architecture_check path_exists (Inr (PDict d)) = Inr 0"
  shows "(\<exists>names. dict_get d ''backend_capabilities'' PNone = PList (map PStr names) \<and> distinct names
      \<and> set names = range cap_value)
    \<and> (\<exists>ps. dict_get d ''required_paths'' PNone = PList (map PStr ps) \<and> list_all path_exists ps)
    \<and> (\<exists>ps. dict_get d ''forbidden_paths'' (PList []) = PList (map PStr ps) \<and> \<not> list_ex path_exists ps)
    \<and> (\<exists>roles. dict_get d ''board_roles'' (PDict []) = PDict roles \<and> list_all (\<lambda>(p, _). path_exists p) roles)"
proof -
  from assms have "architecture_errors path_exists d = []"
    by (auto simp: architecture_check_def split: if_splits)
  then show ?thesis
    unfolding architecture_errors_def append_is_Nil_conv
    by (blast intro: capabilities_accepted required_accepted forbidden_accepted roles_accepted)
qed

text \<open>A manifest that passes.\<close>

definition sample_manifest :: "(string \<times> pyval) list" where
  "sample_manifest =
     [(''schema_version'', PInt 2), (''required_paths'', PList [PStr ''rtl'']),
      (''forbidden_paths'', PList [PStr ''old'']), (''board_roles'', PDict [(''rtl'', PStr ''full_hil_backend'')]),
      (''backend_capabilities'', PList (map (PStr \<circ> cap_value) all_capabilities)),
      (''controller_services'', PList [PStr ''pytest''])]"

lemma manifest_declares_host_api_witness:
  "architecture_check (\<lambda>p. p = ''rtl'') (Inr (PDict sample_manifest)) = Inr 0
   \<and> (\<exists>names. dict_get sample_manifest ''backend_capabilities'' PNone = PList (map PStr names)
        \<and> set names = range cap_value)"
proof -
  have "check_capabilities (PList (map (PStr \<circ> cap_value) all_capabilities)) = []"
  proof -
    have names: "declared_capabilities (PList (map (PStr \<circ> cap_value) all_capabilities)) = (range cap_value, [])"
      by (simp add: declared_capabilities_def all_capabilities_def)
        (simp add: all_capabilities_complete [unfolded all_capabilities_def, symmetric])
    show ?thesis
      unfolding check_capabilities_def names by (simp add: all_capabilities_complete)
  qed
  then have ok: "architecture_check (\<lambda>p. p = ''rtl'') (Inr (PDict sample_manifest)) = Inr 0"
    by (simp add: architecture_check_def architecture_errors_def sample_manifest_def dict_get_def
        check_required_def check_forbidden_def check_roles_def check_services_def)
  from manifest_declares_host_api [OF ok] ok show ?thesis by blast
qed

end
