(* ===== verification/Pattern_Checks.thy ===== *)
theory Pattern_Checks
  imports Py_Regex
begin

text \<open>
  The pattern checks of \<open>tools/\<close>: each reads files of the repository and searches them for patterns that must or
  must not occur (\<open>bbb_b0_static_check.py\<close>, \<open>bbb_b1_static_check.py\<close>, \<open>bbb_b1_raw_static_check.py\<close>,
  \<open>bbb_b2_static_check.py\<close>, \<open>bbb_b2_serial_static_check.py\<close>, \<open>rtl_policy_check.py\<close>), and the launcher of the
  hardware tests (\<open>run_hil_suite.py\<close>). The tables of patterns are those of the tools, with \<open>%\<close> for the
  backslash (\<open>Py_Regex\<close>). The file system is a parameter. Shown: what acceptance means in terms of the meaning
  of the patterns, and that no pattern is malformed.
\<close>

section \<open>Rules\<close>

text \<open>A required or forbidden pattern in one of the texts a tool has read, and the label of its message.\<close>

datatype rule =
    Require string string string
  | Forbid string string string

definition requires :: "string \<Rightarrow> (string \<times> string) list \<Rightarrow> rule list" where
  "requires text rules = map (\<lambda>(pattern, label). Require text pattern label) rules"

definition forbids :: "string \<Rightarrow> (string \<times> string) list \<Rightarrow> rule list" where
  "forbids text rules = map (\<lambda>(pattern, label). Forbid text pattern label) rules"

datatype check_error =
    Missing_Path string
  | Missing_Pattern string
  | Forbidden_Pattern string
  | No_Kernel
  | Forbidden_Extension string
  | No_Sources
  | No_Default_Nettype string
  | Initial_Block string
  | Forbidden_Construct string string

definition require_pattern :: "string \<Rightarrow> string \<Rightarrow> string \<Rightarrow> exn + check_error list" where
  "require_pattern text pattern label =
     bind_exn (re_search pattern text) (\<lambda>m. Inr (if m = None then [Missing_Pattern label] else []))"

definition forbid_pattern :: "string \<Rightarrow> string \<Rightarrow> string \<Rightarrow> exn + check_error list" where
  "forbid_pattern text pattern label =
     bind_exn (re_search pattern text) (\<lambda>m. Inr (if m \<noteq> None then [Forbidden_Pattern label] else []))"

primrec run_rule :: "(string \<Rightarrow> string) \<Rightarrow> rule \<Rightarrow> exn + check_error list" where
  "run_rule texts (Require name pattern label) = require_pattern (texts name) pattern label"
| "run_rule texts (Forbid name pattern label) = forbid_pattern (texts name) pattern label"

definition run_rules :: "(string \<Rightarrow> string) \<Rightarrow> rule list \<Rightarrow> exn + check_error list" where
  "run_rules texts rules = bind_exn (map_exn (run_rule texts) rules) (\<lambda>errs. Inr (concat errs))"

section \<open>A tool\<close>

text \<open>The texts a tool reads, by the names of its variables.\<close>

definition read_texts ::
    "(string \<Rightarrow> exn + string) \<Rightarrow> (string \<times> string) list \<Rightarrow> exn + (string \<Rightarrow> string)" where
  "read_texts read files =
     bind_exn (map_exn (\<lambda>(name, path). read path) files) (\<lambda>contents.
     Inr (\<lambda>name. the (map_of (zip (map fst files) contents) name)))"

definition exit_code :: "check_error list \<Rightarrow> int" where
  "exit_code errors = (if errors \<noteq> [] then 1 else 0)"

text \<open>A tool that reads its files right away, and one that looks for missing files first.\<close>

definition check_texts ::
    "(string \<Rightarrow> exn + string) \<Rightarrow> (string \<times> string) list
      \<Rightarrow> ((string \<Rightarrow> string) \<Rightarrow> exn + check_error list) \<Rightarrow> exn + int" where
  "check_texts read files body =
     bind_exn (read_texts read files) (\<lambda>texts.
     bind_exn (body texts) (\<lambda>errors. Inr (exit_code errors)))"

definition missing_files :: "(string \<Rightarrow> bool) \<Rightarrow> (string \<times> string) list \<Rightarrow> check_error list" where
  "missing_files is_file files = map (Missing_Path \<circ> snd) (filter (\<lambda>(name, path). \<not> is_file path) files)"

definition check_files ::
    "(string \<Rightarrow> bool) \<Rightarrow> (string \<Rightarrow> exn + string) \<Rightarrow> (string \<times> string) list
      \<Rightarrow> ((string \<Rightarrow> string) \<Rightarrow> exn + check_error list) \<Rightarrow> exn + int" where
  "check_files is_file read files body =
     (if missing_files is_file files \<noteq> [] then Inr 1 else check_texts read files body)"

section \<open>PRU0: protocol and loopback (\<open>bbb_b0_static_check.py\<close>)\<close>

definition B0_FILES :: "(string \<times> string) list" where
  "B0_FILES =
     [(''c'', ''boards/beaglebone_black/firmware/common/hil_pru_protocol.h''),
      (''py'', ''boards/beaglebone_black/host/hil_pru_protocol.py''),
      (''firmware'', ''boards/beaglebone_black/firmware/pru0_b0/main.c''),
      (''resource_c'', ''boards/beaglebone_black/firmware/pru0_b0/resource_table_0.c''),
      (''resource_h'', ''boards/beaglebone_black/firmware/pru0_b0/resource_table_0.h''),
      (''intc_map'', ''boards/beaglebone_black/firmware/pru0_b0/intc_map_0.h''),
      (''linker'', ''boards/beaglebone_black/firmware/pru0_b0/AM335x_PRU.cmd'')]"

definition b0_rules :: "rule list" where
  "b0_rules =
     concat (map (\<lambda>(c_pattern, py_pattern, label).
       [Require ''c'' c_pattern (''C '' @ label), Require ''py'' py_pattern (''Python '' @ label)])
      [(''HIL_PRU_MAGIC%s+%(0x304C4948u%)'', ''MAGIC%s*=%s*0x304C4948'', ''protocol magic''),
       (''HIL_PRU_PROTOCOL_VERSION%s+%(1u%)'', ''PROTOCOL_VERSION%s*=%s*1'', ''protocol version''),
       (''HIL_PRU_MSG_HELLO%s+%(1u%)'', ''MSG_HELLO%s*=%s*1'', ''HELLO id''),
       (''HIL_PRU_MSG_GPIO_LOOPBACK%s+%(3u%)'', ''MSG_GPIO_LOOPBACK%s*=%s*3'', ''loopback id'')]) @
     requires ''firmware''
      [(''#include <pru_intc%.h>'', ''AM335x PRU INTC header''),
       (''#include \"intc_map_0%.h\"'', ''PSSP v6 IRQ-map include''),
       (''HOST_INT%s+%(%(uint32_t%)1u << 30%)'', ''PRU0 host interrupt bit''),
       (''TO_ARM_HOST%s+%(16u%)'', ''PRU0 PRU->ARM system event''),
       (''FROM_ARM_HOST%s+%(17u%)'', ''PRU0 ARM->PRU system event''),
       (''pru_rpmsg_init%('', ''PSSP RPMsg transport initialization''),
       (''CT_INTC%.SICR_bit%.STS_CLR_IDX%s*=%s*FROM_ARM_HOST'', ''RPMsg event clear'')] @
     requires ''resource_h''
      [(''#include <pru_virtio_ids%.h>'', ''virtio RPMsg ID header''),
       (''uint32_t offset%[1%]'', ''RPMsg-only resource table'')] @
     requires ''resource_c''
      [(''%.resource_table'', ''remoteproc resource table section''),
       (''%{%s*1u,%s*1u,'', ''single resource entry''),
       (''VIRTIO_ID_RPMSG'', ''RPMsg vdev'')] @
     [Forbid ''resource_h'' ''fw_rsc_custom'' ''legacy custom INTC resource''] @
     [Forbid ''resource_c'' ''fw_rsc_custom_ints|struct ch_map|TYPE_POSTLOAD_VENDOR|TYPE_CUSTOM'' ''legacy custom INTC data''] @
     requires ''intc_map''
      [(''%.pru_irq_map'', ''PSSP v6 PRU IRQ map section''),
       (''struct pru_irq_rsc%s+hil_b0_irq_rsc'', ''PRU IRQ resource''),
       (''%{%s*17u,%s*0u,%s*0u%s*%}'', ''event17 channel0 host0 mapping'')] @
     [Forbid ''intc_map'' ''%{%s*16u,'' ''ARM-target event16 in PRU IRQ map''] @
     [Require ''linker'' ''%.pru_irq_map%s+%(COPY%)'' ''linker PRU IRQ-map COPY section''] @
     requires ''firmware''
      [(''#define IEP_TICK_HZ%s+%(200000000u%)'', ''IEP tick metadata''),
       (''LOOPBACK_OUT_R30_BIT%s+%(0u%)'', ''P9_31 R30 mapping''),
       (''LOOPBACK_IN_R31_BIT%s+%(1u%)'', ''P9_29 R31 mapping''),
       (''WATCHDOG_TICKS'', ''watchdog''),
       (''force_safe%(%)'', ''safe-state invocation'')]"

definition b0_check :: "(string \<Rightarrow> exn + string) \<Rightarrow> exn + int" where
  "b0_check read = check_texts read B0_FILES (\<lambda>texts. run_rules texts b0_rules)"

section \<open>PRU0: PWM capture (\<open>bbb_b1_static_check.py\<close>)\<close>

definition B1_FILES :: "(string \<times> string) list" where
  "B1_FILES =
     [(''main_c'', ''boards/beaglebone_black/firmware/pru0_b1/main.c''),
      (''core_h'', ''boards/beaglebone_black/firmware/common/pwm_capture_core.h''),
      (''core_c'', ''boards/beaglebone_black/firmware/common/pwm_capture_core.c''),
      (''linker'', ''boards/beaglebone_black/firmware/pru0_b1/AM335x_PRU_B1.cmd''),
      (''pinmux'', ''boards/beaglebone_black/pinmux/setup_b1_pwm_inputs.sh''),
      (''host_shared'', ''boards/beaglebone_black/host/hil_pwm_shared.py'')]"

definition b1_rules :: "rule list" where
  "b1_rules =
     requires ''main_c''
      [(''R31_UH_MASK%s+%(1u << 1%)'', ''UH R31[1]''),
       (''R31_UL_MASK%s+%(1u << 2%)'', ''UL R31[2]''),
       (''R31_VH_MASK%s+%(1u << 3%)'', ''VH R31[3]''),
       (''R31_VL_MASK%s+%(1u << 5%)'', ''VL R31[5]''),
       (''R31_WH_MASK%s+%(1u << 14%)'', ''WH R31[14]''),
       (''R31_WL_MASK%s+%(1u << 15%)'', ''WL R31[15]''),
       (''uint32_t raw_r31 = __R31;'', ''single R31 loop sample''),
       (''logical_inputs != last_inputs'', ''edge-change gate''),
       (''timestamp_ticks = tick_now%(%)'', ''IEP timestamp on change''),
       (''hil_pwm_capture_process'', ''capture-core invocation''),
       (''HIL_PRU_B1_CAPABILITIES'', ''B1 capability handshake''),
       (''HIL_PRU_MSG_CAPTURE_CONFIG'', ''capture control command'')] @
     requires ''core_h''
      [(''HIL_PWM_RING_CAPACITY%s+%(128u%)'', ''128-entry edge ring''),
       (''struct hil_pwm_shared'', ''shared snapshot ABI''),
       (''struct hil_pwm_channel_snapshot'', ''channel snapshot''),
       (''struct hil_pwm_pair_snapshot'', ''pair snapshot'')] @
     requires ''core_c''
      [(''period_ticks = timestamp_ticks - channel->last_rise_ticks'', ''period measurement''),
       (''high_ticks = timestamp_ticks - channel->last_rise_ticks'', ''high-time measurement''),
       (''low_ticks = timestamp_ticks - channel->last_fall_ticks'', ''low-time measurement''),
       (''record_deadtime'', ''dead-time measurement''),
       (''HIL_PWM_FAULT_OVERLAP'', ''overlap latch''),
       (''HIL_PWM_FAULT_DEADTIME'', ''dead-time violation latch'')] @
     [Forbid ''core_c'' ''pru_rpmsg_'' ''RPMsg in deterministic capture core''] @
     [Require ''linker'' ''%.shared_pwm%s+>%s+PRU_SHAREDMEM,%s+PAGE 2'' ''shared-RAM linker section''] @
     requires ''host_shared''
      [(''PRUSS_SHARED_PHYS_BASE%s*=%s*0x4A310000'', ''AM335x shared-RAM physical base''),
       (''PWM_SHARED_SIZE%s*=%s*ctypes%.sizeof%(PwmShared%)'', ''host ABI sizing'')] @
     map (\<lambda>pin. Require ''pinmux'' (''config-pin '' @ pin @ '' pruin'') (pin @ '' pruin pinmux''))
      [''P9_29'', ''P9_30'', ''P9_28'', ''P9_27'', ''P8_16'', ''P8_15''] @
     [Forbid ''pinmux'' ''P9_25'' ''P9_25 in B1 PWM input map'']"

definition b1_check :: "(string \<Rightarrow> exn + string) \<Rightarrow> exn + int" where
  "b1_check read = check_texts read B1_FILES (\<lambda>texts. run_rules texts b1_rules)"

section \<open>PRU0: raw capture (\<open>bbb_b1_raw_static_check.py\<close>)\<close>

definition B1_RAW_FILES :: "(string \<times> string) list" where
  "B1_RAW_FILES =
     map (\<lambda>(name, path). (name, ''boards/beaglebone_black/'' @ path))
      [(''main_c'', ''firmware/pru0_b1_raw/main.c''),
       (''abi'', ''firmware/common/raw_edge_capture.h''),
       (''makefile'', ''firmware/pru0_b1_raw/Makefile''),
       (''linker'', ''firmware/pru0_b1_raw/AM335x_PRU_B1_RAW.cmd''),
       (''host'', ''host/hil_raw_shared.py''),
       (''cli'', ''host/hil_raw_cli.py'')]"

definition b1_raw_rules :: "rule list" where
  "b1_raw_rules =
     requires ''abi''
      [(''HIL_RAW_CAPTURE_CAPACITY%s+%(1024u%)'', ''1024-event raw capacity''),
       (''struct hil_raw_edge_record'', ''8-byte raw edge record''),
       (''timestamp_ticks;'', ''raw timestamp''),
       (''raw_inputs;'', ''raw R31 input state''),
       (''hil_raw_edge_record_must_be_8_bytes'', ''8-byte ABI assertion''),
       (''hil_raw_capture_must_fit_shared_ram'', ''shared RAM ABI bound'')] @
     requires ''main_c''
      [(''static uint32_t run_capture_window'', ''dedicated precision capture kernel''),
       (''uint32_t raw_inputs = __R31 & R31_PWM_INPUT_MASK;'', ''kernel R31 sample and native mask''),
       (''if %(raw_inputs == last_inputs%)'', ''tight no-change resample gate''),
       (''timestamp_ticks = tick_now%(%);'', ''IEP timestamp''),
       (''&g_raw_shared%.ring%[event_count%]'', ''linear raw ring slot''),
       (''record->timestamp_ticks = timestamp_ticks;'', ''timestamp store''),
       (''record->raw_inputs = raw_inputs;'', ''state store''),
       (''event_count %+= 1u;'', ''local event counter''),
       (''event_count >= event_limit'', ''bounded kernel exit''),
       (''HIL_RAW_STOP_EVENT_LIMIT'', ''bounded auto-stop''),
       (''start_pending'', ''post-RPMsg start arm state''),
       (''baseline_raw = __R31 & R31_PWM_INPUT_MASK'', ''fresh post-RPMsg R31 baseline''),
       (''baseline_ticks = tick_now%(%)'', ''fresh post-RPMsg IEP baseline''),
       (''g_raw_shared%.running = 1u;'', ''publish running after fresh baseline''),
       (''HIL_PRU_B1_RAW_CAPABILITIES'', ''raw capability handshake''),
       (''HIL_PRU_B1_RAW_FIRMWARE_VERSION'', ''raw firmware version'')]"

definition b1_raw_more_rules :: "rule list" where
  "b1_raw_more_rules =
     forbids ''main_c''
      [(''hil_pwm_capture_process'', ''inline PWM statistics in raw hot path''),
       (''record_deadtime'', ''dead-time analysis in raw hot path''),
       (''for %(channel_'', ''per-channel loop in raw hot path''),
       (''for %(pair_'', ''per-pair loop in raw hot path''),
       (''case HIL_PRU_MSG_RAW_START:[%s%S]{0,1200}g_raw_shared%.running = 1u;'', ''entering precise capture inside RAW_START RPMsg handler'')] @
     [Require ''linker'' ''%.shared_raw%s+>%s+PRU_SHAREDMEM,%s+PAGE 2'' ''raw shared RAM section''] @
     [Require ''makefile'' ''-O3'' ''PRU raw optimized build''] @
     [Forbid ''makefile'' ''pwm_capture_core%.object'' ''legacy capture core in raw firmware''] @
     requires ''host''
      [(''RAW_SHARED_SIZE'', ''host raw ABI sizing''),
       (''raw_to_logical'', ''host R31-to-logical remap''),
       (''analyze_raw_capture'', ''offline analyzer''),
       (''deadtime_high_to_low_ns'', ''host H->L dead-time reconstruction''),
       (''deadtime_low_to_high_ns'', ''host L->H dead-time reconstruction''),
       (''min_deadtime_violation_count'', ''host dead-time policy''),
       (''tick_histogram'', ''host raw-tick histograms'')] @
     requires ''cli''
      [(''MSG_RAW_CONFIG'', ''raw config command''),
       (''MSG_RAW_START'', ''raw start command''),
       (''time%.sleep'', ''RPMsg-free bounded capture wait''),
       (''read_frozen_raw_capture'', ''frozen raw dump'')]"

text \<open>The capture kernel without its comments; the tool goes on with an empty one when it finds none.\<close>

definition KERNEL_RE :: string where
  "KERNEL_RE = ''static uint32_t run_capture_window%([%s%S]+?%n}%n%nstatic void handle_request''"

definition raw_kernel :: "string \<Rightarrow> exn + string \<times> check_error list" where
  "raw_kernel main_c =
     bind_exn (re_search KERNEL_RE main_c) (\<lambda>m.
     Inr (case m of None \<Rightarrow> ([], [No_Kernel]) | Some k \<Rightarrow> (the (group_of k 0), [])))"

definition kernel_rule_errors :: "string \<Rightarrow> exn + check_error list" where
  "kernel_rule_errors kern =
     bind_exn (re_remove NO_FLAGS ''/%*[%s%S]*?%*/'' kern) (\<lambda>kernel_code.
     forbid_pattern kernel_code ''pru_rpmsg_|start_pending|capture_running|%(raw_r31 & HOST_INT%)''
       ''control-plane work in precision kernel'')"

definition b1_raw_errors :: "(string \<Rightarrow> string) \<Rightarrow> exn + check_error list" where
  "b1_raw_errors texts =
     bind_exn (run_rules texts b1_raw_rules) (\<lambda>errs.
     bind_exn (raw_kernel (texts ''main_c'')) (\<lambda>(kern, no_kernel).
     bind_exn (kernel_rule_errors kern) (\<lambda>in_kernel.
     bind_exn (run_rules texts b1_raw_more_rules) (\<lambda>more.
     Inr (errs @ no_kernel @ in_kernel @ more)))))"

definition b1_raw_check :: "(string \<Rightarrow> bool) \<Rightarrow> (string \<Rightarrow> exn + string) \<Rightarrow> exn + int" where
  "b1_raw_check is_file read = check_files is_file read B1_RAW_FILES b1_raw_errors"

section \<open>PRU1: stimulus (\<open>bbb_b2_static_check.py\<close>)\<close>

definition B2_FILES :: "(string \<times> string) list" where
  "B2_FILES =
     map (\<lambda>(name, path). (name, ''boards/beaglebone_black/'' @ path))
      [(''main_c'', ''firmware/pru1_b2/main.c''),
       (''rsc_h'', ''firmware/pru1_b2/resource_table_1.h''),
       (''rsc_c'', ''firmware/pru1_b2/resource_table_1.c''),
       (''intc'', ''firmware/pru1_b2/intc_map_1.h''),
       (''makefile'', ''firmware/pru1_b2/Makefile''),
       (''pinmux'', ''pinmux/setup_b2_abz_outputs.sh''),
       (''ctl'', ''scripts/pru1_ctl.py''),
       (''host'', ''host/hil_stim_cli.py''),
       (''abz'', ''host/hil_abz.py'')]"

definition b2_rules :: "rule list" where
  "b2_rules =
     requires ''main_c''
      [(''HOST_INT%s+%(%(uint32_t%)1u << 31%)'', ''PRU1 Host1 R31[31]''),
       (''TO_ARM_HOST%s+%(18u%)'', ''PRU1 to-ARM event 18''),
       (''FROM_ARM_HOST%s+%(19u%)'', ''ARM to PRU1 event 19''),
       (''CHAN_PORT%s+%(31u%)'', ''PRU1 RPMsg port 31''),
       (''ABZ_A_MASK%s+%(1u << 0%)'', ''A R30[0]''),
       (''ABZ_B_MASK%s+%(1u << 1%)'', ''B R30[1]''),
       (''ABZ_Z_MASK%s+%(1u << 2%)'', ''Z R30[2]''),
       (''CT_CFG%.GPCFG1 = 0u;'', ''PRU1 direct GPO mode''),
       (''HIL_PRU_B2_CAPABILITIES'', ''B2 capability handshake''),
       (''HIL_PRU_B2_FIRMWARE_VERSION'', ''B2 firmware version''),
       (''HIL_PRU_MSG_ABZ_CONFIG'', ''ABZ config command''),
       (''HIL_PRU_MSG_ABZ_START'', ''ABZ start command''),
       (''HIL_PRU_MSG_ABZ_STOP'', ''ABZ stop command''),
       (''HIL_PRU_MSG_ABZ_DIRECTION'', ''ABZ direction command''),
       (''HIL_PRU_MSG_ABZ_ARM'', ''timestamped ABZ arm command''),
       (''HIL_PRU_MSG_ABZ_SCHEDULE'', ''queued ABZ update command''),
       (''HIL_PRU_MSG_HALL_CONFIG'', ''Hall configure command''),
       (''HIL_PRU_MSG_HALL_START'', ''Hall start command''),
       (''HIL_PRU_MSG_STIM_STATUS'', ''common scheduler status''),
       (''phase = %(phase %+ 1u%) & 3u;'', ''forward quadrature step''),
       (''phase = %(phase %+ 3u%) & 3u;'', ''reverse quadrature step''),
       (''force_safe_outputs%(%);'', ''safe output path''),
       (''next_transition_ticks = now %+ transition_ticks;'', ''late resynchronization''),
       (''late_transition_count %+= 1u;'', ''late transition counter''),
       (''start_pending_mode'', ''ACK-before-run pending state''),
       (''armed_apply_ticks'', ''absolute IEP apply timestamp''),
       (''update_apply_ticks'', ''scheduled update timestamp''),
       (''hall_step_to_bits'', ''Hall six-step mapping''),
       (''case 1u:%s+return ABZ_A_MASK;'', ''phase 1 = A''),
       (''case 2u:%s+return ABZ_A_MASK %| ABZ_B_MASK;'', ''phase 2 = AB''),
       (''case 3u:%s+return ABZ_B_MASK;'', ''phase 3 = B'')] @
     [Require ''intc'' ''%{ 19u, 1u, 1u %}'' ''event19 -> channel1 -> host1''] @
     [Require ''rsc_h'' ''RPMSG_PRU_C1_FEATURES'' ''PRU1 RPMsg features''] @
     [Require ''rsc_c'' ''VIRTIO_ID_RPMSG'' ''PRU1 RPMsg vdev''] @
     requires ''makefile''
      [(''hil_b2_pru1%.out'', ''B2 PRU1 target''),
       (''-O3'', ''optimized PRU1 build''),
       (''--stack_size=0x400'', ''qualified 1 KiB PRU1 stack budget'')] @
     concat (map (\<lambda>(pin, bit).
       [Require ''pinmux'' (''config-pin '' @ pin @ '' pruout'') (pin @ '' pruout''),
        Require ''pinmux'' (re_escape pin @ '' -> PRU1 R30%['' @ str_int bit @ ''%]'') (pin @ '' mapping text'')])
      [(''P8_45'', 0), (''P8_46'', 1), (''P8_43'', 2)]) @
     requires ''ctl''
      [(''DEFAULT_FIRMWARE_NAME = \"am335x-pru1-fw\"'', ''PRU1 firmware name''),
       (''4a338000%.pru'', ''PRU1 remoteproc discovery''),
       (''rpmsg_pru31'', ''PRU1 RPMsg device'')] @
     requires ''abz''
      [(''transition_ticks_from_rpm'', ''RPM/PPR abstraction''),
       (''transition_ticks_from_hz'', ''transition-rate abstraction''),
       (''rpm_from_transition_ticks'', ''rate reporting''),
       (''encode_config_flags'', ''direction/phase config encoding'')] @
     requires ''host''
      [(''MSG_ABZ_CONFIG'', ''host ABZ configure''),
       (''MSG_ABZ_START'', ''host ABZ start''),
       (''MSG_ABZ_STOP'', ''host ABZ stop''),
       (''MSG_ABZ_DIRECTION'', ''host direction reversal''),
       (''MSG_FORCE_SAFE'', ''host force-safe''),
       (''MSG_ABZ_ARM'', ''host timestamped ABZ arm''),
       (''MSG_ABZ_SCHEDULE'', ''host queued ABZ update''),
       (''MSG_HALL_CONFIG'', ''host Hall configure''),
       (''MSG_STIM_STATUS'', ''host scheduler status''),
       (''/dev/rpmsg_pru31'', ''host PRU1 port'')] @
     [Forbid ''main_c'' ''while %(.*transition.*%).*__delay_cycles'' ''busy-delay edge generation''] @
     [Require ''main_c'' ''pru_rpmsg_send%([%s%S]{0,1200}if %(start_pending_mode == STIM_MODE_ABZ%)'' ''ABZ ACK-before-run ordering'']"

definition b2_check :: "(string \<Rightarrow> bool) \<Rightarrow> (string \<Rightarrow> exn + string) \<Rightarrow> exn + int" where
  "b2_check is_file read = check_files is_file read B2_FILES (\<lambda>texts. run_rules texts b2_rules)"

section \<open>PRU1: serial sensors (\<open>bbb_b2_serial_static_check.py\<close>)\<close>

definition B2_SERIAL_FILES :: "(string \<times> string) list" where
  "B2_SERIAL_FILES =
     map (\<lambda>(name, path). (name, ''boards/beaglebone_black/'' @ path))
      [(''main_c'', ''firmware/pru1_b2_serial/main.c''),
       (''makefile'', ''firmware/pru1_b2_serial/Makefile''),
       (''ssi_pinmux'', ''pinmux/setup_b2_ssi_biss.sh''),
       (''spi_pinmux'', ''pinmux/setup_b2_spi_sensor.sh''),
       (''host'', ''host/hil_sensor_cli.py''),
       (''helper'', ''host/hil_sensor.py'')]"

definition b2_serial_rules :: "rule list" where
  "b2_serial_rules =
     requires ''main_c''
      [(''SERIAL_MODE_SSI%s+%(1u%)'', ''SSI mode''),
       (''SERIAL_MODE_BISS%s+%(2u%)'', ''BiSS mode''),
       (''SERIAL_MODE_SPI%s+%(3u%)'', ''SPI mode''),
       (''SERIAL_CLK_MASK%s+%(1u << 0%)'', ''P8_45 clock input''),
       (''SERIAL_DATA_MASK%s+%(1u << 1%)'', ''P8_46 data output''),
       (''SERIAL_CS_MASK%s+%(1u << 2%)'', ''P8_43 chip-select input''),
       (''SERIAL_MOSI_MASK%s+%(1u << 3%)'', ''P8_44 MOSI input''),
       (''crc6_biss'', ''BiSS CRC6 implementation''),
       (''0x03u'', ''BiSS x^6+x+1 feedback polynomial''),
       (''HIL_PRU_B2_SERIAL_CAPABILITIES'', ''serial capability report''),
       (''HIL_PRU_B2_SERIAL_FIRMWARE_VERSION'', ''serial firmware version''),
       (''HIL_PRU_MSG_SERIAL_CONFIG'', ''serial configure command''),
       (''HIL_PRU_MSG_SERIAL_DATA'', ''serial frame/data command''),
       (''HIL_PRU_MSG_SERIAL_START'', ''serial start command''),
       (''HIL_PRU_MSG_SERIAL_STOP'', ''serial stop command''),
       (''HIL_PRU_MSG_SERIAL_STATUS'', ''serial status command''),
       (''min_half_period_ticks'', ''measured input clock limit statistic''),
       (''protocol_error_count'', ''serial protocol error statistic''),
       (''force_safe_output'', ''serial safe-output path'')] @
     requires ''makefile''
      [(''hil_b2_serial_pru1%.out'', ''serial PRU1 firmware target''),
       (''-O3'', ''optimized serial PRU build''),
       (''--stack_size=0x400'', ''qualified 1 KiB serial PRU1 stack budget'')] @
     requires ''ssi_pinmux''
      [(''config-pin P8_45 pruin'', ''SSI/BiSS clock input pinmux''),
       (''config-pin P8_46 pruout'', ''SSI/BiSS data output pinmux''),
       (''RS-422'', ''SSI/BiSS differential adapter warning'')] @
     requires ''spi_pinmux''
      [(''config-pin P8_45 pruin'', ''SPI clock input''),
       (''config-pin P8_46 pruout'', ''SPI MISO output''),
       (''config-pin P8_43 pruin'', ''SPI CS input''),
       (''config-pin P8_44 pruin'', ''SPI MOSI input''),
       (''generic mode-0'', ''generic SPI compatibility boundary'')] @
     requires ''host''
      [(''MSG_SERIAL_CONFIG'', ''host serial configure''),
       (''MSG_SERIAL_DATA'', ''host serial data''),
       (''MSG_SERIAL_START'', ''host serial start''),
       (''MSG_SERIAL_STATUS'', ''host serial status''),
       (''measured_clock_ceiling_hz'', ''host measured serial-clock report'')] @
     requires ''helper''
      [(''crc6_biss'', ''host BiSS CRC6 helper''),
       (''ACK=0, START=1, CDS=0'', ''host BiSS frame semantics'')]"

definition b2_serial_check :: "(string \<Rightarrow> bool) \<Rightarrow> (string \<Rightarrow> exn + string) \<Rightarrow> exn + int" where
  "b2_serial_check is_file read = check_files is_file read B2_SERIAL_FILES (\<lambda>texts. run_rules texts b2_serial_rules)"

section \<open>Synthesizable Verilog (\<open>rtl_policy_check.py\<close>)\<close>

definition RTL_ROOTS :: "string list" where
  "RTL_ROOTS = [''rtl'', ''boards/zu2cg/rtl'', ''boards/zynq7010/rtl'']"

definition FORBIDDEN :: "(string \<times> string) list" where
  "FORBIDDEN =
     [(''%balways_ff%b'', ''SystemVerilog always_ff''),
      (''%balways_comb%b'', ''SystemVerilog always_comb''),
      (''%balways_latch%b'', ''SystemVerilog always_latch''),
      (''%btypedef%b'', ''SystemVerilog typedef''),
      (''%binterface%b'', ''SystemVerilog interface''),
      (''%bpackage%b'', ''SystemVerilog package''),
      (''%bendmodule%s*:%s*'', ''named endmodule syntax'')]"

text \<open>The files below the roots that exist; \<open>rglob\<close> lists those with a suffix.\<close>

definition rtl_sources ::
    "(string \<Rightarrow> bool) \<Rightarrow> (string \<Rightarrow> string \<Rightarrow> string list) \<Rightarrow> check_error list \<times> string list" where
  "rtl_sources path_exists rglob =
     (let roots = filter path_exists RTL_ROOTS
      in (concat (map (\<lambda>root. map Forbidden_Extension (sort (rglob root ''*.sv'') @ sort (rglob root ''*.svh''))) roots),
          concat (map (\<lambda>root. sort (rglob root ''*.v'')) roots)))"

text \<open>Block comments are removed first, then line comments.\<close>

definition rtl_code :: "string \<Rightarrow> exn + string" where
  "rtl_code text =
     bind_exn (re_remove (NO_FLAGS\<lparr>dot_all := True\<rparr>) ''/%*.*?%*/'' text) (\<lambda>code.
     re_remove NO_FLAGS ''//.*'' code)"

definition rtl_file_errors :: "string \<Rightarrow> string \<Rightarrow> exn + check_error list" where
  "rtl_file_errors rel text =
     bind_exn (rtl_code text) (\<lambda>code.
     bind_exn (re_search ''%binitial%b'' code) (\<lambda>initial.
     bind_exn (map_exn (\<lambda>(pattern, description).
         bind_exn (re_search pattern code) (\<lambda>m.
         Inr (if m \<noteq> None then [Forbidden_Construct rel description] else []))) FORBIDDEN) (\<lambda>found.
     Inr ((if \<not> contains_text ''`default_nettype none'' text then [No_Default_Nettype rel] else [])
          @ (if initial \<noteq> None then [Initial_Block rel] else []) @ concat found))))"

definition rtl_policy_check ::
    "(string \<Rightarrow> bool) \<Rightarrow> (string \<Rightarrow> string \<Rightarrow> string list) \<Rightarrow> (string \<Rightarrow> exn + string) \<Rightarrow> exn + int" where
  "rtl_policy_check path_exists rglob read =
     (case rtl_sources path_exists rglob of (sv, verilog_files) \<Rightarrow>
        bind_exn (map_exn (\<lambda>path. bind_exn (read path) (rtl_file_errors path)) verilog_files) (\<lambda>found.
        Inr (exit_code (sv @ (if verilog_files = [] then [No_Sources] else []) @ concat found))))"

section \<open>The hardware test launcher (\<open>run_hil_suite.py\<close>)\<close>

definition run_hil_suite :: "(string list \<Rightarrow> ('s, int) io) \<Rightarrow> string \<Rightarrow> string \<Rightarrow> string \<Rightarrow> ('s, int) io" where
  "run_hil_suite subprocess_call executable resource_json junitxml =
     subprocess_call [executable, ''-m'', ''pytest'', ''tests/hil'', ''-m'', ''hil'',
       ''--hil-resource'', resource_json, ''--junitxml'', junitxml]"

section \<open>Lemmas\<close>

primrec rule_pattern :: "rule \<Rightarrow> string" where
  "rule_pattern (Require name pattern label) = pattern"
| "rule_pattern (Forbid name pattern label) = pattern"

text \<open>What a rule asks of the texts, by the meaning of its pattern.\<close>

primrec rule_holds :: "(string \<Rightarrow> string) \<Rightarrow> rule \<Rightarrow> bool" where
  "rule_holds texts (Require name pattern label) = occurs pattern (texts name)"
| "rule_holds texts (Forbid name pattern label) = (\<not> occurs pattern (texts name))"

definition well_formed :: "rule list \<Rightarrow> bool" where
  "well_formed rules = list_all (\<lambda>rule. compile_re NO_FLAGS (rule_pattern rule) \<noteq> None) rules"

text \<open>Every pattern of the tables is one that the parser takes.\<close>

lemma rules_well_formed:
  "well_formed b0_rules" "well_formed b1_rules" "well_formed b1_raw_rules" "well_formed b1_raw_more_rules"
  "well_formed b2_rules" "well_formed b2_serial_rules"
  by code_simp+

lemma run_rule_outcome:
  "compiles (rule_pattern rule) \<Longrightarrow> \<exists>errs. run_rule texts rule = Inr errs \<and> (errs = [] \<longleftrightarrow> rule_holds texts rule)"
proof -
  have search: "\<exists>m. re_search pat body = Inr m \<and> (m \<noteq> None \<longleftrightarrow> occurs pat body)"
    if "compiles pat" for pat body
    using re_search_outcome [of pat body] that by fastforce
  assume "compiles (rule_pattern rule)"
  then show ?thesis
  proof (cases rule)
    case (Require name pattern label)
    with \<open>compiles (rule_pattern rule)\<close> search [of pattern "texts name"] show ?thesis
      by (auto simp: require_pattern_def)
  next
    case (Forbid name pattern label)
    with \<open>compiles (rule_pattern rule)\<close> search [of pattern "texts name"] show ?thesis
      by (auto simp: forbid_pattern_def)
  qed
qed

lemma run_rules_outcome:
  assumes "well_formed rules"
  shows "\<exists>errs. run_rules texts rules = Inr errs \<and> (errs = [] \<longleftrightarrow> list_all (rule_holds texts) rules)"
proof -
  have "\<exists>errss. map_exn (run_rule texts) rules = Inr errss \<and> (concat errss = [] \<longleftrightarrow> list_all (rule_holds texts) rules)"
    using assms
  proof (induction rules)
    case (Cons rule rules)
    then have "compiles (rule_pattern rule)" "well_formed rules" by (simp_all add: well_formed_def compiles_def)
    with Cons.IH run_rule_outcome [of rule texts] show ?case by auto
  qed simp
  then show ?thesis by (auto simp: run_rules_def)
qed

text \<open>The texts of a repository, by the names a tool gives them.\<close>

definition texts_of :: "(string \<Rightarrow> string) \<Rightarrow> (string \<times> string) list \<Rightarrow> string \<Rightarrow> string" where
  "texts_of repo files name = the (map_of (map (\<lambda>(n, p). (n, repo p)) files) name)"

lemma read_texts_repo: "read_texts (\<lambda>p. Inr (repo p)) files = Inr (texts_of repo files)"
proof -
  have "map_exn (\<lambda>(name, path). Inr (repo path)) files = (Inr (map (repo \<circ> snd) files) :: exn + string list)"
    by (induction files) auto
  moreover have "zip (map fst files) (map (repo \<circ> snd) files) = map (\<lambda>(n, p). (n, repo p)) files"
    by (induction files) auto
  ultimately show ?thesis by (simp add: read_texts_def texts_of_def fun_eq_iff)
qed

lemma check_texts_rules:
  assumes "well_formed rules"
  shows "check_texts (\<lambda>p. Inr (repo p)) files (\<lambda>texts. run_rules texts rules)
    = Inr (if list_all (rule_holds (texts_of repo files)) rules then 0 else 1)"
  using run_rules_outcome [OF assms, of "texts_of repo files"]
  by (auto simp: check_texts_def read_texts_repo exit_code_def)

lemma check_files_rules:
  assumes "well_formed rules"
  shows "check_files is_file (\<lambda>p. Inr (repo p)) files (\<lambda>texts. run_rules texts rules)
    = Inr (if list_all (is_file \<circ> snd) files \<and> list_all (rule_holds (texts_of repo files)) rules then 0 else 1)"
proof -
  have "missing_files is_file files = [] \<longleftrightarrow> list_all (is_file \<circ> snd) files"
    by (auto simp: missing_files_def list_all_iff filter_empty_conv)
  then show ?thesis using check_texts_rules [OF assms, of repo files] by (simp add: check_files_def)
qed

section \<open>Properties\<close>

text \<open>C39: The pattern checks of the PRU firmware decide what their tables say: on any contents of the repository a
  check ends with exit code 0 exactly when (all its files exist, where it looks for that, and) every
  required pattern occurs in its file and no forbidden one does; otherwise with 1. No pattern is malformed,
  and the search always ends. To occur is to match somewhere in the text by the meaning of the pattern, not
  by the order in which the matcher tries.\<close>

theorem pattern_checks_decide:
  "b0_check (\<lambda>p. Inr (repo p))
     = Inr (if list_all (rule_holds (texts_of repo B0_FILES)) b0_rules then 0 else 1)
   \<and> b1_check (\<lambda>p. Inr (repo p))
     = Inr (if list_all (rule_holds (texts_of repo B1_FILES)) b1_rules then 0 else 1)
   \<and> b2_check is_file (\<lambda>p. Inr (repo p))
     = Inr (if list_all (is_file \<circ> snd) B2_FILES \<and> list_all (rule_holds (texts_of repo B2_FILES)) b2_rules
            then 0 else 1)
   \<and> b2_serial_check is_file (\<lambda>p. Inr (repo p))
     = Inr (if list_all (is_file \<circ> snd) B2_SERIAL_FILES
               \<and> list_all (rule_holds (texts_of repo B2_SERIAL_FILES)) b2_serial_rules
            then 0 else 1)"
  by (simp only: b0_check_def b1_check_def b2_check_def b2_serial_check_def
      check_texts_rules [OF rules_well_formed(1)] check_texts_rules [OF rules_well_formed(2)]
      check_files_rules [OF rules_well_formed(5)] check_files_rules [OF rules_well_formed(6)])

text \<open>The policy check misses live code: block comments are removed before line comments, so the opening of a
  block comment inside a line comment swallows what follows it, here an initial block.\<close>

lemma initial_block_missed:
  "rtl_file_errors ''m.v'' (''`default_nettype none'' @ [newline] @ ''// see /* below'' @ [newline]
     @ ''initial a = 1;'' @ [newline] @ ''/* end */'') = Inr []"
  by code_simp

end
