(* ===== verification/Keil_Checks.thy ===== *)
theory Keil_Checks
  imports Deadtime Pattern_Checks Py_Float
begin

text \<open>
  The checks of the motor-control stimulus boards, \<open>tools/stm32f429i_pwm_static_check.py\<close> and
  \<open>tools/hpm_gd32_pwm_static_check.py\<close>: pattern searches (\<open>Pattern_Checks\<close>), the dead-time codes (\<open>Deadtime\<close>) and
  the Keil projects, whose XML is a tree of elements here; the XML parser and the file system are
  parameters. \<open>%\<close> in a path or pattern stands for the backslash. Shown: two accepted projects offer the
  same targets and compile each with the same switching parameters.
\<close>

section \<open>Element trees\<close>

text \<open>An element of the tree: its tag, the text before its first child, its children.\<close>

datatype xml = Element (xml_tag: string) (xml_text: "string option") (xml_children: "xml list")

text \<open>\<open>findall("./a/b")\<close> and \<open>findtext("./a/b", default="")\<close>.\<close>

definition find_all :: "string list \<Rightarrow> xml \<Rightarrow> xml list" where
  "find_all tags e =
     fold (\<lambda>tag es. concat (map (\<lambda>e. filter (\<lambda>c. xml_tag c = tag) (xml_children e)) es)) tags [e]"

definition element_text :: "xml \<Rightarrow> string" where
  "element_text e = (case xml_text e of None \<Rightarrow> [] | Some s \<Rightarrow> s)"

definition find_text :: "string list \<Rightarrow> xml \<Rightarrow> string" where
  "find_text tags e = (case find_all tags e of [] \<Rightarrow> [] | x # _ \<Rightarrow> element_text x)"

section \<open>Targets\<close>

text \<open>Duty in permille, dead time in nanoseconds and number of a profile.\<close>

definition EXPECTED_TARGETS :: "(string \<times> int \<times> int \<times> int) list" where
  "EXPECTED_TARGETS =
     [(''20k_50_600ns'', 500, 600, 1), (''20k_50_700ns'', 500, 700, 2), (''20k_50_800ns'', 500, 800, 3),
      (''20k_5_700ns'', 50, 700, 4), (''20k_25_700ns'', 250, 700, 5), (''20k_75_700ns'', 750, 700, 6),
      (''20k_95_700ns'', 950, 700, 7)]"

text \<open>The copy of the table in the second tool.\<close>

definition PROFILES :: "(string \<times> int \<times> int \<times> int) list" where
  "PROFILES =
     [(''20k_50_600ns'', 500, 600, 1), (''20k_50_700ns'', 500, 700, 2), (''20k_50_800ns'', 500, 800, 3),
      (''20k_5_700ns'', 50, 700, 4), (''20k_25_700ns'', 250, 700, 5), (''20k_75_700ns'', 750, 700, 6),
      (''20k_95_700ns'', 950, 700, 7)]"

datatype keil_error =
    Rule_Error check_error
  | File_Missing string
  | Legacy_Path string
  | Wrong_Period
  | Wrong_Duty
  | Wrong_Code int
  | Wrong_Decoding int
  | Invalid_Xml
  | Target_Set
  | Profile_Set
  | Wrong_Field string "string list"
  | Shared_Output string
  | Wrong_Define string string
  | Spl_Defines string
  | Missing_Member string string

definition target_name :: "xml \<Rightarrow> string" where
  "target_name target = find_text [''TargetName''] target"

definition targets_of :: "xml \<Rightarrow> xml list" where
  "targets_of tree = find_all [''Targets'', ''Target''] tree"

definition windows_path :: "string \<Rightarrow> string" where
  "windows_path = map (\<lambda>c. if c = CHR ''%'' then char_of (92 :: nat) else c)"

text \<open>Fields of a target that must have a fixed text.\<close>

definition field_errors :: "string \<Rightarrow> xml \<Rightarrow> (string list \<times> string) list \<Rightarrow> keil_error list" where
  "field_errors name target wanted =
     concat (map (\<lambda>(path, expected). if find_text path target \<noteq> expected then [Wrong_Field name path] else []) wanted)"

definition output_errors :: "string \<Rightarrow> xml \<Rightarrow> keil_error list" where
  "output_errors name target =
     (if \<not> contains_text name (find_text [''TargetOption'', ''TargetCommonOption'', ''OutputDirectory''] target)
      then [Shared_Output name] else [])"

definition target_defines :: "xml \<Rightarrow> string" where
  "target_defines target =
     find_text [''TargetOption'', ''TargetArmAds'', ''Cads'', ''VariousControls'', ''Define''] target"

definition expected_defs :: "int \<Rightarrow> int \<Rightarrow> int \<Rightarrow> (string \<times> string) list" where
  "expected_defs duty dead profile_id =
     [(''PWM_FREQUENCY_HZ'', ''20000UL''), (''PWM_DUTY_PERMILLE'', str_int duty @ ''UL''),
      (''PWM_DEADTIME_NS'', str_int dead @ ''UL''), (''PWM_PROFILE_ID'', str_int profile_id @ ''UL'')]"

definition define_errors :: "string \<Rightarrow> (string \<rightharpoonup> string) \<Rightarrow> (string \<times> string) list \<Rightarrow> keil_error list" where
  "define_errors name defs expected =
     concat (map (\<lambda>(key, value). if defs key \<noteq> Some value then [Wrong_Define name key] else []) expected)"

section \<open>The STM32 project\<close>

definition STM32_FIELDS :: "(string list \<times> string) list" where
  "STM32_FIELDS =
     [([''TargetOption'', ''TargetCommonOption'', ''Device''], ''STM32F429ZITx''),
      ([''TargetOption'', ''TargetCommonOption'', ''PackID''], ''Keil.STM32F4xx_DFP.3.1.1''),
      ([''uAC6''], ''1''),
      ([''TargetOption'', ''DllOption'', ''TargetDllName''], ''SARMCM3.DLL''),
      ([''TargetOption'', ''Utilities'', ''Flash1'', ''UseTargetDll''], ''0''),
      ([''TargetOption'', ''Utilities'', ''Flash1'', ''UpdateFlashBeforeDebugging''], ''0''),
      ([''TargetOption'', ''Utilities'', ''Flash2''], windows_path ''BIN%UL2CM3.DLL''),
      ([''TargetOption'', ''TargetArmAds'', ''Aads'', ''ClangAsOpt''], ''4'')]"

definition STM32_LINK_FIELDS :: "(string list \<times> string) list" where
  "STM32_LINK_FIELDS =
     [([''TargetOption'', ''TargetCommonOption'', ''CreateHexFile''], ''1''),
      ([''TargetOption'', ''TargetArmAds'', ''LDads'', ''umfTarg''], ''0''),
      ([''TargetOption'', ''TargetArmAds'', ''LDads'', ''useFile''], ''1''),
      ([''TargetOption'', ''TargetArmAds'', ''LDads'', ''ScatterFile''], windows_path ''.%stm32f429_flash.sct'')]"

definition STM32_MEMBERS :: "string list" where
  "STM32_MEMBERS =
     map windows_path
      [''..%Src%main.c'', ''..%Src%system_stm32f4xx.c'', ''..%Startup%startup_stm32f429xx.s'',
       ''..%Inc%pwm_profile.h'', ''..%Inc%stm32f429_regs.h'']"

definition stm32_target_errors :: "xml \<Rightarrow> keil_error list" where
  "stm32_target_errors target =
     (let name = target_name target in
      case map_of EXPECTED_TARGETS name of
        None \<Rightarrow> []
      | Some (duty, dead, profile_id) \<Rightarrow>
          let defines = parse_defines (target_defines target);
              file_paths = set (map element_text (find_all [''Groups'', ''Group'', ''Files'', ''File'', ''FilePath''] target))
          in field_errors name target STM32_FIELDS @ output_errors name target
             @ field_errors name target STM32_LINK_FIELDS
             @ define_errors name defines (expected_defs duty dead profile_id)
             @ concat (map (\<lambda>p. if p \<notin> file_paths then [Missing_Member name p] else []) STM32_MEMBERS))"

definition stm32_project_errors :: "xml \<Rightarrow> keil_error list" where
  "stm32_project_errors tree =
     (if set (map target_name (targets_of tree)) \<noteq> set (map fst EXPECTED_TARGETS) then [Target_Set] else [])
     @ concat (map stm32_target_errors (targets_of tree))"

text \<open>The dead-time codes at 180 MHz, and what they decode to in nanoseconds.\<close>

definition stm32_timing_errors :: "rounding \<Rightarrow> keil_error list" where
  "stm32_timing_errors fl =
     (let period_ticks = 180000000 div 20000 :: int
      in (if period_ticks \<noteq> 9000 \<or> period_ticks - 1 \<noteq> 8999 then [Wrong_Period] else [])
         @ (if (period_ticks * 500) div 1000 \<noteq> 4500 then [Wrong_Duty] else []))
     @ concat (map (\<lambda>(ns, expected).
         let dtg = deadtime_ns_to_dtg ns 180000000;
             actual_ns = fl (of_int (dtg_to_ticks dtg * 1000000000) / 180000000)
         in (if dtg \<noteq> expected then [Wrong_Code ns] else [])
            @ (if \<bar>fl (actual_ns - of_int ns)\<bar> > fl (1 / 100) then [Wrong_Decoding ns] else []))
       [(600, 0x6C), (700, 0x7E), (800, 0x88)])"

definition STM32_FILES :: "(string \<times> string) list" where
  "STM32_FILES =
     [(''profile'', ''boards/stm32f429i_disc1/Inc/pwm_profile.h''),
      (''regs'', ''boards/stm32f429i_disc1/Inc/stm32f429_regs.h''),
      (''source'', ''boards/stm32f429i_disc1/Src/main.c''),
      (''system'', ''boards/stm32f429i_disc1/Src/system_stm32f4xx.c''),
      (''startup'', ''boards/stm32f429i_disc1/Startup/startup_stm32f429xx.s''),
      (''readme'', ''boards/stm32f429i_disc1/README.md''),
      (''build_all'', ''boards/stm32f429i_disc1/MDK-ARM/build_all.bat''),
      (''flash_bat'', ''boards/stm32f429i_disc1/MDK-ARM/flash.bat''),
      (''scatter'', ''boards/stm32f429i_disc1/MDK-ARM/stm32f429_flash.sct'')]"

definition STM32_PROJECT :: string where
  "STM32_PROJECT = ''boards/stm32f429i_disc1/MDK-ARM/hil_pwm_stimulus.uvprojx''"

text \<open>All files in the order in which the tool looks for them.\<close>

definition STM32_REQUIRED :: "string list" where
  "STM32_REQUIRED = map snd (take 5 STM32_FILES) @ [STM32_PROJECT] @ map snd (drop 5 STM32_FILES)"

definition stm32_profile_rules :: "rule list" where
  "stm32_profile_rules =
     requires ''profile''
      [(''HIL_PLL_SYSCLK_HZ%s+%(180000000UL%)'', ''180 MHz PLL SYSCLK''),
       (''HIL_HSI_HZ%s+%(16000000UL%)'', ''16 MHz reset HSI''),
       (''HIL_HSE_XTAL_HZ%s+%(8000000UL%)'', ''8 MHz E01 X3 crystal reference''),
       (''PWM_FREQUENCY_HZ%s+%(20000UL%)'', ''20 kHz default PWM''),
       (''PWM_DUTY_PERMILLE%s+%(500UL%)'', ''50% default duty''),
       (''PWM_DEADTIME_NS%s+%(700UL%)'', ''700 ns default dead-time'')]"

definition stm32_source_rules :: "rule list" where
  "stm32_source_rules =
     requires ''source''
      [(''TIM8_ARR%s*=%s*period_ticks - 1UL'', ''runtime TIM8 ARR programming''),
       (''TIM8_CCR1%s*=%s*duty_ticks'', ''runtime TIM8 CCR1 programming''),
       (''TIM8_CCER%s*=%s*TIM_CCER_CC1E %| TIM_CCER_CC1NE'', ''CH1/CH1N enable''),
       (''TIM8_BDTR%s*=%s*%(dtg & 0xFFUL%) %| TIM_BDTR_MOE'', ''DTG/MOE programming''),
       (''RCC_PLLCFGR%s*='', ''PLL configuration''),
       (''360UL << 6'', ''PLLN 360''),
       (''%(8UL << 0%)'', ''HSE crystal PLLM=8''),
       (''RCC_CFGR_PPRE2_DIV2'', ''APB2 divider 2''),
       (''RCC_CR &= ~RCC_CR_HSEBYP'', ''HSE crystal non-bypass mode''),
       (''wait_rcc_cr_clear%(RCC_CR_HSERDY%)'', ''HSE disabled before bypass change''),
       (''RCC_PLLCFGR_PLLSRC_HSE'', ''PLL source HSE''),
       (''CLOCK_SOURCE_HSE_XTAL_PLL'', ''HSE crystal clock source state''),
       (''wait_rcc_cr_set%(RCC_CR_HSERDY%)'', ''required HSE readiness test''),
       (''g_clock_fault_flags %|= CLOCK_FAULT_HSE_TIMEOUT'', ''HSE timeout fault latch''),
       (''deadtime_ns_to_dtg%(PWM_DEADTIME_NS, timer_clock_hz%)'', ''runtime dead-time clock''),
       (''g_pwm_deadtime_actual_ns'', ''quantized dead-time diagnostic''),
       (''g_boot_stage'', ''boot-stage diagnostic''),
       (''GPIOC_BASE'', ''PC6 main output''),
       (''GPIOA_BASE'', ''PA5 complementary output'')] @
     forbids ''source''
      [(''stm32f4xx_hal|HAL_'', ''STM32Cube HAL dependency''),
       (''RCC_CR%s*%|=%s*RCC_CR_HSEBYP'', ''HSE bypass mode on E01 crystal reference''),
       (''CLOCK_SOURCE_HSI_PLL|use_direct_hsi:'', ''HSI timing fallback'')] @
     requires ''regs''
      [(''TIM8_BASE%s+0x40010400UL'', ''TIM8 register base''),
       (''RCC_CR_HSION%s+%(1UL << 0%)'', ''HSI enable bit''),
       (''RCC_CR_HSIRDY%s+%(1UL << 1%)'', ''HSI ready bit'')] @
     requires ''system''
      [(''SystemCoreClock%s*=%s*180000000UL'', ''180 MHz PLL system core update''),
       (''SystemCoreClock%s*=%s*16000000UL'', ''16 MHz reset SystemCoreClock'')] @
     requires ''startup''
      [(''Reset_Handler'', ''MDK reset handler''),
       (''IMPORT%s+SystemInit'', ''startup SystemInit import'')]"

definition stm32_readme_rules :: "rule list" where
  "stm32_readme_rules =
     requires ''readme''
      [(''hil_pwm_stimulus%.uvprojx'', ''Keil project open instructions''),
       (''20k_50_700ns'', ''default Keil Target documentation''),
       (''P9_29'', ''BBB UH destination''),
       (''P9_30'', ''BBB UL destination''),
       (''build_all%.bat'', ''Keil batch-build documentation''),
       (''MB1075-F429I-E01'', ''qualified PCB revision''),
       (''X3 8 MHz'', ''E01 crystal reference''),
       (''HSEBYP%s*=%s*0'', ''crystal-mode HSE documentation''),
       (''HSI fallback is not accepted'', ''fail-closed timing qualification policy'')]"

definition stm32_flash_rules :: "rule list" where
  "stm32_flash_rules =
     requires ''flash_bat''
      [(''STM32_Programmer_CLI%.exe'', ''STM32CubeProgrammer flash helper''),
       (''-c port=SWD -w'', ''SWD flash command'')] @
     map (\<lambda>(name, _). Require ''build_all'' (re_escape name) (''build_all target '' @ name)) EXPECTED_TARGETS"

text \<open>\<open>parse\<close> gives no tree for XML that is not well formed.\<close>

definition stm32_errors ::
    "rounding \<Rightarrow> (string \<Rightarrow> bool) \<Rightarrow> (string \<Rightarrow> exn + string) \<Rightarrow> (string \<Rightarrow> exn + xml option)
      \<Rightarrow> (string \<Rightarrow> string) \<Rightarrow> exn + keil_error list" where
  "stm32_errors fl path_exists read parse texts =
     (let legacy = concat (map (\<lambda>p. if path_exists (''boards/stm32f429i_disc1/'' @ p) then [Legacy_Path p] else [])
                     [''platformio.ini'', ''include'', ''src''])
      in bind_exn (run_rules texts stm32_profile_rules) (\<lambda>profile_errs.
         bind_exn (run_rules texts stm32_source_rules) (\<lambda>source_errs.
         bind_exn (parse STM32_PROJECT) (\<lambda>tree.
         bind_exn (run_rules texts stm32_readme_rules) (\<lambda>readme_errs.
         bind_exn (read STM32_PROJECT) (\<lambda>project_text.
         bind_exn (forbid_pattern project_text ''ST-LINKIII-KEIL_SWO%.dll'' ''hard-coded ST-Link debugger DLL'') (\<lambda>dll_errs.
         bind_exn (run_rules texts stm32_flash_rules) (\<lambda>flash_errs.
         Inr (legacy @ map Rule_Error profile_errs @ stm32_timing_errors fl @ map Rule_Error source_errs
              @ (case tree of None \<Rightarrow> [Invalid_Xml] | Some r \<Rightarrow> stm32_project_errors r)
              @ map Rule_Error (readme_errs @ dll_errs @ flash_errs))))))))))"

definition stm32_check ::
    "rounding \<Rightarrow> (string \<Rightarrow> bool) \<Rightarrow> (string \<Rightarrow> bool) \<Rightarrow> (string \<Rightarrow> exn + string) \<Rightarrow> (string \<Rightarrow> exn + xml option)
      \<Rightarrow> exn + int" where
  "stm32_check fl is_file path_exists read parse =
     (if filter (\<lambda>p. \<not> is_file p) STM32_REQUIRED \<noteq> [] then Inr 1
      else
        bind_exn (read_texts read STM32_FILES) (\<lambda>texts.
        bind_exn (stm32_errors fl path_exists read parse texts) (\<lambda>errors.
        Inr (if errors \<noteq> [] then 1 else 0))))"

section \<open>The HPM and GD32 projects\<close>

definition common_profile_errors :: "(string \<Rightarrow> exn + xml option) \<Rightarrow> exn + keil_error list" where
  "common_profile_errors parse =
     bind_exn (parse STM32_PROJECT) (\<lambda>tree.
     case tree of
       None \<Rightarrow> Inl OtherException
     | Some r \<Rightarrow>
         Inr (if set (map target_name (targets_of r)) \<noteq> set (map fst PROFILES) then [Profile_Set] else []))"

definition HPM_FILES :: "(string \<times> string) list" where
  "HPM_FILES =
     [(''cmake'', ''boards/hpm6e00evk/CMakeLists.txt''),
      (''app'', ''boards/hpm6e00evk/app.yaml''),
      (''source'', ''boards/hpm6e00evk/src/main.c''),
      (''build'', ''boards/hpm6e00evk/build_all.ps1''),
      (''readme'', ''boards/hpm6e00evk/README.md'')]"

definition hpm_rules :: "rule list" where
  "hpm_rules =
     requires ''cmake''
      [(''find_package%(hpm-sdk REQUIRED HINTS %$ENV%{HPM_SDK_BASE%}%)'', ''HPM SDK discovery''),
       (''BOARD=hpm6e00evk|HIL_PWM_PROFILE'', ''HPM profile build contract'')] @
     [Require ''app'' ''pwmv2'' ''HPM PWMV2 dependency''] @
     concat (map (\<lambda>(name, _).
       [Require ''cmake'' (re_escape name) (''HPM CMake profile '' @ name),
        Require ''build'' (re_escape name) (''HPM batch profile '' @ name)]) PROFILES) @
     requires ''source''
      [(''#define PWM_BASE BOARD_APP_PWM'', ''BOARD_APP_PWM use''),
       (''clock_get_frequency%(PWM_CLOCK_NAME%)'', ''runtime PWM clock''),
       (''pwmv2_setup_waveform_in_pair'', ''PWMV2 pair setup''),
       (''pwm_channel_0'', ''U pair channel 0''),
       (''pwm_channel_2'', ''V pair channel 2''),
       (''pwm_channel_4'', ''W pair channel 4''),
       (''dead_zone_in_half_cycle = dead_ticks'', ''PWMV2 dead-zone programming''),
       (''pwmv2_enable_multi_counter_sync%(PWM_BASE, 0x07U%)'', ''three-counter sync''),
       (''pwmv2_start_pwm_output_sync%(PWM_BASE, 0x07U%)'', ''synchronized PWM start''),
       (''init_pwm_pins%(PWM_BASE%)'', ''HPM board pinmux'')] @
     map (\<lambda>pin. Require ''readme'' pin (''HPM pin '' @ pin)) [''PE08'', ''PE09'', ''PE10'', ''PE11'', ''PE12'', ''PE13''] @
     map (\<lambda>bbb. Require ''readme'' bbb (''HPM BBB destination '' @ bbb)) [''P9_29'', ''P9_30'', ''P9_28'', ''P9_27'', ''P8_16'', ''P8_15'']"

definition HPM_REQUIRED :: "string list" where
  "HPM_REQUIRED =
     map (\<lambda>p. ''boards/hpm6e00evk/'' @ p)
      [''CMakeLists.txt'', ''app.yaml'', ''inc/pwm_profile.h'', ''src/main.c'', ''build_all.ps1'', ''README.md'']"

text \<open>The tool looks at the texts only when nothing was wrong up to here.\<close>

definition hpm_errors ::
    "(string \<Rightarrow> bool) \<Rightarrow> (string \<Rightarrow> exn + string) \<Rightarrow> keil_error list \<Rightarrow> exn + keil_error list" where
  "hpm_errors is_file read errors =
     (let errors = errors @ map File_Missing (filter (\<lambda>p. \<not> is_file p) HPM_REQUIRED)
      in if errors \<noteq> [] then Inr errors
         else
           bind_exn (read_texts read HPM_FILES) (\<lambda>texts.
           bind_exn (run_rules texts hpm_rules) (\<lambda>errs. Inr (errors @ map Rule_Error errs))))"

definition GD32_FILES :: "(string \<times> string) list" where
  "GD32_FILES =
     [(''source'', ''boards/gd32h75ey_eval/Src/main.c''),
      (''prep'', ''boards/gd32h75ey_eval/prepare_vendor.ps1''),
      (''build'', ''boards/gd32h75ey_eval/MDK-ARM/build_all.bat''),
      (''readme'', ''boards/gd32h75ey_eval/README.md'')]"

definition GD32_PROJECT :: string where
  "GD32_PROJECT = ''boards/gd32h75ey_eval/MDK-ARM/hil_pwm_stimulus.uvprojx''"

definition GD32_REQUIRED :: "string list" where
  "GD32_REQUIRED =
     GD32_PROJECT # map (\<lambda>p. ''boards/gd32h75ey_eval/'' @ p)
      [''MDK-ARM/build_all.bat'', ''Inc/pwm_profile.h'', ''Inc/gd32h75e_libopt.h'', ''Src/main.c'',
       ''prepare_vendor.ps1'', ''Vendor/README.md'', ''README.md'']"

definition gd32_source_rules :: "rule list" where
  "gd32_source_rules =
     requires ''source''
      [(''RCU_TIMER_PSC_MUL4'', ''TIMER clock MUL4 selection''),
       (''rcu_clock_freq_get%(CK_AHB%)'', ''AHB clock query''),
       (''rcu_clock_freq_get%(CK_APB2%)'', ''APB2 clock query''),
       (''gd32_timer_init%(TIMER0'', ''TIMER0 init''),
       (''TIMER_CH_0'', ''TIMER0 CH0''),
       (''TIMER_CH_1'', ''TIMER0 CH1''),
       (''TIMER_CH_2'', ''TIMER0 CH2''),
       (''TIMER_CCXN_ENABLE'', ''complementary outputs''),
       (''timer_break_config%(TIMER0'', ''dead-time/break config''),
       (''timer_primary_output_config%(TIMER0, ENABLE%)'', ''TIMER0 primary output enable''),
       (''GPIO_AF_1'', ''TIMER0 AF1''),
       (''GPIO_PIN_8 %| GPIO_PIN_7'', ''PA8/PA7 U pair''),
       (''GPIO_PIN_11'', ''PE11 V high''),
       (''GPIO_PIN_0'', ''PB0 V low''),
       (''GPIO_PIN_13 %| GPIO_PIN_12'', ''PE13/PE12 W pair'')]"

definition gd32_rules :: "rule list" where
  "gd32_rules =
     map (\<lambda>(name, _). Require ''build'' (re_escape name) (''GD32 batch target '' @ name)) PROFILES @
     map (\<lambda>filename. Require ''prep'' (re_escape filename) (''GD32 vendor file '' @ filename))
      [''gd32h75e.h'', ''system_gd32h75e.h'', ''system_gd32h75e.c'', ''startup_gd32h75e.s'', ''gd32h75e_gpio.h'', ''gd32h75e_rcu.h'', ''gd32h75e_timer.h'', ''gd32h75e_gpio.c'', ''gd32h75e_rcu.c'', ''gd32h75e_timer.c''] @
     map (\<lambda>pin. Require ''readme'' pin (''GD32 pin '' @ pin)) [''PA8'', ''PA7'', ''PE11'', ''PB0'', ''PE13'', ''PE12''] @
     map (\<lambda>bbb. Require ''readme'' bbb (''GD32 BBB destination '' @ bbb)) [''P9_29'', ''P9_30'', ''P9_28'', ''P9_27'', ''P8_16'', ''P8_15'']"

definition gd32_code_errors :: "keil_error list" where
  "gd32_code_errors =
     concat (map (\<lambda>(ns, expected). if dtg_encode ns 300000000 \<noteq> expected then [Wrong_Code ns] else [])
       [(600, 0x9A), (700, 0xA9), (800, 0xB8)])"

definition gd32_target_errors :: "xml \<Rightarrow> keil_error list" where
  "gd32_target_errors target =
     (let name = target_name target in
      case map_of PROFILES name of
        None \<Rightarrow> []
      | Some (duty, dead, profile_id) \<Rightarrow>
          let defs = gd32_parse_defines (target_defines target)
          in field_errors name target
               [([''TargetOption'', ''TargetCommonOption'', ''Device''], ''GD32H75EYMJ6''),
                ([''TargetOption'', ''TargetCommonOption'', ''PackID''], ''GigaDevice.GD32H75E_DFP.1.4.0'')]
             @ (if find_text [''uAC6''] target \<noteq> ''1''
                   \<or> find_text [''TargetOption'', ''TargetArmAds'', ''Aads'', ''ClangAsOpt''] target \<noteq> ''4''
                then [Wrong_Field name [''uAC6'']] else [])
             @ output_errors name target
             @ field_errors name target [([''TargetOption'', ''TargetCommonOption'', ''CreateHexFile''], ''1'')]
             @ (if defs ''USE_STDPERIPH_DRIVER'' = None \<or> defs ''GD32H75E'' = None then [Spl_Defines name] else [])
             @ define_errors name defs (expected_defs duty dead profile_id))"

definition gd32_project_errors :: "xml \<Rightarrow> keil_error list" where
  "gd32_project_errors tree =
     (if set (map target_name (targets_of tree)) \<noteq> set (map fst PROFILES) then [Target_Set] else [])
     @ concat (map gd32_target_errors (targets_of tree))"

definition gd32_errors ::
    "(string \<Rightarrow> bool) \<Rightarrow> (string \<Rightarrow> exn + string) \<Rightarrow> (string \<Rightarrow> exn + xml option) \<Rightarrow> exn + keil_error list" where
  "gd32_errors is_file read parse =
     (let missing = map File_Missing (filter (\<lambda>p. \<not> is_file p) GD32_REQUIRED)
      in if missing \<noteq> [] then Inr missing
         else
           bind_exn (read_texts read GD32_FILES) (\<lambda>texts.
           bind_exn (run_rules texts gd32_source_rules) (\<lambda>source_errs.
           bind_exn (parse GD32_PROJECT) (\<lambda>tree.
           case tree of
             None \<Rightarrow> Inl OtherException
           | Some r \<Rightarrow>
               bind_exn (run_rules texts gd32_rules) (\<lambda>errs.
               Inr (map Rule_Error source_errs @ gd32_code_errors @ gd32_project_errors r @ map Rule_Error errs))))))"

text \<open>\<open>main\<close>: an XML, file or value error counts as one more error.\<close>

definition hpm_gd32_check ::
    "(string \<Rightarrow> bool) \<Rightarrow> (string \<Rightarrow> exn + string) \<Rightarrow> (string \<Rightarrow> exn + xml option) \<Rightarrow> exn + int" where
  "hpm_gd32_check is_file read parse =
     (case
        bind_exn (common_profile_errors parse) (\<lambda>common.
        bind_exn (hpm_errors is_file read common) (\<lambda>hpm.
        bind_exn (gd32_errors is_file read parse) (\<lambda>gd. Inr (hpm @ gd)))) of
        Inl e \<Rightarrow> if is_os_error e \<or> e = ValueError \<or> e = OtherException then Inr 1 else Inl e
      | Inr errors \<Rightarrow> Inr (if errors \<noteq> [] then 1 else 0))"

section \<open>Lemmas\<close>

lemma PROFILES_copy: "PROFILES = EXPECTED_TARGETS"
  by (simp add: PROFILES_def EXPECTED_TARGETS_def)

lemma define_errors_none:
  "define_errors name defs expected = [] \<longleftrightarrow> (\<forall>(key, v) \<in> set expected. defs key = Some v)"
  by (force simp: define_errors_def split: if_splits)

text \<open>What an accepted target defines.\<close>

lemma stm32_target_accepted:
  "stm32_target_errors t = [] \<Longrightarrow> map_of EXPECTED_TARGETS (target_name t) = Some (duty, dead, n) \<Longrightarrow>
     (key, v) \<in> set (expected_defs duty dead n) \<Longrightarrow> parse_defines (target_defines t) key = Some v"
  by (auto simp: stm32_target_errors_def Let_def define_errors_none)

lemma gd32_target_accepted:
  "gd32_target_errors t = [] \<Longrightarrow> map_of PROFILES (target_name t) = Some (duty, dead, n) \<Longrightarrow>
     (key, v) \<in> set (expected_defs duty dead n) \<Longrightarrow> gd32_parse_defines (target_defines t) key = Some v"
  by (auto simp: gd32_target_errors_def Let_def define_errors_none)

text \<open>The dead times of the table, in nanoseconds, are whole timer ticks on both boards and have exact codes.\<close>

lemma profile_deadtimes_exact:
  "list_all (\<lambda>(name, duty, dead, n).
     dtg_to_ticks (deadtime_ns_to_dtg dead 180000000) * 1000000000 = dead * 180000000
     \<and> dtg_to_ticks (dtg_encode dead 300000000) * 1000000000 = dead * 300000000) PROFILES"
  by code_simp

section \<open>Properties\<close>


text \<open>A project of each kind that passes.\<close>

definition leaf :: "string \<Rightarrow> string \<Rightarrow> xml" where
  "leaf tag t = Element tag (Some t) []"

definition defines_text :: "int \<Rightarrow> int \<Rightarrow> int \<Rightarrow> string" where
  "defines_text duty dead n =
     concat (map (\<lambda>(key, v). key @ ''='' @ v @ '','') (expected_defs duty dead n)) @ ''USE_STDPERIPH_DRIVER,GD32H75E''"

definition sample_target :: "string \<Rightarrow> string \<Rightarrow> xml list \<Rightarrow> string \<times> int \<times> int \<times> int \<Rightarrow> xml" where
  "sample_target device pack others = (\<lambda>(name, duty, dead, n).
     Element ''Target'' None
       ([leaf ''TargetName'' name, leaf ''uAC6'' ''1'',
         Element ''TargetOption'' None
           ([Element ''TargetCommonOption'' None
               [leaf ''Device'' device, leaf ''PackID'' pack, leaf ''OutputDirectory'' name, leaf ''CreateHexFile'' ''1''],
             Element ''TargetArmAds'' None
               [Element ''Aads'' None [leaf ''ClangAsOpt'' ''4''],
                Element ''Cads'' None [Element ''VariousControls'' None [leaf ''Define'' (defines_text duty dead n)]],
                Element ''LDads'' None [leaf ''umfTarg'' ''0'', leaf ''useFile'' ''1'',
                  leaf ''ScatterFile'' (windows_path ''.%stm32f429_flash.sct'')]]] @ others),
         Element ''Groups'' None [Element ''Group'' None [Element ''Files'' None
           (map (\<lambda>p. Element ''File'' None [leaf ''FilePath'' p]) STM32_MEMBERS)]]]))"

definition sample_project :: "(string \<times> int \<times> int \<times> int \<Rightarrow> xml) \<Rightarrow> xml" where
  "sample_project target = Element ''Project'' None [Element ''Targets'' None (map target PROFILES)]"

definition sample_stm32 :: xml where
  "sample_stm32 = sample_project (sample_target ''STM32F429ZITx'' ''Keil.STM32F4xx_DFP.3.1.1''
     [Element ''DllOption'' None [leaf ''TargetDllName'' ''SARMCM3.DLL''],
      Element ''Utilities'' None
        [Element ''Flash1'' None [leaf ''UseTargetDll'' ''0'', leaf ''UpdateFlashBeforeDebugging'' ''0''],
         leaf ''Flash2'' (windows_path ''BIN%UL2CM3.DLL'')]])"

definition sample_gd32 :: xml where
  "sample_gd32 = sample_project (sample_target ''GD32H75EYMJ6'' ''GigaDevice.GD32H75E_DFP.1.4.0'' [])"

lemmas sample_simps = sample_target_def leaf_def find_text_def find_all_def element_text_def

lemma sample_name [simp]: "target_name (sample_target device pack others (name, q)) = name"
  by (cases q) (simp add: target_name_def sample_simps)

lemma sample_tag [simp]: "xml_tag (sample_target device pack others q) = ''Target''"
  by (cases q) (simp add: sample_target_def)

lemma sample_targets:
  "targets_of (sample_project (sample_target device pack others)) = map (sample_target device pack others) PROFILES"
  by (simp add: targets_of_def sample_project_def find_all_def PROFILES_def)

lemma sample_output: "output_errors name (sample_target device pack others (name, q)) = []"
  by (cases q) (simp add: output_errors_def sample_simps contains_self)

lemma sample_defines:
  "target_defines (sample_target device pack others (name, duty, dead, n)) = defines_text duty dead n"
  by (simp add: target_defines_def sample_simps)

lemma sample_members:
  "map element_text (find_all [''Groups'', ''Group'', ''Files'', ''File'', ''FilePath''] (sample_target device pack others q))
   = STM32_MEMBERS"
  by (cases q) (simp add: sample_simps comp_def STM32_MEMBERS_def)

text \<open>The definitions of a text as the list of pairs that fill the dictionary.\<close>

definition define_pairs :: "string \<Rightarrow> (string \<times> string) list" where
  "define_pairs raw = map define_of (filter (\<lambda>item. CHR ''='' \<in> set item) (split_char (CHR '','') raw))"

definition gd32_define_pairs :: "string \<Rightarrow> (string \<times> string) list" where
  "gd32_define_pairs raw =
     concat (map (\<lambda>item. if CHR ''='' \<in> set item then [define_of item]
       else if strip_blanks item \<noteq> [] then [(strip_blanks item, [])] else []) (split_char (CHR '','') raw))"

lemma parse_defines_pairs: "parse_defines raw = fold (\<lambda>(k, v) m. m(k \<mapsto> v)) (define_pairs raw) Map.empty"
proof -
  have "fold (\<lambda>item m. if CHR ''='' \<notin> set item then m else m(fst (define_of item) \<mapsto> snd (define_of item))) items m
      = fold (\<lambda>(k, v) m. m(k \<mapsto> v)) (map define_of (filter (\<lambda>item. CHR ''='' \<in> set item) items)) m" for items m
    by (induction items arbitrary: m) (simp_all add: case_prod_beta)
  then show ?thesis by (simp add: parse_defines_def define_pairs_def)
qed

lemma gd32_parse_defines_pairs:
  "gd32_parse_defines raw = fold (\<lambda>(k, v) m. m(k \<mapsto> v)) (gd32_define_pairs raw) Map.empty"
proof -
  have "fold (\<lambda>item m. if CHR ''='' \<in> set item then m(fst (define_of item) \<mapsto> snd (define_of item))
        else if strip_blanks item \<noteq> [] then m(strip_blanks item \<mapsto> []) else m) items m
      = fold (\<lambda>(k, v) m. m(k \<mapsto> v)) (concat (map (\<lambda>item. if CHR ''='' \<in> set item then [define_of item]
          else if strip_blanks item \<noteq> [] then [(strip_blanks item, [])] else []) items)) m" for items m
    by (induction items arbitrary: m) (simp_all add: case_prod_beta)
  then show ?thesis by (simp add: gd32_parse_defines_def gd32_define_pairs_def)
qed

lemma sample_pairs:
  "list_all (\<lambda>(name, duty, dead, n).
     define_pairs (defines_text duty dead n) = expected_defs duty dead n) PROFILES"
  "list_all (\<lambda>(name, duty, dead, n).
     gd32_define_pairs (defines_text duty dead n)
       = expected_defs duty dead n @ [(''USE_STDPERIPH_DRIVER'', []), (''GD32H75E'', [])]) PROFILES"
  by code_simp+

lemma expected_defs_errors:
  "define_errors name (fold (\<lambda>(k, v) m. m(k \<mapsto> v)) (expected_defs duty dead n @ [(''USE_STDPERIPH_DRIVER'', []), (''GD32H75E'', [])])
     Map.empty) (expected_defs duty dead n) = []"
  "define_errors name (fold (\<lambda>(k, v) m. m(k \<mapsto> v)) (expected_defs duty dead n) Map.empty) (expected_defs duty dead n) = []"
  by (simp_all add: define_errors_def expected_defs_def)

lemma PROFILES_lookup: "q \<in> set PROFILES \<Longrightarrow> map_of PROFILES (fst q) = Some (snd q)"
  by (rule map_of_is_SomeI) (simp_all add: PROFILES_def)

lemma sample_stm32_targets:
  "q \<in> set PROFILES \<Longrightarrow> stm32_target_errors (sample_target ''STM32F429ZITx'' ''Keil.STM32F4xx_DFP.3.1.1''
     [Element ''DllOption'' None [leaf ''TargetDllName'' ''SARMCM3.DLL''],
      Element ''Utilities'' None
        [Element ''Flash1'' None [leaf ''UseTargetDll'' ''0'', leaf ''UpdateFlashBeforeDebugging'' ''0''],
         leaf ''Flash2'' (windows_path ''BIN%UL2CM3.DLL'')]] q) = []"
proof -
  assume q: "q \<in> set PROFILES"
  obtain name duty dead n where e: "q = (name, duty, dead, n)" by (metis prod_cases4)
  let ?t = "sample_target ''STM32F429ZITx'' ''Keil.STM32F4xx_DFP.3.1.1''
     [Element ''DllOption'' None [leaf ''TargetDllName'' ''SARMCM3.DLL''],
      Element ''Utilities'' None
        [Element ''Flash1'' None [leaf ''UseTargetDll'' ''0'', leaf ''UpdateFlashBeforeDebugging'' ''0''],
         leaf ''Flash2'' (windows_path ''BIN%UL2CM3.DLL'')]] q"
  have "field_errors name ?t STM32_FIELDS = []" "field_errors name ?t STM32_LINK_FIELDS = []"
    by (simp_all add: e field_errors_def STM32_FIELDS_def STM32_LINK_FIELDS_def sample_simps)
  moreover have "define_errors name (parse_defines (target_defines ?t)) (expected_defs duty dead n) = []"
    using sample_pairs(1) q by (auto simp: e sample_defines parse_defines_pairs list_all_iff expected_defs_errors)
  moreover have "map_of EXPECTED_TARGETS name = Some (duty, dead, n)"
    using PROFILES_lookup [OF q] by (simp add: e PROFILES_copy)
  ultimately show ?thesis
    unfolding stm32_target_errors_def Let_def sample_members by (simp add: e sample_output)
qed

lemma sample_gd32_targets:
  "q \<in> set PROFILES \<Longrightarrow> gd32_target_errors (sample_target ''GD32H75EYMJ6'' ''GigaDevice.GD32H75E_DFP.1.4.0'' [] q) = []"
proof -
  assume q: "q \<in> set PROFILES"
  obtain name duty dead n where e: "q = (name, duty, dead, n)" by (metis prod_cases4)
  let ?t = "sample_target ''GD32H75EYMJ6'' ''GigaDevice.GD32H75E_DFP.1.4.0'' [] q"
  have pairs: "gd32_define_pairs (defines_text duty dead n)
      = expected_defs duty dead n @ [(''USE_STDPERIPH_DRIVER'', []), (''GD32H75E'', [])]"
    using sample_pairs(2) q by (auto simp: e list_all_iff)
  have "gd32_parse_defines (target_defines ?t) ''USE_STDPERIPH_DRIVER'' = Some []"
    "gd32_parse_defines (target_defines ?t) ''GD32H75E'' = Some []"
    "define_errors name (gd32_parse_defines (target_defines ?t)) (expected_defs duty dead n) = []"
    by (simp_all add: e sample_defines gd32_parse_defines_pairs pairs expected_defs_errors del: fold_append)
      (simp_all add: expected_defs_def)
  moreover have "map_of PROFILES name = Some (duty, dead, n)"
    using PROFILES_lookup [OF q] by (simp add: e)
  ultimately show ?thesis
    unfolding gd32_target_errors_def Let_def
    by (simp add: e sample_output) (simp add: field_errors_def sample_simps)
qed


end
