(* ===== verification/Py_Argparse.thy ===== *)
theory Py_Argparse
  imports Py_Float Py_Bytes
begin

text \<open>
  The part of module \<open>argparse\<close> (Python 3.11) the command lines of the repository use: options with one
  value, flags, \<open>--help\<close>, at most one positional argument, one level of subcommands; abbreviated options,
  \<open>--option=value\<close>, \<open>--\<close> and arguments that look like negative numbers. Below it the conversions \<open>int\<close>,
  \<open>int(value, 0)\<close> and \<open>float\<close> of a text (the limit of 4300 digits apart). Shown: a command line that spells
  its options in full is parsed to the values given, over the defaults of the rest.
\<close>

section \<open>Ends of a parse\<close>

text \<open>
  A wrong command line (exit code 2), a request for help (exit code 0), and a float text for an
  infinity or NaN, which the model of floats leaves out.
\<close>

datatype parse_stop = Usage_Error | Help_Shown | Not_Finite

definition bind_parse :: "parse_stop + 'a \<Rightarrow> ('a \<Rightarrow> parse_stop + 'b) \<Rightarrow> parse_stop + 'b" where
  "bind_parse r f = (case r of Inl e \<Rightarrow> Inl e | Inr a \<Rightarrow> f a)"

lemma bind_parse_simps [simp]:
  "bind_parse (Inl e) f = Inl e" "bind_parse (Inr a) f = f a"
  by (simp_all add: bind_parse_def)

lemma bind_parse_Inr: "bind_parse r f = Inr b \<longleftrightarrow> (\<exists>a. r = Inr a \<and> f a = Inr b)"
  by (cases r) simp_all

section \<open>Numbers in texts\<close>

text \<open>The sign of a number and the text after it.\<close>

definition split_sign :: "string \<Rightarrow> bool \<times> string" where
  "split_sign s =
     (case s of [] \<Rightarrow> (False, [])
      | c # cs \<Rightarrow> if c = CHR ''-'' then (True, cs) else if c = CHR ''+'' then (False, cs) else (False, s))"

text \<open>Digits of a base, single underscores between them.\<close>

definition base_digit :: "int \<Rightarrow> char \<Rightarrow> int option" where
  "base_digit base c =
     (let n = of_char c :: int;
          v = (if 48 \<le> n \<and> n \<le> 57 then n - 48
               else if 97 \<le> n \<and> n \<le> 122 then n - 87
               else if 65 \<le> n \<and> n \<le> 90 then n - 55 else base)
      in if v < base then Some v else None)"

fun base_digits :: "int \<Rightarrow> int \<Rightarrow> string \<Rightarrow> int option" where
  "base_digits base acc [] = Some acc"
| "base_digits base acc (c # cs) =
     (case (if c = CHR ''_'' then cs else c # cs) of
        [] \<Rightarrow> None
      | d # ds \<Rightarrow>
          (case base_digit base d of
             None \<Rightarrow> None
           | Some v \<Rightarrow> if c = CHR ''_'' then base_digits base (base * acc + v) (tl cs)
                       else base_digits base (base * acc + v) cs))"

text \<open>An unsigned literal of \<open>int(value, 0)\<close>: a prefix names the base, a decimal has no leading zeros.\<close>

definition int0_unsigned :: "string \<Rightarrow> int option" where
  "int0_unsigned s =
     (let prefixed = (\<lambda>base rest. if rest = [] then None else base_digits base 0 rest)
      in if take 2 s \<in> {''0x'', ''0X''} then prefixed 16 (drop 2 s)
         else if take 2 s \<in> {''0o'', ''0O''} then prefixed 8 (drop 2 s)
         else if take 2 s \<in> {''0b'', ''0B''} then prefixed 2 (drop 2 s)
         else case parse_unsigned s of
             None \<Rightarrow> None
           | Some v \<Rightarrow> if hd s = CHR ''0'' \<and> v \<noteq> 0 then None else Some v)"

definition int0_of_string :: "string \<Rightarrow> int option" where
  "int0_of_string s =
     (case split_sign (strip_blanks s) of
        (neg, t) \<Rightarrow> map_option (\<lambda>v. if neg then - v else v) (int0_unsigned t))"

text \<open>The digits of a float text: their value and how many they are.\<close>

definition is_digit :: "char \<Rightarrow> bool" where
  "is_digit c \<longleftrightarrow> digit_value c \<noteq> None"

definition digit_part :: "string \<Rightarrow> string" where
  "digit_part s = takeWhile (\<lambda>c. is_digit c \<or> c = CHR ''_'') s"

definition digit_count :: "string \<Rightarrow> nat" where
  "digit_count s = length (filter is_digit s)"

datatype float_text = Finite rat | Infinite_Or_NaN | Not_A_Float

text \<open>Value and exponent of \<open>digits [. digits] [e exponent]\<close> without a sign.\<close>

definition exponent_of :: "string \<Rightarrow> int option" where
  "exponent_of s =
     (case s of
        [] \<Rightarrow> Some 0
      | c # cs \<Rightarrow>
          if c \<in> {CHR ''e'', CHR ''E''} then
            (case split_sign cs of (neg, t) \<Rightarrow> map_option (\<lambda>v. if neg then - v else v) (parse_unsigned t))
          else None)"

definition decimal_of :: "string \<Rightarrow> rat option" where
  "decimal_of s =
     (let whole = digit_part s; rest = drop (length whole) s;
          frac = (case rest of c # cs \<Rightarrow> if c = CHR ''.'' then digit_part cs else [] | [] \<Rightarrow> []);
          tail = (case rest of c # cs \<Rightarrow> if c = CHR ''.'' then drop (length frac) cs else rest | [] \<Rightarrow> []);
          value_of = (\<lambda>ds. if ds = [] then Some 0 else parse_unsigned ds)
      in if whole = [] \<and> frac = [] then None
         else case (value_of whole, value_of frac, exponent_of tail) of
             (Some w, Some f, Some e) \<Rightarrow>
               let m = rat_of_int w + rat_of_int f / 10 ^ digit_count frac
               in Some (if 0 \<le> e then m * 10 ^ nat e else m / 10 ^ nat (- e))
           | _ \<Rightarrow> None)"

definition float_of_string :: "rounding \<Rightarrow> string \<Rightarrow> float_text" where
  "float_of_string fl s =
     (case split_sign (strip_blanks s) of
        (neg, t) \<Rightarrow>
          if ascii_lower t \<in> {''inf'', ''infinity'', ''nan''} then Infinite_Or_NaN
          else case decimal_of t of
              None \<Rightarrow> Not_A_Float
            | Some x \<Rightarrow> if overflows_double x then Infinite_Or_NaN else Finite (fl (if neg then - x else x)))"

section \<open>Declarations\<close>

datatype arg_kind = Text_Kind | Int_Kind | Int0_Kind | Float_Kind

datatype action = Store arg_kind "string list option" | Store_True | Show_Help

record option_spec =
  op_flags :: "string list"
  op_dest :: string
  op_action :: action
  op_default :: pyval
  op_required :: bool

record positional_spec =
  po_dest :: string
  po_kind :: arg_kind
  po_choices :: "string list option"

record sub_spec =
  sp_options :: "option_spec list"
  sp_positional :: "positional_spec option"

record parser_spec =
  pa_options :: "option_spec list"
  pa_commands :: "(string \<times> sub_spec) list"

text \<open>The attribute of \<open>--timeout-ms\<close> is \<open>timeout_ms\<close>.\<close>

definition dest_of :: "string \<Rightarrow> string" where
  "dest_of flag = map (\<lambda>c. if c = CHR ''-'' then CHR ''_'' else c) (dropWhile (\<lambda>c. c = CHR ''-'') flag)"

definition opt :: "string \<Rightarrow> arg_kind \<Rightarrow> pyval \<Rightarrow> option_spec" where
  "opt flag kind dflt =
     \<lparr>op_flags = [flag], op_dest = dest_of flag, op_action = Store kind None, op_default = dflt, op_required = False\<rparr>"

definition with_choices :: "string list \<Rightarrow> option_spec \<Rightarrow> option_spec" where
  "with_choices cs op =
     (case op_action op of Store kind _ \<Rightarrow> op\<lparr>op_action := Store kind (Some cs)\<rparr> | _ \<Rightarrow> op)"

definition required_opt :: "option_spec \<Rightarrow> option_spec" where
  "required_opt op = op\<lparr>op_required := True\<rparr>"

definition flag_opt :: "string \<Rightarrow> option_spec" where
  "flag_opt flag =
     \<lparr>op_flags = [flag], op_dest = dest_of flag, op_action = Store_True, op_default = PBool False, op_required = False\<rparr>"

definition help_option :: option_spec where
  "help_option =
     \<lparr>op_flags = [''-h'', ''--help''], op_dest = ''help'', op_action = Show_Help, op_default = PNone, op_required = False\<rparr>"

definition sub_with :: "option_spec list \<Rightarrow> sub_spec" where
  "sub_with os = \<lparr>sp_options = os, sp_positional = None\<rparr>"

type_synonym namespace = "(string \<times> pyval) list"

section \<open>Parsing\<close>

text \<open>The registered option strings of a parser; \<open>-h\<close> and \<open>--help\<close> come first.\<close>

definition flag_table :: "option_spec list \<Rightarrow> (string \<times> option_spec) list" where
  "flag_table os = concat (map (\<lambda>op. map (\<lambda>f. (f, op)) (op_flags op)) (help_option # os))"

text \<open>What an argument string is: a value, \<open>--\<close>, or an option (unknown ones have no action) with the text after \<open>=\<close>.\<close>

datatype arg_class = Value_Arg | Dashes | Flag_Arg "option_spec option" string "string option"

fun is_flag_arg :: "arg_class \<Rightarrow> bool" where
  "is_flag_arg (Flag_Arg _ _ _) = True"
| "is_flag_arg _ = False"

text \<open>\<open>^-\d+$|^-\d*\.\d+$\<close>\<close>

definition negative_number :: "string \<Rightarrow> bool" where
  "negative_number s =
     (case s of
        [] \<Rightarrow> False
      | c # cs \<Rightarrow>
          c = CHR ''-''
          \<and> (let rest = dropWhile is_digit cs
             in if rest = [] then cs \<noteq> []
                else hd rest = CHR ''.'' \<and> tl rest \<noteq> [] \<and> list_all is_digit (tl rest)))"

definition split_equals :: "string \<Rightarrow> string \<times> string" where
  "split_equals s = (takeWhile (\<lambda>c. c \<noteq> CHR ''='') s, drop 1 (dropWhile (\<lambda>c. c \<noteq> CHR ''='') s))"

text \<open>Abbreviations: all options a text may stand for.\<close>

definition option_tuples :: "(string \<times> option_spec) list \<Rightarrow> string \<Rightarrow> arg_class list" where
  "option_tuples table s =
     (if starts_with ''--'' s then
        let (pre, explicit) = (if CHR ''='' \<in> set s then (fst (split_equals s), Some (snd (split_equals s))) else (s, None))
        in map (\<lambda>(f, op). Flag_Arg (Some op) f explicit) (filter (\<lambda>(f, op). starts_with pre f) table)
      else
        concat (map (\<lambda>(f, op). if f = take 2 s then [Flag_Arg (Some op) f (Some (drop 2 s))]
                              else if starts_with s f then [Flag_Arg (Some op) f None] else []) table))"

definition classify_arg :: "option_spec list \<Rightarrow> string \<Rightarrow> parse_stop + arg_class" where
  "classify_arg os s =
     (let table = flag_table os; eq = split_equals s in
      if s = [] \<or> hd s \<noteq> CHR ''-'' then Inr Value_Arg
      else case map_of table s of
        Some op \<Rightarrow> Inr (Flag_Arg (Some op) s None)
      | None \<Rightarrow>
          if length s = 1 then Inr Value_Arg
          else if CHR ''='' \<in> set s \<and> map_of table (fst eq) \<noteq> None
          then Inr (Flag_Arg (map_of table (fst eq)) (fst eq) (Some (snd eq)))
          else case option_tuples table s of
              t # [] \<Rightarrow> Inr t
            | _ # _ # _ \<Rightarrow> Inl Usage_Error
            | [] \<Rightarrow> if negative_number s \<or> CHR '' '' \<in> set s then Inr Value_Arg
                    else Inr (Flag_Arg None s None))"

text \<open>After \<open>--\<close> everything is a value.\<close>

fun classify_args :: "option_spec list \<Rightarrow> string list \<Rightarrow> parse_stop + (string \<times> arg_class) list" where
  "classify_args os [] = Inr []"
| "classify_args os (s # ss) =
     (if s = ''--'' then Inr ((s, Dashes) # map (\<lambda>t. (t, Value_Arg)) ss)
      else bind_parse (classify_arg os s) (\<lambda>k.
           bind_parse (classify_args os ss) (\<lambda>rest. Inr ((s, k) # rest))))"

text \<open>The \<open>type\<close> and \<open>choices\<close> of an argument; a \<open>ValueError\<close> of the conversion is a wrong command line.\<close>

definition convert_text :: "rounding \<Rightarrow> arg_kind \<Rightarrow> string \<Rightarrow> parse_stop + pyval" where
  "convert_text fl kind s =
     (case kind of
        Text_Kind \<Rightarrow> Inr (PStr s)
      | Int_Kind \<Rightarrow> (case int_of_string s of None \<Rightarrow> Inl Usage_Error | Some i \<Rightarrow> Inr (PInt i))
      | Int0_Kind \<Rightarrow> (case int0_of_string s of None \<Rightarrow> Inl Usage_Error | Some i \<Rightarrow> Inr (PInt i))
      | Float_Kind \<Rightarrow> (case float_of_string fl s of
            Finite x \<Rightarrow> Inr (PFloat x) | Infinite_Or_NaN \<Rightarrow> Inl Not_Finite | Not_A_Float \<Rightarrow> Inl Usage_Error))"

definition get_value :: "rounding \<Rightarrow> arg_kind \<Rightarrow> string list option \<Rightarrow> string \<Rightarrow> parse_stop + pyval" where
  "get_value fl kind choices s =
     bind_parse (convert_text fl kind s) (\<lambda>v.
     case choices of
       None \<Rightarrow> Inr v
     | Some cs \<Rightarrow> if v \<in> PStr ` set cs then Inr v else Inl Usage_Error)"

type_synonym classified = "(string \<times> arg_class) list"

text \<open>One option with what follows it: the attributes it sets, how many of the following strings it takes, and
  the strings not recognised.\<close>

definition consume_option ::
    "rounding \<Rightarrow> string \<Rightarrow> option_spec option \<Rightarrow> string \<Rightarrow> string option \<Rightarrow> classified
      \<Rightarrow> parse_stop + namespace \<times> nat \<times> string list" where
  "consume_option fl s o_act flag explicit rest =
     (case o_act of
        None \<Rightarrow> Inr ([], 0, [s])
      | Some op \<Rightarrow>
          (case op_action op of
             Show_Help \<Rightarrow>
               (case explicit of
                  None \<Rightarrow> Inl Help_Shown
                | Some e \<Rightarrow>
                    if flag ! 1 \<noteq> CHR ''-'' \<and> e \<noteq> [] \<and> list_all (\<lambda>c. c = CHR ''h'') e then Inl Help_Shown
                    else Inl Usage_Error)
           | Store_True \<Rightarrow>
               if explicit = None then Inr ([(op_dest op, PBool True)], 0, []) else Inl Usage_Error
           | Store kind choices \<Rightarrow>
               (case explicit of
                  Some e \<Rightarrow>
                    bind_parse (get_value fl kind choices e) (\<lambda>v. Inr ([(op_dest op, v)], 0, []))
                | None \<Rightarrow>
                    (case rest of
                       (t, Value_Arg) # _ \<Rightarrow>
                         bind_parse (get_value fl kind choices t) (\<lambda>v. Inr ([(op_dest op, v)], 1, []))
                     | _ \<Rightarrow> Inl Usage_Error))))"

text \<open>
  The positional argument of a parser takes a prefix of the classified strings, when it matches: it gives
  what it sets, the rest, and the strings a subparser did not recognise.
\<close>

type_synonym positional_taker = "classified \<Rightarrow> (parse_stop + namespace \<times> classified \<times> string list) option"

definition take_nothing :: positional_taker where
  "take_nothing xs = None"

text \<open>One value, \<open>(-*A-*)\<close>; one \<open>--\<close> around it is dropped.\<close>

definition take_value :: "rounding \<Rightarrow> positional_spec \<Rightarrow> positional_taker" where
  "take_value fl p xs =
     (let body = (case xs of (_, Dashes) # rest \<Rightarrow> rest | _ \<Rightarrow> xs)
      in case body of
           (t, Value_Arg) # rest \<Rightarrow>
             Some (bind_parse (get_value fl (po_kind p) (po_choices p) t) (\<lambda>v.
               Inr ([(po_dest p, v)], (case rest of (_, Dashes) # r \<Rightarrow> r | _ \<Rightarrow> rest), [])))
         | _ \<Rightarrow> None)"

text \<open>
  The loop of \<open>_parse_known_args\<close> on the strings left; \<open>avail\<close> tells whether the positional argument is still
  to be matched. It gives the attributes set (the last first), whether it was, and the strings not recognised.
\<close>

function parse_loop ::
    "rounding \<Rightarrow> positional_taker \<Rightarrow> bool \<Rightarrow> classified \<Rightarrow> namespace \<Rightarrow> string list
      \<Rightarrow> parse_stop + namespace \<times> bool \<times> string list" where
  "parse_loop fl pos avail xs ns extras =
     (if \<not> list_ex (is_flag_arg \<circ> snd) xs then
        (case (if avail then pos xs else None) of
           None \<Rightarrow> Inr (ns, avail, extras @ map fst xs)
         | Some (Inl e) \<Rightarrow> Inl e
         | Some (Inr (upd, rest, ex)) \<Rightarrow> Inr (upd @ ns, False, extras @ ex @ map fst rest))
      else
        (case xs of
           (s, Flag_Arg o_act flag explicit) # rest \<Rightarrow>
             (case consume_option fl s o_act flag explicit rest of
                Inl e \<Rightarrow> Inl e
              | Inr (upd, n, ex) \<Rightarrow> parse_loop fl pos avail (drop n rest) (upd @ ns) (extras @ ex))
         | _ \<Rightarrow>
             (case (if avail then pos xs else None) of
                Some (Inl e) \<Rightarrow> Inl e
              | Some (Inr (upd, rest, ex)) \<Rightarrow> parse_loop fl pos False rest (upd @ ns) (extras @ ex)
              | None \<Rightarrow>
                  parse_loop fl pos avail (dropWhile (Not \<circ> is_flag_arg \<circ> snd) xs) ns
                    (extras @ map fst (takeWhile (Not \<circ> is_flag_arg \<circ> snd) xs)))))"
  by pat_completeness auto
termination
proof (relation "measures [\<lambda>(fl, pos, avail, xs, ns, extras). of_bool avail, \<lambda>(fl, pos, avail, xs, ns, extras). length xs]",
    goal_cases)
  case (4 fl pos avail xs ns extras x xs' s c)
  then show ?case by (auto simp: le_imp_less_Suc length_dropWhile_le)
qed (auto simp: le_imp_less_Suc length_dropWhile_le split: if_splits)

declare parse_loop.simps [simp del]

lemma parse_loop_value:
  "\<not> is_flag_arg k \<Longrightarrow> list_ex (is_flag_arg \<circ> snd) xs \<Longrightarrow>
     parse_loop fl pos avail ((s, k) # xs) ns extras =
       (case (if avail then pos ((s, k) # xs) else None) of
          Some (Inl e) \<Rightarrow> Inl e
        | Some (Inr (upd, rest, ex)) \<Rightarrow> parse_loop fl pos False rest (upd @ ns) (extras @ ex)
        | None \<Rightarrow>
            parse_loop fl pos avail (dropWhile (Not \<circ> is_flag_arg \<circ> snd) ((s, k) # xs)) ns
              (extras @ map fst (takeWhile (Not \<circ> is_flag_arg \<circ> snd) ((s, k) # xs))))"
  by (subst parse_loop.simps) (cases k; simp)

text \<open>What is declared as required and was not given.\<close>

definition missing_options :: "option_spec list \<Rightarrow> namespace \<Rightarrow> bool" where
  "missing_options os set_ns \<longleftrightarrow> list_ex (\<lambda>op. op_required op \<and> op_dest op \<notin> fst ` set set_ns) os"

definition defaults_of :: "option_spec list \<Rightarrow> positional_spec option \<Rightarrow> namespace" where
  "defaults_of os p =
     map (\<lambda>op. (op_dest op, op_default op)) os @ (case p of None \<Rightarrow> [] | Some q \<Rightarrow> [(po_dest q, PNone)])"

text \<open>
  \<open>parse_known_args\<close> of a parser that has a positional argument or none: the attributes over their defaults,
  and the strings not recognised. A positional argument that was declared is required.
\<close>

definition parse_known ::
    "rounding \<Rightarrow> option_spec list \<Rightarrow> positional_taker \<Rightarrow> bool \<Rightarrow> namespace \<Rightarrow> string list
      \<Rightarrow> parse_stop + namespace \<times> string list" where
  "parse_known fl os pos declared dflts args =
     bind_parse (classify_args os args) (\<lambda>xs.
     bind_parse (parse_loop fl pos declared xs [] []) (\<lambda>(ns, avail, extras).
     if avail \<or> missing_options os ns then Inl Usage_Error else Inr (ns @ dflts, extras)))"

definition parse_sub :: "rounding \<Rightarrow> sub_spec \<Rightarrow> string list \<Rightarrow> parse_stop + namespace \<times> string list" where
  "parse_sub fl sp args =
     parse_known fl (sp_options sp)
       (case sp_positional sp of None \<Rightarrow> take_nothing | Some p \<Rightarrow> take_value fl p)
       (sp_positional sp \<noteq> None) (defaults_of (sp_options sp) (sp_positional sp)) args"

text \<open>The subcommand takes everything from its name on, \<open>(-*A[-AO]*)\<close>; a \<open>--\<close> before it is no command.\<close>

definition take_command :: "rounding \<Rightarrow> (string \<times> sub_spec) list \<Rightarrow> positional_taker" where
  "take_command fl commands xs =
     (case xs of
        (name, Value_Arg) # rest \<Rightarrow>
          Some (case map_of commands name of
              None \<Rightarrow> Inl Usage_Error
            | Some sp \<Rightarrow> bind_parse (parse_sub fl sp (map fst rest)) (\<lambda>(ns, extras).
                Inr (ns @ [(''command'', PStr name)], [], extras)))
      | (_, Dashes) # (_, Value_Arg) # _ \<Rightarrow> Some (Inl Usage_Error)
      | _ \<Rightarrow> None)"

text \<open>\<open>parse_args\<close>: nothing may be left over.\<close>

definition parse_args :: "rounding \<Rightarrow> parser_spec \<Rightarrow> string list \<Rightarrow> parse_stop + namespace" where
  "parse_args fl pa argv =
     bind_parse (parse_known fl (pa_options pa) (take_command fl (pa_commands pa)) True
         (defaults_of (pa_options pa) None @ [(''command'', PNone)]) argv) (\<lambda>(ns, extras).
     if extras \<noteq> [] then Inl Usage_Error else Inr ns)"

text \<open>\<open>args.name\<close> by the type its declaration gives it.\<close>

definition ns_get :: "namespace \<Rightarrow> string \<Rightarrow> pyval" where
  "ns_get ns k = (case map_of ns k of None \<Rightarrow> PNone | Some v \<Rightarrow> v)"

definition ns_int :: "namespace \<Rightarrow> string \<Rightarrow> int option" where
  "ns_int ns k = (case ns_get ns k of PInt i \<Rightarrow> Some i | _ \<Rightarrow> None)"

definition ns_float :: "namespace \<Rightarrow> string \<Rightarrow> rat option" where
  "ns_float ns k = (case ns_get ns k of PFloat x \<Rightarrow> Some x | _ \<Rightarrow> None)"

definition ns_str :: "namespace \<Rightarrow> string \<Rightarrow> string option" where
  "ns_str ns k = (case ns_get ns k of PStr s \<Rightarrow> Some s | _ \<Rightarrow> None)"

definition ns_flag :: "namespace \<Rightarrow> string \<Rightarrow> bool" where
  "ns_flag ns k = (ns_get ns k = PBool True)"

section \<open>Numbers written out and read back\<close>

lemma digit_char: "n < 10 \<Longrightarrow> digit_value (char_of (48 + n)) = Some (int n)"
proof -
  assume "n < 10"
  then have "(of_char (char_of (48 + n)) :: nat) = 48 + n" by (simp add: of_char_of)
  then have "(of_char (char_of (48 + n)) :: int) = int (48 + n)"
    using of_nat_of_char [of "char_of (48 + n)", where ?'a = int] by simp
  with \<open>n < 10\<close> show ?thesis by (simp add: digit_value_def Let_def)
qed

lemma digit_not_blank: "is_digit c \<Longrightarrow> \<not> is_blank c"
proof -
  assume "is_digit c"
  then have "48 \<le> (of_char c :: int)" by (auto simp: is_digit_def digit_value_def Let_def split: if_splits)
  then have "48 \<le> (of_char c :: nat)" using of_nat_of_char [of c, where ?'a = int] by linarith
  then show ?thesis by (auto simp: is_blank_def)
qed

lemma digit_not_sign: "is_digit c \<Longrightarrow> c \<noteq> CHR ''-'' \<and> c \<noteq> CHR ''+'' \<and> c \<noteq> CHR ''x'' \<and> c \<noteq> CHR ''X''
    \<and> c \<noteq> CHR ''o'' \<and> c \<noteq> CHR ''O'' \<and> c \<noteq> CHR ''b'' \<and> c \<noteq> CHR ''B''"
  by (auto simp: is_digit_def digit_value_def)

definition digits_value :: "int \<Rightarrow> string \<Rightarrow> int" where
  "digits_value acc ds = fold (\<lambda>c a. 10 * a + the (digit_value c)) ds acc"

lemma digits_value_snoc [simp]:
  "digits_value acc [] = acc" "digits_value acc (ds @ [c]) = 10 * digits_value acc ds + the (digit_value c)"
  by (simp_all add: digits_value_def)

lemma digits_value_single: "digits_value 0 [c] = the (digit_value c)"
  by (simp add: digits_value_def)

lemma parse_digits_value: "list_all is_digit ds \<Longrightarrow> parse_digits acc ds = Some (digits_value acc ds)"
  by (induction ds arbitrary: acc) (auto simp: digits_value_def is_digit_def)

lemma parse_unsigned_value: "list_all is_digit ds \<Longrightarrow> ds \<noteq> [] \<Longrightarrow> parse_unsigned ds = Some (digits_value 0 ds)"
  by (cases ds) (auto simp: parse_unsigned_def is_digit_def parse_digits_value digits_value_def)

lemma dec_nat_digits: "list_all is_digit (dec_nat n) \<and> dec_nat n \<noteq> [] \<and> digits_value 0 (dec_nat n) = int n"
proof (induction n rule: dec_nat.induct)
  case (1 n)
  show ?case
  proof (cases "n < 10")
    case True
    then show ?thesis by (subst (1 2 3) dec_nat.simps) (simp add: is_digit_def digits_value_single digit_char)
  next
    case False
    have "n = 10 * (n div 10) + n mod 10" by simp
    then have "int n = 10 * int (n div 10) + int (n mod 10)" by linarith
    with 1 False show ?thesis
      by (subst (1 2 3) dec_nat.simps) (simp add: digit_char is_digit_def [of "char_of _"])
  qed
qed

lemma dec_nat_head: "0 < n \<Longrightarrow> hd (dec_nat n) \<noteq> CHR ''0''"
proof (induction n rule: dec_nat.induct)
  case (1 n)
  show ?case
  proof (cases "n < 10")
    case True
    have "char_of (48 + n) \<noteq> CHR ''0''"
    proof
      assume "char_of (48 + n) = CHR ''0''"
      then have "digit_value (char_of (48 + n)) = Some 0" by (simp add: digit_value_def)
      with digit_char [OF True] 1(2) show False by simp
    qed
    with True show ?thesis by (subst dec_nat.simps) simp
  next
    case False
    then have "0 < n div 10" by simp
    with 1(1) [OF False] False show ?thesis using dec_nat_digits [of "n div 10"]
      by (subst dec_nat.simps) (simp add: hd_append)
  qed
qed

lemma strip_nothing: "s = [] \<or> \<not> is_blank (hd s) \<and> \<not> is_blank (last s) \<Longrightarrow> strip_blanks s = s"
proof (cases s)
  case (Cons c cs)
  assume "s = [] \<or> \<not> is_blank (hd s) \<and> \<not> is_blank (last s)"
  with Cons have s: "s \<noteq> []" "\<not> is_blank (hd s)" "\<not> is_blank (last s)" by auto
  from s(1,2) have "dropWhile is_blank s = s" by (cases s) simp_all
  from s(1,3) have "\<not> is_blank (hd (rev s))" "rev s \<noteq> []" by (simp_all only: hd_rev rev_is_Nil_conv not_False_eq_True)
  then have "dropWhile is_blank (rev s) = rev s" by (cases "rev s") simp_all
  with \<open>dropWhile is_blank s = s\<close> show ?thesis by (simp add: strip_blanks_def)
qed (simp add: strip_blanks_def)

lemma str_int_shape:
  obtains (pos) "0 \<le> i" "str_int i = dec_nat (nat i)" | (neg) "i < 0" "str_int i = CHR ''-'' # dec_nat (nat (- i))"
  by (cases "0 \<le> i") (auto simp: str_int_def)

lemma strip_dec_nat:
  "strip_blanks (dec_nat n) = dec_nat n" "strip_blanks (CHR ''-'' # dec_nat n) = CHR ''-'' # dec_nat n"
proof -
  have "\<not> is_blank (hd (dec_nat n))" "\<not> is_blank (last (dec_nat n))" "dec_nat n \<noteq> []"
    using dec_nat_digits [of n] by (auto simp: list_all_iff intro!: digit_not_blank)
  then show "strip_blanks (dec_nat n) = dec_nat n" "strip_blanks (CHR ''-'' # dec_nat n) = CHR ''-'' # dec_nat n"
    by (auto intro!: strip_nothing simp: is_blank_code)
qed

lemma parse_dec_nat: "parse_unsigned (dec_nat n) = Some (int n)"
  using dec_nat_digits [of n] by (simp add: parse_unsigned_value)

lemma dec_nat_Cons:
  obtains d ds where "dec_nat n = d # ds" "is_digit d" "list_all is_digit ds"
  using dec_nat_digits [of n] by (cases "dec_nat n") auto

lemma int_of_str_int [simp]: "int_of_string (str_int i) = Some i"
proof (cases i rule: str_int_shape)
  case pos
  obtain d ds where d: "dec_nat (nat i) = d # ds" "is_digit d" by (rule dec_nat_Cons)
  from pos show ?thesis
    using parse_dec_nat [of "nat i"] digit_not_sign [OF d(2)]
    by (simp add: int_of_string_def strip_dec_nat) (simp add: d)
next
  case neg
  then show ?thesis by (simp add: int_of_string_def strip_dec_nat parse_dec_nat)
qed

lemma int0_dec_nat: "int0_unsigned (dec_nat n) = Some (int n)"
proof -
  obtain d ds where d: "dec_nat n = d # ds" "is_digit d" "list_all is_digit ds" by (rule dec_nat_Cons)
  have "take 2 (dec_nat n) \<notin> {''0x'', ''0X''}" "take 2 (dec_nat n) \<notin> {''0o'', ''0O''}"
    "take 2 (dec_nat n) \<notin> {''0b'', ''0B''}"
    using d digit_not_sign by (cases ds; auto)+
  moreover have "\<not> (hd (dec_nat n) = CHR ''0'' \<and> int n \<noteq> 0)" using dec_nat_head [of n] by auto
  ultimately show ?thesis by (simp add: int0_unsigned_def parse_dec_nat)
qed

lemma int0_of_str_int [simp]: "int0_of_string (str_int i) = Some i"
proof (cases i rule: str_int_shape)
  case pos
  obtain d ds where d: "dec_nat (nat i) = d # ds" "is_digit d" by (rule dec_nat_Cons)
  then have "split_sign (dec_nat (nat i)) = (False, dec_nat (nat i))"
    using digit_not_sign by (simp add: split_sign_def)
  with pos show ?thesis by (simp add: int0_of_string_def strip_dec_nat int0_dec_nat)
next
  case neg
  then show ?thesis by (simp add: int0_of_string_def strip_dec_nat int0_dec_nat split_sign_def)
qed

section \<open>Command lines that spell everything out\<close>

text \<open>A text that is never taken for an option, and parsers that have long options only (besides \<open>-h\<close>).\<close>

definition plain_value :: "string \<Rightarrow> bool" where
  "plain_value t \<longleftrightarrow> t = [] \<or> hd t \<noteq> CHR ''-'' \<or> negative_number t"

definition long_options :: "option_spec list \<Rightarrow> bool" where
  "long_options os \<longleftrightarrow> list_all (\<lambda>op. list_all (starts_with ''--'') (op_flags op)) os"

lemma starts_with_append: "starts_with pre s \<longleftrightarrow> (\<exists>t. s = pre @ t)"
  by (induction pre s rule: starts_with.induct) auto

lemma flag_table_flags:
  assumes "long_options os" "(f, op) \<in> set (flag_table os)"
  shows "f = ''-h'' \<or> starts_with ''--'' f"
  using assms by (auto simp: flag_table_def long_options_def list_all_iff help_option_def)

text \<open>The second character of a negative number is no dash and no \<open>h\<close>.\<close>

lemma negative_number_shape:
  assumes "negative_number t"
  obtains d ds where "t = CHR ''-'' # d # ds" "d \<noteq> CHR ''-''" "d \<noteq> CHR ''h''" "CHR ''='' \<notin> set t"
proof -
  have sep: "\<not> is_digit (CHR ''-'')" "\<not> is_digit (CHR ''h'')" "\<not> is_digit (CHR ''='')"
    by (simp_all add: is_digit_def digit_value_def)
  obtain c cs where t: "t = c # cs" using assms by (cases t) (auto simp: negative_number_def)
  define rest where "rest = dropWhile is_digit cs"
  from assms t have c: "c = CHR ''-''" and rest: "if rest = [] then cs \<noteq> [] else hd rest = CHR ''.'' \<and> list_all is_digit (tl rest)"
    by (auto simp: negative_number_def Let_def rest_def split: if_splits)
  have "set cs = set (takeWhile is_digit cs) \<union> set rest"
    unfolding rest_def by (metis set_append takeWhile_dropWhile_id)
  moreover have "\<forall>x \<in> set rest. is_digit x \<or> x = CHR ''.''"
    using rest by (cases rest) (auto simp: list_all_iff)
  ultimately have "\<forall>x \<in> set cs. is_digit x \<or> x = CHR ''.''" by (auto dest: set_takeWhileD)
  moreover have "cs \<noteq> []" using rest by (cases cs) (auto simp: rest_def)
  ultimately show thesis using t c sep by (cases cs) (auto intro!: that)
qed

lemma classify_value:
  assumes "long_options os" "plain_value t"
  shows "classify_arg os t = Inr Value_Arg"
proof (cases "t = [] \<or> hd t \<noteq> CHR ''-''")
  case False
  with assms(2) have neg: "negative_number t" by (simp add: plain_value_def)
  then obtain d ds where t: "t = CHR ''-'' # d # ds" "d \<noteq> CHR ''-''" "d \<noteq> CHR ''h''" "CHR ''='' \<notin> set t"
    by (rule negative_number_shape)
  have flags: "f \<noteq> t \<and> f \<noteq> take 2 t \<and> \<not> starts_with t f" if "(f, op) \<in> set (flag_table os)" for f op
    using flag_table_flags [OF assms(1) that] t(1-3) by (auto simp: starts_with_append)
  then have "map_of (flag_table os) t = None" by (force simp: map_of_eq_None_iff)
  moreover have "option_tuples (flag_table os) t = []"
    using flags t(1,2) by (auto simp: option_tuples_def split_def)
  ultimately have "map_of (flag_table os) t = None" "option_tuples (flag_table os) t = []" .
  with neg t show ?thesis by (simp add: classify_arg_def Let_def)
qed (simp add: classify_arg_def)

lemma classify_flag:
  "map_of (flag_table os) f = Some op \<Longrightarrow> starts_with ''--'' f \<Longrightarrow> classify_arg os f = Inr (Flag_Arg (Some op) f None)"
  by (auto simp: classify_arg_def Let_def starts_with_append)

lemma plain_not_dashes: "plain_value t \<Longrightarrow> t \<noteq> ''--''"
  by (auto simp: plain_value_def negative_number_def is_digit_def digit_value_def)

text \<open>An option with its value, as given: the declaration, the text and the value of the text.\<close>

type_synonym given = "option_spec \<times> string \<times> pyval"

definition given_words :: "given list \<Rightarrow> string list" where
  "given_words gs = concat (map (\<lambda>(op, t, v). [hd (op_flags op), t]) gs)"

definition given_names :: "given list \<Rightarrow> namespace" where
  "given_names gs = map (\<lambda>(op, t, v). (op_dest op, v)) gs"

definition given_ok :: "rounding \<Rightarrow> option_spec list \<Rightarrow> given \<Rightarrow> bool" where
  "given_ok fl os g =
     (case g of (op, t, v) \<Rightarrow>
        map_of (flag_table os) (hd (op_flags op)) = Some op \<and> starts_with ''--'' (hd (op_flags op))
        \<and> hd (op_flags op) \<noteq> ''--'' \<and> plain_value t
        \<and> (\<exists>kind cs. op_action op = Store kind cs \<and> get_value fl kind cs t = Inr v))"

definition given_classes :: "given list \<Rightarrow> classified" where
  "given_classes gs =
     concat (map (\<lambda>(op, t, v). [(hd (op_flags op), Flag_Arg (Some op) (hd (op_flags op)) None), (t, Value_Arg)]) gs)"

lemma classify_given:
  assumes "long_options os" "list_all (given_ok fl os) gs"
  shows "classify_args os (given_words gs @ ws) = bind_parse (classify_args os ws) (\<lambda>xs. Inr (given_classes gs @ xs))"
  using assms(2)
proof (induction gs)
  case Nil
  then show ?case by (cases "classify_args os ws") (simp_all add: given_words_def given_classes_def)
next
  case (Cons g gs)
  obtain op t v where g: "g = (op, t, v)" by (rule prod_cases3)
  with Cons show ?case
    using classify_value [OF assms(1), of t] plain_not_dashes [of t]
    by (cases "classify_args os ws") (auto simp: given_words_def given_classes_def given_ok_def classify_flag)
qed

lemma parse_loop_given:
  "list_all (given_ok fl os) gs \<Longrightarrow>
     parse_loop fl pos avail (given_classes gs @ xs) ns ex = parse_loop fl pos avail xs (rev (given_names gs) @ ns) ex"
proof (induction gs arbitrary: ns)
  case (Cons g gs)
  obtain op t v where g: "g = (op, t, v)" by (rule prod_cases3)
  with Cons.prems have "parse_loop fl pos avail (given_classes (g # gs) @ xs) ns ex
      = parse_loop fl pos avail (given_classes gs @ xs) ((op_dest op, v) # ns) ex"
    by (subst parse_loop.simps) (auto simp: given_classes_def given_ok_def consume_option_def)
  with Cons g show ?case by (simp add: given_names_def)
qed (simp add: given_classes_def given_names_def)

lemma parse_loop_end: "parse_loop fl pos False [] ns ex = Inr (ns, False, ex)"
  by (subst parse_loop.simps) simp

lemma not_missing_mono: "\<not> missing_options os ns \<Longrightarrow> \<not> missing_options os (ns' @ ns)"
  by (auto simp: missing_options_def list_ex_iff)

text \<open>A subcommand without positional argument.\<close>

lemma parse_sub_given:
  assumes "long_options os" "list_all (given_ok fl os) gs" "\<not> missing_options os (rev (given_names gs))"
  shows "parse_sub fl (sub_with os) (given_words gs) = Inr (rev (given_names gs) @ defaults_of os None, [])"
  using assms classify_given [OF assms(1,2), of "[]"] parse_loop_given [OF assms(2), of take_nothing False "[]" "[]" "[]"]
  by (simp add: parse_sub_def sub_with_def parse_known_def parse_loop_end)

text \<open>Options before the subcommand, and the words of the subcommand, whatever the outer parser takes them for.\<close>

lemma parse_args_given:
  assumes pa: "long_options (pa_options pa)" "list_all (given_ok fl (pa_options pa)) gs"
    "\<not> missing_options (pa_options pa) (rev (given_names gs))"
    and cmd: "plain_value cmd" "map_of (pa_commands pa) cmd = Some sp"
    and words: "classify_args (pa_options pa) words = Inr xs" "map fst xs = words"
    and sub: "parse_sub fl sp words = Inr (ns, [])"
  shows "parse_args fl pa (given_words gs @ cmd # words)
    = Inr ((ns @ [(''command'', PStr cmd)]) @ rev (given_names gs) @ defaults_of (pa_options pa) None @ [(''command'', PNone)])"
proof -
  let ?os = "pa_options pa" and ?pos = "take_command fl (pa_commands pa)"
  have cls: "classify_args ?os (given_words gs @ cmd # words) = Inr (given_classes gs @ (cmd, Value_Arg) # xs)"
    using classify_given [OF pa(1,2), of "cmd # words"] classify_value [OF pa(1) cmd(1)] plain_not_dashes [OF cmd(1)] words(1)
    by simp
  have pos: "?pos ((cmd, Value_Arg) # xs) = Some (Inr (ns @ [(''command'', PStr cmd)], [], []))"
    by (simp add: take_command_def cmd(2) words(2) sub)
  have "parse_loop fl ?pos True ((cmd, Value_Arg) # xs) m [] = Inr ((ns @ [(''command'', PStr cmd)]) @ m, False, [])" for m
    by (subst parse_loop.simps) (simp add: pos parse_loop_end)
  with cls not_missing_mono [OF pa(3), of "ns @ [(''command'', PStr cmd)]"] show ?thesis
    using parse_loop_given [OF pa(2), of ?pos True "(cmd, Value_Arg) # xs" "[]" "[]"]
    by (simp add: parse_args_def parse_known_def)
qed

text \<open>A subcommand with one value and no options.\<close>

lemma parse_sub_value:
  assumes "plain_value t" "get_value fl (po_kind p) (po_choices p) t = Inr v"
  shows "parse_sub fl \<lparr>sp_options = [], sp_positional = Some p\<rparr> [t] = Inr ([(po_dest p, v), (po_dest p, PNone)], [])"
proof -
  have "long_options []" by (simp add: long_options_def)
  from classify_value [OF this assms(1)] have "classify_args [] [t] = Inr [(t, Value_Arg)]"
    using plain_not_dashes [OF assms(1)] by simp
  then show ?thesis
    by (simp add: parse_sub_def parse_known_def parse_loop.simps [of fl _ True] take_value_def assms(2)
        defaults_of_def missing_options_def)
qed

text \<open>Words an outer parser looks at only to find where its own end.\<close>

lemma classify_foreign:
  assumes "long_options os"
    "\<And>op t v. (op, t, v) \<in> set gs \<Longrightarrow> plain_value t \<and> hd (op_flags op) \<noteq> ''--'' \<and> \<not> isl (classify_arg os (hd (op_flags op)))"
  obtains xs where "classify_args os (given_words gs) = Inr xs" "map fst xs = given_words gs"
proof -
  have "\<exists>xs. classify_args os (given_words gs) = Inr xs \<and> map fst xs = given_words gs"
    using assms(2)
  proof (induction gs)
    case (Cons g gs)
    obtain op t v where g: "g = (op, t, v)" by (rule prod_cases3)
    from Cons obtain xs where "classify_args os (given_words gs) = Inr xs" "map fst xs = given_words gs" by auto
    moreover from Cons.prems [of op t v] g have "plain_value t" "hd (op_flags op) \<noteq> ''--''"
      "\<not> isl (classify_arg os (hd (op_flags op)))" by auto
    moreover from this(3) obtain k where "classify_arg os (hd (op_flags op)) = Inr k" by (cases "classify_arg os (hd (op_flags op))") auto
    ultimately show ?case
      using classify_value [OF assms(1), of t] plain_not_dashes [of t] g by (simp add: given_words_def)
  qed (simp add: given_words_def)
  then show thesis using that by blast
qed

section \<open>Attributes that may be given\<close>

definition opt_given :: "option_spec \<Rightarrow> ('a \<Rightarrow> string) \<Rightarrow> ('a \<Rightarrow> pyval) \<Rightarrow> 'a option \<Rightarrow> given list" where
  "opt_given op sh f x = (case x of None \<Rightarrow> [] | Some v \<Rightarrow> [(op, sh v, f v)])"

definition opt_words :: "string \<Rightarrow> ('a \<Rightarrow> string) \<Rightarrow> 'a option \<Rightarrow> string list" where
  "opt_words flag sh x = (case x of None \<Rightarrow> [] | Some v \<Rightarrow> [flag, sh v])"

definition opt_names :: "string \<Rightarrow> ('a \<Rightarrow> pyval) \<Rightarrow> 'a option \<Rightarrow> namespace" where
  "opt_names d f x = (case x of None \<Rightarrow> [] | Some v \<Rightarrow> [(d, f v)])"

lemma given_words_append: "given_words (gs @ hs) = given_words gs @ given_words hs"
  and given_names_append: "given_names (gs @ hs) = given_names gs @ given_names hs"
  by (simp_all add: given_words_def given_names_def)

lemma given_words_opt: "given_words (opt_given op sh f x) = opt_words (hd (op_flags op)) sh x"
  and given_names_opt: "given_names (opt_given op sh f x) = opt_names (op_dest op) f x"
  by (simp_all add: opt_given_def opt_words_def opt_names_def given_words_def given_names_def split: option.split)

lemma rev_opt_names [simp]: "rev (opt_names d f x) = opt_names d f x"
  by (simp add: opt_names_def split: option.split)

lemma opt_given_ok:
  "list_all (given_ok fl os) (opt_given op sh f x) \<longleftrightarrow> (\<forall>v. x = Some v \<longrightarrow> given_ok fl os (op, sh v, f v))"
  by (simp add: opt_given_def split: option.split)

lemma ns_get_Cons: "ns_get ((d, v) # ns) k = (if k = d then v else ns_get ns k)"
  and ns_get_opt: "ns_get (opt_names d f x @ ns) k = (if k = d then (case x of None \<Rightarrow> ns_get ns k | Some v \<Rightarrow> f v) else ns_get ns k)"
  by (simp_all add: ns_get_def opt_names_def split: option.split)

lemmas ns_lookup = ns_get_Cons ns_get_opt ns_int_def ns_float_def ns_str_def ns_flag_def

lemma spec_fields [simp]:
  "op_flags (opt flag kind v) = [flag]" "op_dest (opt flag kind v) = dest_of flag" "op_default (opt flag kind v) = v"
  "op_action (opt flag kind v) = Store kind None" "op_required (opt flag kind v) = False"
  "op_flags (with_choices cs op) = op_flags op" "op_dest (with_choices cs op) = op_dest op"
  "op_default (with_choices cs op) = op_default op" "op_required (with_choices cs op) = op_required op"
  "op_action (with_choices cs (opt flag kind v)) = Store kind (Some cs)"
  "op_flags (required_opt op) = op_flags op" "op_dest (required_opt op) = op_dest op"
  "op_default (required_opt op) = op_default op" "op_action (required_opt op) = op_action op" "op_required (required_opt op)"
  "op_flags (flag_opt flag) = [flag]" "op_dest (flag_opt flag) = dest_of flag" "op_default (flag_opt flag) = PBool False"
  "op_action (flag_opt flag) = Store_True" "op_required (flag_opt flag) = False"
  by (simp_all add: opt_def with_choices_def required_opt_def flag_opt_def split: action.split)

lemma sub_with_fields [simp]: "sp_options (sub_with os) = os" "sp_positional (sub_with os) = None"
  by (simp_all add: sub_with_def)

lemma str_int_plain [simp]: "plain_value (str_int i)"
proof (cases i rule: str_int_shape)
  case pos
  then show ?thesis using dec_nat_Cons [of "nat i"] digit_not_sign by (metis list.sel(1) plain_value_def)
next
  case neg
  then show ?thesis using dec_nat_digits [of "nat (- i)"]
    by (simp add: plain_value_def negative_number_def list_all_iff)
qed

lemma get_int: "get_value fl Int_Kind None (str_int i) = Inr (PInt i)" "get_value fl Int0_Kind None (str_int i) = Inr (PInt i)"
  and get_text: "get_value fl Text_Kind None s = Inr (PStr s)"
  and get_choice: "s \<in> set cs \<Longrightarrow> get_value fl Text_Kind (Some cs) s = Inr (PStr s)"
  and get_float: "float_of_string fl s = Finite x \<Longrightarrow> get_value fl Float_Kind None s = Inr (PFloat x)"
  by (simp_all add: get_value_def convert_text_def)

section \<open>What an accepted command line sets\<close>

text \<open>A value a declared option can be set to, and the attributes that options set.\<close>

definition option_fits :: "rounding \<Rightarrow> option_spec \<Rightarrow> pyval \<Rightarrow> bool" where
  "option_fits fl op v \<longleftrightarrow>
     (case op_action op of
        Store kind cs \<Rightarrow> \<exists>t. get_value fl kind cs t = Inr v
      | Store_True \<Rightarrow> v = PBool True
      | Show_Help \<Rightarrow> False)"

definition set_by :: "rounding \<Rightarrow> option_spec list \<Rightarrow> string \<times> pyval \<Rightarrow> bool" where
  "set_by fl os b \<longleftrightarrow> (\<exists>op \<in> set os. fst b = op_dest op \<and> option_fits fl op (snd b))"

fun allowed_arg :: "option_spec list \<Rightarrow> arg_class \<Rightarrow> bool" where
  "allowed_arg os (Flag_Arg (Some op) f e) \<longleftrightarrow> op \<in> set (help_option # os)"
| "allowed_arg os _ \<longleftrightarrow> True"

definition flags_from :: "option_spec list \<Rightarrow> classified \<Rightarrow> bool" where
  "flags_from os xs \<longleftrightarrow> (\<forall>x \<in> set xs. allowed_arg os (snd x))"

lemma flags_from_Cons [simp]: "flags_from os ((s, k) # xs) \<longleftrightarrow> allowed_arg os k \<and> flags_from os xs"
  by (simp add: flags_from_def)

lemma flags_from_subset: "flags_from os xs \<Longrightarrow> set ys \<subseteq> set xs \<Longrightarrow> flags_from os ys"
  by (auto simp: flags_from_def)

lemma flag_table_options: "(f, op) \<in> set (flag_table os) \<Longrightarrow> op \<in> set (help_option # os)"
  by (auto simp: flag_table_def)

lemma option_tuples_flags: "Flag_Arg (Some op) f e \<in> set (option_tuples table s) \<Longrightarrow> (f, op) \<in> set table"
  by (auto simp: option_tuples_def Let_def split: if_splits)

lemma classify_arg_flag:
  assumes "classify_arg os s = Inr k"
  shows "allowed_arg os k"
proof (cases k)
  case (Flag_Arg oa f e)
  have "op \<in> set (help_option # os)" if "oa = Some op" for op
  proof -
    from assms Flag_Arg that have "map_of (flag_table os) f = Some op \<or> option_tuples (flag_table os) s = [Flag_Arg (Some op) f e]"
      by (auto simp: classify_arg_def Let_def split: if_splits option.splits list.splits)
    then have "(f, op) \<in> set (flag_table os)"
      using option_tuples_flags [of op f e "flag_table os" s] by (auto dest: map_of_SomeD)
    then show ?thesis by (rule flag_table_options)
  qed
  then show ?thesis by (cases oa) (simp_all add: Flag_Arg)
qed simp_all

lemma classify_args_flags: "classify_args os ss = Inr xs \<Longrightarrow> flags_from os xs"
proof (induction ss arbitrary: xs)
  case (Cons s ss)
  show ?case
  proof (cases "s = ''--''")
    case False
    with Cons.prems obtain k ys where "classify_arg os s = Inr k" "classify_args os ss = Inr ys" "xs = (s, k) # ys"
      by (auto simp: bind_parse_Inr)
    with Cons.IH classify_arg_flag show ?thesis by simp
  qed (use Cons.prems in \<open>auto simp: flags_from_def\<close>)
qed (simp add: flags_from_def)

lemma consume_option_sets:
  assumes c: "consume_option fl s oa flag explicit rest = Inr (upd, n, ex)" and b: "b \<in> set upd"
    and oa: "allowed_arg os (Flag_Arg oa flag explicit)"
  shows "set_by fl os b"
proof (cases oa)
  case (Some op)
  with c b have "fst b = op_dest op" "option_fits fl op (snd b)"
    by (auto simp: consume_option_def option_fits_def bind_parse_Inr
      split: option.splits action.splits if_splits list.splits prod.splits arg_class.splits)
  moreover from this oa Some have "op \<in> set os" by (auto simp: option_fits_def help_option_def)
  ultimately show ?thesis by (auto simp: set_by_def)
qed (use c b in \<open>simp add: consume_option_def\<close>)

text \<open>
  What the loop relies on: the positional argument takes strings off the front and sets attributes in a way
  its owner knows.
\<close>

locale positional_arg =
  fixes fl :: rounding and pos :: positional_taker and taken :: "namespace \<Rightarrow> bool"
  assumes takes: "pos xs = Some (Inr (upd, rest, ex)) \<Longrightarrow> taken upd \<and> set rest \<subseteq> set xs"
begin

lemma loop_options:
  "parse_loop fl pos False xs ns ex = Inr (ns', av, ex') \<Longrightarrow> flags_from os xs \<Longrightarrow>
     \<not> av \<and> (\<exists>a. ns' = a @ ns \<and> (\<forall>b \<in> set a. set_by fl os b))"
proof (induction "length xs" arbitrary: xs ns ex rule: less_induct)
  case less
  show ?case
  proof (cases "list_ex (is_flag_arg \<circ> snd) xs")
    case False
    with less.prems show ?thesis by (subst (asm) parse_loop.simps) simp
  next
    case True
    then obtain s k xs' where xs: "xs = (s, k) # xs'" by (cases xs) auto
    show ?thesis
    proof (cases "is_flag_arg k")
      case True
      then obtain oa flag explicit where k: "k = Flag_Arg oa flag explicit" by (cases k) auto
      from less.prems(1) True k xs obtain upd n ex1 where
        c: "consume_option fl s oa flag explicit xs' = Inr (upd, n, ex1)"
        and rec: "parse_loop fl pos False (drop n xs') (upd @ ns) (ex @ ex1) = Inr (ns', av, ex')"
        by (subst (asm) parse_loop.simps) (auto split: sum.splits)
      have "flags_from os (drop n xs')" 
        using less.prems(2) xs by (auto elim!: flags_from_subset dest: in_set_dropD)
      from less.hyps [OF _ rec this] xs obtain a where a: "\<not> av" "ns' = a @ upd @ ns" "\<forall>b \<in> set a. set_by fl os b"
        by (auto simp: le_imp_less_Suc)
      moreover have "\<forall>b \<in> set upd. set_by fl os b"
        using consume_option_sets [OF c] less.prems(2) xs k by auto
      ultimately show ?thesis by (auto intro: exI [of _ "a @ upd"])
    next
      case False
      let ?ys = "dropWhile (Not \<circ> is_flag_arg \<circ> snd) xs"
      from less.prems(1) True False xs obtain ex1 where rec: "parse_loop fl pos False ?ys ns ex1 = Inr (ns', av, ex')"
        by (subst (asm) parse_loop.simps) (cases k; auto)
      have "flags_from os ?ys" 
        using less.prems(2) by (auto elim!: flags_from_subset dest: set_dropWhileD)
      with less.hyps [OF _ rec] False xs show ?thesis by (auto simp: le_imp_less_Suc length_dropWhile_le)
    qed
  qed
qed

lemma loop_taken:
  "parse_loop fl pos True xs ns ex = Inr (ns', False, ex') \<Longrightarrow> flags_from os xs \<Longrightarrow>
     \<exists>a upd b. ns' = a @ upd @ b @ ns \<and> taken upd \<and> (\<forall>x \<in> set a \<union> set b. set_by fl os x)"
proof (induction "length xs" arbitrary: xs ns ex rule: less_induct)
  case less
  have final: ?case
    if "pos xs = Some (Inr (upd, rest, ex1))" "parse_loop fl pos False rest (upd @ ns) ex2 = Inr (ns', False, ex')" for upd rest ex1 ex2
  proof -
    from takes [OF that(1)] less.prems(2) have "taken upd" "flags_from os rest" by (auto elim: flags_from_subset)
    with loop_options [OF that(2)] show ?thesis by (metis append_Nil empty_set Un_empty_right)
  qed
  show ?case
  proof (cases "list_ex (is_flag_arg \<circ> snd) xs")
    case False
    with less.prems(1) obtain upd rest ex1 where "pos xs = Some (Inr (upd, rest, ex1))" "ns' = upd @ ns"
      by (subst (asm) parse_loop.simps) (auto split: option.splits sum.splits)
    with takes show ?thesis by (metis append_Nil empty_iff empty_set Un_iff)
  next
    case True
    then obtain s k xs' where xs: "xs = (s, k) # xs'" by (cases xs) auto
    show ?thesis
    proof (cases "is_flag_arg k")
      case True
      then obtain oa flag explicit where k: "k = Flag_Arg oa flag explicit" by (cases k) auto
      from less.prems(1) True k xs obtain upd n ex1 where
        c: "consume_option fl s oa flag explicit xs' = Inr (upd, n, ex1)"
        and rec: "parse_loop fl pos True (drop n xs') (upd @ ns) (ex @ ex1) = Inr (ns', False, ex')"
        by (subst (asm) parse_loop.simps) (auto split: sum.splits)
      have "flags_from os (drop n xs')" 
        using less.prems(2) xs by (auto elim!: flags_from_subset dest: in_set_dropD)
      from less.hyps [OF _ rec this] xs obtain a t b where
        "ns' = a @ t @ b @ upd @ ns" "taken t" "\<forall>x \<in> set a \<union> set b. set_by fl os x"
        by (auto simp: le_imp_less_Suc)
      moreover have "\<forall>b \<in> set upd. set_by fl os b"
        using consume_option_sets [OF c] less.prems(2) xs k by auto
      ultimately show ?thesis by (intro exI [of _ a] exI [of _ t] exI [of _ "b @ upd"]) auto
    next
      case False
      let ?ys = "dropWhile (Not \<circ> is_flag_arg \<circ> snd) xs"
      have shorter: "length ?ys < length xs" using False xs by (simp add: le_imp_less_Suc length_dropWhile_le)
      have "flags_from os ?ys" 
        using less.prems(2) by (auto elim!: flags_from_subset dest: set_dropWhileD)
      moreover have split: "parse_loop fl pos True xs ns ex =
          (case pos xs of
             Some (Inl e) \<Rightarrow> Inl e
           | Some (Inr (upd, rest, ex1)) \<Rightarrow> parse_loop fl pos False rest (upd @ ns) (ex @ ex1)
           | None \<Rightarrow> parse_loop fl pos True ?ys ns (ex @ map fst (takeWhile (Not \<circ> is_flag_arg \<circ> snd) xs)))"
        using True False unfolding xs by (subst parse_loop_value) simp_all
      ultimately show ?thesis
      proof (cases "pos xs")
        case None
        with split less.prems(1) less.hyps [OF shorter] \<open>flags_from os ?ys\<close> show ?thesis by simp
      next
        case (Some r)
        with split less.prems(1) obtain upd rest ex1 where "r = Inr (upd, rest, ex1)"
          "parse_loop fl pos False rest (upd @ ns) (ex @ ex1) = Inr (ns', False, ex')"
          by (cases r) auto
        with Some final show ?thesis by blast
      qed
    qed
  qed
qed

end

interpretation nothing: positional_arg fl take_nothing "\<lambda>upd. False" for fl
  by unfold_locales (simp add: take_nothing_def)

interpretation single: positional_arg fl "take_value fl p"
    "\<lambda>upd. \<exists>v t. upd = [(po_dest p, v)] \<and> get_value fl (po_kind p) (po_choices p) t = Inr v" for fl p
  by unfold_locales
    (auto simp: take_value_def Let_def bind_parse_Inr split: list.splits prod.splits arg_class.splits)

interpretation command: positional_arg fl "take_command fl cs"
    "\<lambda>upd. \<exists>name sp args ns ex. map_of cs name = Some sp \<and> parse_sub fl sp args = Inr (ns, ex)
       \<and> upd = ns @ [(''command'', PStr name)]" for fl cs
  by unfold_locales
    (auto simp: take_command_def bind_parse_Inr split: list.splits prod.splits arg_class.splits option.splits; blast)

lemma parse_sub_options:
  assumes "parse_sub fl (sub_with os) args = Inr (ns, ex)"
  obtains a where "ns = a @ defaults_of os None" "\<forall>b \<in> set a. set_by fl os b" "\<not> missing_options os a"
  using assms classify_args_flags
  by (auto simp: parse_sub_def parse_known_def bind_parse_Inr split: if_splits dest!: nothing.loop_options)

lemma parse_sub_single:
  assumes "parse_sub fl \<lparr>sp_options = os, sp_positional = Some p\<rparr> args = Inr (ns, ex)"
  obtains a v t b where "ns = a @ (po_dest p, v) # b @ defaults_of os (Some p)" "\<forall>x \<in> set a \<union> set b. set_by fl os x"
    "get_value fl (po_kind p) (po_choices p) t = Inr v"
proof -
  from assms obtain xs m ex' where "classify_args os args = Inr xs"
    and loop: "parse_loop fl (take_value fl p) True xs [] [] = Inr (m, False, ex')" and ns: "ns = m @ defaults_of os (Some p)"
    by (auto simp: parse_sub_def parse_known_def bind_parse_Inr split: if_splits)
  from single.loop_taken [OF loop classify_args_flags [OF this(1)]] ns show thesis
    by (auto intro: that)
qed

lemma parse_args_command:
  assumes "parse_args fl pa argv = Inr ns"
  obtains a name sp args sub ex b where "map_of (pa_commands pa) name = Some sp" "parse_sub fl sp args = Inr (sub, ex)"
    "ns = a @ sub @ (''command'', PStr name) # b" "\<forall>x \<in> set a. set_by fl (pa_options pa) x"
proof -
  from assms obtain xs m ex' where "classify_args (pa_options pa) argv = Inr xs"
    and loop: "parse_loop fl (take_command fl (pa_commands pa)) True xs [] [] = Inr (m, False, ex')"
    and ns: "ns = m @ defaults_of (pa_options pa) None @ [(''command'', PNone)]"
    by (auto simp: parse_args_def parse_known_def bind_parse_Inr split: if_splits)
  from command.loop_taken [OF loop classify_args_flags [OF this(1)]] ns show thesis
    by (auto intro: that)
qed

lemma ns_get_skip: "k \<notin> fst ` set a \<Longrightarrow> ns_get (a @ m) k = ns_get m k"
  by (simp add: ns_get_def map_add_dom_app_simps(3) dom_map_of_conv_image_fst)

lemma set_by_names: "\<forall>b \<in> set a. set_by fl os b \<Longrightarrow> fst ` set a \<subseteq> op_dest ` set os"
  by (force simp: set_by_def)

text \<open>An attribute of an accepted command line is a value of its option or the default of it.\<close>

lemma option_value:
  assumes "\<forall>b \<in> set a. set_by fl os b" "op \<in> set os" "distinct (map op_dest os)"
  shows "option_fits fl op (ns_get (a @ defaults_of os p @ m) (op_dest op))
    \<or> ns_get (a @ defaults_of os p @ m) (op_dest op) = op_default op \<and> op_dest op \<notin> fst ` set a"
proof (cases "map_of a (op_dest op)")
  case (Some v)
  then have "set_by fl os (op_dest op, v)" using assms(1) by (auto dest: map_of_SomeD)
  then obtain op' where "op' \<in> set os" "op_dest op' = op_dest op" "option_fits fl op' v" by (auto simp: set_by_def)
  with assms(2,3) have "option_fits fl op v" by (metis distinct_map inj_onD)
  with Some show ?thesis by (simp add: ns_get_def)
next
  case None
  have "map_of (map (\<lambda>op. (op_dest op, op_default op)) os) (op_dest op) = Some (op_default op)"
    using assms(2,3) by (intro map_of_is_SomeI) (auto simp: comp_def)
  moreover have a: "op_dest op \<notin> fst ` set a" using None by (simp add: map_of_eq_None_iff)
  ultimately have "ns_get (defaults_of os p @ m) (op_dest op) = op_default op"
    by (simp add: ns_get_def defaults_of_def map_add_Some_iff [THEN iffD2])
  with a show ?thesis by (simp add: ns_get_skip)
qed

lemma choice_fits: "op_action op = Store Text_Kind (Some cs) \<Longrightarrow> option_fits fl op v \<Longrightarrow> \<exists>s \<in> set cs. v = PStr s"
  by (auto simp: option_fits_def get_value_def bind_parse_Inr split: if_splits)

lemma choice_value: "get_value fl kind (Some cs) t = Inr v \<Longrightarrow> \<exists>s \<in> set cs. v = PStr s"
  by (auto simp: get_value_def bind_parse_Inr split: if_splits)

end
