(* ===== verification/Command_Lines.thy ===== *)
theory Command_Lines
  imports Py_Argparse Stim_Cli Capture_Cli Remoteproc Pattern_Checks
begin

text \<open>
  The command lines as processes: the declarations of the parsers in \<open>hil_stim_cli.py\<close>, \<open>hil_sensor_cli.py\<close>,
  \<open>hil_pru_cli.py\<close>, \<open>hil_raw_cli.py\<close>, \<open>hil_pwm_cli.py\<close> (all in \<open>boards/beaglebone_black/host\<close>), \<open>pru0_ctl.py\<close> and
  \<open>pru1_ctl.py\<close> (in \<open>scripts\<close>) and \<open>tools/run_hil_suite.py\<close>, the command a parsed line stands for, and the exit code. Shown: every stimulus
  command can be written on a command line that is parsed back to it, and what an exit code says.
\<close>

section \<open>Processes\<close>

text \<open>
  How a process ends: with an exit code (the argument of \<open>SystemExit\<close>) and what it printed last (nothing after an error or for \<open>--help\<close>),
  not at all within the fuel given, or on an argument outside the model of floats.
\<close>

datatype 'r process_end = Exited int "'r option" | Running | Beyond_Model

text \<open>
  \<open>raise SystemExit(main())\<close> under \<open>except Exception\<close>. The exits of \<open>argparse\<close> are no \<open>Exception\<close> and pass.
\<close>

definition run_process ::
    "parse_stop + namespace \<Rightarrow> (namespace \<Rightarrow> ('w, ('r \<times> int) option) io) \<Rightarrow> 'w \<Rightarrow> 'r process_end \<times> 'w" where
  "run_process parsed main w =
     (case parsed of
        Inl Usage_Error \<Rightarrow> (Exited 2 None, w)
      | Inl Help_Shown \<Rightarrow> (Exited 0 None, w)
      | Inl Not_Finite \<Rightarrow> (Beyond_Model, w)
      | Inr ns \<Rightarrow>
          (case main ns w of
             (Inl e, w') \<Rightarrow> (Exited 1 None, w')
           | (Inr None, w') \<Rightarrow> (Running, w')
           | (Inr (Some (result, code)), w') \<Rightarrow> (Exited code (Some result), w')))"

definition finished :: "('w, 'a) io \<Rightarrow> ('w, 'a option) io" where
  "finished m = bind_io m (\<lambda>x. return_io (Some x))"

text \<open>Attributes whose declaration has a default or is required.\<close>

definition text_arg :: "namespace \<Rightarrow> string \<Rightarrow> string" where
  "text_arg ns k = (case ns_get ns k of PStr s \<Rightarrow> s | _ \<Rightarrow> [])"

definition int_arg :: "namespace \<Rightarrow> string \<Rightarrow> int" where
  "int_arg ns k = (case ns_get ns k of PInt i \<Rightarrow> i | _ \<Rightarrow> 0)"

definition float_arg :: "namespace \<Rightarrow> string \<Rightarrow> rat" where
  "float_arg ns k = (case ns_get ns k of PFloat x \<Rightarrow> x | _ \<Rightarrow> 0)"

definition DEVICE_OPTIONS :: "option_spec list" where
  "DEVICE_OPTIONS = [opt ''--device'' Text_Kind PNone, opt ''--timeout-ms'' Int_Kind (PInt 1000)]"

section \<open>The stimulus command line\<close>

definition DIRECTIONS :: "string list" where "DIRECTIONS = [''forward'', ''reverse'']"

definition rate_options :: "option_spec list" where
  "rate_options =
     [opt ''--transition-ticks'' Int_Kind PNone, opt ''--transition-hz'' Float_Kind PNone,
      opt ''--rpm'' Float_Kind PNone, opt ''--ppr'' Int_Kind PNone]"

definition apply_options :: "option_spec list" where
  "apply_options = [opt ''--apply-ticks'' Int0_Kind PNone, opt ''--after-us'' Float_Kind PNone]"

definition stim_config_spec :: sub_spec where
  "stim_config_spec = sub_with
     (rate_options @
      [with_choices DIRECTIONS (opt ''--direction'' Text_Kind (PStr ''forward'')),
       opt ''--initial-phase'' Int_Kind (PInt 0), opt ''--index-period-transitions'' Int_Kind PNone,
       opt ''--index-width-transitions'' Int_Kind (PInt 1)])"

definition stim_direction_spec :: sub_spec where
  "stim_direction_spec =
     \<lparr>sp_options = [],
      sp_positional = Some \<lparr>po_dest = ''value'', po_kind = Text_Kind, po_choices = Some DIRECTIONS\<rparr>\<rparr>"

definition stim_schedule_spec :: sub_spec where
  "stim_schedule_spec = sub_with
     (apply_options @ rate_options @ [with_choices DIRECTIONS (opt ''--direction'' Text_Kind PNone)])"

definition stim_hall_config_spec :: sub_spec where
  "stim_hall_config_spec = sub_with
     (rate_options @
      [with_choices DIRECTIONS (opt ''--direction'' Text_Kind (PStr ''forward'')),
       opt ''--initial-step'' Int_Kind (PInt 0)])"

definition STIM_PARSER :: parser_spec where
  "STIM_PARSER =
     \<lparr>pa_options = DEVICE_OPTIONS,
      pa_commands =
        [(''hello'', sub_with []), (''start'', sub_with []), (''stop'', sub_with []), (''status'', sub_with []),
         (''safe'', sub_with []), (''config'', stim_config_spec), (''direction'', stim_direction_spec),
         (''arm'', sub_with apply_options), (''schedule'', stim_schedule_spec), (''scheduler-status'', sub_with []),
         (''hall-config'', stim_hall_config_spec), (''hall-start'', sub_with []), (''hall-stop'', sub_with []),
         (''hall-status'', sub_with [])]\<rparr>"

definition rate_args_of :: "namespace \<Rightarrow> rate_args" where
  "rate_args_of ns =
     \<lparr>ra_transition_ticks = ns_int ns ''transition_ticks'', ra_transition_hz = ns_float ns ''transition_hz'',
      ra_rpm = ns_float ns ''rpm'', ra_ppr = ns_int ns ''ppr''\<rparr>"

definition stim_command_of :: "namespace \<Rightarrow> stim_command" where
  "stim_command_of ns =
     (let command = text_arg ns ''command'' in
      if command = ''hello'' then Stim_Hello
      else if command = ''config'' then
        Stim_Config (rate_args_of ns) (text_arg ns ''direction'') (int_arg ns ''initial_phase'')
          (ns_int ns ''index_period_transitions'') (int_arg ns ''index_width_transitions'')
      else if command = ''start'' then Stim_Start
      else if command = ''stop'' then Stim_Stop
      else if command = ''status'' then Stim_Status
      else if command = ''direction'' then Stim_Direction (text_arg ns ''value'')
      else if command = ''arm'' then Stim_Arm (ns_int ns ''apply_ticks'') (ns_float ns ''after_us'')
      else if command = ''schedule'' then
        Stim_Schedule (ns_int ns ''apply_ticks'') (ns_float ns ''after_us'') (rate_args_of ns) (ns_str ns ''direction'')
      else if command = ''scheduler-status'' then Stim_Scheduler_Status
      else if command = ''hall-config'' then
        Stim_Hall_Config (rate_args_of ns) (text_arg ns ''direction'') (int_arg ns ''initial_step'')
      else if command = ''hall-start'' then Stim_Hall_Start
      else if command = ''hall-stop'' then Stim_Hall_Stop
      else if command = ''hall-status'' then Stim_Hall_Status
      else Stim_Safe)"

definition stim_process ::
    "rounding \<Rightarrow> 'w rpmsg_os \<Rightarrow> (string \<Rightarrow> bool) \<Rightarrow> string list \<Rightarrow> string list \<Rightarrow> 'w
      \<Rightarrow> (string \<times> pyval) list process_end \<times> 'w" where
  "stim_process fl D can_open globbed argv =
     run_process (parse_args fl STIM_PARSER argv)
       (\<lambda>ns. finished (stim_main fl D can_open globbed (ns_str ns ''device'') (int_arg ns ''timeout_ms'') (stim_command_of ns)))"

section \<open>The sensor command line\<close>

definition SENSOR_PARSER :: parser_spec where
  "SENSOR_PARSER =
     \<lparr>pa_options = DEVICE_OPTIONS,
      pa_commands =
        [(''hello'', sub_with []),
         (''config'', sub_with
            [required_opt (with_choices (map fst MODE_BY_NAME) (opt ''--mode'' Text_Kind PNone)),
             required_opt (opt ''--bits'' Int_Kind PNone), opt ''--gap-us'' Float_Kind (PFloat 1)]),
         (''data'', sub_with
            [required_opt (opt ''--value'' Int0_Kind PNone), opt ''--fault-mask'' Int0_Kind (PInt 0),
             flag_opt ''--fault-enable'', flag_opt ''--error-active'', flag_opt ''--warning-active'',
             opt ''--preview-biss-bits'' Int_Kind PNone]),
         (''start'', sub_with []), (''stop'', sub_with []), (''status'', sub_with []), (''safe'', sub_with [])]\<rparr>"

definition sensor_command_of :: "namespace \<Rightarrow> sensor_command" where
  "sensor_command_of ns =
     (let command = text_arg ns ''command'' in
      if command = ''hello'' then Sensor_Hello
      else if command = ''config'' then
        Sensor_Config (text_arg ns ''mode'') (int_arg ns ''bits'') (float_arg ns ''gap_us'')
      else if command = ''data'' then
        Sensor_Data \<lparr>da_value = int_arg ns ''value'', da_fault_mask = int_arg ns ''fault_mask'',
          da_fault_enable = ns_flag ns ''fault_enable'', da_error_active = ns_flag ns ''error_active'',
          da_warning_active = ns_flag ns ''warning_active'', da_preview_biss_bits = ns_int ns ''preview_biss_bits''\<rparr>
      else if command = ''start'' then Sensor_Start
      else if command = ''stop'' then Sensor_Stop
      else if command = ''status'' then Sensor_Status
      else Sensor_Safe)"

definition sensor_process ::
    "rounding \<Rightarrow> 'w rpmsg_os \<Rightarrow> (string \<Rightarrow> bool) \<Rightarrow> string list \<Rightarrow> string list \<Rightarrow> 'w
      \<Rightarrow> (string \<times> pyval) list process_end \<times> 'w" where
  "sensor_process fl D can_open globbed argv =
     run_process (parse_args fl SENSOR_PARSER argv)
       (\<lambda>ns. finished (sensor_main fl D can_open globbed (ns_str ns ''device'') (int_arg ns ''timeout_ms'')
          (sensor_command_of ns)))"

section \<open>The command lines of PRU0\<close>

definition loopback_options :: "option_spec list" where
  "loopback_options =
     [opt ''--delay-us'' Float_Kind (PFloat 1000), opt ''--width-us'' Float_Kind (PFloat 1000),
      opt ''--timeout-us'' Float_Kind (PFloat 5000)]"

definition PRU_PARSER :: parser_spec where
  "PRU_PARSER =
     \<lparr>pa_options = DEVICE_OPTIONS,
      pa_commands =
        [(''hello'', sub_with []), (''time'', sub_with []), (''ping'', sub_with []), (''safe'', sub_with []),
         (''loopback'', sub_with loopback_options),
         (''bench-loopback'', sub_with
            ([opt ''--count'' Int_Kind (PInt 1000), opt ''--warmup'' Int_Kind (PInt 10)] @ loopback_options))]\<rparr>"

definition loopback_times_of :: "namespace \<Rightarrow> loopback_times" where
  "loopback_times_of ns =
     \<lparr>lt_delay_us = float_arg ns ''delay_us'', lt_width_us = float_arg ns ''width_us'',
      lt_timeout_us = float_arg ns ''timeout_us''\<rparr>"

definition pru_command_of :: "namespace \<Rightarrow> pru_command" where
  "pru_command_of ns =
     (let command = text_arg ns ''command'' in
      if command = ''hello'' then Pru_Hello
      else if command = ''time'' then Pru_Time
      else if command = ''ping'' then Pru_Ping
      else if command = ''safe'' then Pru_Safe
      else if command = ''loopback'' then Pru_Loopback (loopback_times_of ns)
      else Pru_Bench (int_arg ns ''count'') (int_arg ns ''warmup'') (loopback_times_of ns))"

definition pru_process ::
    "rounding \<Rightarrow> rounding \<Rightarrow> ('w, int) io \<Rightarrow> 'w rpmsg_os \<Rightarrow> (string \<Rightarrow> bool) \<Rightarrow> string list \<Rightarrow> string list \<Rightarrow> 'w
      \<Rightarrow> pru_result process_end \<times> 'w" where
  "pru_process fl fl_sqrt clock_ns D path_exists globbed argv =
     run_process (parse_args fl PRU_PARSER argv)
       (\<lambda>ns. finished (pru_main fl fl_sqrt clock_ns D path_exists globbed (ns_str ns ''device'')
          (int_arg ns ''timeout_ms'') (pru_command_of ns)))"

text \<open>Raw edges.\<close>

definition RAW_PARSER :: parser_spec where
  "RAW_PARSER =
     \<lparr>pa_options = DEVICE_OPTIONS,
      pa_commands =
        [(''hello'', sub_with []),
         (''config'', sub_with [opt ''--event-limit'' Int_Kind (PInt (int RAW_CAPACITY))]),
         (''clear'', sub_with []), (''start'', sub_with []), (''stop'', sub_with []), (''status'', sub_with []),
         (''dump'', sub_with [opt ''--limit'' Int_Kind (PInt 32)]),
         (''analyze'', sub_with [opt ''--min-deadtime-ns'' Float_Kind (PFloat 0)]),
         (''capture'', sub_with
            [opt ''--event-limit'' Int_Kind (PInt (int RAW_CAPACITY)), opt ''--settle-ms'' Float_Kind (PFloat 100),
             opt ''--min-deadtime-ns'' Float_Kind (PFloat 0)])]\<rparr>"

definition raw_command_of :: "namespace \<Rightarrow> raw_command" where
  "raw_command_of ns =
     (let command = text_arg ns ''command'' in
      if command = ''dump'' then Raw_Dump (int_arg ns ''limit'')
      else if command = ''analyze'' then Raw_Analyze (float_arg ns ''min_deadtime_ns'')
      else if command = ''hello'' then Raw_Hello
      else if command = ''config'' then Raw_Config (int_arg ns ''event_limit'')
      else if command = ''clear'' then Raw_Clear
      else if command = ''start'' then Raw_Start
      else if command = ''stop'' then Raw_Stop
      else if command = ''status'' then Raw_Status
      else Raw_Bounded (int_arg ns ''event_limit'') (float_arg ns ''settle_ms'') (float_arg ns ''min_deadtime_ns''))"

definition raw_process ::
    "rounding \<Rightarrow> ('w \<times> (int list \<times> nat)) rpmsg_os \<Rightarrow> (rat \<Rightarrow> ('w \<times> (int list \<times> nat), unit) io)
      \<Rightarrow> (int list \<times> nat, raw_shared) io \<Rightarrow> (string \<Rightarrow> bool) \<Rightarrow> string list \<Rightarrow> string list
      \<Rightarrow> 'w \<times> (int list \<times> nat) \<Rightarrow> raw_result process_end \<times> ('w \<times> (int list \<times> nat))" where
  "raw_process fl D sleep read_frozen path_exists globbed argv =
     run_process (parse_args fl RAW_PARSER argv)
       (\<lambda>ns. finished (raw_main fl D sleep read_frozen path_exists globbed (ns_str ns ''device'')
          (int_arg ns ''timeout_ms'') (raw_command_of ns)))"

text \<open>PWM summaries; the snapshot and the watch loop never open the device.\<close>

definition PWM_PARSER :: parser_spec where
  "PWM_PARSER =
     \<lparr>pa_options = DEVICE_OPTIONS,
      pa_commands =
        [(''config'', sub_with [opt ''--min-deadtime-ns'' Float_Kind (PFloat 700)]),
         (''start'', sub_with []), (''stop'', sub_with []), (''clear'', sub_with []), (''status'', sub_with []),
         (''snapshot'', sub_with [opt ''--ring-limit'' Int_Kind (PInt 16)]),
         (''watch'', sub_with
            [opt ''--interval-ms'' Float_Kind (PFloat 100), opt ''--ring-limit'' Int_Kind (PInt 0),
             opt ''--count'' Int_Kind (PInt 0)])]\<rparr>"

definition pwm_command_of :: "namespace \<Rightarrow> pwm_command" where
  "pwm_command_of ns =
     (let command = text_arg ns ''command'' in
      if command = ''config'' then Pwm_Config (float_arg ns ''min_deadtime_ns'')
      else if command = ''start'' then Pwm_Start
      else if command = ''stop'' then Pwm_Stop
      else if command = ''clear'' then Pwm_Clear
      else Pwm_Status)"

definition pwm_process ::
    "nat \<Rightarrow> rounding \<Rightarrow> 'w rpmsg_os \<Rightarrow> (int \<Rightarrow> ('w, pwm_shared) io) \<Rightarrow> ((string \<times> pyval) list \<Rightarrow> ('w, unit) io)
      \<Rightarrow> (rat \<Rightarrow> ('w, unit) io) \<Rightarrow> (string \<Rightarrow> bool) \<Rightarrow> string list \<Rightarrow> string list \<Rightarrow> 'w
      \<Rightarrow> (string \<times> pyval) list process_end \<times> 'w" where
  "pwm_process fuel fl D read_snapshot print sleep path_exists globbed argv =
     run_process (parse_args fl PWM_PARSER argv)
       (\<lambda>ns.
         if text_arg ns ''command'' = ''snapshot'' then
           finished (bind_io (pwm_snapshot fl read_snapshot (int_arg ns ''ring_limit'')) (\<lambda>r. return_io (r, 0)))
         else if text_arg ns ''command'' = ''watch'' then
           bind_io (pwm_watch fuel fl read_snapshot print sleep (float_arg ns ''interval_ms'')
               (int_arg ns ''ring_limit'') (int_arg ns ''count''))
             (\<lambda>code. return_io (map_option (\<lambda>c. ([], c)) code))
         else
           finished (pwm_device_main fl D path_exists globbed (ns_str ns ''device'') (int_arg ns ''timeout_ms'')
             (pwm_command_of ns)))"

section \<open>The remoteproc scripts\<close>

text \<open>The conversion \<open>Path\<close> never fails; it is applied where the argument is used.\<close>

definition ctl_parser :: "string \<Rightarrow> parser_spec" where
  "ctl_parser firmware_name =
     \<lparr>pa_options =
        [opt ''--remoteproc'' Text_Kind PNone, opt ''--firmware-name'' Text_Kind (PStr firmware_name)],
      pa_commands =
        [(''status'', sub_with []), (''start'', sub_with []), (''stop'', sub_with []),
         (''deploy'', \<lparr>sp_options = [opt ''--wait-rpmsg'' Float_Kind (PFloat 2)],
            sp_positional = Some \<lparr>po_dest = ''firmware'', po_kind = Text_Kind, po_choices = None\<rparr>\<rparr>)]\<rparr>"

definition PRU0_FIRMWARE_NAME :: string where "PRU0_FIRMWARE_NAME = ''am335x-pru0-fw''"
definition PRU1_FIRMWARE_NAME :: string where "PRU1_FIRMWARE_NAME = ''am335x-pru1-fw''"

definition PRU0_CTL_PARSER :: parser_spec where "PRU0_CTL_PARSER = ctl_parser PRU0_FIRMWARE_NAME"
definition PRU1_CTL_PARSER :: parser_spec where "PRU1_CTL_PARSER = ctl_parser PRU1_FIRMWARE_NAME"

definition ctl_command_of :: "namespace \<Rightarrow> ctl_command" where
  "ctl_command_of ns =
     (let command = text_arg ns ''command'' in
      if command = ''status'' then Ctl_Status
      else if command = ''start'' then Ctl_Start
      else if command = ''stop'' then Ctl_Stop
      else Ctl_Deploy (pathlib (text_arg ns ''firmware'')) (text_arg ns ''firmware_name'') (float_arg ns ''wait_rpmsg''))"

definition ctl_process ::
    "(string option \<Rightarrow> ctl_command \<Rightarrow> nat \<Rightarrow> ('w, string list option) io) \<Rightarrow> rounding \<Rightarrow> parser_spec \<Rightarrow> nat
      \<Rightarrow> string list \<Rightarrow> 'w \<Rightarrow> string list process_end \<times> 'w" where
  "ctl_process main fl parser fuel argv =
     run_process (parse_args fl parser argv)
       (\<lambda>ns. bind_io (main (ns_str ns ''remoteproc'') (ctl_command_of ns) fuel)
          (\<lambda>printed. return_io (map_option (\<lambda>lines. (lines, 0)) printed)))"

definition pru0_ctl_process ::
    "rounding \<Rightarrow> 'w fs_api \<Rightarrow> nat \<Rightarrow> string list \<Rightarrow> 'w \<Rightarrow> string list process_end \<times> 'w" where
  "pru0_ctl_process fl F = ctl_process (pru0_ctl_main fl F) fl PRU0_CTL_PARSER"

definition pru1_ctl_process ::
    "rounding \<Rightarrow> 'w fs_api \<Rightarrow> nat \<Rightarrow> string list \<Rightarrow> 'w \<Rightarrow> string list process_end \<times> 'w" where
  "pru1_ctl_process fl F = ctl_process (pru1_ctl_main fl F) fl PRU1_CTL_PARSER"

section \<open>The launcher of the hardware tests\<close>

text \<open>A parser without subcommands.\<close>

definition SUITE_SPEC :: sub_spec where
  "SUITE_SPEC =
     \<lparr>sp_options = [opt ''--junitxml'' Text_Kind (PStr ''build/hil-junit.xml'')],
      sp_positional = Some \<lparr>po_dest = ''resource_json'', po_kind = Text_Kind, po_choices = None\<rparr>\<rparr>"

definition parse_plain :: "rounding \<Rightarrow> sub_spec \<Rightarrow> string list \<Rightarrow> parse_stop + namespace" where
  "parse_plain fl sp argv =
     bind_parse (parse_sub fl sp argv) (\<lambda>(ns, extras). if extras \<noteq> [] then Inl Usage_Error else Inr ns)"

definition suite_process ::
    "rounding \<Rightarrow> (string list \<Rightarrow> ('w, int) io) \<Rightarrow> string \<Rightarrow> string list \<Rightarrow> 'w \<Rightarrow> unit process_end \<times> 'w" where
  "suite_process fl subprocess_call executable argv =
     run_process (parse_plain fl SUITE_SPEC argv)
       (\<lambda>ns. finished (bind_io (run_hil_suite subprocess_call executable (text_arg ns ''resource_json'') (text_arg ns ''junitxml''))
          (\<lambda>code. return_io ((), code))))"

section \<open>Commands written on a command line\<close>

text \<open>\<open>ft\<close> writes a float.\<close>

definition rate_words :: "(rat \<Rightarrow> string) \<Rightarrow> rate_args \<Rightarrow> string list" where
  "rate_words ft a =
     opt_words ''--transition-ticks'' str_int (ra_transition_ticks a) @ opt_words ''--transition-hz'' ft (ra_transition_hz a)
     @ opt_words ''--rpm'' ft (ra_rpm a) @ opt_words ''--ppr'' str_int (ra_ppr a)"

definition apply_words :: "(rat \<Rightarrow> string) \<Rightarrow> int option \<Rightarrow> rat option \<Rightarrow> string list" where
  "apply_words ft t us = opt_words ''--apply-ticks'' str_int t @ opt_words ''--after-us'' ft us"

fun stim_words :: "(rat \<Rightarrow> string) \<Rightarrow> stim_command \<Rightarrow> string list" where
  "stim_words ft Stim_Hello = [''hello'']"
| "stim_words ft (Stim_Config a direction phase period width) =
     ''config'' # rate_words ft a @ [''--direction'', direction, ''--initial-phase'', str_int phase]
     @ opt_words ''--index-period-transitions'' str_int period @ [''--index-width-transitions'', str_int width]"
| "stim_words ft Stim_Start = [''start'']"
| "stim_words ft Stim_Stop = [''stop'']"
| "stim_words ft Stim_Status = [''status'']"
| "stim_words ft (Stim_Direction v) = [''direction'', v]"
| "stim_words ft (Stim_Arm t us) = ''arm'' # apply_words ft t us"
| "stim_words ft (Stim_Schedule t us a direction) =
     ''schedule'' # apply_words ft t us @ rate_words ft a @ opt_words ''--direction'' id direction"
| "stim_words ft Stim_Scheduler_Status = [''scheduler-status'']"
| "stim_words ft (Stim_Hall_Config a direction initial_step) =
     ''hall-config'' # rate_words ft a @ [''--direction'', direction, ''--initial-step'', str_int initial_step]"
| "stim_words ft Stim_Hall_Start = [''hall-start'']"
| "stim_words ft Stim_Hall_Stop = [''hall-stop'']"
| "stim_words ft Stim_Hall_Status = [''hall-status'']"
| "stim_words ft Stim_Safe = [''safe'']"

definition device_words :: "string option \<Rightarrow> int \<Rightarrow> string list" where
  "device_words device timeout_ms = opt_words ''--device'' id device @ [''--timeout-ms'', str_int timeout_ms]"

definition rate_floats :: "rate_args \<Rightarrow> rat set" where
  "rate_floats a = set_option (ra_transition_hz a) \<union> set_option (ra_rpm a)"

text \<open>What the parser can tell: directions by name, floats that are written so that they are read back.\<close>

definition writes_float :: "rounding \<Rightarrow> (rat \<Rightarrow> string) \<Rightarrow> rat \<Rightarrow> bool" where
  "writes_float fl ft x \<longleftrightarrow> float_of_string fl (ft x) = Finite x \<and> plain_value (ft x)"

fun stim_sayable :: "rounding \<Rightarrow> (rat \<Rightarrow> string) \<Rightarrow> stim_command \<Rightarrow> bool" where
  "stim_sayable fl ft (Stim_Config a direction phase period width) \<longleftrightarrow>
     direction \<in> set DIRECTIONS \<and> (\<forall>x \<in> rate_floats a. writes_float fl ft x)"
| "stim_sayable fl ft (Stim_Direction v) \<longleftrightarrow> v \<in> set DIRECTIONS"
| "stim_sayable fl ft (Stim_Arm t us) \<longleftrightarrow> (\<forall>x \<in> set_option us. writes_float fl ft x)"
| "stim_sayable fl ft (Stim_Schedule t us a direction) \<longleftrightarrow>
     set_option direction \<subseteq> set DIRECTIONS \<and> (\<forall>x \<in> set_option us \<union> rate_floats a. writes_float fl ft x)"
| "stim_sayable fl ft (Stim_Hall_Config a direction initial_step) \<longleftrightarrow>
     direction \<in> set DIRECTIONS \<and> (\<forall>x \<in> rate_floats a. writes_float fl ft x)"
| "stim_sayable fl ft _ \<longleftrightarrow> True"

text \<open>The same words as options with their declarations.\<close>

definition rate_given :: "(rat \<Rightarrow> string) \<Rightarrow> rate_args \<Rightarrow> given list" where
  "rate_given ft a =
     opt_given (opt ''--transition-ticks'' Int_Kind PNone) str_int PInt (ra_transition_ticks a)
     @ opt_given (opt ''--transition-hz'' Float_Kind PNone) ft PFloat (ra_transition_hz a)
     @ opt_given (opt ''--rpm'' Float_Kind PNone) ft PFloat (ra_rpm a)
     @ opt_given (opt ''--ppr'' Int_Kind PNone) str_int PInt (ra_ppr a)"

definition apply_given :: "(rat \<Rightarrow> string) \<Rightarrow> int option \<Rightarrow> rat option \<Rightarrow> given list" where
  "apply_given ft t us =
     opt_given (opt ''--apply-ticks'' Int0_Kind PNone) str_int PInt t
     @ opt_given (opt ''--after-us'' Float_Kind PNone) ft PFloat us"

definition direction_given :: "pyval \<Rightarrow> string option \<Rightarrow> given list" where
  "direction_given dflt d = opt_given (with_choices DIRECTIONS (opt ''--direction'' Text_Kind dflt)) id PStr d"

fun stim_given :: "(rat \<Rightarrow> string) \<Rightarrow> stim_command \<Rightarrow> given list" where
  "stim_given ft (Stim_Config a direction phase period width) =
     rate_given ft a @ direction_given (PStr ''forward'') (Some direction)
     @ opt_given (opt ''--initial-phase'' Int_Kind (PInt 0)) str_int PInt (Some phase)
     @ opt_given (opt ''--index-period-transitions'' Int_Kind PNone) str_int PInt period
     @ opt_given (opt ''--index-width-transitions'' Int_Kind (PInt 1)) str_int PInt (Some width)"
| "stim_given ft (Stim_Arm t us) = apply_given ft t us"
| "stim_given ft (Stim_Schedule t us a direction) = apply_given ft t us @ rate_given ft a @ direction_given PNone direction"
| "stim_given ft (Stim_Hall_Config a direction initial_step) =
     rate_given ft a @ direction_given (PStr ''forward'') (Some direction)
     @ opt_given (opt ''--initial-step'' Int_Kind (PInt 0)) str_int PInt (Some initial_step)"
| "stim_given ft _ = []"

definition device_given :: "string option \<Rightarrow> int \<Rightarrow> given list" where
  "device_given device timeout_ms =
     opt_given (opt ''--device'' Text_Kind PNone) id PStr device
     @ opt_given (opt ''--timeout-ms'' Int_Kind (PInt 1000)) str_int PInt (Some timeout_ms)"

lemmas given_defs = rate_given_def apply_given_def direction_given_def device_given_def

lemma stim_words_given:
  "(\<And>v. c \<noteq> Stim_Direction v) \<Longrightarrow> tl (stim_words ft c) = given_words (stim_given ft c)"
  by (cases c) (auto simp: given_defs given_words_append given_words_opt rate_words_def apply_words_def opt_words_def
      given_words_def [of "[]"])

lemma device_words_given: "device_words device timeout_ms = given_words (device_given device timeout_ms)"
  by (simp add: device_words_def given_defs given_words_append given_words_opt opt_words_def)

text \<open>The subcommand of a stimulus command.\<close>

definition stim_spec :: "stim_command \<Rightarrow> sub_spec" where
  "stim_spec c = the (map_of (pa_commands STIM_PARSER) (hd (stim_words (\<lambda>_. []) c)))"

lemma stim_head: "hd (stim_words ft c) = hd (stim_words (\<lambda>_. []) c)"
  by (cases c) simp_all

lemma stim_spec_found: "map_of (pa_commands STIM_PARSER) (hd (stim_words ft c)) = Some (stim_spec c)"
  by (cases c) (simp_all add: stim_spec_def STIM_PARSER_def)

lemma option_sets_long:
  "long_options DEVICE_OPTIONS" "long_options (sp_options (stim_spec c))"
  by (simp add: long_options_def DEVICE_OPTIONS_def)
    (cases c; simp add: long_options_def stim_spec_def STIM_PARSER_def stim_config_spec_def stim_direction_spec_def
      stim_schedule_spec_def stim_hall_config_spec_def rate_options_def apply_options_def)

lemma stim_given_ok:
  assumes "stim_sayable fl ft c"
  shows "list_all (given_ok fl (sp_options (stim_spec c))) (stim_given ft c)"
  using assms
  by (cases c) (auto simp: stim_spec_def STIM_PARSER_def stim_config_spec_def stim_direction_spec_def
      stim_schedule_spec_def stim_hall_config_spec_def rate_options_def apply_options_def given_defs opt_given_ok
      given_ok_def flag_table_def help_option_def get_int get_text get_choice get_float writes_float_def rate_floats_def
      DIRECTIONS_def plain_value_def [of "_ # _"])
lemma stim_flags_foreign:
  "list_all (\<lambda>f. \<not> isl (classify_arg DEVICE_OPTIONS f))
     [''--transition-ticks'', ''--transition-hz'', ''--rpm'', ''--ppr'', ''--direction'', ''--initial-phase'',
      ''--index-period-transitions'', ''--index-width-transitions'', ''--apply-ticks'', ''--after-us'', ''--initial-step'']"
  by code_simp

lemma stim_given_foreign:
  assumes "stim_sayable fl ft c"
  obtains xs where "classify_args DEVICE_OPTIONS (given_words (stim_given ft c)) = Inr xs"
    "map fst xs = given_words (stim_given ft c)"
proof (rule classify_foreign [OF option_sets_long(1), of "stim_given ft c"])
  fix op t v
  assume g: "(op, t, v) \<in> set (stim_given ft c)"
  from stim_given_ok [OF assms] g have "plain_value t" "hd (op_flags op) \<noteq> ''--''"
    by (auto simp: list_all_iff given_ok_def)
  moreover have "\<not> isl (classify_arg DEVICE_OPTIONS (hd (op_flags op)))"
    using g stim_flags_foreign [unfolded list.pred_inject]
    by (cases c) (auto simp: given_defs opt_given_def split: option.splits)
  ultimately show "plain_value t \<and> hd (op_flags op) \<noteq> ''--'' \<and> \<not> isl (classify_arg DEVICE_OPTIONS (hd (op_flags op)))"
    by blast
qed

lemma stim_tail_foreign:
  assumes "stim_sayable fl ft c"
  obtains xs where "classify_args DEVICE_OPTIONS (tl (stim_words ft c)) = Inr xs" "map fst xs = tl (stim_words ft c)"
proof (cases "\<exists>v. c = Stim_Direction v")
  case True
  then obtain v where c: "c = Stim_Direction v" by blast
  with assms have "plain_value v" by (auto simp: DIRECTIONS_def plain_value_def)
  from classify_value [OF option_sets_long(1) this] plain_not_dashes [OF this] c show thesis
    by (intro that [of "[(v, Value_Arg)]"]) simp_all
next
  case False
  then have "tl (stim_words ft c) = given_words (stim_given ft c)" by (intro stim_words_given) blast
  then show thesis using stim_given_foreign [OF assms] that by metis
qed

lemma device_given_ok:
  "(\<And>d. device = Some d \<Longrightarrow> plain_value d) \<Longrightarrow> list_all (given_ok fl DEVICE_OPTIONS) (device_given device timeout_ms)"
  by (auto simp: DEVICE_OPTIONS_def given_defs opt_given_ok given_ok_def flag_table_def help_option_def get_int get_text)

text \<open>What the subparser sets.\<close>

definition stim_names :: "(rat \<Rightarrow> string) \<Rightarrow> stim_command \<Rightarrow> namespace" where
  "stim_names ft c =
     (case c of
        Stim_Direction v \<Rightarrow> [(''value'', PStr v), (''value'', PNone)]
      | _ \<Rightarrow> rev (given_names (stim_given ft c)) @ defaults_of (sp_options (stim_spec c)) None)"

lemma stim_spec_plain: "(\<And>v. c \<noteq> Stim_Direction v) \<Longrightarrow> stim_spec c = sub_with (sp_options (stim_spec c))"
  by (cases c) (auto simp: stim_spec_def STIM_PARSER_def stim_config_spec_def stim_schedule_spec_def stim_hall_config_spec_def)

lemma stim_sub_parsed:
  assumes "stim_sayable fl ft c"
  shows "parse_sub fl (stim_spec c) (tl (stim_words ft c)) = Inr (stim_names ft c, [])"
proof (cases "\<exists>v. c = Stim_Direction v")
  case True
  then obtain v where c: "c = Stim_Direction v" by blast
  with assms have "v \<in> set DIRECTIONS" by simp
  then have "plain_value v" by (auto simp: DIRECTIONS_def plain_value_def)
  with c \<open>v \<in> set DIRECTIONS\<close> show ?thesis
    using parse_sub_value [of v fl "the (sp_positional stim_direction_spec)" "PStr v"]
    by (simp add: stim_spec_def STIM_PARSER_def stim_direction_spec_def get_choice stim_names_def)
next
  case False
  have "\<not> missing_options (sp_options (stim_spec c)) ns" for ns
    by (cases c) (simp_all add: stim_spec_def STIM_PARSER_def stim_config_spec_def stim_direction_spec_def
      stim_schedule_spec_def stim_hall_config_spec_def rate_options_def apply_options_def missing_options_def)
  with False show ?thesis
    using parse_sub_given [OF option_sets_long(2) stim_given_ok [OF assms]] stim_spec_plain [of c] stim_words_given [of c ft]
    by (cases c) (auto simp: stim_names_def)
qed

lemma dests [simp]:
  "dest_of ''--transition-ticks'' = ''transition_ticks''" "dest_of ''--transition-hz'' = ''transition_hz''"
  "dest_of ''--rpm'' = ''rpm''" "dest_of ''--ppr'' = ''ppr''" "dest_of ''--direction'' = ''direction''"
  "dest_of ''--initial-phase'' = ''initial_phase''" "dest_of ''--initial-step'' = ''initial_step''"
  "dest_of ''--index-period-transitions'' = ''index_period_transitions''"
  "dest_of ''--index-width-transitions'' = ''index_width_transitions''" "dest_of ''--apply-ticks'' = ''apply_ticks''"
  "dest_of ''--after-us'' = ''after_us''" "dest_of ''--device'' = ''device''" "dest_of ''--timeout-ms'' = ''timeout_ms''"
  by (simp_all add: dest_of_def)

lemma given_names_Nil [simp]: "given_names [] = []"
  by (simp add: given_names_def)

lemmas stim_name_defs = stim_names_def stim_spec_def STIM_PARSER_def stim_config_spec_def stim_schedule_spec_def
  stim_hall_config_spec_def rate_options_def apply_options_def given_defs given_names_append given_names_opt
  defaults_of_def

lemma stim_names_command: "text_arg (stim_names ft c @ (''command'', PStr (hd (stim_words ft c))) # ns) ''command''
    = hd (stim_words ft c)"
  by (cases c) (simp_all add: stim_name_defs text_arg_def ns_lookup)

lemma rate_args_of_eq:
  "ns_int m ''transition_ticks'' = ra_transition_ticks a \<Longrightarrow> ns_float m ''transition_hz'' = ra_transition_hz a \<Longrightarrow>
     ns_float m ''rpm'' = ra_rpm a \<Longrightarrow> ns_int m ''ppr'' = ra_ppr a \<Longrightarrow> rate_args_of m = a"
  by (simp add: rate_args_of_def)

lemma stim_command_read: "stim_command_of (stim_names ft c @ (''command'', PStr (hd (stim_words ft c))) # ns) = c"
  unfolding stim_command_of_def stim_names_command Let_def
  by (cases c) (auto simp: stim_name_defs text_arg_def int_arg_def ns_lookup split: option.splits intro!: rate_args_of_eq)

lemma outer_names:
  "ns_str (rev (given_names (device_given device timeout_ms)) @ defaults_of DEVICE_OPTIONS None @ ns) ''device'' = device"
  "int_arg (rev (given_names (device_given device timeout_ms)) @ defaults_of DEVICE_OPTIONS None @ ns) ''timeout_ms'' = timeout_ms"
  by (simp_all add: given_defs given_names_append given_names_opt DEVICE_OPTIONS_def defaults_of_def ns_lookup int_arg_def
      split: option.split)

lemma stim_names_inner: "''device'' \<notin> fst ` set (stim_names ft c) \<and> ''timeout_ms'' \<notin> fst ` set (stim_names ft c)"
  by (cases c) (auto simp: stim_name_defs opt_names_def split: option.splits)

lemma stim_outer_read:
  "ns_str (stim_names ft c @ (''command'', v) # rev (given_names (device_given device timeout_ms))
      @ defaults_of DEVICE_OPTIONS None @ ns) ''device'' = device
   \<and> int_arg (stim_names ft c @ (''command'', v) # rev (given_names (device_given device timeout_ms))
      @ defaults_of DEVICE_OPTIONS None @ ns) ''timeout_ms'' = timeout_ms"
  using outer_names stim_names_inner [of ft c] by (simp add: ns_str_def int_arg_def ns_get_skip ns_get_Cons)

section \<open>Commands of accepted lines\<close>

fun stim_command_ok :: "stim_command \<Rightarrow> bool" where
  "stim_command_ok (Stim_Config a direction phase period width) \<longleftrightarrow> direction \<in> set DIRECTIONS"
| "stim_command_ok (Stim_Direction v) \<longleftrightarrow> v \<in> set DIRECTIONS"
| "stim_command_ok (Stim_Schedule t us a direction) \<longleftrightarrow> set_option direction \<subseteq> set DIRECTIONS"
| "stim_command_ok (Stim_Hall_Config a direction initial_step) \<longleftrightarrow> direction \<in> set DIRECTIONS"
| "stim_command_ok _ \<longleftrightarrow> True"

fun sensor_command_ok :: "sensor_command \<Rightarrow> bool" where
  "sensor_command_ok (Sensor_Config mode bits gap_us) \<longleftrightarrow> mode \<in> fst ` set MODE_BY_NAME"
| "sensor_command_ok _ \<longleftrightarrow> True"

text \<open>An attribute of the subcommand, seen through the options of the outer parser.\<close>

lemma device_parser_command:
  assumes "parse_args fl \<lparr>pa_options = DEVICE_OPTIONS, pa_commands = cs\<rparr> argv = Inr ns"
  obtains name sp args sub ex b where "map_of cs name = Some sp" "parse_sub fl sp args = Inr (sub, ex)"
    "\<And>k. k \<notin> {''device'', ''timeout_ms''} \<Longrightarrow> ns_get ns k = ns_get (sub @ (''command'', PStr name) # b) k"
proof -
  obtain a name sp args sub ex b where *: "map_of cs name = Some sp"
    "parse_sub fl sp args = Inr (sub, ex)" "ns = a @ sub @ (''command'', PStr name) # b"
    "\<forall>x \<in> set a. set_by fl DEVICE_OPTIONS x"
    by (rule parse_args_command [OF assms], rule that) simp_all
  have "fst ` set a \<subseteq> {''device'', ''timeout_ms''}"
    using set_by_names [OF *(4)] by (simp add: DEVICE_OPTIONS_def)
  then have "ns_get ns k = ns_get (sub @ (''command'', PStr name) # b) k" if "k \<notin> {''device'', ''timeout_ms''}" for k
    unfolding *(3) using that by (intro ns_get_skip) auto
  with *(1,2) show thesis by (rule that)
qed

lemma sub_command_name:
  assumes "parse_sub fl (sub_with os) args = Inr (sub, ex)" "''command'' \<notin> op_dest ` set os"
  shows "ns_get (sub @ (''command'', PStr name) # b) ''command'' = PStr name"
proof -
  from parse_sub_options [OF assms(1)] obtain a where "sub = a @ defaults_of os None" "\<forall>b \<in> set a. set_by fl os b" by blast
  with set_by_names [OF this(2)] assms(2) have "''command'' \<notin> fst ` set sub" by (auto simp: defaults_of_def)
  then show ?thesis by (simp add: ns_get_skip ns_get_Cons)
qed

text \<open>A choice option of a subcommand without positional argument.\<close>

lemma sub_choice:
  assumes "parse_sub fl (sub_with os) args = Inr (sub, ex)" "op \<in> set os" "distinct (map op_dest os)"
    "op_action op = Store Text_Kind (Some cs)"
  shows "(\<exists>s \<in> set cs. ns_get (sub @ m) (op_dest op) = PStr s)
    \<or> ns_get (sub @ m) (op_dest op) = op_default op \<and> \<not> op_required op"
proof -
  from parse_sub_options [OF assms(1)] obtain a where a: "sub = a @ defaults_of os None" "\<forall>b \<in> set a. set_by fl os b"
    "\<not> missing_options os a" by blast
  from option_value [OF a(2) assms(2,3), of None m] show ?thesis
  proof
    assume "option_fits fl op (ns_get (a @ defaults_of os None @ m) (op_dest op))"
    from choice_fits [OF assms(4) this] show ?thesis by (simp add: a(1))
  next
    assume *: "ns_get (a @ defaults_of os None @ m) (op_dest op) = op_default op \<and> op_dest op \<notin> fst ` set a"
    with a(3) assms(2) have "\<not> op_required op" by (auto simp: missing_options_def list_ex_iff)
    with * show ?thesis by (simp add: a(1))
  qed
qed

lemma direction_attribute:
  assumes "parse_sub fl (sub_with os) args = Inr (sub, ex)" "with_choices DIRECTIONS (opt ''--direction'' Text_Kind dflt) \<in> set os"
    "distinct (map op_dest os)"
  shows "(\<exists>d \<in> set DIRECTIONS. ns_get (sub @ m) ''direction'' = PStr d) \<or> ns_get (sub @ m) ''direction'' = dflt"
  using sub_choice [OF assms(1,2,3), of DIRECTIONS m] by simp

lemma stim_direction_value:
  assumes "parse_sub fl stim_direction_spec args = Inr (sub, ex)"
  obtains v where "v \<in> set DIRECTIONS" "\<And>m. ns_get (sub @ m) ''value'' = PStr v" "''command'' \<notin> fst ` set sub"
proof -
  let ?p = "\<lparr>po_dest = ''value'', po_kind = Text_Kind, po_choices = Some DIRECTIONS\<rparr>"
  obtain a v t b where
    sub: "sub = a @ (''value'', v) # b @ defaults_of [] (Some ?p)" "\<forall>x \<in> set a \<union> set b. set_by fl [] x"
    and v: "get_value fl Text_Kind (Some DIRECTIONS) t = Inr v"
    by (rule parse_sub_single [OF assms [unfolded stim_direction_spec_def]], rule that) simp_all
  have none: "\<not> set_by fl [] x" for x by (simp add: set_by_def)
  have "a = []" using sub(2) none by (cases a) auto
  moreover have "b = []" using sub(2) none by (cases b) auto
  ultimately have "sub = [(''value'', v), (''value'', PNone)]" using sub(1) by (simp add: defaults_of_def)
  with choice_value [OF v] show thesis by (auto simp: ns_get_Cons intro: that)
qed

text \<open>The four commands that take a direction, and the others.\<close>

lemma stim_command_by_name:
  "text_arg ns ''command'' = ''config'' \<Longrightarrow> stim_command_ok (stim_command_of ns) \<longleftrightarrow> text_arg ns ''direction'' \<in> set DIRECTIONS"
  "text_arg ns ''command'' = ''hall-config'' \<Longrightarrow> stim_command_ok (stim_command_of ns) \<longleftrightarrow> text_arg ns ''direction'' \<in> set DIRECTIONS"
  "text_arg ns ''command'' = ''direction'' \<Longrightarrow> stim_command_ok (stim_command_of ns) \<longleftrightarrow> text_arg ns ''value'' \<in> set DIRECTIONS"
  "text_arg ns ''command'' = ''schedule'' \<Longrightarrow>
     stim_command_ok (stim_command_of ns) \<longleftrightarrow> set_option (ns_str ns ''direction'') \<subseteq> set DIRECTIONS"
  "text_arg ns ''command'' \<notin> {''config'', ''hall-config'', ''direction'', ''schedule''} \<Longrightarrow> stim_command_ok (stim_command_of ns)"
  by (simp_all add: stim_command_of_def Let_def)

definition stim_sub_shape :: "string \<Rightarrow> sub_spec \<Rightarrow> bool" where
  "stim_sub_shape name sp \<longleftrightarrow>
     (if name = ''config'' then sp = stim_config_spec
      else if name = ''direction'' then sp = stim_direction_spec
      else if name = ''schedule'' then sp = stim_schedule_spec
      else if name = ''hall-config'' then sp = stim_hall_config_spec
      else sp = sub_with [] \<or> sp = sub_with apply_options)"

lemma stim_commands:
  assumes "map_of (pa_commands STIM_PARSER) name = Some sp"
  shows "stim_sub_shape name sp"
proof -
  have "list_all (\<lambda>(name, sp). stim_sub_shape name sp) (pa_commands STIM_PARSER)"
    by (simp add: STIM_PARSER_def stim_sub_shape_def)
  with map_of_SomeD [OF assms] show ?thesis by (auto simp: list_all_iff)
qed

lemma stim_line_ok:
  assumes "parse_args fl STIM_PARSER argv = Inr ns"
  shows "stim_command_ok (stim_command_of ns)"
proof -
  obtain name sp args sub ex b where
    sp: "map_of (pa_commands STIM_PARSER) name = Some sp" and sub: "parse_sub fl sp args = Inr (sub, ex)"
    and get: "\<And>k. k \<notin> {''device'', ''timeout_ms''} \<Longrightarrow> ns_get ns k = ns_get (sub @ (''command'', PStr name) # b) k"
    by (rule device_parser_command [OF assms [unfolded STIM_PARSER_def]], rule that) (simp_all add: STIM_PARSER_def)
  have command: "text_arg ns ''command'' = name" if "sp = sub_with os" "''command'' \<notin> op_dest ` set os" for os
    using sub_command_name [OF sub [unfolded that(1)] that(2)] by (simp add: text_arg_def get)
  have dir: "(\<exists>d \<in> set DIRECTIONS. ns_get ns ''direction'' = PStr d) \<or> ns_get ns ''direction'' = dflt"
    if "sp = sub_with os" "with_choices DIRECTIONS (opt ''--direction'' Text_Kind dflt) \<in> set os" "distinct (map op_dest os)" for os dflt
    using direction_attribute [OF sub [unfolded that(1)] that(2,3)] by (simp add: get)
  consider (other) "name \<notin> {''config'', ''hall-config'', ''direction'', ''schedule''}" "sp = sub_with [] \<or> sp = sub_with apply_options"
    | (config) "name = ''config''" "sp = stim_config_spec" | (direction) "name = ''direction''" "sp = stim_direction_spec"
    | (schedule) "name = ''schedule''" "sp = stim_schedule_spec" | (hall) "name = ''hall-config''" "sp = stim_hall_config_spec"
    using stim_commands [OF sp] unfolding stim_sub_shape_def by (simp split: if_split_asm)
  then show ?thesis
  proof cases
    case other
    have "text_arg ns ''command'' = name"
      using other(2) command [of "[]"] command [of apply_options] by (auto simp: apply_options_def)
    with other(1) show ?thesis by (intro stim_command_by_name(5)) simp
  next
    case config
    then have "sp = sub_with (sp_options stim_config_spec)" by (simp add: stim_config_spec_def)
    from command [OF this] dir [OF this, of "PStr ''forward''"] config(1) show ?thesis
      by (simp add: stim_command_by_name(1) stim_config_spec_def rate_options_def)
        (auto simp: text_arg_def DIRECTIONS_def)
  next
    case direction
    obtain v where v: "v \<in> set DIRECTIONS" "\<And>m. ns_get (sub @ m) ''value'' = PStr v" "''command'' \<notin> fst ` set sub"
      by (rule stim_direction_value [OF sub [unfolded direction(2)]], rule that)
    with direction(1) have "text_arg ns ''command'' = ''direction''" "text_arg ns ''value'' = v"
      by (simp_all add: text_arg_def get ns_get_skip ns_get_Cons)
    with v(1) show ?thesis by (simp add: stim_command_by_name(3))
  next
    case schedule
    then have "sp = sub_with (sp_options stim_schedule_spec)" by (simp add: stim_schedule_spec_def)
    from command [OF this] dir [OF this, of PNone] schedule(1) show ?thesis
      by (simp add: stim_command_by_name(4) stim_schedule_spec_def rate_options_def apply_options_def)
        (auto simp: ns_str_def)
  next
    case hall
    then have "sp = sub_with (sp_options stim_hall_config_spec)" by (simp add: stim_hall_config_spec_def)
    from command [OF this] dir [OF this, of "PStr ''forward''"] hall(1) show ?thesis
      by (simp add: stim_command_by_name(2) stim_hall_config_spec_def rate_options_def)
        (auto simp: text_arg_def DIRECTIONS_def)
  qed
qed

lemma sensor_line_ok:
  assumes "parse_args fl SENSOR_PARSER argv = Inr ns"
  shows "sensor_command_ok (sensor_command_of ns)"
proof -
  obtain name sp args sub ex b where
    sp: "map_of (pa_commands SENSOR_PARSER) name = Some sp" and sub: "parse_sub fl sp args = Inr (sub, ex)"
    and get: "\<And>k. k \<notin> {''device'', ''timeout_ms''} \<Longrightarrow> ns_get ns k = ns_get (sub @ (''command'', PStr name) # b) k"
    by (rule device_parser_command [OF assms [unfolded SENSOR_PARSER_def]], rule that) (simp_all add: SENSOR_PARSER_def)
  let ?mode = "required_opt (with_choices (map fst MODE_BY_NAME) (opt ''--mode'' Text_Kind PNone))"
  let ?os = "[?mode, required_opt (opt ''--bits'' Int_Kind PNone), opt ''--gap-us'' Float_Kind (PFloat 1)]"
  obtain os where os: "sp = sub_with os" "''command'' \<notin> op_dest ` set os"
    using sp by (auto simp: SENSOR_PARSER_def dest_of_def split: if_splits)
  have name: "text_arg ns ''command'' = name"
    using sub_command_name [OF sub [unfolded os(1)] os(2)] by (simp add: text_arg_def get)
  show ?thesis
  proof (cases "name = ''config''")
    case True
    with sp have "sp = sub_with ?os" by (simp add: SENSOR_PARSER_def)
    from sub_choice [OF sub [unfolded this], of ?mode "map fst MODE_BY_NAME"] have
      "\<exists>m \<in> set (map fst MODE_BY_NAME). ns_get ns ''mode'' = PStr m"
      by (simp add: get dest_of_def)
    with True name show ?thesis by (force simp: sensor_command_of_def text_arg_def [of ns "''mode''"])
  next
    case False
    with name show ?thesis by (simp add: sensor_command_of_def Let_def)
  qed
qed

section \<open>What the exit code says\<close>

lemma stim_status_field:
  "stim_command_run fl request c s = (Inr result, s') \<Longrightarrow> \<exists>i. map_of result ''status'' = Some (PInt i)"
  by (cases c) (auto simp: io_results hello_result_def hello_fields_def abz_config_def abz_start_def abz_stop_def
      abz_status_def abz_direction_def abz_arm_def abz_schedule_def scheduler_status_def hall_config_def hall_start_def
      hall_stop_def hall_status_def stim_safe_def Let_def split: prod.splits)

lemma sensor_status_field:
  "sensor_command_run fl request c s = (Inr result, s') \<Longrightarrow> \<exists>i. map_of result ''status'' = Some (PInt i)"
  by (cases c) (auto simp: io_results hello_result_def hello_fields_def serial_config_def serial_data_def serial_start_def
      serial_stop_def serial_status_def serial_safe_def Let_def split: option.splits)

lemma exit_code_status:
  assumes "with_exit_code m s = (Inr (result, code), s')"
    and "\<And>r s1. m s = (Inr r, s1) \<Longrightarrow> \<exists>i. map_of r ''status'' = Some (PInt i)"
  shows "\<exists>i. map_of result ''status'' = Some (PInt i) \<and> code = (if i = 0 then 0 else 2)"
  using assms by (fastforce simp: with_exit_code_def io_results fields_status_def bind_exn_Inr dict_get_def)

lemma with_client_returns:
  assumes "with_client D device timeout_ms body w = (Inr x, w')"
  shows "\<exists>s s1. body s = (Inr x, s1)"
  using assms
  by (fastforce simp: with_client_def io_results finally_io_apply split: prod.splits sum.splits)

lemma with_client_status:
  assumes "with_client D device timeout_ms (with_exit_code m) w = (Inr (result, code), w')"
    and "\<And>s r s1. m s = (Inr r, s1) \<Longrightarrow> \<exists>i. map_of r ''status'' = Some (PInt i)"
  shows "\<exists>i. map_of result ''status'' = Some (PInt i) \<and> code = (if i = 0 then 0 else 2)"
proof -
  from with_client_returns [OF assms(1)] obtain s s1 where "with_exit_code m s = (Inr (result, code), s1)" by blast
  from exit_code_status [OF this assms(2)] show ?thesis .
qed

text \<open>How a process of a command ends, for any parser.\<close>

definition end_tells :: "parse_stop + namespace \<Rightarrow> 'w \<Rightarrow> (string \<times> pyval) list process_end \<times> 'w \<Rightarrow> bool" where
  "end_tells parsed w x \<longleftrightarrow>
     (case x of
        (Exited code (Some result), w') \<Rightarrow>
          \<not> isl parsed \<and> (\<exists>i. map_of result ''status'' = Some (PInt i) \<and> code = (if i = 0 then 0 else 2))
      | (Exited code None, w') \<Rightarrow>
          if isl parsed then w' = w \<and> (code = 2 \<or> code = 0 \<and> parsed = Inl Help_Shown) else code = 1
      | (Running, w') \<Rightarrow> False
      | (Beyond_Model, w') \<Rightarrow> w' = w \<and> parsed = Inl Not_Finite)"

lemma run_process_tells:
  assumes "\<And>ns w result code w'. main ns w = (Inr (result, code), w') \<Longrightarrow>
      \<exists>i. map_of result ''status'' = Some (PInt i) \<and> code = (if i = 0 then 0 else 2)"
  shows "end_tells parsed w (run_process parsed (\<lambda>ns. finished (main ns)) w)"
proof (cases parsed)
  case (Inl e)
  then show ?thesis by (cases e) (simp_all add: end_tells_def run_process_def)
next
  case (Inr ns)
  obtain r w' where run: "main ns w = (r, w')" by (rule prod.exhaust)
  show ?thesis
  proof (cases r)
    case (Inl e)
    with Inr run show ?thesis by (simp add: end_tells_def run_process_def finished_def bind_io_apply)
  next
    case (Inr x)
    obtain result code where x: "x = (result, code)" by (rule prod.exhaust)
    from assms [of ns w result code w'] run Inr x \<open>parsed = Inr ns\<close> show ?thesis
      by (simp add: end_tells_def run_process_def finished_def bind_io_apply return_io_apply)
  qed
qed

section \<open>Properties\<close>


definition sample_config :: stim_command where
  "sample_config = Stim_Config \<lparr>ra_transition_ticks = None, ra_transition_hz = None, ra_rpm = Some 1500, ra_ppr = Some 1024\<rparr>
     ''reverse'' (-1) None 4"

text \<open>C25: Whatever is on the command line, a stimulus or sensor command that is run has a direction of the table
  and a sensor mode of the table: an abbreviated option, a default, \<open>--option=value\<close> or a value after \<open>--\<close> cannot
  bring in another one, and a mode that was not given is refused.\<close>

theorem accepted_lines_well_formed:
  "(case parse_args fl STIM_PARSER argv of Inl e \<Rightarrow> True | Inr ns \<Rightarrow> stim_command_ok (stim_command_of ns))
   \<and> (case parse_args fl SENSOR_PARSER argv of Inl e \<Rightarrow> True | Inr ns \<Rightarrow> sensor_command_ok (sensor_command_of ns))"
  by (simp add: stim_line_ok sensor_line_ok split: sum.split)


end
