(* ===== verification/Spec2Isabelle.thy ===== *)
theory Spec2Isabelle
  imports Zynq_Backend Bbb_Backend Raw_Capture Canopen_Pdo Cia402 Lab_Session Scenario Encoders Plant_Params
    Stim_Cli Capture_Cli Remoteproc Controller Deadtime Repo_Checks Pattern_Checks Keil_Checks
    Command_Lines
begin

text \<open>
  A verification library for \<open>hil_lab\<close>, the host side of a hardware-in-the-loop laboratory for motor
  controllers. All paths below are relative to \<open>src/\<close>.

  \<^bold>\<open>The program.\<close> A test asks a \<^emph>\<open>backend\<close> for pulses, timestamps and measurements through the interface
  of \<open>host/hil/core.py\<close>. There are two families: the Zynq boards, whose registers are mapped into memory
  through UIO (\<open>host/hil/transports\<close>, \<open>host/hil/backends/zynq.py\<close>), and the BeagleBone, whose two real-time
  cores answer fixed-size messages on an RPMsg device and write captures into shared memory
  (\<open>host/hil/backends/beaglebone_pru.py\<close>, \<open>boards/beaglebone_black/host\<close>). Beside them stand the CANopen
  stack and the EtherCAT tools (\<open>fieldbus/\<close>), the bench session that locks a bench and makes it safe on
  entry and exit (\<open>lab/\<close>), scenario files and plant parameters (\<open>host/hil/scenario.py\<close>,
  \<open>plant_params.py\<close>), the scripts that start the cores (\<open>boards/beaglebone_black/scripts\<close>), the controller
  probe (\<open>boards/raspberry_pi\<close>) and the checks of \<open>tools/\<close>.

  \<^bold>\<open>How Python is modelled.\<close> A method is a computation on an explicit state that ends with a value or an
  exception and keeps the changes made before it raised (\<open>io\<close> in \<open>HIL_Prelude\<close>, with \<open>bind_io\<close>,
  \<open>catch_io\<close> for \<open>except\<close> and \<open>finally_io\<close> for \<open>finally\<close>); a pure function that may raise gives a sum with the
  exception on the left. Exceptions are the constructors of \<open>exn\<close> (\<open>Hil_Errors\<close>); messages are not
  modelled. Integers are unbounded \<open>int\<close>, and the masks that bound them are written where the code
  writes them; bytes are 8-bit words, and the fields of ctypes structures and \<open>struct\<close> formats have their
  widths (\<open>Py_Bytes\<close>). A dynamically typed document is a \<open>pyval\<close>. A finite double is the rational number
  it is, and each float operation rounds its exact result with the parameter \<open>fl\<close> (\<open>Py_Float\<close>); the
  theorems name what they need of \<open>fl\<close>, if anything.

  \<^bold>\<open>The theories.\<close>
  \<^item> \<open>HIL_Prelude\<close>, \<open>Hil_Errors\<close>, \<open>Py_Bytes\<close>, \<open>Py_Float\<close>, \<open>Py_Regex\<close>, \<open>Traces\<close>: the vocabulary. \<open>keeps\<close> (an invariant
    survives a call, also one that raises), \<open>raises_only\<close>, and the logs of \<open>Traces\<close> that bound what a
    call does to its environment and in which order. \<open>Py_Regex\<close> reads and runs the patterns of module
    \<open>re\<close> that the tools use, and \<open>search_from_iff\<close> shows that its matcher finds a place exactly when the
    language of the pattern has a word there. A backslash is written \<open>%\<close> in patterns and Windows paths.
  \<^item> \<open>Hil_Core\<close>: \<open>host/hil/core.py\<close>. Capabilities, identities and measurements with the checks of
    their constructors, \<open>require\<close> and \<open>validate_contract\<close>; the locale \<open>hil_backend\<close> is the contract every
    backend is shown to satisfy.
  \<^item> \<open>Register_Map\<close>, \<open>Uio_Transport\<close>, \<open>Zynq_Backend\<close>: the register file as bytes, the transport over any
    32-bit port (locales \<open>mmio_regs\<close> and \<open>control_port\<close>, interpreted on the byte model), the handshake and
    its clean-up, the control word as an abstract record of switches that the calls refine, the timestamp
    loop against a counter that runs on, the event queue, and the adapter with both boards.
  \<^item> \<open>Pru_Protocol\<close>, \<open>Pru_Cli\<close>, \<open>Bbb_Backend\<close>: the 32-byte messages, the client (\<open>HilPru\<close>), discovery, the
    loopback benchmark, and the backend over two clients (locale \<open>pru_rpc\<close>, interpreted on \<open>HilPru\<close>).
  \<^item> \<open>Pwm_Shared\<close>, \<open>Raw_Capture\<close>, \<open>Capture_Cli\<close>: reading a structure another core is writing (the memory is a
    function of time, every byte read takes one step of it), the analysis of raw edges against lists of
    edges, and their command lines.
  \<^item> \<open>Encoders\<close>, \<open>Stim_Cli\<close>: ABZ timing, BiSS frames with their CRC, and the command lines that drive PRU1.
  \<^item> \<open>Can_Socket\<close>, \<open>Canopen\<close>, \<open>Canopen_Pdo\<close>, \<open>Cia402\<close>: frames, NMT, EMCY, heartbeat, expedited SDO (refined to
    an object dictionary; locale \<open>sdo_master\<close>), PDO codec and configuration, the drive state machine.
  \<^item> \<open>Fieldbus_Tools\<close>, \<open>Controller\<close>: external tools run as commands, and the numbers read from their output.
  \<^item> \<open>Lab_Session\<close>: lock, lease and session (locales \<open>releasable\<close>, \<open>resource\<close>, \<open>strict_releasable\<close>,
    \<open>bench_session\<close>, interpreted on the file lock and the labgrid place).
  \<^item> \<open>Scenario\<close>, \<open>Plant_Params\<close>: scenario documents and fixed-point plant coefficients.
  \<^item> \<open>Remoteproc\<close>: starting, stopping and deploying the firmware of the two cores.
  \<^item> \<open>Py_Argparse\<close>, \<open>Command_Lines\<close>: what the scripts use of \<open>argparse\<close> (abbreviated options, \<open>--opt=value\<close>, \<open>--\<close>,
    negative numbers, choices, defaults, required options, one level of subcommands; the locale \<open>positional_arg\<close>) with
    the texts \<open>int\<close> and \<open>float\<close> accept; the parsers of the seven device scripts and the test launcher, the command a
    parsed line stands for, and the process around it with its exit code.
  \<^item> \<open>Deadtime\<close>, \<open>Repo_Checks\<close>, \<open>Pattern_Checks\<close>, \<open>Keil_Checks\<close>: the checks of \<open>tools/\<close>: dead-time codes, the
    manifest and the pin map, the pattern searches over firmware sources, the Keil projects, the RTL policy and
    the launcher of the suite.
  \<^item> This theory ends with the composition of \<open>Zynq_Backend\<close> and \<open>Lab_Session\<close>: a session over a mapped board.

  \<^bold>\<open>Bounds and fuel.\<close> Loops over lists and the bounded retry loops of the code recurse on what the code
  counts (\<open>primrec\<close> on the number of attempts). Loops that end by a clock take fuel: \<open>poll_loop\<close> of
  \<open>Remoteproc\<close> returns \<open>None\<close> when it is used up, and \<open>wait_for_rpmsg_ends\<close> gives the fuel that is enough on
  any clock that advances with the sleeps; \<open>pwm_watch\<close> is a loop the user interrupts, for any number of
  turns. The enable loop of CiA 402 has the timeout of the code, in turns, and its theorem
  says how many turns a drive needs.

  \<^bold>\<open>Parameters.\<close> Code outside the repository is an argument: system calls and \<open>mmap\<close>, sockets, processes,
  clocks and sleeps, the search of executables, \<open>flock\<close>, the JSON parser, the rounding of doubles, and what
  devices answer. Hypotheses on them are named (\<open>steady\<close>, \<open>keeps_integers\<close>, ...) and each property with
  hypotheses has a witness that meets them on a concrete instance.

  \<^bold>\<open>Not modelled.\<close> Printing and the texts of messages (except that of an SDO abort); float infinities and NaN (a command line
  that asks for one ends in \<open>Beyond_Model\<close>); \<open>KeyboardInterrupt\<close> and its exit code; the limit on the length of integer
  texts;
  extended-range Unicode in \<open>str\<close> methods (texts are 8-bit characters); the XML and
  JSON parsers (documents are given as trees); features of \<open>re\<close> the repository does not use; the firmware in C and the RTL in Verilog; tests and documentation.
\<close>

section \<open>A bench session on a Zynq board\<close>

text \<open>The world of such a bench: the mapped register page, and the host that keeps locks and runs tools.\<close>

definition on_board :: "('m, 'a) io \<Rightarrow> ('m \<times> 'o, 'a) io" where
  "on_board m = (\<lambda>(p, h). case m p of (r, p') \<Rightarrow> (r, (p', h)))"

definition on_host :: "('o, 'a) io \<Rightarrow> ('m \<times> 'o, 'a) io" where
  "on_host m = (\<lambda>(p, h). case m h of (r, h') \<Rightarrow> (r, (p, h')))"

definition host_lock :: "'o lock_api \<Rightarrow> ('m \<times> 'o) lock_api" where
  "host_lock api =
     \<lparr>fl_available = fl_available api, fl_mkdir = on_host (fl_mkdir api), fl_open = on_host (fl_open api),
      fl_flock = \<lambda>nb h. on_host (fl_flock api nb h), fl_write_owner = \<lambda>h rid. on_host (fl_write_owner api h rid),
      fl_unlock = \<lambda>h. on_host (fl_unlock api h), fl_close = \<lambda>h. on_host (fl_close api h)\<rparr>"

definition host_lease :: "'o labgrid_lease \<Rightarrow> ('m \<times> 'o) labgrid_lease" where
  "host_lease l =
     \<lparr>lg_place = lg_place l,
      lg_tool = \<lparr>tl_executable = tl_executable (lg_tool l),
                 tl_runner = \<lambda>argv t. on_host (tl_runner (lg_tool l) argv t),
                 tl_which = \<lambda>n. on_host (tl_which (lg_tool l) n)\<rparr>\<rparr>"

text \<open>The statement \<open>with ServoHilSession(backend, lock, lease): body\<close>.\<close>

definition with_session ::
    "(bool \<Rightarrow> ('s, unit) io) \<Rightarrow> 's lease \<Rightarrow> 's lease option \<Rightarrow> ('s, 'a) io \<Rightarrow> ('s, 'a) io" where
  "with_session force_safe lock labgrid body =
     then_io (session_enter force_safe lock labgrid) (
     bind_io (catch_io (bind_io body (\<lambda>v. return_io (Inr v))) (\<lambda>e. return_io (Inl e))) (\<lambda>outcome.
     then_io (session_exit force_safe lock labgrid (isl outcome)) (lift_io outcome)))"

definition board_safe :: "'m zynq_backend \<Rightarrow> bool \<Rightarrow> (('m \<times> 'o) bench, unit) io" where
  "board_safe b asserted = with_world (on_board (zb_force_safe b asserted))"

abbreviation page :: "('m \<times> 'o) bench \<Rightarrow> 'm" where
  "page s \<equiv> fst (bw_world s)"

lemma keeps_host: "keeps (\<lambda>s. P (page s)) (with_world (on_host m))"
  by (rule keepsI) (auto simp: with_world_def on_host_def split: prod.splits)

lemma keeps_fields:
  "keeps (\<lambda>s. P (page s)) (\<lambda>s. (r, s\<lparr>bw_lock_file := f\<rparr>))"
  "keeps (\<lambda>s. P (page s)) (\<lambda>s. (r, s\<lparr>bw_lease_acquired := g\<rparr>))"
  by (rule keepsI, simp)+

lemma lock_keeps_page:
  "keeps (\<lambda>s. P (page s)) (lock_acquire (host_lock api) rid blocking)"
  "keeps (\<lambda>s. P (page s)) (lock_release (host_lock api))"
proof -
  show "keeps (\<lambda>s. P (page s)) (lock_acquire (host_lock api) rid blocking)"
    unfolding lock_acquire_def host_lock_def lock_api.simps
    by (intro keeps_intros keeps_host keeps_fields)
  have "keeps (\<lambda>s. P (page s)) (then_io (with_world (fl_unlock (host_lock api) h))
      (then_io (with_world (fl_close (host_lock api) h)) (\<lambda>s. (Inr (), s\<lparr>bw_lock_file := None\<rparr>))))" for h
    unfolding host_lock_def lock_api.simps by (intro keeps_intros keeps_host keeps_fields)
  then show "keeps (\<lambda>s. P (page s)) (lock_release (host_lock api))"
    by (auto simp: keeps_def lock_release_def split: option.splits)
qed

lemma tool_resolve_host:
  "tool_resolve (lg_tool (host_lease l)) = on_host (tool_resolve (lg_tool l))"
  by (auto simp: fun_eq_iff tool_resolve_def host_lease_def on_host_def bind_io_apply return_io_apply raise_io_apply
      split: prod.splits sum.splits option.splits)

lemma command_keeps_page: "keeps (\<lambda>s. P (page s)) (labgrid_command (host_lease l) verb t)"
proof -
  have runner: "tl_runner (lg_tool (host_lease l)) argv t = on_host (tl_runner (lg_tool l) argv t)" for argv
    by (simp add: host_lease_def)
  show ?thesis
    unfolding labgrid_command_def tool_resolve_host runner by (intro keeps_intros keeps_host)
qed

lemma lease_keeps_page:
  "keeps (\<lambda>s. P (page s)) (discard (labgrid_acquire (host_lease l) t))"
  "keeps (\<lambda>s. P (page s)) (discard (labgrid_release (host_lease l) t))"
proof -
  show "keeps (\<lambda>s. P (page s)) (discard (labgrid_acquire (host_lease l) t))"
    unfolding discard_def labgrid_acquire_def by (intro keeps_intros command_keeps_page keeps_fields)
  have "keeps (\<lambda>s. P (page s)) (finally_io (bind_io (labgrid_command (host_lease l) ''release'' t) (\<lambda>e. return_io (Some e)))
      (\<lambda>s. (Inr (), s\<lparr>bw_lease_acquired := False\<rparr>)))"
    by (intro keeps_finally keeps_intros command_keeps_page keeps_fields)
  then have "keeps (\<lambda>s. P (page s)) (labgrid_release (host_lease l) t)"
    by (auto simp: keeps_def labgrid_release_def)
  then show "keeps (\<lambda>s. P (page s)) (discard (labgrid_release (host_lease l) t))"
    unfolding discard_def by (intro keeps_intros)
qed

text \<open>A lease on the host, or none.\<close>

definition host_leases :: "'o labgrid_lease option \<Rightarrow> ('m \<times> 'o) bench lease option" where
  "host_leases lg = map_option (place_lease \<circ> host_lease) lg"

text \<open>On a mapped page \<open>force_safe(True)\<close> of the backend returns with the safe state asserted.\<close>

definition page_safe :: "uio_mmio \<Rightarrow> bool" where
  "page_safe p \<longleftrightarrow> uio_ok p \<and> bit (uio_reg p REG_CONTROL) 1"

lemma board_safe_returns:
  assumes "uio_ok (page s)" "zb_built b" "zb_transport b = uio_transport uio_ops T"
  obtains s' where "board_safe b True s = (Inr (), s')" "page_safe (page s')"
proof -
  obtain p h where world: "bw_world s = (p, h)" by (rule prod.exhaust)
  with assms(1) have "uio_ok p" by simp
  from zb_safe_uio [OF this assms(2,3)] show thesis
    by (intro that [of "snd (board_safe b True s)"])
      (auto simp: world board_safe_def with_world_def on_board_def page_safe_def split: prod.splits)
qed

lemma exit_reaches_safe_page:
  assumes "uio_ok (page s)" and b: "zb_built b" "zb_transport b = uio_transport uio_ops T"
    and run: "session_exit (board_safe b) (file_lock (host_lock api) rid) (host_leases lg) failed s = (r, s')"
  shows "page_safe (page s')"
proof -
  let ?P = "\<lambda>s :: (uio_mmio \<times> 'a) bench. page_safe (page s)"
  let ?release = "case host_leases lg of None \<Rightarrow> le_release (file_lock (host_lock api) rid)
    | Some l \<Rightarrow> finally_io (le_release l) (le_release (file_lock (host_lock api) rid))"
  from board_safe_returns [OF assms(1) b] obtain s1 where s1: "board_safe b True s = (Inr (), s1)" "?P s1" .
  have release: "keeps ?P ?release"
    unfolding host_leases_def
    by (cases lg) (auto simp: file_lock_def place_lease_def intro!: keeps_finally lock_keeps_page lease_keeps_page)
  obtain r2 s2 where rel: "?release s1 = (r2, s2)" by (rule prod.exhaust)
  have "?P s2" using keepsD [OF release s1(2) rel] .
  moreover have "s' = s2"
    using run rel s1(1)
    by (cases r2) (auto simp: session_exit_def bind_io_apply finally_io_apply catch_io_apply then_io_apply
        return_io_apply raise_io_apply split: if_splits)
  ultimately show ?thesis by simp
qed

lemma enter_page:
  assumes ok: "uio_ok (page s)" and b: "zb_built b" "zb_transport b = uio_transport uio_ops T"
    and run: "session_enter (board_safe b) (file_lock (host_lock api) rid) (host_leases lg) s = (r, s')"
  shows "(r = Inr () \<longrightarrow> page_safe (page s')) \<and> (page s' = page s \<or> page_safe (page s'))"
proof -
  let ?Q = "\<lambda>s' :: (uio_mmio \<times> 'a) bench. page s' = page s \<or> page_safe (page s')"
  have safe: "board_safe b True s1 = (r1, s2) \<Longrightarrow> ?Q s1 \<Longrightarrow> r1 = Inr () \<and> page_safe (page s2)" for s1 r1 s2
    using ok board_safe_returns [OF _ b, of s1] unfolding page_safe_def by (metis Pair_inject)
  have lease: "keeps ?Q (case host_leases lg of None \<Rightarrow> return_io () | Some l \<Rightarrow> le_acquire l)"
    "keeps ?Q (case host_leases lg of None \<Rightarrow> return_io () | Some l \<Rightarrow> catch_io (le_release l) (\<lambda>_. return_io ()))"
    unfolding host_leases_def
    by (cases lg; auto simp: place_lease_def intro!: keeps_intros lease_keeps_page [where P = "\<lambda>p. p = page s \<or> page_safe p"])+
  have lock: "keeps ?Q (le_acquire (file_lock (host_lock api) rid))" "keeps ?Q (le_release (file_lock (host_lock api) rid))"
    using lock_keeps_page [where P = "\<lambda>p. p = page s \<or> page_safe p"] by (simp_all add: file_lock_def)
  have fs: "keeps ?Q (board_safe b True)"
    by (rule keepsI) (metis safe prod.collapse)
  have keeps: "keeps ?Q (session_enter (board_safe b) (file_lock (host_lock api) rid) (host_leases lg))"
    unfolding session_enter_def by (intro keeps_intros lock lease fs)
  have "?Q s'" using keepsD [where P = ?Q, OF keeps _ run] by simp
  moreover have "page_safe (page s')" if "r = Inr ()"
  proof -
    from run that obtain s1 s2 where "le_acquire (file_lock (host_lock api) rid) s = (Inr (), s1)"
      "(case host_leases lg of None \<Rightarrow> return_io () | Some l \<Rightarrow> le_acquire l) s1 = (Inr (), s2)"
      "board_safe b True s2 = (Inr (), s')"
      by (auto simp: session_enter_def io_results)
    then show ?thesis using safe keepsD [OF lease(1)] keepsD [OF lock(1)] by metis
  qed
  ultimately show ?thesis by blast
qed

text \<open>C3: A bench session over a Zynq board ends with the board untouched or safe, whatever the lock, the
  lease, the tools and the body do: when the session cannot be entered, the registers are as they were or
  FORCE_SAFE is asserted; once it has been entered, FORCE_SAFE is asserted when the \<open>with\<close> statement is left,
  by a return as by an exception of the body, of the lease or of the lock. The body only has to keep the page
  mapped. An exception of the body is not swallowed.\<close>

theorem session_leaves_board_safe:
  assumes "uio_ok (page s)" and b: "zb_built b" "zb_transport b = uio_transport uio_ops T"
    and body: "keeps (\<lambda>s. uio_ok (page s)) body"
    and run: "with_session (board_safe b) (file_lock (host_lock api) rid) (host_leases lg) body s = (r, s')"
    and enter: "session_enter (board_safe b) (file_lock (host_lock api) rid) (host_leases lg) s = (entered, s1)"
  shows "(case entered of
      Inl e \<Rightarrow> r = Inl e \<and> s' = s1 \<and> (page s' = page s \<or> page_safe (page s'))
    | Inr u \<Rightarrow> page_safe (page s1) \<and> page_safe (page s') \<and> (isl (fst (body s1)) \<longrightarrow> isl r))"
proof (cases entered)
  case (Inl e)
  then show ?thesis
    using run enter enter_page [OF assms(1) b enter] by (auto simp: with_session_def then_io_apply)
next
  case (Inr u)
  then have s1: "page_safe (page s1)" using enter_page [OF assms(1) b enter] by simp
  obtain v s2 where v: "body s1 = (v, s2)" by (rule prod.exhaust)
  have "uio_ok (page s2)" using keepsD [OF body _ v] s1 by (simp add: page_safe_def)
  moreover obtain x s3 where x: "session_exit (board_safe b) (file_lock (host_lock api) rid) (host_leases lg) (isl v) s2 = (x, s3)"
    by (rule prod.exhaust)
  ultimately have "page_safe (page s3)" using exit_reaches_safe_page [OF _ b x] by blast
  moreover have "s' = s3 \<and> (isl v \<longrightarrow> isl r)"
    using run enter Inr v x
    by (cases v; cases x) (auto simp: with_session_def then_io_apply bind_io_apply catch_io_apply return_io_apply lift_io_apply)
  ultimately show ?thesis using s1 Inr v by simp
qed

definition bench_on_page :: "(uio_mmio \<times> bool \<times> bool) bench" where
  "bench_on_page = \<lparr>bw_world = (blank_page, (False, False)), bw_lock_file = None, bw_lease_acquired = False\<rparr>"

lemma session_leaves_board_safe_witness:
  "\<exists>s1 r s'. session_enter (board_safe bench_backend) (file_lock (host_lock (demo_lock_api False)) ''r1'')
      (host_leases (Some \<lparr>lg_place = ''bench'', lg_tool = demo_tool\<rparr>)) bench_on_page = (Inr (), s1)
    \<and> with_session (board_safe bench_backend) (file_lock (host_lock (demo_lock_api False)) ''r1'')
      (host_leases (Some \<lparr>lg_place = ''bench'', lg_tool = demo_tool\<rparr>))
      (then_io (with_world (on_board (zu_start_abz uio_ops))) (raise_io TimeoutError :: ((uio_mmio \<times> bool \<times> bool) bench, unit) io))
      bench_on_page = (r, s')
    \<and> isl r \<and> page_safe (page s')"
proof -
  let ?body = "then_io (with_world (on_board (zu_start_abz uio_ops))) (raise_io TimeoutError :: ((uio_mmio \<times> bool \<times> bool) bench, unit) io)"
  let ?lock = "file_lock (host_lock (demo_lock_api False)) ''r1''"
  let ?lg = "host_leases (Some \<lparr>lg_place = ''bench'', lg_tool = demo_tool\<rparr>)"
  have ok: "uio_ok (page bench_on_page)"
    by (simp add: bench_on_page_def blank_page_ok)
  have "keeps uio_ok (zu_start_abz uio_ops)"
    by (rule keepsI) (auto elim: uio.port.start_abz_port)
  then have "keeps (\<lambda>s. uio_ok (page s)) (with_world (on_board (zu_start_abz uio_ops)))"
    by (auto simp: keeps_def with_world_def on_board_def split: prod.splits)
  then have body: "keeps (\<lambda>s. uio_ok (page s)) ?body"
    by (intro keeps_intros)
  have "\<exists>s1. session_enter (board_safe bench_backend) ?lock ?lg bench_on_page = (Inr (), s1)"
    using zb_safe_uio(1) [OF blank_page_ok bench_backend_built]
    by (simp add: session_enter_def board_safe_def on_board_def on_host_def host_lock_def host_lease_def host_leases_def
        bench_on_page_def file_lock_def place_lease_def discard_def lock_acquire_def labgrid_acquire_def
        labgrid_command_def tool_resolve_def require_success_def evidence_ok_def with_world_def demo_bench_defs
        then_io_apply bind_io_apply catch_io_apply return_io_apply ensure_io_apply lift_io_apply)
  then obtain s1 where s1: "session_enter (board_safe bench_backend) ?lock ?lg bench_on_page = (Inr (), s1)" by blast
  obtain r s' where run: "with_session (board_safe bench_backend) ?lock ?lg ?body bench_on_page = (r, s')"
    by (rule prod.exhaust)
  have "isl (fst (?body s1))"
    by (simp add: then_io_apply raise_io_apply split: prod.splits sum.splits)
  then show ?thesis
    using session_leaves_board_safe [OF ok bench_backend_built body run s1] s1 run by simp
qed

end
